(* ===== verification/Forge_Prelude.thy ===== *)
theory Forge_Prelude
  imports Main "HOL-Library.AList" "HOL-Library.Multiset"
begin

section \<open>Prelude: the fragment of Go that the Forge model rests on\<close>

text \<open>
  Shared vocabulary of the development: Go errors (the standard library's, and the wrapping
  of \<^verbatim>\<open>github.com/pkg/errors\<close>), results of fallible calls, maps, the functions
  of \<^verbatim>\<open>strings\<close>, \<^verbatim>\<open>fmt\<close> and \<^verbatim>\<open>path/filepath\<close> that Forge calls, and the generic
  lemmas about them. A Go string is a byte string, so it is a \<^typ>\<open>string\<close>; case folding, trimming
  and quoting are those of Go on ASCII bytes.
\<close>

named_theorems forge_defs \<open>definitions of handlers that proofs unfold together\<close>
named_theorems go_text \<open>equations of the text functions\<close>

subsection \<open>Errors and results\<close>

text \<open>
  \<open>ApiError\<close> is an error of the Kubernetes API (\<^verbatim>\<open>apierrors\<close>) with its reason, \<open>UrlError\<close> the
  \<^verbatim>\<open>net/url\<close> error of an HTTP client with the three observations Forge makes of it,
  \<open>StatusError\<close> the unexpected HTTP status of \<^verbatim>\<open>containerd/remotes/errors\<close>, \<open>CtxError\<close> the error of
  a context that is done. \<open>WithMessage\<close> and \<open>WithStack\<close> are the two layers that \<^verbatim>\<open>errors.Wrap\<close>
  of \<^verbatim>\<open>pkg/errors\<close> puts around a cause and \<open>FmtWrap\<close> is \<^verbatim>\<open>fmt.Errorf\<close> with a \<^verbatim>\<open>%w\<close> verb
  (its text is the formatted text).
\<close>

datatype api_reason = NotFound | AlreadyExists | Conflict | OtherReason

datatype go_error =
    ErrText string
  | ApiError api_reason string
  | UrlError (url_timeout: bool) (url_temporary: bool) (url_op_error: bool) string
  | StatusError (status_code: nat) string
  | CtxError string
  | WithMessage string go_error
  | WithStack go_error
  | FmtWrap string go_error

type_synonym 'a result = "go_error + 'a"

text \<open>A handler that may also panic.\<close>

datatype 'a outcome = Returns 'a | Panics string

fun error_text :: "go_error \<Rightarrow> string" where
  "error_text (ErrText s) = s"
| "error_text (ApiError _ s) = s"
| "error_text (UrlError _ _ _ s) = s"
| "error_text (StatusError _ s) = s"
| "error_text (CtxError s) = s"
| "error_text (WithMessage m e) = m @ '': '' @ error_text e"
| "error_text (WithStack e) = error_text e"
| "error_text (FmtWrap s _) = s"

text \<open>\<^verbatim>\<open>errors.Wrap(err, msg)\<close> for a non-nil \<^verbatim>\<open>err\<close>, and for an \<^verbatim>\<open>err\<close> that may be nil.\<close>

definition errors_Wrap :: "go_error \<Rightarrow> string \<Rightarrow> go_error" where
  "errors_Wrap e m = WithStack (WithMessage m e)"

definition errors_Wrap_opt :: "go_error option \<Rightarrow> string \<Rightarrow> go_error option" where
  "errors_Wrap_opt e m = map_option (\<lambda>x. errors_Wrap x m) e"

fun errors_Unwrap :: "go_error \<Rightarrow> go_error option" where
  "errors_Unwrap (WithMessage _ e) = Some e"
| "errors_Unwrap (WithStack e) = Some e"
| "errors_Unwrap (FmtWrap _ e) = Some e"
| "errors_Unwrap _ = None"

text \<open>\<^verbatim>\<open>errors.Cause\<close> follows \<^verbatim>\<open>Cause()\<close>, which the error of \<^verbatim>\<open>fmt.Errorf\<close> does not have.\<close>

fun errors_Cause :: "go_error \<Rightarrow> go_error" where
  "errors_Cause (WithMessage _ e) = errors_Cause e"
| "errors_Cause (WithStack e) = errors_Cause e"
| "errors_Cause e = e"

fun is_not_found :: "go_error \<Rightarrow> bool" where
  "is_not_found (ApiError NotFound _) = True"
| "is_not_found (WithMessage _ e) = is_not_found e"
| "is_not_found (WithStack e) = is_not_found e"
| "is_not_found (FmtWrap _ e) = is_not_found e"
| "is_not_found _ = False"

subsection \<open>Maps\<close>

text \<open>
  A Go map is an association list with distinct keys (\<open>map_of\<close> reads it, \<open>map_put\<close> stores);
  \<^verbatim>\<open>None\<close> is the nil map where the code tells the two apart. The order of the list
  carries no meaning: a \<^verbatim>\<open>for range\<close> loop over a map takes the order it visits
  the entries in as a parameter.
\<close>

type_synonym 'v gomap = "(string \<times> 'v) list"

abbreviation map_put :: "string \<Rightarrow> 'v \<Rightarrow> 'v gomap \<Rightarrow> 'v gomap" where
  "map_put \<equiv> AList.update"

definition wf_map :: "'v gomap \<Rightarrow> bool" where
  "wf_map m \<longleftrightarrow> distinct (map fst m)"

definition nil_map :: "'v gomap option \<Rightarrow> 'v gomap" where
  "nil_map m = (case m of None \<Rightarrow> [] | Some kvs \<Rightarrow> kvs)"

text \<open>\<^verbatim>\<open>for k, v := range src { dst[k] = v }\<close>\<close>

fun map_put_all :: "'v gomap \<Rightarrow> 'v gomap \<Rightarrow> 'v gomap" where
  "map_put_all dst [] = dst"
| "map_put_all dst ((k, v) # src) = map_put_all (map_put k v dst) src"

definition map_get_default :: "'v \<Rightarrow> 'v gomap \<Rightarrow> string \<Rightarrow> 'v" where
  "map_get_default d m k = (case map_of m k of None \<Rightarrow> d | Some v \<Rightarrow> v)"

text \<open>The entries of a map in the order that a \<^verbatim>\<open>for range\<close> loop takes: any permutation.\<close>

definition range_order :: "('a list \<Rightarrow> 'a list) \<Rightarrow> bool" where
  "range_order rng \<longleftrightarrow> (\<forall>xs. mset (rng xs) = mset xs)"

subsection \<open>strings\<close>

fun strings_Join :: "string list \<Rightarrow> string \<Rightarrow> string" where
  "strings_Join [] sep = []"
| "strings_Join [x] sep = x"
| "strings_Join (x # y # ys) sep = x @ sep @ strings_Join (y # ys) sep"

text \<open>\<^verbatim>\<open>strings.Split\<close> and \<^verbatim>\<open>strings.SplitN(_, _, 2)\<close> for a separator of one byte.\<close>

fun strings_Split :: "string \<Rightarrow> char \<Rightarrow> string list" where
  "strings_Split [] c = [[]]"
| "strings_Split (x # xs) c =
     (if x = c then [] # strings_Split xs c
      else (case strings_Split xs c of [] \<Rightarrow> [[x]] | h # t \<Rightarrow> (x # h) # t))"

fun strings_Split2 :: "string \<Rightarrow> char \<Rightarrow> string list" where
  "strings_Split2 [] c = [[]]"
| "strings_Split2 (x # xs) c =
     (if x = c then [[], xs]
      else (case strings_Split2 xs c of [] \<Rightarrow> [[x]] | h # t \<Rightarrow> (x # h) # t))"

definition strings_TrimBy :: "(char \<Rightarrow> bool) \<Rightarrow> string \<Rightarrow> string" where
  "strings_TrimBy p s = rev (dropWhile p (rev (dropWhile p s)))"

definition is_space :: "char \<Rightarrow> bool" where
  "is_space c \<longleftrightarrow> c \<in> {CHR '' '', CHR 0x09, CHR 0x0A, CHR 0x0B, CHR 0x0C, CHR 0x0D}"

definition strings_TrimSpace :: "string \<Rightarrow> string" where
  "strings_TrimSpace = strings_TrimBy is_space"

definition strings_Trim :: "string \<Rightarrow> char \<Rightarrow> string" where
  "strings_Trim s c = strings_TrimBy (\<lambda>x. x = c) s"

fun strings_HasPrefix :: "string \<Rightarrow> string \<Rightarrow> bool" where
  "strings_HasPrefix s [] = True"
| "strings_HasPrefix [] (p # ps) = False"
| "strings_HasPrefix (x # xs) (p # ps) = (x = p \<and> strings_HasPrefix xs ps)"

definition strings_HasSuffix :: "string \<Rightarrow> string \<Rightarrow> bool" where
  "strings_HasSuffix s suf = strings_HasPrefix (rev s) (rev suf)"

definition strings_TrimSuffix :: "string \<Rightarrow> string \<Rightarrow> string" where
  "strings_TrimSuffix s suf =
     (if strings_HasSuffix s suf then take (length s - length suf) s else s)"

fun strings_Contains :: "string \<Rightarrow> string \<Rightarrow> bool" where
  "strings_Contains [] sub = (sub = [])"
| "strings_Contains (x # xs) sub = (strings_HasPrefix (x # xs) sub \<or> strings_Contains xs sub)"

definition char_lower :: "char \<Rightarrow> char" where
  "char_lower c =
     (let n = (of_char c :: nat) in if 65 \<le> n \<and> n \<le> 90 then char_of (n + 32) else c)"

definition strings_ToLower :: "string \<Rightarrow> string" where
  "strings_ToLower = map char_lower"

definition strings_EqualFold :: "string \<Rightarrow> string \<Rightarrow> bool" where
  "strings_EqualFold s t \<longleftrightarrow> strings_ToLower s = strings_ToLower t"

subsection \<open>fmt\<close>

definition fmt_t :: "bool \<Rightarrow> string" where
  "fmt_t b = (if b then ''true'' else ''false'')"

fun fmt_d :: "nat \<Rightarrow> string" where
  "fmt_d n = (if n < 10 then [char_of (48 + n)] else fmt_d (n div 10) @ [char_of (48 + n mod 10)])"

declare fmt_d.simps [simp del]

definition hex_digit :: "nat \<Rightarrow> char" where
  "hex_digit n = char_of (if n < 10 then 48 + n else 87 + n)"

definition quote_char :: "char \<Rightarrow> string" where
  "quote_char c =
     (let n = (of_char c :: nat) in
      if n = 34 then [CHR 0x5C, CHR 0x22] else if n = 92 then [CHR 0x5C, CHR 0x5C]
      else if n = 7 then [CHR 0x5C, CHR ''a''] else if n = 8 then [CHR 0x5C, CHR ''b'']
      else if n = 12 then [CHR 0x5C, CHR ''f''] else if n = 10 then [CHR 0x5C, CHR ''n'']
      else if n = 13 then [CHR 0x5C, CHR ''r''] else if n = 9 then [CHR 0x5C, CHR ''t'']
      else if n = 11 then [CHR 0x5C, CHR ''v'']
      else if n < 32 \<or> 127 \<le> n
        then [CHR 0x5C, CHR ''x'', hex_digit (n div 16), hex_digit (n mod 16)]
      else [c])"

text \<open>The \<^verbatim>\<open>%q\<close> verb on a string.\<close>

definition fmt_q :: "string \<Rightarrow> string" where
  "fmt_q s = [CHR 0x22] @ concat (map quote_char s) @ [CHR 0x22]"

text \<open>\<^verbatim>\<open>strconv.ParseBool\<close>\<close>

definition ParseBool :: "string \<Rightarrow> bool result" where
  "ParseBool s =
     (if s \<in> {''1'', ''t'', ''T'', ''true'', ''TRUE'', ''True''} then Inr True
      else if s \<in> {''0'', ''f'', ''F'', ''false'', ''FALSE'', ''False''} then Inr False
      else Inl (ErrText (''strconv.ParseBool: parsing '' @ fmt_q s @ '': invalid syntax'')))"

text \<open>The \<^verbatim>\<open>%v\<close> verb on a slice of strings.\<close>

definition fmt_strings :: "string list \<Rightarrow> string" where
  "fmt_strings xs = ''['' @ strings_Join xs '' '' @ '']''"

subsection \<open>path/filepath\<close>

text \<open>
  \<^verbatim>\<open>filepath.Clean\<close> reads the path component by component; the components kept so far are a
  stack, its top first. \<open>clean_step\<close> is one round of the loop of the standard library.
\<close>

fun clean_step :: "bool \<Rightarrow> string list \<Rightarrow> string \<Rightarrow> string list" where
  "clean_step rooted st c =
     (if c = [] \<or> c = ''.'' then st
      else if c = ''..'' then
        (case st of [] \<Rightarrow> (if rooted then [] else [''..''])
         | t # ts \<Rightarrow> (if t = ''..'' then ''..'' # st else ts))
      else c # st)"

definition is_rooted :: "string \<Rightarrow> bool" where
  "is_rooted p = strings_HasPrefix p ''/''"

definition clean_components :: "string \<Rightarrow> string list" where
  "clean_components p = rev (foldl (clean_step (is_rooted p)) [] (strings_Split p (CHR ''/'')))"

definition filepath_Clean :: "string \<Rightarrow> string" where
  "filepath_Clean p =
     (let cs = clean_components p in
      if is_rooted p then ''/'' @ strings_Join cs ''/''
      else if cs = [] then ''.'' else strings_Join cs ''/'')"

definition filepath_Join :: "string list \<Rightarrow> string" where
  "filepath_Join elems =
     (case dropWhile (\<lambda>e. e = []) elems of
        [] \<Rightarrow> []
      | es \<Rightarrow> filepath_Clean (strings_Join es ''/''))"

subsection \<open>Lemmas: errors\<close>

lemma error_text_Wrap [simp]: "error_text (errors_Wrap e m) = m @ '': '' @ error_text e"
  by (simp add: errors_Wrap_def)

lemma errors_Cause_Wrap [simp]: "errors_Cause (errors_Wrap e m) = errors_Cause e"
  by (simp add: errors_Wrap_def)

lemma is_not_found_Wrap [simp]: "is_not_found (errors_Wrap e m) = is_not_found e"
  by (simp add: errors_Wrap_def)

lemma errors_Wrap_opt_simps [simp]:
  "errors_Wrap_opt None m = None"
  "errors_Wrap_opt (Some e) m = Some (errors_Wrap e m)"
  by (simp_all add: errors_Wrap_opt_def)

lemma errors_Wrap_opt_None_iff [simp]: "errors_Wrap_opt e m = None \<longleftrightarrow> e = None"
  by (simp add: errors_Wrap_opt_def)

subsection \<open>Lemmas: maps\<close>

lemma nil_map_simps [simp]: "nil_map None = []" "nil_map (Some m) = m"
  by (simp_all add: nil_map_def)

lemma wf_map_Nil [simp, intro]: "wf_map []"
  by (simp add: wf_map_def)

lemma wf_map_put [simp, intro]: "wf_map m \<Longrightarrow> wf_map (map_put k v m)"
  by (simp add: wf_map_def distinct_update)

lemma map_of_put [simp]: "map_of (map_put k v m) = (map_of m)(k \<mapsto> v)"
  by (simp add: update_conv')

lemma wf_map_put_all [simp, intro]: "wf_map m \<Longrightarrow> wf_map (map_put_all m src)"
  by (induction m src rule: map_put_all.induct) auto

lemma map_put_all_other:
  "k \<notin> fst ` set src \<Longrightarrow> map_of (map_put_all dst src) k = map_of dst k"
  by (induction dst src rule: map_put_all.induct) auto

text \<open>Writing all entries of one map over another is map addition, whatever the order.\<close>

lemma map_of_put_all:
  "wf_map src \<Longrightarrow> map_of (map_put_all dst src) = map_of dst ++ map_of src"
proof (induction dst src rule: map_put_all.induct)
  case (1 dst)
  then show ?case by simp
next
  case (2 dst k v src)
  then have "wf_map src" and "map_of src k = None"
    by (auto simp: wf_map_def map_of_eq_None_iff)
  with "2.IH" show ?case
    by (auto simp: fun_eq_iff map_add_def split: option.splits)
qed

lemma map_of_perm:
  assumes "wf_map m" and "mset m' = mset m"
  shows "map_of m' = map_of m"
proof -
  from assms have "wf_map m'"
    unfolding wf_map_def by (metis mset_map mset_eq_imp_distinct_iff)
  moreover from assms(2) have "set m' = set m" by (rule mset_eq_setD)
  ultimately show ?thesis
    using assms(1) by (simp add: wf_map_def map_of_inject_set)
qed

lemma wf_map_perm: "wf_map m \<Longrightarrow> mset m' = mset m \<Longrightarrow> wf_map m'"
  unfolding wf_map_def by (metis mset_map mset_eq_imp_distinct_iff)

lemma set_map_put: "set (map_put k v m) \<subseteq> insert (k, v) (set m)"
  by (induction m) auto

lemma range_order_filter: "range_order rng \<Longrightarrow> mset (filter p (rng xs)) = mset (filter p xs)"
  by (simp add: range_order_def)

lemma range_order_set: "range_order rng \<Longrightarrow> set (rng xs) = set xs"
  unfolding range_order_def by (metis set_mset_mset)

lemma map_of_put_all_range:
  assumes "range_order rng" and "wf_map m"
  shows "map_of (map_put_all dst (rng m)) = map_of dst ++ map_of m"
proof -
  from assms(1) have perm: "mset (rng m) = mset m" unfolding range_order_def by blast
  show ?thesis
    unfolding map_of_put_all [OF wf_map_perm [OF assms(2) perm]] map_of_perm [OF assms(2) perm] ..
qed

lemma mset_eq_singleton_list: "mset xs = {#x#} \<longleftrightarrow> xs = [x]"
  by (auto simp: mset_single_iff)

subsection \<open>Lemmas: text\<close>

lemma strings_Split_ne [simp]: "strings_Split s c \<noteq> []"
  by (induction s) (auto split: list.splits)

lemma strings_Split2_ne [simp]: "strings_Split2 s c \<noteq> []"
  by (induction s) (auto split: list.splits)

lemma strings_Join_Cons:
  "strings_Join (x # xs) sep = (if xs = [] then x else x @ sep @ strings_Join xs sep)"
  by (cases xs) auto

lemma strings_Join_append:
  "xs \<noteq> [] \<Longrightarrow> ys \<noteq> [] \<Longrightarrow>
   strings_Join (xs @ ys) sep = strings_Join xs sep @ sep @ strings_Join ys sep"
  by (induction xs) (auto simp: strings_Join_Cons)

text \<open>Splitting and joining with the same separator gives the string back.\<close>

lemma strings_Join_Split [simp]: "strings_Join (strings_Split s c) [c] = s"
proof (induction s)
  case Nil
  then show ?case by simp
next
  case (Cons x xs)
  obtain h t where ht: "strings_Split xs c = h # t"
    by (cases "strings_Split xs c") auto
  with Cons show ?case
    by (cases t) auto
qed

lemma strings_Split_no_sep: "c \<notin> set s \<Longrightarrow> strings_Split s c = [s]"
  by (induction s) auto

lemma strings_Split_append_sep:
  "strings_Split (s @ c # t) c = strings_Split s c @ strings_Split t c"
  by (induction s) (auto split: list.splits)

lemma strings_Split_parts: "x \<in> set (strings_Split s c) \<Longrightarrow> c \<notin> set x"
proof (induction s arbitrary: x)
  case Nil
  then show ?case by simp
next
  case (Cons a s)
  obtain h t where ht: "strings_Split s c = h # t"
    by (cases "strings_Split s c") auto
  with Cons show ?case by (auto split: if_splits)
qed

lemma strings_Split_Join:
  "xs \<noteq> [] \<Longrightarrow> \<forall>x \<in> set xs. c \<notin> set x \<Longrightarrow> strings_Split (strings_Join xs [c]) c = xs"
proof (induction xs)
  case Nil
  then show ?case by simp
next
  case (Cons x xs)
  then show ?case
    by (cases "xs = []") (auto simp: strings_Join_Cons strings_Split_no_sep strings_Split_append_sep)
qed

lemma strings_Split2_no_sep: "c \<notin> set s \<Longrightarrow> strings_Split2 s c = [s]"
  by (induction s) auto

lemma strings_Split2_sep: "c \<notin> set s \<Longrightarrow> strings_Split2 (s @ c # t) c = [s, t]"
  by (induction s) auto

lemma strings_Split2_cases:
  obtains (whole) "c \<notin> set s" "strings_Split2 s c = [s]"
  | (parts) a b where "s = a @ c # b" "c \<notin> set a" "strings_Split2 s c = [a, b]"
  by (metis split_list_first strings_Split2_no_sep strings_Split2_sep)

lemma strings_HasPrefix_iff: "strings_HasPrefix s p \<longleftrightarrow> (\<exists>t. s = p @ t)"
  by (induction s p rule: strings_HasPrefix.induct) auto

lemma strings_HasSuffix_iff: "strings_HasSuffix s p \<longleftrightarrow> (\<exists>t. s = t @ p)"
  unfolding strings_HasSuffix_def strings_HasPrefix_iff
  by (metis rev_append rev_rev_ident)

lemma strings_TrimSuffix_append [simp]: "strings_TrimSuffix (s @ p) p = s"
  by (auto simp: strings_TrimSuffix_def strings_HasSuffix_iff)

lemma strings_TrimSuffix_other: "\<nexists>t. s = t @ p \<Longrightarrow> strings_TrimSuffix s p = s"
  by (auto simp: strings_TrimSuffix_def strings_HasSuffix_iff)

lemma strings_Contains_iff: "strings_Contains s t \<longleftrightarrow> (\<exists>a b. s = a @ t @ b)"
proof (induction s)
  case Nil
  then show ?case by simp
next
  case (Cons x xs)
  have "(\<exists>a b. x # xs = a @ t @ b) \<longleftrightarrow> (\<exists>b. x # xs = t @ b) \<or> (\<exists>a b. xs = a @ t @ b)"
    by (metis append_Cons append_Nil list.exhaust list.inject)
  with Cons show ?case by (simp add: strings_HasPrefix_iff)
qed

lemma find_append: "find P (xs @ ys) = (case find P xs of Some x \<Rightarrow> Some x | None \<Rightarrow> find P ys)"
  by (induction xs) auto

lemma find_holds: "find P xs = Some x \<Longrightarrow> P x"
  by (auto simp: find_Some_iff)

lemma distinct_singleton: "distinct xs \<Longrightarrow> set xs = {x} \<Longrightarrow> xs = [x]"
  by (cases xs; cases "tl xs") auto

subsection \<open>Lemmas: paths\<close>

lemma foldl_invariant:
  assumes "P s" and "\<And>s x. x \<in> set xs \<Longrightarrow> P s \<Longrightarrow> P (f s x)"
  shows "P (foldl f s xs)"
  using assms by (induction xs arbitrary: s) auto

lemma strings_Join_ne: "\<exists>x \<in> set xs. x \<noteq> [] \<Longrightarrow> strings_Join xs sep \<noteq> []"
  by (induction xs) (auto simp: strings_Join_Cons)

lemma clean_step_ne: "\<forall>c \<in> set st. c \<noteq> [] \<Longrightarrow> \<forall>c \<in> set (clean_step r st x). c \<noteq> []"
  by (auto split: list.splits if_splits)

lemma clean_components_ne: "\<forall>c \<in> set (clean_components p). c \<noteq> []"
  unfolding clean_components_def set_rev
  by (rule foldl_invariant [where P = "\<lambda>st. \<forall>c \<in> set st. c \<noteq> []"]) (simp, rule clean_step_ne)

lemma filepath_Clean_ne: "filepath_Clean p \<noteq> []"
proof (cases "is_rooted p \<or> clean_components p = []")
  case True
  then show ?thesis by (auto simp: filepath_Clean_def Let_def)
next
  case False
  then have "\<exists>c \<in> set (clean_components p). c \<noteq> []"
    using clean_components_ne [of p] by (cases "clean_components p") auto
  with False show ?thesis
    by (simp add: filepath_Clean_def Let_def strings_Join_ne)
qed

end
