(* ===== verification/Forge_Api.thy ===== *)
theory Forge_Api
  imports Forge_Prelude "HOL-Library.Word"
begin

section \<open>The ContainerImageBuild resource\<close>

text \<open>
  The custom resource of \<^verbatim>\<open>api/forge/v1alpha1\<close>: the build states, the resource with its
  specification and status, the validation of registry credentials and the setting of a state.
  The metadata and core types are those of Kubernetes, with the fields Forge reads or writes.
  A field of an unsigned type of \<open>n\<close> bits is an \<open>n word\<close>; a time is its instant as an integer;
  a pointer that may be nil is an option. \<open>json_view\<close> is what survives the JSON encoding of a
  resource: every field but the one tagged \<^verbatim>\<open>json:"-"\<close>.
\<close>

subsection \<open>Kubernetes metadata and core types\<close>

type_synonym time = int

record OwnerReference =
  own_APIVersion :: string
  own_Kind :: string
  own_Name :: string
  own_UID :: string
  own_Controller :: bool

record ObjectMeta =
  om_Name :: string
  om_Namespace :: string
  om_UID :: string
  om_Labels :: "string gomap option"
  om_Annotations :: "string gomap option"
  om_CreationTimestamp :: time
  om_DeletionTimestamp :: "time option"
  om_SelfLink :: string
  om_OwnerReferences :: "OwnerReference list"

record EnvVar =
  ev_Name :: string
  ev_Value :: string

datatype quantity = Quantity string

type_synonym ResourceList = "quantity gomap option"

record ResourceRequirements =
  rr_Limits :: ResourceList
  rr_Requests :: ResourceList

subsection \<open>Build states\<close>

type_synonym BuildState = string

definition BuildStateInitialized :: BuildState where
  [simp]: "BuildStateInitialized = ''Initialized''"

definition BuildStateBuilding :: BuildState where
  [simp]: "BuildStateBuilding = ''Building''"

definition BuildStateCompleted :: BuildState where
  [simp]: "BuildStateCompleted = ''Completed''"

definition BuildStateFailed :: BuildState where
  [simp]: "BuildStateFailed = ''Failed''"

subsection \<open>Registry credentials\<close>

record BasicAuthConfig =
  ba_Username :: string
  ba_Password :: string
  ba_SecretName :: string
  ba_SecretNamespace :: string

definition IsInline :: "BasicAuthConfig \<Rightarrow> bool" where
  "IsInline auth \<longleftrightarrow> ba_Username auth \<noteq> '''' \<and> ba_Password auth \<noteq> ''''"

definition IsSecret :: "BasicAuthConfig \<Rightarrow> bool" where
  "IsSecret auth \<longleftrightarrow> ba_SecretName auth \<noteq> '''' \<and> ba_SecretNamespace auth \<noteq> ''''"

definition Validate :: "BasicAuthConfig \<Rightarrow> go_error option" where
  "Validate auth =
     (if ba_Username auth = '''' \<and> ba_Password auth = '''' \<and>
         ba_SecretName auth = '''' \<and> ba_SecretNamespace auth = ''''
      then None
      else if (ba_Username auth \<noteq> '''' \<and> ba_Password auth = '''') \<or>
              (ba_Username auth = '''' \<and> ba_Password auth \<noteq> '''')
      then Some (ErrText ''inline basic auth requires both username and password'')
      else if (ba_SecretName auth \<noteq> '''' \<and> ba_SecretNamespace auth = '''') \<or>
              (ba_SecretName auth = '''' \<and> ba_SecretNamespace auth \<noteq> '''')
      then Some (ErrText ''secret basic auth requires both secret name and namespace'')
      else if (IsInline auth \<or> IsSecret auth) \<and> (IsInline auth \<and> IsSecret auth)
      then Some (ErrText ''basic auth cannot be both inline and secret-based'')
      else None)"

record Registry =
  reg_Server :: string
  reg_NonSSL :: bool
  reg_BasicAuth :: BasicAuthConfig
  reg_DynamicCloudCredentials :: bool

subsection \<open>Specification and status\<close>

record InitContainer =
  ic_Name :: string
  ic_Image :: string
  ic_Command :: "string list"
  ic_Args :: "string list"
  ic_Env :: "EnvVar list"

record ContainerImageBuildSpec =
  spec_ImageName :: string
  spec_Context :: string
  spec_ContextTimeoutSeconds :: "16 word"
  spec_PushRegistries :: "string list"
  spec_Registries :: "Registry list"
  spec_BuildArgs :: "string list"
  spec_Labels :: "string gomap"
  spec_CPU :: string
  spec_Memory :: string
  spec_Resources :: ResourceRequirements
  spec_TimeoutSeconds :: "16 word"
  spec_ImageSizeLimit :: "64 word"
  spec_PluginData :: "string gomap"
  spec_DisableBuildCache :: bool
  spec_DisableLayerCacheExport :: bool
  spec_MessageQueueName :: string
  spec_InitContainers :: "InitContainer list"

record ContainerImageBuildStatus =
  st_PreviousState :: BuildState
  st_State :: BuildState
  st_ImageURLs :: "string list"
  st_ImageSize :: "64 word"
  st_ErrorMessage :: string
  st_BuildStartedAt :: "time option"
  st_BuildCompletedAt :: "time option"

record ContainerImageBuild =
  cib_Meta :: ObjectMeta
  cib_Spec :: ContainerImageBuildSpec
  cib_Status :: ContainerImageBuildStatus

definition SetState :: "BuildState \<Rightarrow> ContainerImageBuildStatus \<Rightarrow> ContainerImageBuildStatus" where
  "SetState state s =
     (let s1 = (if st_State s = '''' then s\<lparr>st_State := BuildStateInitialized\<rparr> else s)
      in s1\<lparr>st_PreviousState := st_State s1, st_State := state\<rparr>)"

definition json_view :: "ContainerImageBuild \<Rightarrow> ContainerImageBuild" where
  "json_view cib = cib\<lparr>cib_Status := (cib_Status cib)\<lparr>st_PreviousState := ''''\<rparr>\<rparr>"

abbreviation cib_Name :: "ContainerImageBuild \<Rightarrow> string" where
  "cib_Name cib \<equiv> om_Name (cib_Meta cib)"

abbreviation cib_Namespace :: "ContainerImageBuild \<Rightarrow> string" where
  "cib_Namespace cib \<equiv> om_Namespace (cib_Meta cib)"

abbreviation cib_State :: "ContainerImageBuild \<Rightarrow> BuildState" where
  "cib_State cib \<equiv> st_State (cib_Status cib)"

subsection \<open>Zero values\<close>

text \<open>The zero values of the structs, which Go gives to a declared variable.\<close>

definition zero_meta :: ObjectMeta where
  "zero_meta = \<lparr>om_Name = '''', om_Namespace = '''', om_UID = '''', om_Labels = None,
     om_Annotations = None, om_CreationTimestamp = 0, om_DeletionTimestamp = None,
     om_SelfLink = '''', om_OwnerReferences = []\<rparr>"

definition zero_auth :: BasicAuthConfig where
  "zero_auth = \<lparr>ba_Username = '''', ba_Password = '''', ba_SecretName = '''',
     ba_SecretNamespace = ''''\<rparr>"

definition zero_spec :: ContainerImageBuildSpec where
  "zero_spec = \<lparr>spec_ImageName = '''', spec_Context = '''', spec_ContextTimeoutSeconds = 0,
     spec_PushRegistries = [], spec_Registries = [], spec_BuildArgs = [], spec_Labels = [],
     spec_CPU = '''', spec_Memory = '''',
     spec_Resources = \<lparr>rr_Limits = None, rr_Requests = None\<rparr>,
     spec_TimeoutSeconds = 0, spec_ImageSizeLimit = 0, spec_PluginData = [],
     spec_DisableBuildCache = False, spec_DisableLayerCacheExport = False,
     spec_MessageQueueName = '''', spec_InitContainers = []\<rparr>"

definition zero_status :: ContainerImageBuildStatus where
  "zero_status = \<lparr>st_PreviousState = '''', st_State = '''', st_ImageURLs = [], st_ImageSize = 0,
     st_ErrorMessage = '''', st_BuildStartedAt = None, st_BuildCompletedAt = None\<rparr>"

definition zero_cib :: ContainerImageBuild where
  "zero_cib = \<lparr>cib_Meta = zero_meta, cib_Spec = zero_spec, cib_Status = zero_status\<rparr>"

lemmas zero_defs = zero_meta_def zero_auth_def zero_spec_def zero_status_def zero_cib_def

subsection \<open>Credentials\<close>

lemma IsInline_zero [simp]: "\<not> IsInline zero_auth"
  by (simp add: IsInline_def zero_auth_def)

lemma IsSecret_zero [simp]: "\<not> IsSecret zero_auth"
  by (simp add: IsSecret_def zero_auth_def)

lemma Validate_not_both: "Validate auth = None \<Longrightarrow> \<not> (IsInline auth \<and> IsSecret auth)"
  by (auto simp: Validate_def split: if_splits) (auto simp: IsInline_def IsSecret_def)

text \<open>Validation accepts exactly three shapes of credentials: none at all, a complete inline pair
  without any trace of a secret, and a complete secret reference without any trace of an inline
  pair. Partial credentials and a mix of both kinds are rejected.
\<close>

theorem Validate_accepts_iff:
  "Validate auth = None \<longleftrightarrow>
     (auth = zero_auth \<or>
      (IsInline auth \<and> ba_SecretName auth = '''' \<and> ba_SecretNamespace auth = '''') \<or>
      (IsSecret auth \<and> ba_Username auth = '''' \<and> ba_Password auth = ''''))"
  by (cases auth) (auto simp: Validate_def IsInline_def IsSecret_def zero_auth_def)

subsection \<open>States\<close>

lemma SetState_fields [simp]:
  "st_State (SetState state s) = state"
  "st_PreviousState (SetState state s) = (if st_State s = '''' then ''Initialized'' else st_State s)"
  "st_ImageURLs (SetState state s) = st_ImageURLs s"
  "st_ImageSize (SetState state s) = st_ImageSize s"
  "st_ErrorMessage (SetState state s) = st_ErrorMessage s"
  "st_BuildStartedAt (SetState state s) = st_BuildStartedAt s"
  "st_BuildCompletedAt (SetState state s) = st_BuildCompletedAt s"
  by (simp_all add: SetState_def Let_def)

lemma json_view_fields [simp]:
  "cib_Meta (json_view cib) = cib_Meta cib"
  "cib_Spec (json_view cib) = cib_Spec cib"
  "st_PreviousState (cib_Status (json_view cib)) = ''''"
  "st_State (cib_Status (json_view cib)) = st_State (cib_Status cib)"
  "st_ImageURLs (cib_Status (json_view cib)) = st_ImageURLs (cib_Status cib)"
  "st_ImageSize (cib_Status (json_view cib)) = st_ImageSize (cib_Status cib)"
  "st_ErrorMessage (cib_Status (json_view cib)) = st_ErrorMessage (cib_Status cib)"
  "st_BuildStartedAt (cib_Status (json_view cib)) = st_BuildStartedAt (cib_Status cib)"
  "st_BuildCompletedAt (cib_Status (json_view cib)) = st_BuildCompletedAt (cib_Status cib)"
  by (simp_all add: json_view_def)

lemma json_view_idem [simp]: "json_view (json_view cib) = json_view cib"
  by (simp add: json_view_def)

end
