(* ===== verification/Forge_Config.thy ===== *)
theory Forge_Config
  imports Forge_Api
begin

section \<open>Configuration, credentials and messaging options\<close>

text \<open>
  The small packages both programs share: \<^verbatim>\<open>internal/config\<close> (paths, the state directory, the
  options of a build), \<^verbatim>\<open>internal/credentials\<close> (the auth entries of a Docker config file),
  \<^verbatim>\<open>internal/message/options.go\<close> and \<^verbatim>\<open>internal/util\<close>. The environment of the process
  (\<^verbatim>\<open>os.Getenv\<close>), the file status (\<^verbatim>\<open>os.Stat\<close>) and the Docker CLI's config file loader are
  arguments.
\<close>

subsection \<open>internal/config\<close>

definition DynamicCredentialsPath :: string where
  "DynamicCredentialsPath = ''/tmp/docker''"

definition DynamicCredentialsFilename :: string where
  "DynamicCredentialsFilename = ''config.json''"

definition BuildContextPath :: string where
  "BuildContextPath = ''/mnt/build''"

definition DynamicCredentialsFilepath :: string where
  "DynamicCredentialsFilepath = filepath_Join [DynamicCredentialsPath, DynamicCredentialsFilename]"

record RegistryConfig =
  rc_Host :: string
  rc_NonSSL :: bool
  rc_Username :: string
  rc_Password :: string

text \<open>A \<^verbatim>\<open>time.Duration\<close> is a signed 64-bit count of nanoseconds.\<close>

record BuildOptions =
  bo_ContextURL :: string
  bo_ContextTimeout :: "64 word"
  bo_ImageName :: string
  bo_ImageSizeLimit :: "64 word"
  bo_Labels :: "string gomap"
  bo_BuildArgs :: "string list"
  bo_DisableBuildCache :: bool
  bo_DisableLayerCacheExport :: bool
  bo_Timeout :: "64 word"
  bo_Registries :: "RegistryConfig list"
  bo_PushRegistries :: "string list"
  bo_PluginData :: "string gomap"
  bo_CacheFrom :: "string list"

definition GetStateDir :: "(string \<Rightarrow> string) \<Rightarrow> string" where
  "GetStateDir getenv =
     (if getenv ''XDG_DATA_HOME'' \<noteq> ''''
      then filepath_Join [hd (strings_Split (getenv ''XDG_DATA_HOME'') (CHR '':''))]
      else if getenv ''HOME'' \<noteq> ''''
      then filepath_Join [getenv ''HOME'', ''.local'', ''share'', ''forge'']
      else ''/tmp/forge'')"

subsection \<open>internal/builder/types\<close>

record Image =
  img_URLs :: "string list"
  img_Size :: "64 word"

subsection \<open>internal/credentials\<close>

record AuthConfig =
  ac_Username :: string
  ac_Password :: string
  ac_Auth :: string
  ac_ServerAddress :: string
  ac_IdentityToken :: string
  ac_RegistryToken :: string

type_synonym AuthConfigs = "AuthConfig gomap"

definition zero_ac :: AuthConfig where
  "zero_ac = \<lparr>ac_Username = '''', ac_Password = '''', ac_Auth = '''', ac_ServerAddress = '''',
     ac_IdentityToken = '''', ac_RegistryToken = ''''\<rparr>"

definition ExtractAuthConfigs ::
  "(string \<Rightarrow> AuthConfigs result) \<Rightarrow> string \<Rightarrow> AuthConfigs result" where
  "ExtractAuthConfigs loadFromReader input =
     (case loadFromReader input of
        Inl e \<Rightarrow> Inl e
      | Inr auths \<Rightarrow> Inr (map_put_all [] auths))"

definition ExtractBasicAuthForHost :: "AuthConfigs \<Rightarrow> string \<Rightarrow> (string \<times> string) result" where
  "ExtractBasicAuthForHost authConfigs host =
     (case map_of authConfigs host of
        Some ac \<Rightarrow> Inr (ac_Username ac, ac_Password ac)
      | None \<Rightarrow> Inl (ErrText (''registry '' @ fmt_q host
          @ '' is not in list of registries for this auth source ''
          @ fmt_strings (map fst authConfigs))))"

subsection \<open>internal/message: options\<close>

type_synonym Broker = string

definition AmqpBroker :: Broker where
  [simp]: "AmqpBroker = ''amqp''"

definition SupportedBrokers :: "Broker list" where
  "SupportedBrokers = [AmqpBroker]"

record Options =
  opt_Broker :: Broker
  opt_AmqpURI :: string
  opt_AmqpQueue :: string

definition ValidateOpts :: "Options \<Rightarrow> go_error option" where
  "ValidateOpts opts =
     (if opt_Broker opts = AmqpBroker then
        (if opt_AmqpURI opts = '''' \<or> opt_AmqpQueue opts = ''''
         then Some (ErrText ''amqp broker requires a uri and queue name'') else None)
      else Some (ErrText (''broker '' @ fmt_q (opt_Broker opts)
             @ '' is invalid (supported brokers: '' @ fmt_strings SupportedBrokers @ '')'')))"

subsection \<open>internal/util\<close>

datatype file_info = DirInfo | FileInfo

definition AssertDir :: "(string \<Rightarrow> file_info result) \<Rightarrow> string \<Rightarrow> go_error option" where
  "AssertDir stat path =
     (case stat path of
        Inl e \<Rightarrow> Some e
      | Inr fi \<Rightarrow> (if fi = DirInfo then None
                   else Some (ErrText (fmt_q path @ '' is not a directory''))))"

subsection \<open>Lemmas\<close>

lemma DynamicCredentialsFilepath_eq: "DynamicCredentialsFilepath = ''/tmp/docker/config.json''"
  by (simp add: DynamicCredentialsFilepath_def DynamicCredentialsPath_def
      DynamicCredentialsFilename_def filepath_Join_def filepath_Clean_def clean_components_def
      is_rooted_def Let_def)

lemma ExtractAuthConfigs_map:
  assumes "loadFromReader input = Inr auths" and "wf_map auths"
  shows "\<exists>m. ExtractAuthConfigs loadFromReader input = Inr m \<and> wf_map m \<and> map_of m = map_of auths"
  using assms by (auto simp: ExtractAuthConfigs_def map_of_put_all)

lemma ExtractBasicAuthForHost_Inr:
  "ExtractBasicAuthForHost m host = Inr (u, p) \<longleftrightarrow>
     (\<exists>ac. map_of m host = Some ac \<and> u = ac_Username ac \<and> p = ac_Password ac)"
  by (auto simp: ExtractBasicAuthForHost_def split: option.splits)

lemma ValidateOpts_None:
  "ValidateOpts opts = None \<longleftrightarrow>
     opt_Broker opts \<in> set SupportedBrokers \<and> opt_AmqpURI opts \<noteq> '''' \<and> opt_AmqpQueue opts \<noteq> ''''"
  by (auto simp: ValidateOpts_def SupportedBrokers_def)

text \<open>
  The state directory is empty only when the first entry of the data home is.
\<close>

lemma GetStateDir_ne:
  assumes "getenv ''XDG_DATA_HOME'' = '''' \<or> hd (strings_Split (getenv ''XDG_DATA_HOME'') (CHR '':'')) \<noteq> ''''"
  shows "GetStateDir getenv \<noteq> ''''"
  using assms by (auto simp: GetStateDir_def filepath_Join_def filepath_Clean_ne)

end
