(* ===== verification/Forge_Publisher.thy ===== *)
theory Forge_Publisher
  imports Forge_Config
begin

section \<open>Publishing status messages\<close>

text \<open>
  \<^verbatim>\<open>internal/message\<close>: the AMQP publisher. The broker's client library and the ticker are arguments
  over a world \<open>'w\<close>; connections and channels are numbers. The goroutine that
  \<^verbatim>\<open>connect\<close> starts for a connection is a watcher until the connection is closed; then, if there was
  a reason, it blocks on the unbuffered error channel until a push takes the signal. \<open>pub_watched\<close> are the
  connections with a watcher, \<open>pub_signals\<close> the watchers that block with a signal.
\<close>

subsection \<open>The publisher\<close>

definition connectionRetryLimit :: nat where
  "connectionRetryLimit = 5"

text \<open>The properties of the queue, and what goes with the body of a message.\<close>

record queue_properties =
  qp_Durable :: bool
  qp_AutoDelete :: bool
  qp_Exclusive :: bool
  qp_NoWait :: bool
  qp_Args :: "(string \<times> bool) list"

definition queue_options :: queue_properties where
  "queue_options = \<lparr>qp_Durable = True, qp_AutoDelete = False, qp_Exclusive = False, qp_NoWait = False,
     qp_Args = [(''x-single-active-consumer'', True)]\<rparr>"

record publishing =
  msg_Exchange :: string
  msg_Mandatory :: bool
  msg_Immediate :: bool
  msg_ContentType :: string
  msg_Body :: string

definition json_message :: "string \<Rightarrow> publishing" where
  "json_message body = \<lparr>msg_Exchange = '''', msg_Mandatory = True, msg_Immediate = False,
     msg_ContentType = ''application/json'', msg_Body = body\<rparr>"

record publisher =
  pub_uri :: string
  pub_queueName :: string
  pub_conn :: "nat option"
  pub_channel :: "nat option"
  pub_watched :: "nat list"
  pub_signals :: nat

record 'w amqp_api =
  amqp_Dial :: "string \<Rightarrow> 'w \<Rightarrow> nat result \<times> 'w"
  amqp_Tick :: "'w \<Rightarrow> 'w"
  amqp_Channel :: "nat \<Rightarrow> 'w \<Rightarrow> nat result \<times> 'w"
  amqp_QueueDeclare :: "nat \<Rightarrow> string \<Rightarrow> queue_properties \<Rightarrow> 'w \<Rightarrow> string result \<times> 'w"
  amqp_Publish :: "nat \<Rightarrow> string \<Rightarrow> publishing \<Rightarrow> 'w \<Rightarrow> go_error option \<times> 'w"
  amqp_Close :: "nat \<Rightarrow> 'w \<Rightarrow> go_error option \<times> 'w"

text \<open>The loop waits for the ticker after every failed attempt, the last one included.\<close>

function connect_from ::
  "'w amqp_api \<Rightarrow> nat \<Rightarrow> publisher \<Rightarrow> 'w \<Rightarrow> go_error option \<times> publisher \<times> 'w" where
  "connect_from api counter p w =
     (if counter < connectionRetryLimit then
        (case amqp_Dial api (pub_uri p) w of
           (Inl err, w1) \<Rightarrow> connect_from api (Suc counter) (p\<lparr>pub_conn := None\<rparr>) (amqp_Tick api w1)
         | (Inr c, w1) \<Rightarrow>
           (let p1 = p\<lparr>pub_conn := Some c, pub_watched := pub_watched p @ [c]\<rparr> in
            case amqp_Channel api c w1 of
              (Inl err, w2) \<Rightarrow>
                (Some (errors_Wrap err (''failed to create rabbitmq channel to '' @ fmt_q (pub_uri p))),
                 p1\<lparr>pub_channel := None\<rparr>, w2)
            | (Inr ch, w2) \<Rightarrow> (None, p1\<lparr>pub_channel := Some ch\<rparr>, w2)))
      else (Some (ErrText (''rabbitmq connection retry limit reached: '' @ fmt_d connectionRetryLimit)), p, w))"
  by pat_completeness auto
termination
  by (relation "measure (\<lambda>(api, counter, p, w). connectionRetryLimit - counter)") auto

declare connect_from.simps [simp del]

definition connect :: "'w amqp_api \<Rightarrow> publisher \<Rightarrow> 'w \<Rightarrow> go_error option \<times> publisher \<times> 'w" where
  "connect api p w = connect_from api 0 p w"

definition NewPublisher :: "'w amqp_api \<Rightarrow> string \<Rightarrow> string \<Rightarrow> 'w \<Rightarrow> publisher result \<times> 'w" where
  "NewPublisher api uri queueName w =
     (case connect api \<lparr>pub_uri = uri, pub_queueName = queueName, pub_conn = None, pub_channel = None,
                        pub_watched = [], pub_signals = 0\<rparr> w of
        (Some err, p, w1) \<Rightarrow> (Inl err, w1)
      | (None, p, w1) \<Rightarrow> (Inr p, w1))"

definition NewProducer :: "'w amqp_api \<Rightarrow> Options \<Rightarrow> 'w \<Rightarrow> publisher result \<times> 'w" where
  "NewProducer api opts w =
     (if opt_Broker opts = AmqpBroker then NewPublisher api (opt_AmqpURI opts) (opt_AmqpQueue opts) w
      else (Inl (ErrText (opt_Broker opts @ '' is not supported'')), w))"

text \<open>Taking the signal, if there is one, and reconnecting.\<close>

definition reconnect :: "'w amqp_api \<Rightarrow> publisher \<Rightarrow> 'w \<Rightarrow> go_error option \<times> publisher \<times> 'w" where
  "reconnect api p w =
     (if pub_signals p > 0 then
        (case connect api (p\<lparr>pub_signals := pub_signals p - 1\<rparr>) w of
           (err, p1, w1) \<Rightarrow> (errors_Wrap_opt err ''could not reconnect to rabbitmq'', p1, w1))
      else (None, p, w))"

definition publish ::
  "'w amqp_api \<Rightarrow> string result \<Rightarrow> publisher \<Rightarrow> 'w \<Rightarrow> go_error option outcome \<times> 'w" where
  "publish api data p w =
     (case data of
        Inl err \<Rightarrow> (Returns (Some (errors_Wrap err ''cannot marshal rabbitmq event'')), w)
      | Inr body \<Rightarrow>
        (case pub_channel p of
           None \<Rightarrow> (Panics ''nil pointer dereference'', w)
         | Some ch \<Rightarrow>
           (case amqp_QueueDeclare api ch (pub_queueName p) queue_options w of
              (Inl err, w1) \<Rightarrow> (Returns (Some (errors_Wrap err ''failed to declare rabbitmq queue'')), w1)
            | (Inr qName, w1) \<Rightarrow>
              (case amqp_Publish api ch qName (json_message body) w1 of
                 (err, w2) \<Rightarrow> (Returns (errors_Wrap_opt err ''failed to publish rabbitmq message''), w2)))))"

definition Push ::
  "('m \<Rightarrow> string result) \<Rightarrow> 'w amqp_api \<Rightarrow> 'm \<Rightarrow> publisher \<Rightarrow> 'w \<Rightarrow>
   go_error option outcome \<times> publisher \<times> 'w" where
  "Push marshal api obj p w =
     (case reconnect api p w of
        (Some err, p1, w1) \<Rightarrow> (Returns (Some err), p1, w1)
      | (None, p1, w1) \<Rightarrow>
        (case publish api (marshal obj) p1 w1 of (r, w2) \<Rightarrow> (r, p1, w2)))"

definition publisher_Close :: "'w amqp_api \<Rightarrow> publisher \<Rightarrow> 'w \<Rightarrow> go_error option \<times> 'w" where
  "publisher_Close api p w =
     (case pub_conn p of None \<Rightarrow> (None, w) | Some c \<Rightarrow> amqp_Close api c w)"

subsection \<open>Connecting\<close>

text \<open>The world before attempt \<open>i\<close>, after \<open>i\<close> failed ones and the wait that follows each.\<close>

fun dial_world :: "'w amqp_api \<Rightarrow> string \<Rightarrow> nat \<Rightarrow> 'w \<Rightarrow> 'w" where
  "dial_world api uri 0 w = w"
| "dial_world api uri (Suc i) w = amqp_Tick api (snd (amqp_Dial api uri (dial_world api uri i w)))"

definition dials_fail :: "'w amqp_api \<Rightarrow> string \<Rightarrow> nat \<Rightarrow> 'w \<Rightarrow> bool" where
  "dials_fail api uri k w \<longleftrightarrow> (\<forall>i<k. \<exists>e. fst (amqp_Dial api uri (dial_world api uri i w)) = Inl e)"

lemma connect_after_failures:
  assumes "dials_fail api (pub_uri p) k w" and "k \<le> connectionRetryLimit"
  shows "connect api p w =
    connect_from api k (if k = 0 then p else p\<lparr>pub_conn := None\<rparr>) (dial_world api (pub_uri p) k w)"
  using assms
proof (induction k)
  case 0
  show ?case by (simp add: connect_def)
next
  case (Suc k)
  then have IH: "connect api p w =
      connect_from api k (if k = 0 then p else p\<lparr>pub_conn := None\<rparr>) (dial_world api (pub_uri p) k w)"
    by (simp add: dials_fail_def)
  from Suc.prems obtain e w1 where "amqp_Dial api (pub_uri p) (dial_world api (pub_uri p) k w) = (Inl e, w1)"
    unfolding dials_fail_def by (metis lessI prod.collapse)
  with Suc.prems(2) show ?case
    by (cases "k = 0") (simp_all add: IH connect_from.simps [of api k] connect_from.simps [of api 0])
qed

lemma connect_exhausted:
  assumes "dials_fail api (pub_uri p) connectionRetryLimit w"
  shows "connect api p w =
    (Some (ErrText (''rabbitmq connection retry limit reached: '' @ fmt_d connectionRetryLimit)),
     p\<lparr>pub_conn := None\<rparr>, dial_world api (pub_uri p) connectionRetryLimit w)"
  using connect_after_failures [OF assms order_refl]
  by (simp add: connect_from.simps [of api 5] connectionRetryLimit_def)

lemma connect_at:
  assumes "dials_fail api (pub_uri p) k w" and "k < connectionRetryLimit"
    and "amqp_Dial api (pub_uri p) (dial_world api (pub_uri p) k w) = (Inr c, w1)"
  shows "connect api p w =
    (let p1 = p\<lparr>pub_conn := Some c, pub_watched := pub_watched p @ [c]\<rparr> in
     case amqp_Channel api c w1 of
       (Inl err, w2) \<Rightarrow>
         (Some (errors_Wrap err (''failed to create rabbitmq channel to '' @ fmt_q (pub_uri p))),
          p1\<lparr>pub_channel := None\<rparr>, w2)
     | (Inr ch, w2) \<Rightarrow> (None, p1\<lparr>pub_channel := Some ch\<rparr>, w2))"
  using connect_after_failures [OF assms(1) less_imp_le [OF assms(2)]] assms(2,3)
  by (cases "k = 0")
    (simp_all add: connect_from.simps [of api k] connect_from.simps [of api 0] Let_def split: prod.splits sum.splits)

text \<open>Either some attempt below the limit connects first, or all fail.\<close>

lemma dial_dichotomy:
  obtains (all) "dials_fail api uri n w"
  | (first) k c w1 where "k < n" "dials_fail api uri k w"
      "amqp_Dial api uri (dial_world api uri k w) = (Inr c, w1)"
proof (induction n)
  case 0
  then show ?case by (simp add: dials_fail_def)
next
  case (Suc n)
  show ?case
  proof (rule Suc.IH)
    assume all: "dials_fail api uri n w"
    show thesis
    proof (cases "amqp_Dial api uri (dial_world api uri n w)")
      case (Pair r w1)
      then show thesis
        using Suc.prems all by (cases r) (auto simp: dials_fail_def less_Suc_eq)
    qed
  next
    fix k c w1 assume "k < n" "dials_fail api uri k w" "amqp_Dial api uri (dial_world api uri k w) = (Inr c, w1)"
    then show thesis using Suc.prems(2) less_SucI by blast
  qed
qed

subsection \<open>Pushing\<close>

lemma connect_None:
  assumes "connect api p w = (None, p', w')"
  shows "\<exists>c ch w1. amqp_Channel api c w1 = (Inr ch, w') \<and>
    p' = p\<lparr>pub_conn := Some c, pub_watched := pub_watched p @ [c], pub_channel := Some ch\<rparr>"
proof (rule dial_dichotomy [of api "pub_uri p" connectionRetryLimit w])
  assume "dials_fail api (pub_uri p) connectionRetryLimit w"
  from connect_exhausted [OF this] assms show ?thesis by simp
next
  fix k c w1
  assume "k < connectionRetryLimit" "dials_fail api (pub_uri p) k w"
    "amqp_Dial api (pub_uri p) (dial_world api (pub_uri p) k w) = (Inr c, w1)"
  from connect_at [OF this(2,1,3)] assms show ?thesis
    by (auto simp: Let_def split: prod.splits sum.splits)
qed

text \<open>C20. A push that reports success has declared the queue, durable, shared and with a single active consumer, and published the encoded message to it as JSON, mandatory and over the default exchange, on one channel; if a closed
  connection had been signalled this is the channel of a connection dialled in this very push, otherwise it is the
  channel the publisher had.
\<close>

theorem Push_success:
  assumes "Push marshal api obj p w = (Returns None, p', w')"
  shows "\<exists>ch q body w1 w2. pub_channel p' = Some ch \<and> marshal obj = Inr body \<and>
    amqp_QueueDeclare api ch (pub_queueName p)
      \<lparr>qp_Durable = True, qp_AutoDelete = False, qp_Exclusive = False, qp_NoWait = False, qp_Args = [(''x-single-active-consumer'', True)]\<rparr> w1 = (Inr q, w2) \<and>
    amqp_Publish api ch q
      \<lparr>msg_Exchange = '''', msg_Mandatory = True, msg_Immediate = False, msg_ContentType = ''application/json'', msg_Body = body\<rparr> w2 = (None, w') \<and>
    (if pub_signals p = 0 then p' = p \<and> w1 = w
     else \<exists>c w0. pub_conn p' = Some c \<and> amqp_Channel api c w0 = (Inr ch, w1))"
proof -
  from assms obtain p1 w1 where re: "reconnect api p w = (None, p1, w1)"
    and pub: "publish api (marshal obj) p1 w1 = (Returns None, w')" and [simp]: "p' = p1"
    by (auto simp: Push_def split: prod.splits option.splits)
  from pub obtain ch q body w2 where chan: "pub_channel p1 = Some ch" "marshal obj = Inr body"
    "amqp_QueueDeclare api ch (pub_queueName p1) queue_options w1 = (Inr q, w2)"
    "amqp_Publish api ch q (json_message body) w2 = (None, w')"
    by (auto simp: publish_def split: sum.splits option.splits prod.splits)
  note chan = chan [unfolded queue_options_def json_message_def]
  show ?thesis
  proof (cases "pub_signals p = 0")
    case True
    with re have "p1 = p" "w1 = w" by (auto simp: reconnect_def)
    with chan True show ?thesis by auto
  next
    case False
    with re have "connect api (p\<lparr>pub_signals := pub_signals p - 1\<rparr>) w = (None, p1, w1)"
      by (auto simp: reconnect_def split: prod.splits)
    from connect_None [OF this] obtain c ch' w0 where conn: "amqp_Channel api c w0 = (Inr ch', w1)"
      and p1: "p1 = p\<lparr>pub_signals := pub_signals p - 1, pub_conn := Some c,
        pub_watched := pub_watched p @ [c], pub_channel := Some ch'\<rparr>" by auto
    with chan have "ch' = ch" "pub_queueName p1 = pub_queueName p" "pub_conn p1 = Some c" by simp_all
    with chan conn False show ?thesis by auto
  qed
qed

subsection \<open>The life of a publisher\<close>

text \<open>
  What can happen to a publisher: the watcher of a connection sees it closed with a reason and blocks with the signal, or sees it
  closed without one and ends; a message is pushed; the world moves on.
\<close>

inductive pub_step ::
  "('m \<Rightarrow> string result) \<Rightarrow> 'w amqp_api \<Rightarrow> publisher \<times> 'w \<Rightarrow> publisher \<times> 'w \<Rightarrow> bool"
  for marshal :: "'m \<Rightarrow> string result" and api :: "'w amqp_api" where
  closed: "c \<in> set (pub_watched p) \<Longrightarrow>
    pub_step marshal api (p, w)
      (p\<lparr>pub_watched := remove1 c (pub_watched p), pub_signals := Suc (pub_signals p)\<rparr>, w)"
| released: "c \<in> set (pub_watched p) \<Longrightarrow>
    pub_step marshal api (p, w) (p\<lparr>pub_watched := remove1 c (pub_watched p)\<rparr>, w)"
| pushed: "Push marshal api obj p w = (r, p', w') \<Longrightarrow> pub_step marshal api (p, w) (p', w')"
| elapsed: "pub_step marshal api (p, w) (p, w')"

inductive_cases pub_step_cases: "pub_step marshal api (p, w) (p', w')"

abbreviation pub_reach ::
  "('m \<Rightarrow> string result) \<Rightarrow> 'w amqp_api \<Rightarrow> publisher \<times> 'w \<Rightarrow> publisher \<times> 'w \<Rightarrow> bool" where
  "pub_reach marshal api \<equiv> (pub_step marshal api)\<^sup>*\<^sup>*"

text \<open>
  At most one watcher is around, watching or blocked, and it belongs to the connection in use; a publisher without a
  connection has none.
\<close>

definition pub_ok :: "publisher \<Rightarrow> bool" where
  "pub_ok p \<longleftrightarrow> pub_signals p + length (pub_watched p) \<le> 1 \<and>
     (\<forall>c \<in> set (pub_watched p). pub_conn p = Some c) \<and>
     (pub_conn p = None \<longrightarrow> pub_watched p = [] \<and> pub_signals p = 0)"

lemma connect_ok:
  assumes "connect api p w = (r, p', w')" and "pub_watched p = []" and "pub_signals p = 0"
  shows "pub_ok p'"
proof (rule dial_dichotomy [of api "pub_uri p" connectionRetryLimit w])
  assume "dials_fail api (pub_uri p) connectionRetryLimit w"
  from connect_exhausted [OF this] assms show ?thesis by (auto simp: pub_ok_def)
next
  fix k c w1
  assume "k < connectionRetryLimit" "dials_fail api (pub_uri p) k w"
    "amqp_Dial api (pub_uri p) (dial_world api (pub_uri p) k w) = (Inr c, w1)"
  from connect_at [OF this(2,1,3)] assms show ?thesis
    by (auto simp: Let_def pub_ok_def split: prod.splits sum.splits)
qed

lemma Push_ok:
  assumes "Push marshal api obj p w = (r, p', w')" and "pub_ok p"
  shows "pub_ok p'"
proof (cases "pub_signals p = 0")
  case True
  with assms show ?thesis by (auto simp: Push_def reconnect_def split: prod.splits)
next
  case False
  with assms(2) have "pub_watched p = []" "pub_signals p = 1"
    by (cases "pub_watched p"; auto simp: pub_ok_def)+
  moreover obtain r1 w1 where "connect api (p\<lparr>pub_signals := pub_signals p - 1\<rparr>) w = (r1, p', w1)"
    using assms(1) False by (auto simp: Push_def reconnect_def split: prod.splits option.splits)
  ultimately show ?thesis using connect_ok by fastforce
qed

lemma pub_ok_watched:
  assumes "pub_ok p" and "c \<in> set (pub_watched p)"
  shows "pub_watched p = [c]" and "pub_signals p = 0" and "pub_conn p = Some c"
  using assms by (cases "pub_watched p"; auto simp: pub_ok_def)+

lemma pub_step_ok:
  assumes "pub_step marshal api (p, w) (p', w')" and "pub_ok p"
  shows "pub_ok p'"
  using assms(1)
proof (cases rule: pub_step.cases)
  case (closed c)
  with pub_ok_watched [OF assms(2) closed(3)] show ?thesis by (simp add: pub_ok_def)
next
  case (released c)
  with pub_ok_watched [OF assms(2) released(3)] show ?thesis by (simp add: pub_ok_def)
next
  case (pushed obj r)
  then show ?thesis by (rule Push_ok [OF _ assms(2)])
next
  case elapsed
  with assms(2) show ?thesis by simp
qed

lemma pub_reach_ok:
  assumes "pub_reach marshal api (p, w) (p', w')" and "pub_ok p"
  shows "pub_ok p'"
  using assms(1)
proof (induction rule: rtranclp_induct2)
  case refl
  show ?case by (rule assms(2))
next
  case (step a b a' b')
  from step(2,3) show ?case by (rule pub_step_ok)
qed

text \<open>C21. Whatever happens to a publisher after it was created, at most one goroutine watches a connection or blocks with a
  signal, and it belongs to the connection in use: no watcher piles up behind the unbuffered channel.
\<close>

theorem publisher_invariant:
  assumes "NewPublisher api uri queueName w0 = (Inr p0, w1)"
    and "pub_reach marshal api (p0, w1) (p, w)"
  shows "pub_ok p"
proof -
  from assms(1) have "pub_ok p0"
    by (auto simp: NewPublisher_def split: prod.splits option.splits elim!: connect_ok)
  with pub_reach_ok [OF assms(2)] show ?thesis by blast
qed

text \<open>A publisher without a connection never changes again: nothing signals, so no push reconnects.\<close>

lemma pub_reach_dead:
  assumes "pub_reach marshal api (p, w) (p', w')" and "pub_ok p" and "pub_conn p = None"
  shows "p' = p"
  using assms(1)
proof (induction rule: rtranclp_induct2)
  case (step a b a' b')
  with assms(2,3) have "pub_signals a = 0" "pub_watched a = []" by (auto simp: pub_ok_def)
  with step(2) have "a' = a"
    by (cases rule: pub_step_cases) (auto simp: Push_def reconnect_def split: prod.splits)
  with step(3) show ?case by simp
qed simp

text \<open>C33. A reconnection that runs into the retry limit is final: the signal is gone, the stale channel stays, and nothing that
  happens afterwards makes a push dial again.
\<close>

theorem failed_reconnect_is_final:
  assumes "NewPublisher api uri queueName w0 = (Inr p0, w1)"
    and "pub_reach marshal api (p0, w1) (p, w)" and "pub_signals p > 0"
    and "dials_fail api (pub_uri p) connectionRetryLimit w"
    and "Push marshal api obj p w = (r, p2, w2)" and "pub_reach marshal api (p2, w2) (p3, w3)"
  shows "(\<exists>err. r = Returns (Some err)) \<and> p3 = p2 \<and> pub_channel p3 = pub_channel p \<and> pub_signals p3 = 0"
proof -
  from assms(1) have "pub_ok p0"
    by (auto simp: NewPublisher_def split: prod.splits option.splits elim!: connect_ok)
  with pub_reach_ok [OF assms(2)] have ok: "pub_ok p" by blast
  with assms(3) have signals: "pub_signals p = 1" by (auto simp: pub_ok_def)
  have "dials_fail api (pub_uri (p\<lparr>pub_signals := 0\<rparr>)) connectionRetryLimit w" using assms(4) by simp
  from connect_exhausted [OF this] assms(5) signals
  have "\<exists>err. r = Returns (Some err)" and p2: "p2 = p\<lparr>pub_signals := 0, pub_conn := None\<rparr>"
    by (auto simp: Push_def reconnect_def split: prod.splits option.splits)
  moreover have "p3 = p2"
    using pub_reach_dead [OF assms(6) Push_ok [OF assms(5) ok]] p2 by simp
  ultimately show ?thesis by simp
qed

subsection \<open>Witnesses\<close>

text \<open>A broker that can be dialled once; the world counts the attempts.\<close>

definition once_api :: "nat amqp_api" where
  "once_api = \<lparr>amqp_Dial = \<lambda>_ w. (if w = 0 then Inr 7 else Inl (ErrText ''refused''), Suc w),
     amqp_Tick = \<lambda>w. w, amqp_Channel = \<lambda>c w. (Inr (c + 1), w),
     amqp_QueueDeclare = \<lambda>_ q _ w. (Inr q, w), amqp_Publish = \<lambda>_ _ _ w. (None, w),
     amqp_Close = \<lambda>_ w. (None, w)\<rparr>"

definition once_publisher :: publisher where
  "once_publisher = \<lparr>pub_uri = ''amqp://mq'', pub_queueName = ''q'', pub_conn = Some 7,
     pub_channel = Some 8, pub_watched = [7], pub_signals = 0\<rparr>"

definition signalled :: publisher where
  "signalled = once_publisher\<lparr>pub_watched := [], pub_signals := 1\<rparr>"

lemma once_new: "NewPublisher once_api ''amqp://mq'' ''q'' 0 = (Inr once_publisher, 1)"
  by (simp add: NewPublisher_def connect_def connect_from.simps connectionRetryLimit_def once_api_def
      once_publisher_def Let_def)

lemma once_signalled: "pub_reach (\<lambda>m. Inr m) once_api (once_publisher, 1) (signalled, 1)"
  using pub_step.closed [of 7 once_publisher "\<lambda>m. Inr m" once_api 1]
  by (auto simp: once_publisher_def signalled_def)

lemma once_refuses: "dials_fail once_api (pub_uri signalled) connectionRetryLimit 1"
proof -
  have "dial_world once_api u i 1 = Suc i" for u i
    by (induction i) (simp_all add: once_api_def)
  then show ?thesis by (simp add: dials_fail_def once_api_def)
qed

theorem Push_success_witness:
  "\<exists>q. amqp_Publish once_api 8 q
     \<lparr>msg_Exchange = '''', msg_Mandatory = True, msg_Immediate = False, msg_ContentType = ''application/json'', msg_Body = ''m''\<rparr> 1 = (None, 1)"
proof -
  have "Push (\<lambda>m. Inr m) once_api ''m'' once_publisher 1 = (Returns None, once_publisher, 1)"
    by (simp add: Push_def reconnect_def publish_def once_api_def once_publisher_def)
  from Push_success [OF this] show ?thesis by (auto simp: once_publisher_def once_api_def)
qed

theorem publisher_invariant_witness: "pub_ok signalled"
  by (rule publisher_invariant [OF once_new once_signalled])

theorem failed_reconnect_is_final_witness:
  "\<exists>err. fst (Push (\<lambda>m. Inr m) once_api ''m'' signalled 1) = Returns (Some err)"
proof -
  obtain r p2 w2 where push: "Push (\<lambda>m. Inr m) once_api ''m'' signalled 1 = (r, p2, w2)"
    by (metis prod_cases3)
  have "pub_signals signalled > 0" by (simp add: signalled_def)
  from failed_reconnect_is_final [OF once_new once_signalled this once_refuses push rtranclp.rtrancl_refl] push
  show ?thesis by simp
qed

end
