(* ===== verification/Forge_IO.thy ===== *)
theory Forge_IO
  imports Forge_Prelude
begin

section \<open>Fallible computations over a state\<close>

text \<open>
  The builder is a sequence of calls each of which may fail and changes the client and the world. A
  computation takes the state and returns a result and the new state; \<open>io_bind\<close> is \<^verbatim>\<open>x, err := f(); if err != nil { return err }\<close>
  followed by the rest of the body, and \<open>io_wrap\<close> puts a message around the error of a computation.
\<close>

type_synonym ('s, 'a) io = "'s \<Rightarrow> 'a result \<times> 's"

definition io_return :: "'a \<Rightarrow> ('s, 'a) io" where
  "io_return x s = (Inr x, s)"

definition io_fail :: "go_error \<Rightarrow> ('s, 'a) io" where
  "io_fail e s = (Inl e, s)"

definition io_of :: "'a result \<Rightarrow> ('s, 'a) io" where
  "io_of r s = (r, s)"

definition io_bind :: "('s, 'a) io \<Rightarrow> ('a \<Rightarrow> ('s, 'b) io) \<Rightarrow> ('s, 'b) io" where
  "io_bind f g s = (case f s of (Inl e, s1) \<Rightarrow> (Inl e, s1) | (Inr x, s1) \<Rightarrow> g x s1)"

definition io_wrap :: "string \<Rightarrow> ('s, 'a) io \<Rightarrow> ('s, 'a) io" where
  "io_wrap m f s = (case f s of (Inl e, s1) \<Rightarrow> (Inl (errors_Wrap e m), s1) | (Inr x, s1) \<Rightarrow> (Inr x, s1))"

text \<open>A deferred action that runs on every path and cannot change the result.\<close>

definition io_finally :: "('s, 'a) io \<Rightarrow> ('s \<Rightarrow> 's) \<Rightarrow> ('s, 'a) io" where
  "io_finally f d s = (case f s of (r, s1) \<Rightarrow> (r, d s1))"

text \<open>A call that returns an error only.\<close>

definition io_err :: "('s \<Rightarrow> go_error option \<times> 's) \<Rightarrow> ('s, unit) io" where
  "io_err f s = (case f s of (Some e, s1) \<Rightarrow> (Inl e, s1) | (None, s1) \<Rightarrow> (Inr (), s1))"

text \<open>A call that changes the second part of a state.\<close>

definition on_world :: "('w \<Rightarrow> 'a \<times> 'w) \<Rightarrow> 'c \<times> 'w \<Rightarrow> 'a \<times> 'c \<times> 'w" where
  "on_world f cw = (case f (snd cw) of (r, w1) \<Rightarrow> (r, fst cw, w1))"

subsection \<open>Laws\<close>

lemma io_bind_return [simp]: "io_bind f io_return = f"
  by (rule ext) (auto simp: io_bind_def io_return_def split: prod.splits sum.splits)

lemma io_return_bind [simp]: "io_bind (io_return x) g = g x"
  by (rule ext) (simp add: io_bind_def io_return_def)

lemma io_bind_assoc: "io_bind (io_bind f g) h = io_bind f (\<lambda>x. io_bind (g x) h)"
  by (rule ext) (simp add: io_bind_def split: prod.splits sum.splits)

lemma io_bind_Inr:
  "io_bind f g s = (Inr y, s') \<longleftrightarrow> (\<exists>x s1. f s = (Inr x, s1) \<and> g x s1 = (Inr y, s'))"
  by (auto simp: io_bind_def split: prod.splits sum.splits)

lemma io_bind_cases:
  assumes "io_bind f g s = (r, s')"
  obtains (fails) e where "f s = (Inl e, s')" "r = Inl e"
  | (goes_on) x s1 where "f s = (Inr x, s1)" "g x s1 = (r, s')"
  using assms by (auto simp: io_bind_def split: prod.splits sum.splits)

lemma io_wrap_Inr [simp]: "io_wrap m f s = (Inr y, s') \<longleftrightarrow> f s = (Inr y, s')"
  by (auto simp: io_wrap_def split: prod.splits sum.splits)

lemma io_wrap_state: "snd (io_wrap m f s) = snd (f s)"
  by (auto simp: io_wrap_def split: prod.splits sum.splits)

lemma io_err_Inr [simp]: "io_err f s = (Inr y, s') \<longleftrightarrow> f s = (None, s')"
  by (auto simp: io_err_def split: prod.splits option.splits)

lemma io_err_state: "snd (io_err f s) = snd (f s)"
  by (auto simp: io_err_def split: prod.splits option.splits)

lemma io_simple [simp]:
  "io_return x s = (r, s') \<longleftrightarrow> r = Inr x \<and> s' = s"
  "io_fail e s = (r, s') \<longleftrightarrow> r = Inl e \<and> s' = s"
  "io_of q s = (r, s') \<longleftrightarrow> r = q \<and> s' = s"
  by (auto simp: io_return_def io_fail_def io_of_def)

lemma on_world_eq [simp]: "on_world f (c, w) = (r, c', w') \<longleftrightarrow> f w = (r, w') \<and> c' = c"
  by (auto simp: on_world_def split: prod.splits)

subsection \<open>Relations that computations keep to\<close>

text \<open>
  \<open>io_keeps R f\<close>: whatever \<open>f\<close> returns, the states before and after it are related. For a preorder this is closed under
  sequencing, so a property of every call a body makes is a property of the body.
\<close>

definition io_keeps :: "('s \<Rightarrow> 's \<Rightarrow> bool) \<Rightarrow> ('s, 'a) io \<Rightarrow> bool" where
  "io_keeps R f \<longleftrightarrow> (\<forall>s. R s (snd (f s)))"

named_theorems io_keeps_intros \<open>rules for io_keeps\<close>

lemma io_keepsD: "io_keeps R f \<Longrightarrow> f s = (r, s') \<Longrightarrow> R s s'"
  by (metis io_keeps_def snd_conv)

lemma io_keeps_pure [io_keeps_intros]:
  assumes "reflp R"
  shows "io_keeps R (io_return x)" "io_keeps R (io_fail e)" "io_keeps R (io_of q)"
  using assms by (auto simp: io_keeps_def io_return_def io_fail_def io_of_def dest: reflpD)

lemma io_keeps_bind [io_keeps_intros]:
  assumes "transp R" and "io_keeps R f" and "\<And>x. io_keeps R (g x)"
  shows "io_keeps R (io_bind f g)"
  unfolding io_keeps_def
proof
  fix s
  obtain r s' where b: "io_bind f g s = (r, s')" by fastforce
  then have "R s s'"
  proof (cases rule: io_bind_cases)
    case (fails e)
    then show ?thesis using io_keepsD [OF assms(2)] by blast
  next
    case (goes_on x s1)
    then show ?thesis using transpD [OF assms(1)] io_keepsD [OF assms(2)] io_keepsD [OF assms(3)] by blast
  qed
  then show "R s (snd (io_bind f g s))" by (simp add: b)
qed

lemma io_keeps_wrap [io_keeps_intros]: "io_keeps R f \<Longrightarrow> io_keeps R (io_wrap m f)"
  by (simp add: io_keeps_def io_wrap_state)

lemma io_keeps_if [io_keeps_intros]:
  "(b \<Longrightarrow> io_keeps R f) \<Longrightarrow> (\<not> b \<Longrightarrow> io_keeps R g) \<Longrightarrow> io_keeps R (if b then f else g)"
  by simp

lemma io_keeps_err [io_keeps_intros]: "(\<And>s. R s (snd (f s))) \<Longrightarrow> io_keeps R (io_err f)"
  by (simp add: io_keeps_def io_err_state)

end
