(* ===== verification/Forge_Bkimage.thy ===== *)
theory Forge_Bkimage
  imports Forge_IO Forge_Config
begin

section \<open>The image client\<close>

text \<open>
  \<^verbatim>\<open>internal/builder/embedded/bkimage\<close>: the client that holds BuildKit's stores, session manager and controller and the
  registry hosts of the build at hand, and its operations on images. BuildKit, containerd and the reference parser of
  Docker are fields of \<open>bk_setup\<close> and \<open>bk_env\<close>, functions over a world \<open>'w\<close>; an operation works on the pair of the
  client and the world. A parsed reference is represented by its text. The reason \<open>NotFound\<close> of an error also stands for
  containerd's \<^verbatim>\<open>errdefs.ErrNotFound\<close>. Log lines are left out.
\<close>

subsection \<open>Client and environment\<close>

type_synonym CredentialsFn = "string \<Rightarrow> (string \<times> string) result"
type_synonym TLSEnabledFn = "string \<Rightarrow> bool result"

text \<open>\<^verbatim>\<open>docker.ConfigureDefaultRegistries\<close> without options, or with an authorizer and a plain HTTP test.\<close>

datatype registry_hosts = DefaultRegistries | ConfiguredRegistries CredentialsFn TLSEnabledFn

record worker_opt =
  wo_ID :: string
  wo_Executor :: string
  wo_Backend :: string
  wo_Platforms :: "string list"

record bk_client =
  bc_backend :: string
  bc_rootDir :: string
  bc_stores :: bool
  bc_sessionManager :: bool
  bc_controller :: bool
  bc_workerOpt :: "worker_opt option"
  bc_registryHosts :: registry_hosts
  bc_hostCredentials :: CredentialsFn

text \<open>A call into a library: it may fail and changes the world.\<close>

type_synonym 'w call = "'w \<Rightarrow> go_error option \<times> 'w"

record 'w bk_setup =
  bs_OverlaySupported :: "string \<Rightarrow> 'w \<Rightarrow> go_error option"
  bs_FuseSupported :: "string \<Rightarrow> 'w \<Rightarrow> go_error option"
  bs_OpenDB :: "string \<Rightarrow> 'w call"
  bs_ContentStore :: "string \<Rightarrow> 'w call"
  bs_Snapshotter :: "string \<Rightarrow> string \<Rightarrow> 'w call"
  bs_InitDB :: "'w call"
  bs_MetadataStore :: "string \<Rightarrow> 'w call"
  bs_MountProc :: "'w call"
  bs_NetProviders :: "'w call"
  bs_Executor :: "string \<Rightarrow> bool \<Rightarrow> bool \<Rightarrow> 'w call"
  bs_WorkerID :: "string \<Rightarrow> 'w \<Rightarrow> string result \<times> 'w"
  bs_Platforms :: "string list"
  bs_ParsePlatform :: "string \<Rightarrow> string result"
  bs_NewWorker :: "worker_opt \<Rightarrow> 'w call"
  bs_AddWorker :: "worker_opt \<Rightarrow> 'w call"
  bs_CacheStore :: "string \<Rightarrow> 'w call"
  bs_NewController :: "'w call"
  bs_NewManager :: "'w call"

record store_image =
  si_Name :: string
  si_Digest :: string
  si_Annotations :: "string gomap"
  si_CreatedAt :: int

record CacheOptionsEntry =
  ce_Type :: string
  ce_Attrs :: "string gomap"

record SolveRequest =
  sr_Ref :: string
  sr_Session :: string
  sr_Frontend :: string
  sr_FrontendAttrs :: "string gomap"
  sr_Exporter :: string
  sr_ExporterAttrs :: "string gomap"
  sr_Exports :: "CacheOptionsEntry list"
  sr_Imports :: "CacheOptionsEntry list"

text \<open>
  Of the calls that use the registry hosts or the credentials, the closures they were given read the client's fields when they
  are called, so the current values are their arguments. \<open>be_eg\<close> is the order in which the goroutines of a group end.
\<close>

record 'w bk_env =
  be_setup :: "'w bk_setup"
  be_ParseNormalizedNamed :: "string \<Rightarrow> string result"
  be_TagNameOnly :: "string \<Rightarrow> string"
  be_WithTag :: "string \<Rightarrow> string \<Rightarrow> string result"
  be_NewSession :: "string \<Rightarrow> 'w \<Rightarrow> string result \<times> 'w"
  be_RunSession :: "string \<Rightarrow> CredentialsFn \<Rightarrow> 'w call"
  be_CloseSession :: "string \<Rightarrow> 'w \<Rightarrow> 'w"
  be_Get :: "string \<Rightarrow> 'w \<Rightarrow> store_image result \<times> 'w"
  be_Size :: "store_image \<Rightarrow> 'w \<Rightarrow> 64 word result \<times> 'w"
  be_Update :: "store_image \<Rightarrow> 'w call"
  be_Create :: "store_image \<Rightarrow> 'w call"
  be_Push :: "registry_hosts \<Rightarrow> string \<Rightarrow> string \<Rightarrow> string \<Rightarrow> string gomap \<Rightarrow> 'w call"
  be_Solve :: "registry_hosts \<Rightarrow> SolveRequest \<Rightarrow> 'w call"
  be_Status :: "string \<Rightarrow> 'w call"
  be_eg :: "go_error option list \<Rightarrow> go_error option list"
  be_dirs_rng :: "string gomap \<Rightarrow> string gomap"

type_synonym ('w, 'a) bk = "(bk_client \<times> 'w, 'a) io"

abbreviation bk_call :: "'w call \<Rightarrow> ('w, unit) bk" where
  "bk_call f \<equiv> io_err (on_world f)"

definition on_client :: "(bk_client \<Rightarrow> bk_client) \<Rightarrow> ('w, unit) bk" where
  "on_client f cw = (Inr (), f (fst cw), snd cw)"

subsection \<open>Goroutine groups\<close>

text \<open>
  An \<^verbatim>\<open>errgroup\<close>: all its functions run, and the group returns the first error that arrived. The effects are those
  of running the functions one after another; that the first error also cancels the context of the others is left out.
\<close>

fun run_all :: "('s \<Rightarrow> go_error option \<times> 's) list \<Rightarrow> 's \<Rightarrow> go_error option list \<times> 's" where
  "run_all [] s = ([], s)"
| "run_all (f # fs) s =
     (case f s of (e, s1) \<Rightarrow> (case run_all fs s1 of (es, s2) \<Rightarrow> (e # es, s2)))"

definition eg_Wait :: "(go_error option list \<Rightarrow> go_error option list) \<Rightarrow> go_error option list \<Rightarrow> go_error option" where
  "eg_Wait order errs = (case filter (\<lambda>e. e \<noteq> None) (order errs) of [] \<Rightarrow> None | e # _ \<Rightarrow> e)"

definition eg_run ::
  "(go_error option list \<Rightarrow> go_error option list) \<Rightarrow> ('s \<Rightarrow> go_error option \<times> 's) list \<Rightarrow> ('s, unit) io" where
  "eg_run order fs = io_err (\<lambda>s. case run_all fs s of (errs, s1) \<Rightarrow> (eg_Wait order errs, s1))"

definition as_call :: "('s, unit) io \<Rightarrow> 's \<Rightarrow> go_error option \<times> 's" where
  "as_call f s = (case f s of (Inl e, s1) \<Rightarrow> (Some e, s1) | (Inr _, s1) \<Rightarrow> (None, s1))"

subsection \<open>Registry hosts\<close>

definition ResetHostConfigurations :: "bk_client \<Rightarrow> bk_client" where
  "ResetHostConfigurations c = c\<lparr>bc_registryHosts := DefaultRegistries,
     bc_hostCredentials := (\<lambda>host. Inr ('''', ''''))\<rparr>"

definition ConfigureHosts :: "CredentialsFn \<times> TLSEnabledFn \<Rightarrow> bk_client \<Rightarrow> bk_client" where
  "ConfigureHosts fns c = c\<lparr>bc_hostCredentials := fst fns,
     bc_registryHosts := ConfiguredRegistries (fst fns) (snd fns)\<rparr>"

subsection \<open>Creation\<close>

definition autoSelect :: "'w bk_setup \<Rightarrow> string \<Rightarrow> 'w \<Rightarrow> string" where
  "autoSelect S workDir w =
     (if bs_OverlaySupported S workDir w = None then ''overlayfs''
      else if bs_FuseSupported S workDir w = None then ''fuse-overlayfs''
      else ''native'')"

definition initDataStores :: "'w bk_setup \<Rightarrow> ('w, unit) bk" where
  "initDataStores S cw =
     (let rootDir = bc_rootDir (fst cw); backend = bc_backend (fst cw) in
      io_bind (bk_call (bs_OpenDB S (filepath_Join [rootDir, ''container-metadata.db'']))) (\<lambda>_.
      io_bind (bk_call (bs_ContentStore S (filepath_Join [rootDir, ''content'']))) (\<lambda>_.
      io_bind (if backend = ''native'' \<or> backend = ''overlayfs'' \<or> backend = ''fuse-overlayfs''
               then io_wrap (''creating '' @ backend @ '' snapshotter failed'')
                      (bk_call (bs_Snapshotter S backend (filepath_Join [rootDir, ''snapshotter''])))
               else io_fail (ErrText (backend @ '' is not a valid snapshotter''))) (\<lambda>_.
      io_bind (bk_call (bs_InitDB S)) (\<lambda>_.
      on_client (\<lambda>c. c\<lparr>bc_stores := True\<rparr>))))) cw)"

definition NewClient :: "'w bk_setup \<Rightarrow> string \<Rightarrow> string \<Rightarrow> 'w \<Rightarrow> bk_client result \<times> 'w" where
  "NewClient S rootDir backend w =
     (let workDir = filepath_Join [rootDir, ''runc'', backend];
          backend = (if backend = ''auto'' then autoSelect S workDir w else backend);
          client = ResetHostConfigurations \<lparr>bc_backend = backend, bc_rootDir = rootDir, bc_stores = False,
            bc_sessionManager = False, bc_controller = False, bc_workerOpt = None,
            bc_registryHosts = DefaultRegistries, bc_hostCredentials = (\<lambda>host. Inr ('''', ''''))\<rparr>
      in case io_wrap ''initializing data stores failed'' (initDataStores S) (client, w) of
           (Inl err, _, w1) \<Rightarrow> (Inl err, w1)
         | (Inr _, c, w1) \<Rightarrow> (Inr c, w1))"

subsection \<open>Sessions\<close>

definition getSessionManager :: "'w bk_setup \<Rightarrow> ('w, unit) bk" where
  "getSessionManager S cw =
     (if bc_sessionManager (fst cw) then (Inr (), cw)
      else io_bind (io_wrap ''cannot create session manager'' (bk_call (bs_NewManager S)))
             (\<lambda>_. on_client (\<lambda>c. c\<lparr>bc_sessionManager := True\<rparr>)) cw)"

definition sessionName :: string where
  "sessionName = ''forge''"

record bk_session =
  ses_ID :: string
  ses_SyncedDirs :: "(string \<times> string) list"

definition Session :: "'w bk_env \<Rightarrow> string gomap \<Rightarrow> ('w, bk_session) bk" where
  "Session env localDirs =
     io_bind (getSessionManager (be_setup env)) (\<lambda>_.
     io_bind (io_wrap ''failed to create session'' (on_world (be_NewSession env sessionName))) (\<lambda>id1.
     io_return \<lparr>ses_ID = id1, ses_SyncedDirs = be_dirs_rng env localDirs\<rparr>))"

subsection \<open>The controller\<close>

definition getProcessMode :: "'w bk_setup \<Rightarrow> ('w, bool) bk" where
  "getProcessMode S cw =
     (case bs_MountProc S (snd cw) of (err, w1) \<Rightarrow> (Inr (err = None), fst cw, w1))"

fun parse_platforms :: "(string \<Rightarrow> string result) \<Rightarrow> string list \<Rightarrow> string list result" where
  "parse_platforms parse [] = Inr []"
| "parse_platforms parse (s # ss) =
     (case parse s of
        Inl err \<Rightarrow> Inl err
      | Inr p \<Rightarrow> (case parse_platforms parse ss of Inl err \<Rightarrow> Inl err | Inr ps \<Rightarrow> Inr (p # ps)))"

definition createWorkerOpt :: "'w bk_setup \<Rightarrow> ('w, worker_opt) bk" where
  "createWorkerOpt S cw =
     (let rootDir = bc_rootDir (fst cw); backend = bc_backend (fst cw) in
      io_bind (bk_call (bs_MetadataStore S (filepath_Join [rootDir, ''metadata.db'']))) (\<lambda>_.
      io_bind (getProcessMode S) (\<lambda>sandbox.
      io_bind (bk_call (bs_NetProviders S)) (\<lambda>_.
      io_bind (bk_call (bs_Executor S (filepath_Join [rootDir, ''executor'']) True sandbox)) (\<lambda>_.
      io_bind (on_world (bs_WorkerID S rootDir)) (\<lambda>id1.
      io_bind (io_of (parse_platforms (bs_ParsePlatform S) (bs_Platforms S))) (\<lambda>platforms.
      let opt = \<lparr>wo_ID = id1, wo_Executor = ''oci'', wo_Backend = backend, wo_Platforms = platforms\<rparr> in
      io_bind (on_client (\<lambda>c. c\<lparr>bc_workerOpt := Some opt\<rparr>)) (\<lambda>_.
      io_return opt))))))) cw)"

definition createController :: "'w bk_setup \<Rightarrow> ('w, unit) bk" where
  "createController S cw =
     (let rootDir = bc_rootDir (fst cw) in
      io_bind (io_wrap ''creating session manager failed'' (getSessionManager S)) (\<lambda>_.
      io_bind (io_wrap ''creating worker opt failed'' (createWorkerOpt S)) (\<lambda>opt.
      io_bind (io_wrap ''creating worker failed'' (bk_call (bs_NewWorker S opt))) (\<lambda>_.
      io_bind (io_wrap ''adding worker to worker controller failed'' (bk_call (bs_AddWorker S opt))) (\<lambda>_.
      io_bind (io_wrap ''creating cache store failed''
                 (bk_call (bs_CacheStore S (filepath_Join [rootDir, ''cache.db''])))) (\<lambda>_.
      io_bind (io_wrap ''creating controller failed'' (bk_call (bs_NewController S))) (\<lambda>_.
      on_client (\<lambda>c. c\<lparr>bc_controller := True\<rparr>))))))) cw)"

subsection \<open>Solving\<close>

definition solve_call :: "'w bk_env \<Rightarrow> SolveRequest \<Rightarrow> ('w, unit) bk" where
  "solve_call env req cw = bk_call (be_Solve env (bc_registryHosts (fst cw)) req) cw"

definition Solve :: "'w bk_env \<Rightarrow> SolveRequest \<Rightarrow> ('w, unit) bk" where
  "Solve env req =
     io_bind (\<lambda>cw. if bc_controller (fst cw) then (Inr (), cw) else createController (be_setup env) cw) (\<lambda>_.
     eg_run (be_eg env)
       [as_call (io_wrap ''failed to solve'' (solve_call env req)),
        on_world (be_Status env (sr_Ref req))])"

subsection \<open>Images\<close>

definition parseImageName :: "'w bk_env \<Rightarrow> string \<Rightarrow> string result" where
  "parseImageName env image1 =
     (case be_ParseNormalizedNamed env image1 of
        Inl err \<Rightarrow> Inl (errors_Wrap err (''parsing image name '' @ fmt_q image1 @ '' failed''))
      | Inr named \<Rightarrow> Inr (be_TagNameOnly env named))"

record ListedImage =
  li_Image :: store_image
  li_ContentSize :: "64 word"

definition store_Get :: "'w bk_env \<Rightarrow> string \<Rightarrow> ('w, store_image) bk" where
  "store_Get env name =
     io_wrap (''getting image '' @ fmt_q name @ '' from image store failed'') (on_world (be_Get env name))"

definition GetImage :: "'w bk_env \<Rightarrow> string \<Rightarrow> ('w, ListedImage) bk" where
  "GetImage env name1 =
     io_bind (io_of (parseImageName env name1)) (\<lambda>name.
     io_bind (store_Get env name) (\<lambda>imgObj.
     io_bind (io_wrap (''calculating image size of '' @ fmt_q name @ '' failed'') (on_world (be_Size env imgObj))) (\<lambda>size1.
     io_return \<lparr>li_Image = imgObj, li_ContentSize = size1\<rparr>)))"

definition put_image :: "'w bk_env \<Rightarrow> store_image \<Rightarrow> ('w, unit) bk" where
  "put_image env img cw =
     (case on_world (be_Update env img) cw of
        (None, cw1) \<Rightarrow> (Inr (), cw1)
      | (Some err, cw1) \<Rightarrow>
        (if \<not> is_not_found err
         then (Inl (errors_Wrap err (''updating image store with '' @ fmt_q (si_Name img) @ '' failed'')), cw1)
         else io_wrap (''creating image '' @ fmt_q (si_Name img) @ '' in image store failed'')
                (bk_call (be_Create env img)) cw1))"

definition TagImage :: "'w bk_env \<Rightarrow> string \<Rightarrow> string \<Rightarrow> ('w, unit) bk" where
  "TagImage env src1 dest1 =
     io_bind (io_of (parseImageName env src1)) (\<lambda>src.
     io_bind (io_of (parseImageName env dest1)) (\<lambda>dest.
     io_bind (store_Get env src) (\<lambda>imgObj.
     put_image env \<lparr>si_Name = dest, si_Digest = si_Digest imgObj, si_Annotations = si_Annotations imgObj,
       si_CreatedAt = si_CreatedAt imgObj\<rparr>)))"

definition push_call :: "'w bk_env \<Rightarrow> string \<Rightarrow> store_image \<Rightarrow> string \<Rightarrow> ('w, unit) bk" where
  "push_call env session imgObj name cw =
     bk_call (be_Push env (bc_registryHosts (fst cw)) session (si_Digest imgObj) name (si_Annotations imgObj)) cw"

definition PushImage :: "'w bk_env \<Rightarrow> string \<Rightarrow> string \<Rightarrow> ('w, unit) bk" where
  "PushImage env session image1 =
     io_bind (io_of (parseImageName env image1)) (\<lambda>name.
     io_bind (store_Get env name) (\<lambda>imgObj.
     io_bind (getSessionManager (be_setup env)) (\<lambda>_.
     push_call env session imgObj name)))"

end
