(* ===== verification/Forge_Plugins.thy ===== *)
theory Forge_Plugins
  imports Forge_Config
begin

section \<open>Preparer plugins\<close>

text \<open>
  \<^verbatim>\<open>plugins/preparer\<close>: a plugin is a separate process; the client side turns a call into a remote call whose reply is the error text
  of the plugin, the server side fills in that reply. The remote call itself, the walk over the directory of plugins and the
  launch of a plugin are arguments over a world \<open>'w\<close>.
\<close>

subsection \<open>Client and server\<close>

record Arguments =
  arg_ContextPath :: string
  arg_PluginData :: "string gomap"

datatype service_method = PluginPrepare | PluginCleanup

text \<open>What a plugin implements.\<close>

record 'w Preparer =
  prep_Prepare :: "string \<Rightarrow> string gomap \<Rightarrow> 'w \<Rightarrow> go_error option \<times> 'w"
  prep_Cleanup :: "'w \<Rightarrow> go_error option \<times> 'w"

text \<open>A remote call returns the reply, or the error of the transport.\<close>

type_synonym 'w rpc_call = "service_method \<Rightarrow> Arguments \<Rightarrow> 'w \<Rightarrow> string result \<times> 'w"

definition reply_error :: "string result \<Rightarrow> go_error option" where
  "reply_error reply =
     (case reply of Inl err \<Rightarrow> Some err | Inr errStr \<Rightarrow> (if errStr \<noteq> '''' then Some (ErrText errStr) else None))"

definition preparerClient_Prepare ::
  "'w rpc_call \<Rightarrow> string \<Rightarrow> string gomap \<Rightarrow> 'w \<Rightarrow> go_error option \<times> 'w" where
  "preparerClient_Prepare call contextPath pluginData w =
     (case call PluginPrepare \<lparr>arg_ContextPath = contextPath, arg_PluginData = pluginData\<rparr> w of
        (reply, w1) \<Rightarrow> (errors_Wrap_opt (reply_error reply) (''failed to prepare '' @ contextPath), w1))"

definition preparerClient_Cleanup :: "'w rpc_call \<Rightarrow> 'w \<Rightarrow> go_error option \<times> 'w" where
  "preparerClient_Cleanup call w =
     (case call PluginCleanup \<lparr>arg_ContextPath = '''', arg_PluginData = []\<rparr> w of
        (reply, w1) \<Rightarrow> (errors_Wrap_opt (reply_error reply) ''failed to cleanup'', w1))"

definition preparerClient :: "'w rpc_call \<Rightarrow> 'w Preparer" where
  "preparerClient call = \<lparr>prep_Prepare = preparerClient_Prepare call, prep_Cleanup = preparerClient_Cleanup call\<rparr>"

definition reply_text :: "go_error option \<Rightarrow> string" where
  "reply_text err = (case err of None \<Rightarrow> '''' | Some e \<Rightarrow> error_text e)"

definition preparerServer_Prepare :: "'w Preparer \<Rightarrow> Arguments \<Rightarrow> 'w \<Rightarrow> string \<times> 'w" where
  "preparerServer_Prepare p args w =
     (case prep_Prepare p (arg_ContextPath args) (arg_PluginData args) w of (err, w1) \<Rightarrow> (reply_text err, w1))"

definition preparerServer_Cleanup :: "'w Preparer \<Rightarrow> Arguments \<Rightarrow> 'w \<Rightarrow> string \<times> 'w" where
  "preparerServer_Cleanup p args w = (case prep_Cleanup p w of (err, w1) \<Rightarrow> (reply_text err, w1))"

text \<open>A call that reaches the server.\<close>

definition served :: "'w Preparer \<Rightarrow> 'w rpc_call" where
  "served p m args w =
     (case (case m of PluginPrepare \<Rightarrow> preparerServer_Prepare p args w
                    | PluginCleanup \<Rightarrow> preparerServer_Cleanup p args w) of
        (reply, w1) \<Rightarrow> (Inr reply, w1))"

subsection \<open>Loading\<close>

text \<open>
  The walk over the plugin directory: the paths in the order of the walk, each with what the walk function is given. A path
  that could not be read comes with its error.
\<close>

record walk_item =
  wi_path :: string
  wi_info :: "file_info result"

fun walk_plugins ::
  "(string \<Rightarrow> 'w \<Rightarrow> 'g result \<times> 'w) \<Rightarrow> walk_item list \<Rightarrow> 'g list \<Rightarrow> 'w \<Rightarrow>
   (go_error option \<times> 'g list) \<times> 'w" where
  "walk_plugins loader [] plugins w = ((None, plugins), w)"
| "walk_plugins loader (i # items) plugins w =
     (case wi_info i of
        Inl err \<Rightarrow> ((Some err, plugins), w)
      | Inr DirInfo \<Rightarrow> walk_plugins loader items plugins w
      | Inr FileInfo \<Rightarrow>
        (case loader (wi_path i) w of
           (Inl err, w1) \<Rightarrow> ((Some err, plugins), w1)
         | (Inr g, w1) \<Rightarrow> walk_plugins loader items (plugins @ [g]) w1))"

definition loadPlugins ::
  "(string \<Rightarrow> bool) \<Rightarrow> (string \<Rightarrow> walk_item list) \<Rightarrow> (string \<Rightarrow> 'w \<Rightarrow> 'g result \<times> 'w) \<Rightarrow> string \<Rightarrow> 'w \<Rightarrow>
   (go_error option \<times> 'g list) \<times> 'w" where
  "loadPlugins notExist walk loader path w =
     (if path = '''' then ((None, []), w)
      else if notExist path then ((None, []), w)
      else walk_plugins loader (walk path) [] w)"

subsection \<open>Plugin processes\<close>

text \<open>
  The plugin host library starts a process and connects to it (\<open>pe_Client\<close>), returns the implementation of a named plugin
  (\<open>pe_Dispense\<close>) and ends a process (\<open>pe_Kill\<close>); \<open>'c\<close> stands for its handle of a process.
\<close>

record ('c, 'w) plugin_env =
  pe_Client :: "string \<Rightarrow> 'w \<Rightarrow> 'c result \<times> 'w"
  pe_Dispense :: "'c \<Rightarrow> string \<Rightarrow> 'w \<Rightarrow> 'w Preparer result \<times> 'w"
  pe_Kill :: "'c \<Rightarrow> 'w \<Rightarrow> 'w"

record ('c, 'w) Plugin =
  plugin_client :: 'c
  plugin_Preparer :: "'w Preparer"

definition NewPreparerPlugin :: "('c, 'w) plugin_env \<Rightarrow> string \<Rightarrow> 'w \<Rightarrow> ('c, 'w) Plugin result \<times> 'w" where
  "NewPreparerPlugin env location w =
     (case pe_Client env location w of
        (Inl err, w1) \<Rightarrow> (Inl (errors_Wrap err (''rpc client create failed for '' @ fmt_q location)), w1)
      | (Inr client, w1) \<Rightarrow>
        (case pe_Dispense env client ''preparer'' w1 of
           (Inl err, w2) \<Rightarrow> (Inl (errors_Wrap err (''cannot dispense rpc client for '' @ fmt_q location)), w2)
         | (Inr raw, w2) \<Rightarrow> (Inr \<lparr>plugin_client = client, plugin_Preparer = raw\<rparr>, w2)))"

definition Plugin_Kill :: "('c, 'w) plugin_env \<Rightarrow> ('c, 'w) Plugin \<Rightarrow> 'w \<Rightarrow> 'w" where
  "Plugin_Kill env p = pe_Kill env (plugin_client p)"

definition LoadPlugins ::
  "(string \<Rightarrow> bool) \<Rightarrow> (string \<Rightarrow> walk_item list) \<Rightarrow> ('c, 'w) plugin_env \<Rightarrow> string \<Rightarrow> 'w \<Rightarrow>
   (go_error option \<times> ('c, 'w) Plugin list) \<times> 'w" where
  "LoadPlugins notExist walk env = loadPlugins notExist walk (NewPreparerPlugin env)"

text \<open>What the plugins rely on of the host library: a client that was given out is a process that is live and was not, ending it makes it no longer live, and asking it for its plugin does not change what is
  live. A client that could not be given out may have left a process behind.\<close>

locale plugin_host =
  fixes env :: "('c, 'w) plugin_env" and live :: "'w \<Rightarrow> 'c set"
  assumes client_starts: "pe_Client env location w = (Inr c, w1) \<Longrightarrow> c \<notin> live w \<and> live w1 = insert c (live w)"
    and dispense_keeps: "pe_Dispense env c n w = (r, w1) \<Longrightarrow> live w1 = live w"
    and kill_ends: "live (pe_Kill env c w) = live w - {c}"
begin

lemma new_plugin:
  "NewPreparerPlugin env location w = (Inr p, w1) \<Longrightarrow> plugin_client p \<notin> live w \<and> live w1 = insert (plugin_client p) (live w)"
  by (auto simp: NewPreparerPlugin_def split: prod.splits sum.splits dest!: client_starts dispense_keeps)

text \<open>A process that was started but cannot be asked for its plugin is left alone.\<close>

lemma new_plugin_leaks:
  assumes "pe_Client env location w = (Inr c, w1)" and "pe_Dispense env c ''preparer'' w1 = (Inl e, w2)"
  shows "\<exists>e'. NewPreparerPlugin env location w = (Inl e', w2) \<and> c \<in> live w2"
  using assms client_starts [OF assms(1)] dispense_keeps [OF assms(2)] by (simp add: NewPreparerPlugin_def)

lemma walk_live:
  "walk_plugins (NewPreparerPlugin env) items ps w = ((None, ps'), w') \<Longrightarrow> set (map plugin_client ps) \<inter> L = {} \<Longrightarrow>
   live w = L \<union> set (map plugin_client ps) \<Longrightarrow>
   set (map plugin_client ps') \<inter> L = {} \<and> live w' = L \<union> set (map plugin_client ps')"
proof (induction items arbitrary: ps w)
  case (Cons i items)
  show ?case
  proof (cases "wi_info i = Inr FileInfo")
    case True
    with Cons.prems(1) obtain p w1 where p: "NewPreparerPlugin env (wi_path i) w = (Inr p, w1)"
      and rest: "walk_plugins (NewPreparerPlugin env) items (ps @ [p]) w1 = ((None, ps'), w')"
      by (auto split: prod.splits sum.splits)
    from new_plugin [OF p] Cons.prems(2,3) show ?thesis by (intro Cons.IH [OF rest]) auto
  next
    case False
    with Cons.prems(1) have "walk_plugins (NewPreparerPlugin env) items ps w = ((None, ps'), w')"
      by (auto split: sum.splits file_info.splits)
    then show ?thesis using Cons.prems(2,3) by (rule Cons.IH)
  qed
qed simp

lemma kill_all_live: "live (foldl (\<lambda>v p. Plugin_Kill env p v) w ps) = live w - set (map plugin_client ps)"
  by (induction ps arbitrary: w) (auto simp: Plugin_Kill_def kill_ends)

lemma load_live:
  assumes "LoadPlugins notExist walk env path w = ((None, ps), w')"
  shows "set (map plugin_client ps) \<inter> live w = {} \<and> live w' = live w \<union> set (map plugin_client ps)"
  using assms walk_live [of "walk path" "[]" w ps w' "live w"]
  by (auto simp: LoadPlugins_def loadPlugins_def split: if_splits)

end

subsection \<open>Properties\<close>

lemma reply_error_text: "reply_error (Inr (reply_text err)) =
  (case err of None \<Rightarrow> None | Some e \<Rightarrow> if error_text e = '''' then None else Some (ErrText (error_text e)))"
  by (simp add: reply_error_def reply_text_def split: option.splits)

text \<open>C34. Across the process boundary a plugin's failure to prepare is reported with the plugin's own text, exactly when the plugin failed
  with a text: an error whose text is empty is lost.
\<close>

theorem remote_Prepare:
  assumes "prep_Prepare p path data w = (err, w')"
  shows "prep_Prepare (preparerClient (served p)) path data w =
    (case err of
       None \<Rightarrow> None
     | Some e \<Rightarrow> (if error_text e = '''' then None
                 else Some (errors_Wrap (ErrText (error_text e)) (''failed to prepare '' @ path))), w')"
  using assms
  by (simp add: preparerClient_def preparerClient_Prepare_def served_def preparerServer_Prepare_def
      reply_error_text split: option.splits)

lemma remote_Cleanup:
  assumes "prep_Cleanup p w = (err, w')"
  shows "prep_Cleanup (preparerClient (served p)) w =
    (case err of
       None \<Rightarrow> None
     | Some e \<Rightarrow> (if error_text e = '''' then None
                 else Some (errors_Wrap (ErrText (error_text e)) ''failed to cleanup'')), w')"
  using assms
  by (simp add: preparerClient_def preparerClient_Cleanup_def served_def preparerServer_Cleanup_def
      reply_error_text split: option.splits)

text \<open>A load that reports no error has loaded one plugin per file of the directory, in the order of the walk.\<close>

lemma walk_plugins_all:
  assumes "walk_plugins loader items plugins w = ((None, plugins'), w')"
  shows "length plugins' = length plugins + length (filter (\<lambda>i. wi_info i = Inr FileInfo) items)"
  using assms
  by (induction loader items plugins w rule: walk_plugins.induct)
    (auto split: sum.splits file_info.splits prod.splits)

lemma loadPlugins_count:
  assumes "path \<noteq> ''''" and "\<not> notExist path" and "loadPlugins notExist walk loader path w = ((None, plugins), w')"
  shows "length plugins = length (filter (\<lambda>i. wi_info i = Inr FileInfo) (walk path))"
  using assms walk_plugins_all [of loader "walk path" "[]" w plugins w'] by (simp add: loadPlugins_def)

theorem remote_Prepare_witness:
  "fst (prep_Prepare (preparerClient (served \<lparr>prep_Prepare = \<lambda>p d w. (Some (ErrText ''no disk''), w),
      prep_Cleanup = \<lambda>w. (None, w)\<rparr>)) ''/ctx'' [] ()) =
   Some (errors_Wrap (ErrText ''no disk'') ''failed to prepare /ctx'')"
  using remote_Prepare [of "\<lparr>prep_Prepare = \<lambda>p d w. (Some (ErrText ''no disk''), w), prep_Cleanup = \<lambda>w. (None, w)\<rparr>"
      "''/ctx''" "[]" "()" "Some (ErrText ''no disk'')" "()"]
  by simp


subsection \<open>A plugin host in memory\<close>

text \<open>The numbers of the live processes; a new process gets a number above all of them.\<close>

definition mem_host :: "(nat, nat list) plugin_env" where
  "mem_host = \<lparr>pe_Client = (\<lambda>location w. if location = '''' then (Inl (ErrText ''exec: no command''), w) else (Inr (Suc (sum_list w)), Suc (sum_list w) # w)),
     pe_Dispense = (\<lambda>c n w. (Inr \<lparr>prep_Prepare = (\<lambda>p d w. (None, w)), prep_Cleanup = (\<lambda>w. (None, w))\<rparr>, w)),
     pe_Kill = removeAll\<rparr>"

interpretation mem_plugins: plugin_host mem_host set
  by unfold_locales (auto simp: mem_host_def split: if_splits dest: member_le_sum_list)

end
