(* ===== verification/Forge_Filetype.thy ===== *)
theory Forge_Filetype
  imports Forge_Prelude
begin

section \<open>Detection of a file's type\<close>

text \<open>
  The vendored package \<^verbatim>\<open>github.com/h2non/filetype\<close>, by which Forge tells the type of a downloaded build context. Every
  matcher of the package is a predicate on the bytes of a buffer, and the seven maps of matchers are the tables at the end of their sections.
  The package's initialisation ranges over each map, so the order in which the matchers of one map are tried differs from run to run; it is the
  argument \<open>rng\<close>. The theorem at the end tells which buffers are given the same type in every run.
\<close>

subsection \<open>Bytes\<close>

definition buf_byte :: "string \<Rightarrow> nat \<Rightarrow> nat" where
  "buf_byte buf i = of_char (buf ! i)"

text \<open>The bytes of a buffer from an offset on; each use stands behind a check of the buffer's length.\<close>

definition bytes_at :: "string \<Rightarrow> nat \<Rightarrow> nat list \<Rightarrow> bool" where
  "bytes_at buf i bs \<longleftrightarrow> map of_char (take (length bs) (drop i buf)) = bs"

definition bytes_Index :: "string \<Rightarrow> string \<Rightarrow> nat option" where
  "bytes_Index s sub = find (\<lambda>i. take (length sub) (drop i s) = sub) [0..<length s]"

definition BigEndian_Uint32 :: "string \<Rightarrow> nat" where
  "BigEndian_Uint32 b = foldl (\<lambda>n c. 256 * n + of_char c) 0 (take 4 b)"

definition LittleEndian_Uint32 :: "string \<Rightarrow> nat" where
  "LittleEndian_Uint32 b = BigEndian_Uint32 (rev (take 4 b))"

record file_type =
  ft_Extension :: string
  ft_MIME :: string

definition newType :: "string \<Rightarrow> string \<Rightarrow> file_type" where
  "newType ext mime = \<lparr>ft_Extension = ext, ft_MIME = mime\<rparr>"

type_synonym matcher_map = "(file_type \<times> (string \<Rightarrow> bool)) list"

subsection \<open>matchers/archive.go\<close>

definition Epub :: "string \<Rightarrow> bool" where
  "Epub buf \<longleftrightarrow>
     length buf > 57 \<and> bytes_at buf 0 [0x50, 0x4B, 0x3, 0x4] \<and> bytes_at buf 30 [0x6D, 0x69, 0x6D, 0x65, 0x74, 0x79, 0x70, 0x65,
     0x61, 0x70, 0x70, 0x6C, 0x69, 0x63, 0x61, 0x74, 0x69, 0x6F, 0x6E, 0x2F, 0x65, 0x70, 0x75, 0x62, 0x2B, 0x7A, 0x69, 0x70]"

definition Zip :: "string \<Rightarrow> bool" where
  "Zip buf \<longleftrightarrow>
     length buf > 3 \<and> bytes_at buf 0 [0x50, 0x4B] \<and> (bytes_at buf 2 [0x3] \<or> bytes_at buf 2 [0x5] \<or> bytes_at buf 2 [0x7])
     \<and> (bytes_at buf 3 [0x4] \<or> bytes_at buf 3 [0x6] \<or> bytes_at buf 3 [0x8])"

definition Tar :: "string \<Rightarrow> bool" where
  "Tar buf \<longleftrightarrow>
     length buf > 261 \<and> bytes_at buf 257 [0x75, 0x73, 0x74, 0x61, 0x72]"

definition Rar :: "string \<Rightarrow> bool" where
  "Rar buf \<longleftrightarrow>
     length buf > 6 \<and> bytes_at buf 0 [0x52, 0x61, 0x72, 0x21, 0x1A, 0x7] \<and> (bytes_at buf 6 [0x0] \<or> bytes_at buf 6 [0x1])"

definition Gz :: "string \<Rightarrow> bool" where
  "Gz buf \<longleftrightarrow>
     length buf > 2 \<and> bytes_at buf 0 [0x1F, 0x8B, 0x8]"

definition Bz2 :: "string \<Rightarrow> bool" where
  "Bz2 buf \<longleftrightarrow>
     length buf > 2 \<and> bytes_at buf 0 [0x42, 0x5A, 0x68]"

definition SevenZ :: "string \<Rightarrow> bool" where
  "SevenZ buf \<longleftrightarrow>
     length buf > 5 \<and> bytes_at buf 0 [0x37, 0x7A, 0xBC, 0xAF, 0x27, 0x1C]"

definition Pdf :: "string \<Rightarrow> bool" where
  "Pdf buf \<longleftrightarrow>
     length buf > 3 \<and> bytes_at buf 0 [0x25, 0x50, 0x44, 0x46]"

definition Exe :: "string \<Rightarrow> bool" where
  "Exe buf \<longleftrightarrow>
     length buf > 1 \<and> bytes_at buf 0 [0x4D, 0x5A]"

definition Swf :: "string \<Rightarrow> bool" where
  "Swf buf \<longleftrightarrow>
     length buf > 2 \<and> (bytes_at buf 0 [0x43] \<or> bytes_at buf 0 [0x46]) \<and> bytes_at buf 1 [0x57, 0x53]"

definition Rtf :: "string \<Rightarrow> bool" where
  "Rtf buf \<longleftrightarrow>
     length buf > 4 \<and> bytes_at buf 0 [0x7B, 0x5C, 0x72, 0x74, 0x66]"

definition Nes :: "string \<Rightarrow> bool" where
  "Nes buf \<longleftrightarrow>
     length buf > 3 \<and> bytes_at buf 0 [0x4E, 0x45, 0x53, 0x1A]"

definition Crx :: "string \<Rightarrow> bool" where
  "Crx buf \<longleftrightarrow>
     length buf > 3 \<and> bytes_at buf 0 [0x43, 0x72, 0x32, 0x34]"

definition Cab :: "string \<Rightarrow> bool" where
  "Cab buf \<longleftrightarrow>
     length buf > 3 \<and> ((bytes_at buf 0 [0x4D, 0x53, 0x43, 0x46]) \<or> (bytes_at buf 0 [0x49, 0x53, 0x63, 0x28]))"

definition Eot :: "string \<Rightarrow> bool" where
  "Eot buf \<longleftrightarrow>
     length buf > 35 \<and> bytes_at buf 34 [0x4C, 0x50] \<and> ((bytes_at buf 8 [0x02, 0x0, 0x01]) \<or> (bytes_at buf 8 [0x01, 0x0, 0x0])
     \<or> (bytes_at buf 8 [0x02, 0x0, 0x02]))"

definition Ps :: "string \<Rightarrow> bool" where
  "Ps buf \<longleftrightarrow>
     length buf > 1 \<and> bytes_at buf 0 [0x25, 0x21]"

definition Xz :: "string \<Rightarrow> bool" where
  "Xz buf \<longleftrightarrow>
     length buf > 5 \<and> bytes_at buf 0 [0xFD, 0x37, 0x7A, 0x58, 0x5A, 0x0]"

definition Sqlite :: "string \<Rightarrow> bool" where
  "Sqlite buf \<longleftrightarrow>
     length buf > 3 \<and> bytes_at buf 0 [0x53, 0x51, 0x4C, 0x69]"

definition Deb :: "string \<Rightarrow> bool" where
  "Deb buf \<longleftrightarrow>
     length buf > 20 \<and> bytes_at buf 0 [0x21, 0x3C, 0x61, 0x72, 0x63, 0x68, 0x3E, 0x0A, 0x64, 0x65, 0x62, 0x69, 0x61, 0x6E, 0x2D, 0x62,
     0x69, 0x6E, 0x61, 0x72, 0x79]"

definition Ar :: "string \<Rightarrow> bool" where
  "Ar buf \<longleftrightarrow>
     length buf > 6 \<and> bytes_at buf 0 [0x21, 0x3C, 0x61, 0x72, 0x63, 0x68, 0x3E]"

definition Z_compressed :: "string \<Rightarrow> bool" where
  "Z_compressed buf \<longleftrightarrow>
     length buf > 1 \<and> ((bytes_at buf 0 [0x1F, 0xA0]) \<or> (bytes_at buf 0 [0x1F, 0x9D]))"

definition Lz :: "string \<Rightarrow> bool" where
  "Lz buf \<longleftrightarrow>
     length buf > 3 \<and> bytes_at buf 0 [0x4C, 0x5A, 0x49, 0x50]"

definition Rpm :: "string \<Rightarrow> bool" where
  "Rpm buf \<longleftrightarrow>
     length buf > 96 \<and> bytes_at buf 0 [0xED, 0xAB, 0xEE, 0xDB]"

definition Elf :: "string \<Rightarrow> bool" where
  "Elf buf \<longleftrightarrow>
     length buf > 52 \<and> bytes_at buf 0 [0x7F, 0x45, 0x4C, 0x46]"

definition Dcm :: "string \<Rightarrow> bool" where
  "Dcm buf \<longleftrightarrow>
     length buf > 131 \<and> bytes_at buf 128 [0x44, 0x49, 0x43, 0x4D]"

definition Iso :: "string \<Rightarrow> bool" where
  "Iso buf \<longleftrightarrow>
     length buf > 32773 \<and> bytes_at buf 32769 [0x43, 0x44, 0x30, 0x30, 0x31]"

definition Archive_map :: matcher_map where
  "Archive_map =
    [(newType ''epub'' ''application/epub+zip'', Epub),
     (newType ''zip'' ''application/zip'', Zip),
     (newType ''tar'' ''application/x-tar'', Tar),
     (newType ''rar'' ''application/x-rar-compressed'', Rar),
     (newType ''gz'' ''application/gzip'', Gz),
     (newType ''bz2'' ''application/x-bzip2'', Bz2),
     (newType ''7z'' ''application/x-7z-compressed'', SevenZ),
     (newType ''xz'' ''application/x-xz'', Xz),
     (newType ''pdf'' ''application/pdf'', Pdf),
     (newType ''exe'' ''application/x-msdownload'', Exe),
     (newType ''swf'' ''application/x-shockwave-flash'', Swf),
     (newType ''rtf'' ''application/rtf'', Rtf),
     (newType ''eot'' ''application/octet-stream'', Eot),
     (newType ''ps'' ''application/postscript'', Ps),
     (newType ''sqlite'' ''application/x-sqlite3'', Sqlite),
     (newType ''nes'' ''application/x-nintendo-nes-rom'', Nes),
     (newType ''crx'' ''application/x-google-chrome-extension'', Crx),
     (newType ''cab'' ''application/vnd.ms-cab-compressed'', Cab),
     (newType ''deb'' ''application/x-deb'', Deb),
     (newType ''ar'' ''application/x-unix-archive'', Ar),
     (newType ''Z'' ''application/x-compress'', Z_compressed),
     (newType ''lz'' ''application/x-lzip'', Lz),
     (newType ''rpm'' ''application/x-rpm'', Rpm),
     (newType ''elf'' ''application/x-executable'', Elf),
     (newType ''dcm'' ''application/dicom'', Dcm),
     (newType ''iso'' ''application/x-iso9660-image'', Iso)]"

subsection \<open>matchers/document.go\<close>

definition compareBytes :: "string \<Rightarrow> string \<Rightarrow> nat \<Rightarrow> bool" where
  "compareBytes slice subSlice startOffset \<longleftrightarrow>
     (if startOffset + length subSlice > length slice then False
      else take (length subSlice) (drop startOffset slice) = subSlice)"

datatype docType = TYPE_DOC | TYPE_DOCX | TYPE_XLS | TYPE_XLSX | TYPE_PPT | TYPE_PPTX | TYPE_OOXML

definition checkMSOoml :: "string \<Rightarrow> nat \<Rightarrow> docType option" where
  "checkMSOoml buf offset =
     (if compareBytes buf ''word/'' offset then Some TYPE_DOCX
      else if compareBytes buf ''ppt/'' offset then Some TYPE_PPTX
      else if compareBytes buf ''xl/'' offset then Some TYPE_XLSX
      else None)"

definition zip_signature :: string where
  "zip_signature = [CHR ''P'', CHR ''K'', CHR 0x03, CHR 0x04]"

definition search :: "string \<Rightarrow> nat \<Rightarrow> nat \<Rightarrow> nat option" where
  "search buf start rangeNum =
     (let end = min (start + rangeNum) (length buf) in
      if start \<ge> end then None else bytes_Index (take (end - start) (drop start buf)) zip_signature)"

text \<open>The offset of the second local file header is computed in 32 bits.\<close>

definition msooxml :: "string \<Rightarrow> docType option" where
  "msooxml buf =
     (if \<not> compareBytes buf zip_signature 0 then None
      else case checkMSOoml buf 0x1E of
        Some v \<Rightarrow> Some v
      | None \<Rightarrow>
        if \<not> compareBytes buf ''[Content_Types].xml'' 0x1E \<and> \<not> compareBytes buf ''_rels/.rels'' 0x1E \<and>
           \<not> compareBytes buf ''docProps'' 0x1E then None
        else
          (let startOffset = (LittleEndian_Uint32 (drop 18 buf) + 49) mod 2 ^ 32 in
           case search buf startOffset 6000 of
             None \<Rightarrow> None
           | Some idx \<Rightarrow>
             (let startOffset = startOffset + idx + 4 + 26 in
              case search buf startOffset 6000 of
                None \<Rightarrow> None
              | Some idx \<Rightarrow>
                (let startOffset = startOffset + idx + 4 + 26 in
                 case checkMSOoml buf startOffset of
                   Some typ \<Rightarrow> Some typ
                 | None \<Rightarrow>
                   (let startOffset = startOffset + 26 in
                    case search buf startOffset 6000 of
                      None \<Rightarrow> Some TYPE_OOXML
                    | Some idx \<Rightarrow>
                      (case checkMSOoml buf (startOffset + idx + 4 + 26) of
                         Some typ \<Rightarrow> Some typ | None \<Rightarrow> Some TYPE_OOXML))))))"

definition Doc :: "string \<Rightarrow> bool" where
  "Doc buf \<longleftrightarrow>
     length buf > 7 \<and> bytes_at buf 0 [0xD0, 0xCF, 0x11, 0xE0, 0xA1, 0xB1, 0x1A, 0xE1]"

definition Docx :: "string \<Rightarrow> bool" where
  "Docx buf \<longleftrightarrow> msooxml buf = Some TYPE_DOCX"

definition Xls :: "string \<Rightarrow> bool" where
  "Xls buf \<longleftrightarrow>
     length buf > 7 \<and> bytes_at buf 0 [0xD0, 0xCF, 0x11, 0xE0, 0xA1, 0xB1, 0x1A, 0xE1]"

definition Xlsx :: "string \<Rightarrow> bool" where
  "Xlsx buf \<longleftrightarrow> msooxml buf = Some TYPE_XLSX"

definition Ppt :: "string \<Rightarrow> bool" where
  "Ppt buf \<longleftrightarrow>
     length buf > 7 \<and> bytes_at buf 0 [0xD0, 0xCF, 0x11, 0xE0, 0xA1, 0xB1, 0x1A, 0xE1]"

definition Pptx :: "string \<Rightarrow> bool" where
  "Pptx buf \<longleftrightarrow> msooxml buf = Some TYPE_PPTX"

definition Document_map :: matcher_map where
  "Document_map =
    [(newType ''doc'' ''application/msword'', Doc),
     (newType ''docx'' ''application/vnd.openxmlformats-officedocument.wordprocessingml.document'', Docx),
     (newType ''xls'' ''application/vnd.ms-excel'', Xls),
     (newType ''xlsx'' ''application/vnd.openxmlformats-officedocument.spreadsheetml.sheet'', Xlsx),
     (newType ''ppt'' ''application/vnd.ms-powerpoint'', Ppt),
     (newType ''pptx'' ''application/vnd.openxmlformats-officedocument.presentationml.presentation'', Pptx)]"

subsection \<open>matchers/font.go\<close>

definition Woff :: "string \<Rightarrow> bool" where
  "Woff buf \<longleftrightarrow>
     length buf > 7 \<and> bytes_at buf 0 [0x77, 0x4F, 0x46, 0x46, 0x0, 0x01, 0x0, 0x0]"

definition Woff2 :: "string \<Rightarrow> bool" where
  "Woff2 buf \<longleftrightarrow>
     length buf > 7 \<and> bytes_at buf 0 [0x77, 0x4F, 0x46, 0x32, 0x0, 0x01, 0x0, 0x0]"

definition Ttf :: "string \<Rightarrow> bool" where
  "Ttf buf \<longleftrightarrow>
     length buf > 4 \<and> bytes_at buf 0 [0x0, 0x01, 0x0, 0x0, 0x0]"

definition Otf :: "string \<Rightarrow> bool" where
  "Otf buf \<longleftrightarrow>
     length buf > 4 \<and> bytes_at buf 0 [0x4F, 0x54, 0x54, 0x4F, 0x0]"

definition Font_map :: matcher_map where
  "Font_map =
    [(newType ''woff'' ''application/font-woff'', Woff),
     (newType ''woff2'' ''application/font-woff'', Woff2),
     (newType ''ttf'' ''application/font-sfnt'', Ttf),
     (newType ''otf'' ''application/font-sfnt'', Otf)]"

subsection \<open>matchers/audio.go\<close>

definition Midi :: "string \<Rightarrow> bool" where
  "Midi buf \<longleftrightarrow>
     length buf > 3 \<and> bytes_at buf 0 [0x4D, 0x54, 0x68, 0x64]"

definition Mp3 :: "string \<Rightarrow> bool" where
  "Mp3 buf \<longleftrightarrow>
     length buf > 2 \<and> ((bytes_at buf 0 [0x49, 0x44, 0x33]) \<or> (bytes_at buf 0 [0xFF, 0xfb]))"

definition M4a :: "string \<Rightarrow> bool" where
  "M4a buf \<longleftrightarrow>
     length buf > 10 \<and> ((bytes_at buf 4 [0x66, 0x74, 0x79, 0x70, 0x4D, 0x34, 0x41]) \<or> (bytes_at buf 0 [0x4D, 0x34, 0x41, 0x20]))"

definition Ogg :: "string \<Rightarrow> bool" where
  "Ogg buf \<longleftrightarrow>
     length buf > 3 \<and> bytes_at buf 0 [0x4F, 0x67, 0x67, 0x53]"

definition Flac :: "string \<Rightarrow> bool" where
  "Flac buf \<longleftrightarrow>
     length buf > 3 \<and> bytes_at buf 0 [0x66, 0x4C, 0x61, 0x43]"

definition Wav :: "string \<Rightarrow> bool" where
  "Wav buf \<longleftrightarrow>
     length buf > 11 \<and> bytes_at buf 0 [0x52, 0x49, 0x46, 0x46] \<and> bytes_at buf 8 [0x57, 0x41, 0x56, 0x45]"

definition Amr :: "string \<Rightarrow> bool" where
  "Amr buf \<longleftrightarrow>
     length buf > 11 \<and> bytes_at buf 0 [0x23, 0x21, 0x41, 0x4D, 0x52, 0x0A]"

definition Aac :: "string \<Rightarrow> bool" where
  "Aac buf \<longleftrightarrow>
     length buf > 1 \<and> ((bytes_at buf 0 [0xFF, 0xF1]) \<or> (bytes_at buf 0 [0xFF, 0xF9]))"

definition Audio_map :: matcher_map where
  "Audio_map =
    [(newType ''mid'' ''audio/midi'', Midi),
     (newType ''mp3'' ''audio/mpeg'', Mp3),
     (newType ''m4a'' ''audio/m4a'', M4a),
     (newType ''ogg'' ''audio/ogg'', Ogg),
     (newType ''flac'' ''audio/x-flac'', Flac),
     (newType ''wav'' ''audio/x-wav'', Wav),
     (newType ''amr'' ''audio/amr'', Amr),
     (newType ''aac'' ''audio/aac'', Aac)]"

subsection \<open>matchers/video.go\<close>

definition containsMatroskaSignature :: "string \<Rightarrow> string \<Rightarrow> bool" where
  "containsMatroskaSignature buf subType \<longleftrightarrow>
     (case bytes_Index (take (min 4096 (length buf)) buf) subType of
        None \<Rightarrow> False
      | Some index \<Rightarrow> \<not> index < 3 \<and> buf_byte buf (index - 3) = 0x42 \<and> buf_byte buf (index - 2) = 0x82)"

definition M4v :: "string \<Rightarrow> bool" where
  "M4v buf \<longleftrightarrow>
     length buf > 10 \<and> bytes_at buf 4 [0x66, 0x74, 0x79, 0x70, 0x4D, 0x34, 0x56]"

definition Mkv :: "string \<Rightarrow> bool" where
  "Mkv buf \<longleftrightarrow>
     length buf > 3 \<and> bytes_at buf 0 [0x1A, 0x45, 0xDF, 0xA3] \<and> containsMatroskaSignature buf ''matroska''"

definition Webm :: "string \<Rightarrow> bool" where
  "Webm buf \<longleftrightarrow>
     length buf > 3 \<and> bytes_at buf 0 [0x1A, 0x45, 0xDF, 0xA3] \<and> containsMatroskaSignature buf ''webm''"

definition Mov :: "string \<Rightarrow> bool" where
  "Mov buf \<longleftrightarrow>
     length buf > 15 \<and> ((bytes_at buf 0 [0x0, 0x0, 0x0, 0x14, 0x66, 0x74, 0x79, 0x70]) \<or> (bytes_at buf 4 [0x6d, 0x6f, 0x6f, 0x76])
     \<or> (bytes_at buf 4 [0x6d, 0x64, 0x61, 0x74]) \<or> (bytes_at buf 12 [0x6d, 0x64, 0x61, 0x74]))"

definition Avi :: "string \<Rightarrow> bool" where
  "Avi buf \<longleftrightarrow>
     length buf > 10 \<and> bytes_at buf 0 [0x52, 0x49, 0x46, 0x46] \<and> bytes_at buf 8 [0x41, 0x56, 0x49]"

definition Wmv :: "string \<Rightarrow> bool" where
  "Wmv buf \<longleftrightarrow>
     length buf > 9 \<and> bytes_at buf 0 [0x30, 0x26, 0xB2, 0x75, 0x8E, 0x66, 0xCF, 0x11, 0xA6, 0xD9]"

definition Mpeg :: "string \<Rightarrow> bool" where
  "Mpeg buf \<longleftrightarrow>
     length buf > 3 \<and> bytes_at buf 0 [0x0, 0x0, 0x1] \<and> buf_byte buf 3 \<ge> 0xb0 \<and> buf_byte buf 3 \<le> 0xbf"

definition Flv :: "string \<Rightarrow> bool" where
  "Flv buf \<longleftrightarrow>
     length buf > 3 \<and> bytes_at buf 0 [0x46, 0x4C, 0x56, 0x01]"

definition Mp4 :: "string \<Rightarrow> bool" where
  "Mp4 buf \<longleftrightarrow>
     length buf > 11 \<and> (bytes_at buf 4 [0x66, 0x74, 0x79, 0x70]) \<and> ((bytes_at buf 8 [0x61, 0x76, 0x63, 0x31]) \<or> (bytes_at buf
     8 [0x64, 0x61, 0x73, 0x68]) \<or> (bytes_at buf 8 [0x69, 0x73, 0x6f, 0x32]) \<or> (bytes_at buf 8 [0x69, 0x73, 0x6f, 0x33]) \<or>
     (bytes_at buf 8 [0x69, 0x73, 0x6f, 0x34]) \<or> (bytes_at buf 8 [0x69, 0x73, 0x6f, 0x35]) \<or> (bytes_at buf 8 [0x69, 0x73, 0x6f,
     0x36]) \<or> (bytes_at buf 8 [0x69, 0x73, 0x6f, 0x6d]) \<or> (bytes_at buf 8 [0x6d, 0x6d, 0x70, 0x34]) \<or> (bytes_at buf 8 [0x6d,
     0x70, 0x34, 0x31]) \<or> (bytes_at buf 8 [0x6d, 0x70, 0x34, 0x32]) \<or> (bytes_at buf 8 [0x6d, 0x70, 0x34, 0x76]) \<or> (bytes_at buf
     8 [0x6d, 0x70, 0x37, 0x31]) \<or> (bytes_at buf 8 [0x4d, 0x53, 0x4e, 0x56]) \<or> (bytes_at buf 8 [0x4e, 0x44, 0x41, 0x53]) \<or>
     (bytes_at buf 8 [0x4e, 0x44, 0x53, 0x43]) \<or> (bytes_at buf 8 [0x4e, 0x53, 0x44, 0x43]) \<or> (bytes_at buf 8 [0x4e, 0x44, 0x53,
     0x48]) \<or> (bytes_at buf 8 [0x4e, 0x44, 0x53, 0x4d]) \<or> (bytes_at buf 8 [0x4e, 0x44, 0x53, 0x50]) \<or> (bytes_at buf 8 [0x4e,
     0x44, 0x53, 0x53]) \<or> (bytes_at buf 8 [0x4e, 0x44, 0x58, 0x43]) \<or> (bytes_at buf 8 [0x4e, 0x44, 0x58, 0x48]) \<or> (bytes_at buf
     8 [0x4e, 0x44, 0x58, 0x4d]) \<or> (bytes_at buf 8 [0x4e, 0x44, 0x58, 0x50]) \<or> (bytes_at buf 8 [0x4e, 0x44, 0x58, 0x53]) \<or>
     (bytes_at buf 8 [0x46, 0x34, 0x56, 0x20]) \<or> (bytes_at buf 8 [0x46, 0x34, 0x50, 0x20]))"

definition Match3gp :: "string \<Rightarrow> bool" where
  "Match3gp buf \<longleftrightarrow>
     length buf > 10 \<and> bytes_at buf 4 [0x66, 0x74, 0x79, 0x70, 0x33, 0x67, 0x70]"

definition Video_map :: matcher_map where
  "Video_map =
    [(newType ''mp4'' ''video/mp4'', Mp4),
     (newType ''m4v'' ''video/x-m4v'', M4v),
     (newType ''mkv'' ''video/x-matroska'', Mkv),
     (newType ''webm'' ''video/webm'', Webm),
     (newType ''mov'' ''video/quicktime'', Mov),
     (newType ''avi'' ''video/x-msvideo'', Avi),
     (newType ''wmv'' ''video/x-ms-wmv'', Wmv),
     (newType ''mpg'' ''video/mpeg'', Mpeg),
     (newType ''flv'' ''video/x-flv'', Flv),
     (newType ''3gp'' ''video/3gpp'', Match3gp)]"

subsection \<open>matchers/image.go\<close>

definition IsISOBMFF :: "string \<Rightarrow> bool" where
  "IsISOBMFF buf \<longleftrightarrow>
     (if length buf < 16 \<or> take 4 (drop 4 buf) \<noteq> ''ftyp'' then False
      else \<not> length buf < BigEndian_Uint32 buf)"

function compatible_brands :: "string \<Rightarrow> nat \<Rightarrow> nat \<Rightarrow> string list" where
  "compatible_brands buf i ftypLength =
     (if i < ftypLength
      then (if length buf \<ge> i + 4 then [take 4 (drop i buf)] else []) @ compatible_brands buf (i + 4) ftypLength
      else [])"
  by pat_completeness auto
termination
  by (relation "measure (\<lambda>(buf, i, n). n - i)") auto

definition GetFtyp :: "string \<Rightarrow> string \<times> string \<times> string list" where
  "GetFtyp buf =
     (if length buf < 17 then ('''', '''', [''''])
      else (take 4 (drop 8 buf), take 4 (drop 12 buf), compatible_brands buf 16 (BigEndian_Uint32 buf)))"

definition Jpeg :: "string \<Rightarrow> bool" where
  "Jpeg buf \<longleftrightarrow>
     length buf > 2 \<and> bytes_at buf 0 [0xFF, 0xD8, 0xFF]"

definition Jpeg2000 :: "string \<Rightarrow> bool" where
  "Jpeg2000 buf \<longleftrightarrow>
     length buf > 12 \<and> bytes_at buf 0 [0x0, 0x0, 0x0, 0xC, 0x6A, 0x50, 0x20, 0x20, 0xD, 0xA, 0x87, 0xA, 0x0]"

definition Png :: "string \<Rightarrow> bool" where
  "Png buf \<longleftrightarrow>
     length buf > 3 \<and> bytes_at buf 0 [0x89, 0x50, 0x4E, 0x47]"

definition Gif :: "string \<Rightarrow> bool" where
  "Gif buf \<longleftrightarrow>
     length buf > 2 \<and> bytes_at buf 0 [0x47, 0x49, 0x46]"

definition Webp :: "string \<Rightarrow> bool" where
  "Webp buf \<longleftrightarrow>
     length buf > 11 \<and> bytes_at buf 8 [0x57, 0x45, 0x42, 0x50]"

definition CR2 :: "string \<Rightarrow> bool" where
  "CR2 buf \<longleftrightarrow>
     length buf > 9 \<and> ((bytes_at buf 0 [0x49, 0x49, 0x2A, 0x0]) \<or> (bytes_at buf 0 [0x4D, 0x4D, 0x0, 0x2A])) \<and> bytes_at buf 8
     [0x43, 0x52]"

definition Tiff :: "string \<Rightarrow> bool" where
  "Tiff buf \<longleftrightarrow>
     length buf > 9 \<and> ((bytes_at buf 0 [0x49, 0x49, 0x2A, 0x0]) \<or> (bytes_at buf 0 [0x4D, 0x4D, 0x0, 0x2A])) \<and> buf_byte buf 8
     \<noteq> 0x43 \<and> buf_byte buf 9 \<noteq> 0x52"

definition Bmp :: "string \<Rightarrow> bool" where
  "Bmp buf \<longleftrightarrow>
     length buf > 1 \<and> bytes_at buf 0 [0x42, 0x4D]"

definition Jxr :: "string \<Rightarrow> bool" where
  "Jxr buf \<longleftrightarrow>
     length buf > 2 \<and> bytes_at buf 0 [0x49, 0x49, 0xBC]"

definition Psd :: "string \<Rightarrow> bool" where
  "Psd buf \<longleftrightarrow>
     length buf > 3 \<and> bytes_at buf 0 [0x38, 0x42, 0x50, 0x53]"

definition Ico :: "string \<Rightarrow> bool" where
  "Ico buf \<longleftrightarrow>
     length buf > 3 \<and> bytes_at buf 0 [0x0, 0x0, 0x01, 0x0]"

definition Heif :: "string \<Rightarrow> bool" where
  "Heif buf \<longleftrightarrow>
     (if \<not> IsISOBMFF buf then False
      else case GetFtyp buf of
        (majorBrand, _, brands) \<Rightarrow>
          if majorBrand = ''heic'' then True
          else (majorBrand = ''mif1'' \<or> majorBrand = ''msf1'') \<and> ''heic'' \<in> set brands)"

definition Dwg :: "string \<Rightarrow> bool" where
  "Dwg buf \<longleftrightarrow>
     length buf > 3 \<and> bytes_at buf 0 [0x41, 0x43, 0x31, 0x30]"

definition Image_map :: matcher_map where
  "Image_map =
    [(newType ''jpg'' ''image/jpeg'', Jpeg),
     (newType ''jp2'' ''image/jp2'', Jpeg2000),
     (newType ''png'' ''image/png'', Png),
     (newType ''gif'' ''image/gif'', Gif),
     (newType ''webp'' ''image/webp'', Webp),
     (newType ''cr2'' ''image/x-canon-cr2'', CR2),
     (newType ''tif'' ''image/tiff'', Tiff),
     (newType ''bmp'' ''image/bmp'', Bmp),
     (newType ''jxr'' ''image/vnd.ms-photo'', Jxr),
     (newType ''psd'' ''image/vnd.adobe.photoshop'', Psd),
     (newType ''ico'' ''image/x-icon'', Ico),
     (newType ''heif'' ''image/heif'', Heif),
     (newType ''dwg'' ''image/vnd.dwg'', Dwg)]"

subsection \<open>matchers/application.go\<close>

definition Wasm :: "string \<Rightarrow> bool" where
  "Wasm buf \<longleftrightarrow>
     length buf \<ge> 8 \<and> bytes_at buf 0 [0x0, 0x61, 0x73, 0x6D, 0x01, 0x0, 0x0, 0x0]"

definition Application_map :: matcher_map where
  "Application_map =
    [(newType ''wasm'' ''application/wasm'', Wasm)]"

subsection \<open>The registered matchers\<close>

definition Unknown :: file_type where
  "Unknown = newType ''unknown'' ''''"

definition NewMatcher :: "matcher_map \<Rightarrow> file_type \<times> (string \<Rightarrow> bool) \<Rightarrow> matcher_map" where
  "NewMatcher keys matcher = matcher # keys"

definition register :: "(matcher_map \<Rightarrow> matcher_map) \<Rightarrow> matcher_map list \<Rightarrow> matcher_map" where
  "register rng matchers = foldl (\<lambda>keys m. foldl NewMatcher keys (rng m)) [] matchers"

definition all_maps :: "matcher_map list" where
  "all_maps = [Archive_map, Document_map, Font_map, Audio_map, Video_map, Image_map, Application_map]"

definition MatcherKeys :: "(matcher_map \<Rightarrow> matcher_map) \<Rightarrow> matcher_map" where
  "MatcherKeys rng = register rng all_maps"

definition ErrEmptyBuffer :: go_error where
  "ErrEmptyBuffer = ErrText ''Empty buffer''"

definition filetype_Match :: "(matcher_map \<Rightarrow> matcher_map) \<Rightarrow> string \<Rightarrow> file_type result" where
  "filetype_Match rng buf =
     (if length buf = 0 then Inl ErrEmptyBuffer
      else case find (\<lambda>(kind, fn). fn buf \<and> kind \<noteq> Unknown \<and> ft_Extension kind \<noteq> '''') (MatcherKeys rng) of
        Some (kind, fn) \<Rightarrow> Inr kind
      | None \<Rightarrow> Inr Unknown)"

subsection \<open>Which types are certain\<close>

text \<open>The last registered maps come first; within a map the order is open.\<close>

lemma foldl_NewMatcher: "foldl NewMatcher keys xs = rev xs @ keys"
  by (induction xs arbitrary: keys) (simp_all add: NewMatcher_def)

lemma register_rev: "register rng ms = concat (map (\<lambda>m. rev (rng m)) (rev ms))"
proof -
  have "foldl (\<lambda>keys m. foldl NewMatcher keys (rng m)) keys ms = concat (map (\<lambda>m. rev (rng m)) (rev ms)) @ keys" for keys
    by (induction ms arbitrary: keys) (simp_all add: foldl_NewMatcher)
  then show ?thesis by (simp add: register_def)
qed

definition checked_first :: "(matcher_map \<Rightarrow> matcher_map) \<Rightarrow> matcher_map" where
  "checked_first rng = register rng (tl all_maps)"

lemma MatcherKeys_archives_last: "MatcherKeys rng = checked_first rng @ rev (rng Archive_map)"
  by (simp add: MatcherKeys_def checked_first_def register_rev all_maps_def)

lemma register_set: "range_order rng \<Longrightarrow> set (register rng ms) = set (concat ms)"
  by (auto simp: register_rev range_order_set)

lemma kinds_proper: "\<forall>(kind, fn) \<in> set (concat all_maps). kind \<noteq> Unknown \<and> ft_Extension kind \<noteq> ''''"
  by (simp add: all_maps_def Archive_map_def Document_map_def Font_map_def Audio_map_def Video_map_def Image_map_def Application_map_def
      newType_def Unknown_def)

lemma kinds_distinct: "distinct (map fst (concat all_maps))"
  by (simp add: all_maps_def Archive_map_def Document_map_def Font_map_def Audio_map_def Video_map_def Image_map_def Application_map_def
      newType_def)

lemma Match_find:
  assumes "range_order rng" and "buf \<noteq> []"
  shows "filetype_Match rng buf =
    Inr (case find (\<lambda>e. snd e buf) (MatcherKeys rng) of None \<Rightarrow> Unknown | Some (kind, fn) \<Rightarrow> kind)"
proof -
  have "find (\<lambda>(kind, fn). fn buf \<and> kind \<noteq> Unknown \<and> ft_Extension kind \<noteq> '''') (MatcherKeys rng) =
      find (\<lambda>e. snd e buf) (MatcherKeys rng)"
    by (rule find_cong) (use kinds_proper in \<open>auto simp: MatcherKeys_def register_set [OF assms(1)]\<close>)
  then show ?thesis using assms(2) by (auto simp: filetype_Match_def split: option.split prod.split)
qed

lemma all_maps_split: "concat all_maps = Archive_map @ concat (tl all_maps)"
  by (simp add: all_maps_def)

lemma archive_kinds_apart: "kind \<in> fst ` set Archive_map \<Longrightarrow> kind \<notin> fst ` set (concat (tl all_maps))"
  using kinds_distinct unfolding all_maps_split map_append distinct_append set_map by blast

lemma Match_checked_first:
  assumes "range_order rng" and "(kind, fn) \<in> set (concat (tl all_maps))" and "fn buf" and "buf \<noteq> []"
  shows "\<exists>kind' fn'. (kind', fn') \<in> set (concat (tl all_maps)) \<and> fn' buf \<and> filetype_Match rng buf = Inr kind'"
proof -
  have "(kind, fn) \<in> set (checked_first rng)"
    using assms(2) by (simp add: checked_first_def register_set [OF assms(1)])
  with assms(3) have "find (\<lambda>e. snd e buf) (checked_first rng) \<noteq> None"
    unfolding find_None_iff by fastforce
  then obtain kind' fn' where f: "find (\<lambda>e. snd e buf) (checked_first rng) = Some (kind', fn')" by auto
  then have "(kind', fn') \<in> set (checked_first rng)" "fn' buf" by (metis find_Some_iff nth_mem snd_conv)+
  moreover have "find (\<lambda>e. snd e buf) (MatcherKeys rng) = Some (kind', fn')"
    by (simp add: MatcherKeys_archives_last find_append f)
  ultimately show ?thesis
    using Match_find [OF assms(1,4)] by (auto simp: checked_first_def register_set [OF assms(1)])
qed

lemma filter_key: "distinct (map fst m) \<Longrightarrow> (k, v) \<in> set m \<Longrightarrow> filter (\<lambda>e. fst e = k) m = [(k, v)]"
  by (induction m) (auto simp: filter_empty_conv image_iff)

text \<open>An order of the maps that puts one kind last.\<close>

definition kind_last :: "file_type \<Rightarrow> matcher_map \<Rightarrow> matcher_map" where
  "kind_last kind m = filter (\<lambda>e. fst e \<noteq> kind) m @ filter (\<lambda>e. fst e = kind) m"

lemma kind_last_range: "range_order (kind_last kind)"
proof -
  have "mset (filter (\<lambda>e. fst e \<noteq> kind) m) + mset (filter (\<lambda>e. fst e = kind) m) = mset m" for m :: matcher_map
    by (induction m) auto
  then show ?thesis by (simp add: range_order_def kind_last_def)
qed

lemma Match_archive_first:
  assumes "(kind, fn) \<in> set Archive_map" and "fn buf" and "buf \<noteq> []"
    and "\<forall>(kind, fn) \<in> set (concat (tl all_maps)). \<not> fn buf"
  shows "filetype_Match (kind_last kind) buf = Inr kind"
proof -
  let ?rng = "kind_last kind"
  have "distinct (map fst Archive_map)" using kinds_distinct unfolding all_maps_split by simp
  with assms(1) have "filter (\<lambda>e. fst e = kind) Archive_map = [(kind, fn)]"
    by (simp add: filter_key)
  then have keys: "MatcherKeys ?rng = checked_first ?rng @ (kind, fn) # rev (filter (\<lambda>e. fst e \<noteq> kind) Archive_map)"
    by (simp add: MatcherKeys_archives_last kind_last_def)
  have "find (\<lambda>e. snd e buf) (checked_first ?rng) = None"
    using assms(4) by (auto simp: find_None_iff checked_first_def register_set [OF kind_last_range])
  then have "find (\<lambda>e. snd e buf) (MatcherKeys ?rng) = Some (kind, fn)"
    using assms(2) by (simp add: keys find_append)
  then show ?thesis by (simp add: Match_find [OF kind_last_range assms(3)])
qed

lemma find_in: "find p xs = Some x \<Longrightarrow> x \<in> set (filter p xs)"
  by (auto simp: find_Some_iff)

lemma MatcherKeys_hits:
  "range_order rng \<Longrightarrow> set (filter (\<lambda>e. snd e buf) (MatcherKeys rng)) = set (filter (\<lambda>e. snd e buf) (concat all_maps))"
  by (simp add: MatcherKeys_def register_set)

lemma Match_hit:
  assumes "range_order rng" and "buf \<noteq> []" and "filetype_Match rng buf = Inr kind" and "kind \<noteq> Unknown"
  shows "kind \<in> set (map fst (filter (\<lambda>e. snd e buf) (concat all_maps)))"
proof -
  from assms obtain fn where "find (\<lambda>e. snd e buf) (MatcherKeys rng) = Some (kind, fn)"
    by (auto simp: Match_find split: option.splits)
  then have "(kind, fn) \<in> set (filter (\<lambda>e. snd e buf) (MatcherKeys rng))" by (rule find_in)
  then have "(kind, fn) \<in> set (filter (\<lambda>e. snd e buf) (concat all_maps))" unfolding MatcherKeys_hits [OF assms(1)] .
  then show ?thesis by force
qed

lemma Match_only:
  assumes "range_order rng" and "buf \<noteq> []" and only: "map fst (filter (\<lambda>e. snd e buf) (concat all_maps)) = [kind]"
  shows "filetype_Match rng buf = Inr kind"
proof -
  let ?hits = "filter (\<lambda>e. snd e buf) (concat all_maps)"
  have hits: "fst ` set ?hits = {kind}" by (metis only list.set_map list.simps(15) list.set(1))
  have "find (\<lambda>e. snd e buf) (MatcherKeys rng) \<noteq> None"
  proof
    assume "find (\<lambda>e. snd e buf) (MatcherKeys rng) = None"
    then have "set (filter (\<lambda>e. snd e buf) (MatcherKeys rng)) = {}" by (auto simp: find_None_iff)
    then have "set ?hits = {}" unfolding MatcherKeys_hits [OF assms(1)] .
    with hits show False by (metis image_empty insert_not_empty)
  qed
  then obtain kind' fn where f: "find (\<lambda>e. snd e buf) (MatcherKeys rng) = Some (kind', fn)" by auto
  then have "(kind', fn) \<in> set ?hits" unfolding MatcherKeys_hits [OF assms(1), symmetric] by (rule find_in)
  then have "kind' \<in> fst ` set ?hits" by (rule rev_image_eqI) simp
  with f show ?thesis unfolding hits by (simp add: Match_find [OF assms(1,2)])
qed

lemma certain_no_other:
  assumes "kind \<in> fst ` set Archive_map" and "buf \<noteq> []"
    and certain: "\<And>rng. range_order rng \<Longrightarrow> filetype_Match rng buf = Inr kind"
    and hit: "(kind', fn) \<in> set (concat all_maps)" "fn buf"
  shows "kind' = kind"
proof (cases "\<forall>(kind', fn) \<in> set (concat (tl all_maps)). \<not> fn buf")
  case False
  then obtain kind1 fn1 where "(kind1, fn1) \<in> set (concat (tl all_maps))" "fn1 buf" by (auto simp del: set_concat)
  from Match_checked_first [OF kind_last_range this assms(2)] obtain kind2 fn2
    where k: "(kind2, fn2) \<in> set (concat (tl all_maps))" "filetype_Match (kind_last kind) buf = Inr kind2" by metis
  with certain [OF kind_last_range] have "kind2 = kind" by simp
  with k(1) have "kind \<in> fst ` set (concat (tl all_maps))" by (metis fst_conv imageI)
  with archive_kinds_apart [OF assms(1)] show ?thesis by contradiction
next
  case True
  have "(kind', fn) \<notin> set (concat (tl all_maps))" using True hit(2) by (auto simp del: set_concat)
  with hit(1) have "(kind', fn) \<in> set Archive_map" unfolding all_maps_split by simp
  from Match_archive_first [OF this hit(2) assms(2) True] certain [OF kind_last_range] show ?thesis by simp
qed

text \<open>C22. Archives are told apart from other files with certainty only if no other signature is there: a buffer is taken for an archive of some
  kind in every run, whatever order the package's maps are ranged in, exactly if the matcher of that kind is the only one of all maps that accepts the buffer.\<close>

theorem Match_certain_iff:
  assumes "kind \<in> fst ` set Archive_map" and "buf \<noteq> []"
  shows "(\<forall>rng. range_order rng \<longrightarrow> filetype_Match rng buf = Inr kind) \<longleftrightarrow>
    map fst (filter (\<lambda>e. snd e buf) (concat all_maps)) = [kind]"
proof
  assume only: "map fst (filter (\<lambda>e. snd e buf) (concat all_maps)) = [kind]"
  show "\<forall>rng. range_order rng \<longrightarrow> filetype_Match rng buf = Inr kind" using Match_only [OF _ assms(2) only] by simp
next
  let ?hits = "filter (\<lambda>e. snd e buf) (concat all_maps)"
  assume all: "\<forall>rng. range_order rng \<longrightarrow> filetype_Match rng buf = Inr kind"
  have "kind \<noteq> Unknown" using assms(1) kinds_proper unfolding all_maps_split by (auto simp del: set_concat)
  with Match_hit [OF kind_last_range assms(2)] all kind_last_range have "kind \<in> set (map fst ?hits)" by simp
  moreover have "kind' = kind" if "kind' \<in> set (map fst ?hits)" for kind'
    using that certain_no_other [OF assms] all by (auto simp del: set_concat)
  ultimately have "set (map fst ?hits) = {kind}" by blast
  moreover have "distinct (map fst ?hits)" using kinds_distinct by (rule distinct_map_filter)
  ultimately show "map fst ?hits = [kind]" by (intro distinct_singleton)
qed

subsection \<open>Examples\<close>

text \<open>The first block of a tar archive, of which only the name of the first entry and the magic text are given.\<close>

definition tar_block :: "string \<Rightarrow> string" where
  "tar_block name = name @ replicate (257 - length name) (CHR 0x00) @ ''ustar'' @ replicate 250 (CHR 0x00)"

definition TypeTar :: file_type where
  "TypeTar = newType ''tar'' ''application/x-tar''"

text \<open>What evaluates the matchers on a buffer.\<close>

lemmas matcher_eval =
  all_maps_def bytes_at_def buf_byte_def msooxml_def compareBytes_def zip_signature_def IsISOBMFF_def tar_block_def TypeTar_def newType_def
  Epub_def Zip_def Tar_def Rar_def Gz_def Bz2_def SevenZ_def Pdf_def Exe_def Swf_def Rtf_def Nes_def Crx_def Cab_def Eot_def Ps_def Xz_def
  Sqlite_def Deb_def Ar_def Z_compressed_def Lz_def Rpm_def Elf_def Dcm_def Iso_def Archive_map_def Doc_def Docx_def Xls_def Xlsx_def
  Ppt_def Pptx_def Document_map_def Woff_def Woff2_def Ttf_def Otf_def Font_map_def Midi_def Mp3_def M4a_def Ogg_def Flac_def Wav_def
  Amr_def Aac_def Audio_map_def M4v_def Mkv_def Webm_def Mov_def Avi_def Wmv_def Mpeg_def Flv_def Mp4_def Match3gp_def Video_map_def
  Jpeg_def Jpeg2000_def Png_def Gif_def Webp_def CR2_def Tiff_def Bmp_def Jxr_def Psd_def Ico_def Heif_def Dwg_def Image_map_def Wasm_def
  Application_map_def

theorem Match_certain_iff_witness:
  "filetype_Match rev (tar_block ''Dockerfile'') = Inr TypeTar \<and>
   \<not> (\<forall>rng. range_order rng \<longrightarrow> filetype_Match rng (tar_block ''MZ/setup'') = Inr TypeTar)"
proof -
  have kind: "TypeTar \<in> fst ` set Archive_map" by (simp add: TypeTar_def Archive_map_def)
  have ne: "tar_block name \<noteq> []" for name by (simp add: tar_block_def)
  have "map fst (filter (\<lambda>e. snd e (tar_block ''Dockerfile'')) (concat all_maps)) = [TypeTar]" by (simp add: matcher_eval)
  moreover have "map fst (filter (\<lambda>e. snd e (tar_block ''MZ/setup'')) (concat all_maps)) \<noteq> [TypeTar]" by (simp add: matcher_eval)
  moreover have "range_order (rev :: matcher_map \<Rightarrow> matcher_map)" by (simp add: range_order_def)
  ultimately show ?thesis
    using Match_certain_iff [OF kind ne, of "''Dockerfile''"] Match_certain_iff [OF kind ne, of "''MZ/setup''"] by simp
qed

end
