(* ===== verification/Forge_Archive.thy ===== *)
theory Forge_Archive
  imports Forge_Config Forge_Filetype
begin

section \<open>The build context archive\<close>

text \<open>
  \<^verbatim>\<open>internal/archive\<close>: the download of the build context with its retries, the check of its type and its extraction. HTTP, the
  file system and the passing of time are the fields of \<open>archive_env\<close>, functions over a world
  \<open>'w\<close>; the type of the file is detected by \<open>filetype_Match\<close>. A tar stream is the list of its items, an error of the reader among them.
  \<^verbatim>\<open>wait.ExponentialBackoff\<close> of the vendored Kubernetes library is modelled as it is written, with durations in
  nanoseconds; its random jitter is part of the sleep.
\<close>

subsection \<open>Backoff\<close>

record Backoff =
  bk_Duration :: int
  bk_Factor :: int
  bk_Steps :: nat
  bk_Cap :: int

definition defaultBackoff :: Backoff where
  "defaultBackoff = \<lparr>bk_Duration = 1000000000, bk_Factor = 2, bk_Steps = 10, bk_Cap = 30000000000\<rparr>"

definition Backoff_Step :: "Backoff \<Rightarrow> int \<times> Backoff" where
  "Backoff_Step b =
     (if bk_Steps b < 1 then (bk_Duration b, b)
      else
       (let b1 = b\<lparr>bk_Steps := bk_Steps b - 1\<rparr>;
            d = bk_Duration b * bk_Factor b;
            b2 = (if bk_Factor b \<noteq> 0 then
                    (if bk_Cap b > 0 \<and> bk_Cap b < d then b1\<lparr>bk_Duration := bk_Cap b, bk_Steps := 0\<rparr>
                     else b1\<lparr>bk_Duration := d\<rparr>)
                  else b1)
        in (bk_Duration b, b2)))"

definition ErrWaitTimeout :: go_error where
  "ErrWaitTimeout = ErrText ''timed out waiting for the condition''"

text \<open>A condition returns whether it is done and an error.\<close>

type_synonym 'w condition = "'w \<Rightarrow> (bool \<times> go_error option) \<times> 'w"

lemma Backoff_Step_less: "0 < bk_Steps b \<Longrightarrow> bk_Steps (snd (Backoff_Step b)) < bk_Steps b"
  by (simp add: Backoff_Step_def Let_def)

function ExponentialBackoff ::
  "(int \<Rightarrow> 'w \<Rightarrow> 'w) \<Rightarrow> Backoff \<Rightarrow> 'w condition \<Rightarrow> 'w \<Rightarrow> go_error option \<times> 'w" where
  "ExponentialBackoff sleep b condition w =
     (if bk_Steps b > 0 then
        (case condition w of
           ((ok, err), w1) \<Rightarrow>
             (if err \<noteq> None \<or> ok then (err, w1)
              else if bk_Steps b = 1 then (Some ErrWaitTimeout, w1)
              else ExponentialBackoff sleep (snd (Backoff_Step b)) condition (sleep (fst (Backoff_Step b)) w1)))
      else (Some ErrWaitTimeout, w))"
  by pat_completeness auto
termination
  by (relation "measure (\<lambda>(sleep, b, condition, w). bk_Steps b)") (auto simp: Backoff_Step_less)

declare ExponentialBackoff.simps [simp del]

subsection \<open>Download\<close>

record http_response =
  resp_StatusCode :: nat
  resp_Body :: "string result"

record tar_header =
  hdr_Name :: string
  hdr_IsDir :: bool
  hdr_IsReg :: bool
  hdr_Mode :: int

datatype tar_item = TarEntry tar_header "string result" | TarError go_error

text \<open>
  \<open>ae_Create\<close> creates a file and copies a body into it; the body of a response or an entry is its content or the error
  of reading it. \<open>ae_Read\<close> opens a file and reads into a buffer of the given size once; its result are the bytes that were
  read. \<open>ae_kinds_rng\<close> is the order in which the matchers of file types were registered. \<open>ae_OpenTar\<close> opens an archive and, if told to, a gzip reader on it.
\<close>

record 'w archive_env =
  ae_Stat :: "string \<Rightarrow> 'w \<Rightarrow> file_info result"
  ae_Get :: "string \<Rightarrow> 'w \<Rightarrow> http_response result \<times> 'w"
  ae_Sleep :: "int \<Rightarrow> 'w \<Rightarrow> 'w"
  ae_CtxErr :: "64 word \<Rightarrow> 'w \<Rightarrow> go_error option"
  ae_Create :: "string \<Rightarrow> string result \<Rightarrow> 'w \<Rightarrow> go_error option \<times> bool \<times> 'w"
  ae_Read :: "string \<Rightarrow> nat \<Rightarrow> 'w \<Rightarrow> string result"
  ae_kinds_rng :: "matcher_map \<Rightarrow> matcher_map"
  ae_MkdirAll :: "string \<Rightarrow> 'w \<Rightarrow> go_error option \<times> 'w"
  ae_OpenTar :: "string \<Rightarrow> bool \<Rightarrow> 'w \<Rightarrow> tar_item list result"
  ae_WriteFile :: "string \<Rightarrow> int \<Rightarrow> string result \<Rightarrow> 'w \<Rightarrow> go_error option \<times> 'w"

fun as_url_error :: "go_error \<Rightarrow> go_error option" where
  "as_url_error (UrlError t p q m) = Some (UrlError t p q m)"
| "as_url_error (WithMessage _ e) = as_url_error e"
| "as_url_error (WithStack e) = as_url_error e"
| "as_url_error (FmtWrap _ e) = as_url_error e"
| "as_url_error _ = None"

definition retryable :: "go_error \<Rightarrow> bool" where
  "retryable err = (case err of UrlError timeout temporary opError _ \<Rightarrow> timeout \<or> temporary \<or> opError | _ \<Rightarrow> False)"

text \<open>\<open>ae_Create\<close> also tells whether the file could be created at all: only then is the download done.\<close>

definition downloadFile :: "'w archive_env \<Rightarrow> string \<Rightarrow> string \<Rightarrow> 'w condition" where
  "downloadFile env fileUrl fp w =
     (case ae_Get env fileUrl w of
        (Inl err, w1) \<Rightarrow>
          (case as_url_error err of
             Some urlError \<Rightarrow> (if retryable urlError then ((False, None), w1) else ((False, Some err), w1))
           | None \<Rightarrow> ((False, Some err), w1))
      | (Inr resp, w1) \<Rightarrow>
        (if resp_StatusCode resp \<in> {502, 504, 503} then ((False, None), w1)
         else if resp_StatusCode resp \<noteq> 200
         then ((False, Some (ErrText (''file download failed with status '' @ fmt_d (resp_StatusCode resp)))), w1)
         else (case ae_Create env fp (resp_Body resp) w1 of
                 (err, created, w2) \<Rightarrow> ((created, err), w2))))"

subsection \<open>Extraction\<close>

fun extract_items :: "'w archive_env \<Rightarrow> string \<Rightarrow> tar_item list \<Rightarrow> 'w \<Rightarrow> go_error option \<times> 'w" where
  "extract_items env dst [] w = (None, w)"
| "extract_items env dst (TarError err # items) w = (Some err, w)"
| "extract_items env dst (TarEntry h content # items) w =
     (let target = filepath_Join [dst, hdr_Name h] in
      if hdr_IsDir h then
        (case ae_MkdirAll env target w of
           (Some err, w1) \<Rightarrow> (Some err, w1)
         | (None, w1) \<Rightarrow> extract_items env dst items w1)
      else if hdr_IsReg h then
        (case ae_WriteFile env target (hdr_Mode h) content w of
           (Some err, w1) \<Rightarrow> (Some err, w1)
         | (None, w1) \<Rightarrow> extract_items env dst items w1)
      else extract_items env dst items w)"

definition mimeTypeTar :: string where
  "mimeTypeTar = ''application/x-tar''"

definition mimeTypeGzip :: string where
  "mimeTypeGzip = ''application/gzip''"

text \<open>The part of the buffer that was not read into holds zeros and takes part in the match.\<close>

definition read_buffer :: "nat \<Rightarrow> string \<Rightarrow> string" where
  "read_buffer n bytes = take n bytes @ replicate (n - length bytes) (CHR 0x00)"

definition getFileContentType :: "'w archive_env \<Rightarrow> string \<Rightarrow> 'w \<Rightarrow> string result" where
  "getFileContentType env fp w =
     (case ae_Read env fp 512 w of
        Inl err \<Rightarrow> Inl err
      | Inr bytes \<Rightarrow>
        (case filetype_Match (ae_kinds_rng env) (read_buffer 512 bytes) of
           Inl err \<Rightarrow> Inl err
         | Inr kind \<Rightarrow> Inr (ft_MIME kind)))"

definition archive_extract :: "'w archive_env \<Rightarrow> string \<Rightarrow> string \<Rightarrow> string \<Rightarrow> 'w \<Rightarrow> go_error option \<times> 'w" where
  "archive_extract env fp ct dst w =
     (case ae_OpenTar env fp (ct = mimeTypeGzip) w of
        Inl err \<Rightarrow> (Some err, w)
      | Inr items \<Rightarrow> extract_items env dst items w)"

record Extraction =
  ex_Archive :: string
  ex_ContentsDir :: string

definition fetch_condition :: "'w archive_env \<Rightarrow> string \<Rightarrow> string \<Rightarrow> 64 word \<Rightarrow> 'w condition" where
  "fetch_condition env fileUrl archive timeout w =
     (case (if 0 <s timeout then ae_CtxErr env timeout w else None) of
        Some err \<Rightarrow> ((False, Some err), w)
      | None \<Rightarrow> downloadFile env fileUrl archive w)"

definition FetchAndExtract ::
  "'w archive_env \<Rightarrow> string \<Rightarrow> string \<Rightarrow> 64 word \<Rightarrow> 'w \<Rightarrow> Extraction result \<times> 'w" where
  "FetchAndExtract env fileUrl wd timeout w =
     (case AssertDir (\<lambda>p. ae_Stat env p w) wd of
        Some err \<Rightarrow> (Inl (FmtWrap (''invalid build context directory: '' @ error_text err) err), w)
      | None \<Rightarrow>
        (let archive = filepath_Join [wd, ''archive'']; dest = filepath_Join [wd, ''extracted''] in
         case ExponentialBackoff (ae_Sleep env) defaultBackoff (fetch_condition env fileUrl archive timeout) w of
           (Some err, w1) \<Rightarrow> (Inl err, w1)
         | (None, w1) \<Rightarrow>
           (case getFileContentType env archive w1 of
              Inl err \<Rightarrow> (Inl err, w1)
            | Inr ct \<Rightarrow>
              (if ct \<noteq> mimeTypeGzip \<and> ct \<noteq> mimeTypeTar
               then (Inl (ErrText (''unsupported file type '' @ fmt_q ct)), w1)
               else (case ae_MkdirAll env dest w1 of
                       (Some err, w2) \<Rightarrow> (Inl err, w2)
                     | (None, w2) \<Rightarrow>
                       (case archive_extract env archive ct dest w2 of
                          (Some err, w3) \<Rightarrow> (Inl err, w3)
                        | (None, w3) \<Rightarrow>
                          (Inr \<lparr>ex_Archive = archive, ex_ContentsDir = dest\<rparr>, w3)))))))"

subsection \<open>Retries\<close>

text \<open>The world before attempt \<open>i\<close> of a download whose earlier attempts were all transient failures.\<close>

fun attempt_world :: "(int \<Rightarrow> 'w \<Rightarrow> 'w) \<Rightarrow> 'w condition \<Rightarrow> nat \<Rightarrow> 'w \<Rightarrow> 'w" where
  "attempt_world sleep condition 0 w = w"
| "attempt_world sleep condition (Suc i) w =
     sleep (1000000000 * 2 ^ i) (snd (condition (attempt_world sleep condition i w)))"

definition transient :: "(int \<Rightarrow> 'w \<Rightarrow> 'w) \<Rightarrow> 'w condition \<Rightarrow> nat \<Rightarrow> 'w \<Rightarrow> bool" where
  "transient sleep condition k w \<longleftrightarrow>
     (\<forall>i<k. fst (condition (attempt_world sleep condition i w)) = (False, None))"

definition backoff_at :: "nat \<Rightarrow> Backoff" where
  "backoff_at i = \<lparr>bk_Duration = 1000000000 * 2 ^ i, bk_Factor = 2, bk_Steps = 10 - i, bk_Cap = 30000000000\<rparr>"

lemma Backoff_Step_at:
  "i < 4 \<Longrightarrow> Backoff_Step (backoff_at i) = (1000000000 * 2 ^ i, backoff_at (Suc i))"
proof -
  assume "i < 4"
  then have "i \<in> {0, 1, 2, 3}" by auto
  then show ?thesis by (auto simp: Backoff_Step_def backoff_at_def)
qed

lemma backoff_after:
  assumes "transient sleep condition k w" and "k \<le> 4"
  shows "ExponentialBackoff sleep defaultBackoff condition w =
    ExponentialBackoff sleep (backoff_at k) condition (attempt_world sleep condition k w)"
  using assms
proof (induction k)
  case 0
  show ?case by (simp add: defaultBackoff_def backoff_at_def)
next
  case (Suc k)
  then have IH: "ExponentialBackoff sleep defaultBackoff condition w =
      ExponentialBackoff sleep (backoff_at k) condition (attempt_world sleep condition k w)"
    by (simp add: transient_def)
  obtain w1 where run: "condition (attempt_world sleep condition k w) = ((False, None), w1)"
    using Suc.prems(1) unfolding transient_def by (metis lessI prod.collapse)
  have steps: "bk_Steps (backoff_at k) = 10 - k" by (simp add: backoff_at_def)
  have "Backoff_Step (backoff_at k) = (1000000000 * 2 ^ k, backoff_at (Suc k))"
    using Suc.prems(2) by (intro Backoff_Step_at) simp
  with run Suc.prems(2) show ?case
    unfolding IH by (subst ExponentialBackoff.simps) (auto simp: steps)
qed

lemma backoff_stops:
  assumes "transient sleep condition k w" and "k < 5"
    and "condition (attempt_world sleep condition k w) = ((ok, err), w1)" and "ok \<or> err \<noteq> None"
  shows "ExponentialBackoff sleep defaultBackoff condition w = (err, w1)"
proof -
  have "bk_Steps (backoff_at k) > 0" using assms(2) by (simp add: backoff_at_def)
  moreover have "ExponentialBackoff sleep defaultBackoff condition w =
      ExponentialBackoff sleep (backoff_at k) condition (attempt_world sleep condition k w)"
    using assms(2) by (intro backoff_after [OF assms(1)]) simp
  ultimately show ?thesis
    using assms(3,4) by (auto simp: ExponentialBackoff.simps [of sleep "backoff_at k"])
qed

text \<open>The download is tried five times at most, with waits of one to sixteen seconds in between: the sixth duration would exceed the cap,
  which ends the loop, so the ten configured steps are never used.
\<close>

theorem backoff_five_attempts:
  assumes "transient sleep condition 5 w"
  shows "ExponentialBackoff sleep defaultBackoff condition w =
    (Some ErrWaitTimeout, attempt_world sleep condition 5 w)"
proof -
  from assms have four: "transient sleep condition 4 w" by (simp add: transient_def)
  obtain w1 where run: "condition (attempt_world sleep condition 4 w) = ((False, None), w1)"
    using assms unfolding transient_def by (metis lessI eval_nat_numeral(3) numeral_Bit1 prod.collapse semiring_norm(26))
  have steps: "bk_Steps (backoff_at 4) = 6" by (simp add: backoff_at_def)
  have step: "Backoff_Step (backoff_at 4) = (16000000000, (backoff_at 4)\<lparr>bk_Duration := 30000000000, bk_Steps := 0\<rparr>)"
    by (simp add: Backoff_Step_def backoff_at_def)
  have five: "attempt_world sleep condition 5 w = sleep 16000000000 w1"
    using run attempt_world.simps(2) [of sleep condition 4 w] by simp
  show ?thesis
    unfolding backoff_after [OF four order_refl]
    by (subst ExponentialBackoff.simps) (simp add: steps run step five ExponentialBackoff.simps)
qed

text \<open>A download is retried exactly on a timeout, a temporary or an operational network error, or on one of the three gateway statuses; every
  other failure is final.\<close>

theorem downloadFile_retries_iff:
  assumes "\<forall>fp body w. fst (snd (ae_Create env fp body w)) \<or> fst (ae_Create env fp body w) \<noteq> None"
  shows "fst (downloadFile env url fp w) = (False, None) \<longleftrightarrow>
    (case fst (ae_Get env url w) of
       Inl err \<Rightarrow> (\<exists>timeout temporary opError m. as_url_error err = Some (UrlError timeout temporary opError m) \<and>
                    (timeout \<or> temporary \<or> opError))
     | Inr resp \<Rightarrow> resp_StatusCode resp \<in> {502, 503, 504})"
proof (cases "ae_Get env url w")
  case (Pair r w1)
  have url: "\<exists>t p q m. ue = UrlError t p q m" if "as_url_error e = Some ue" for e ue
    using that by (induction e rule: as_url_error.induct) auto
  show ?thesis
  proof (cases r)
    case (Inl err)
    show ?thesis
    proof (cases "as_url_error err")
      case (Some ue)
      with url [OF Some] Pair Inl show ?thesis by (auto simp: downloadFile_def retryable_def)
    qed (use Pair Inl in \<open>simp add: downloadFile_def\<close>)
  next
    case (Inr resp)
    have "a" if "ae_Create env fp (resp_Body resp) w1 = (None, a, b)" for a b
      using assms [THEN spec, THEN spec, THEN spec, of fp "resp_Body resp" w1] that by simp
    with Pair Inr show ?thesis by (auto simp: downloadFile_def split: prod.splits)
  qed
qed

subsection \<open>Where an archive is written\<close>

lemma foldl_clean_plain:
  "''..'' \<notin> set cs \<Longrightarrow>
   foldl (clean_step r) st cs = rev (filter (\<lambda>c. c \<noteq> [] \<and> c \<noteq> ''.'') cs) @ st"
  by (induction cs arbitrary: st) auto

lemma filepath_Join_plain:
  assumes "is_rooted dst" and "''..'' \<notin> set (strings_Split name (CHR ''/''))"
  shows "filepath_Join [dst, name] =
    ''/'' @ strings_Join (clean_components dst @ filter (\<lambda>c. c \<noteq> [] \<and> c \<noteq> ''.'') (strings_Split name (CHR ''/''))) ''/''"
proof -
  have "dst \<noteq> []" using assms(1) by (auto simp: is_rooted_def)
  then have join: "filepath_Join [dst, name] = filepath_Clean (dst @ CHR ''/'' # name)"
    by (simp add: filepath_Join_def)
  have root: "is_rooted (dst @ CHR ''/'' # name)"
    using assms(1) by (auto simp: is_rooted_def strings_HasPrefix_iff)
  have "clean_components (dst @ CHR ''/'' # name) =
      clean_components dst @ filter (\<lambda>c. c \<noteq> [] \<and> c \<noteq> ''.'') (strings_Split name (CHR ''/''))"
    unfolding clean_components_def strings_Split_append_sep foldl_append foldl_clean_plain [OF assms(2)]
    using root assms(1) by simp
  then show ?thesis unfolding join filepath_Clean_def Let_def using root by simp
qed

definition path_inside :: "string \<Rightarrow> string \<Rightarrow> bool" where
  "path_inside dst p \<longleftrightarrow> p = filepath_Clean dst \<or> (\<exists>rest. p = filepath_Clean dst @ ''/'' @ rest)"

lemma target_inside:
  assumes "is_rooted dst" and "clean_components dst \<noteq> []"
    and "''..'' \<notin> set (strings_Split name (CHR ''/''))"
  shows "path_inside dst (filepath_Join [dst, name])"
proof -
  let ?cs = "filter (\<lambda>c. c \<noteq> [] \<and> c \<noteq> ''.'') (strings_Split name (CHR ''/''))"
  have clean: "filepath_Clean dst = ''/'' @ strings_Join (clean_components dst) ''/''"
    using assms(1) by (simp add: filepath_Clean_def Let_def)
  show ?thesis
  proof (cases "?cs = []")
    case True
    then show ?thesis
      unfolding path_inside_def filepath_Join_plain [OF assms(1,3)] clean by simp
  next
    case False
    from strings_Join_append [OF assms(2) this, of "''/''"]
    show ?thesis
      unfolding path_inside_def filepath_Join_plain [OF assms(1,3)] clean by auto
  qed
qed

text \<open>Parent components are taken off the destination: a name that starts with enough of them is a path from the root.\<close>

lemma clean_rooted_plain: "''..'' \<notin> set st \<Longrightarrow> ''..'' \<notin> set (foldl (clean_step True) st cs)"
proof (induction cs arbitrary: st)
  case (Cons c cs)
  have "''..'' \<notin> set (clean_step True st c)" using Cons.prems by (auto split: list.splits)
  then show ?case using Cons.IH by simp
qed simp

lemma clean_parents: "''..'' \<notin> set st \<Longrightarrow> foldl (clean_step True) st (replicate n ''..'') = drop n st"
proof (induction n arbitrary: st)
  case (Suc n)
  then show ?case by (cases st) auto
qed simp

lemma filepath_Join_parents:
  assumes "is_rooted dst" and "length (clean_components dst) \<le> n" and "cs \<noteq> []" and "\<forall>c \<in> set cs. c \<notin> {'''', ''.'', ''..''} \<and> CHR ''/'' \<notin> set c"
  shows "filepath_Join [dst, strings_Join (replicate n ''..'' @ cs) ''/''] = ''/'' @ strings_Join cs ''/''"
proof -
  let ?name = "strings_Join (replicate n ''..'' @ cs) ''/''"
  have "dst \<noteq> []" using assms(1) by (auto simp: is_rooted_def)
  then have join: "filepath_Join [dst, ?name] = filepath_Clean (dst @ CHR ''/'' # ?name)" by (simp add: filepath_Join_def)
  have root: "is_rooted (dst @ CHR ''/'' # ?name)" using assms(1) by (auto simp: is_rooted_def strings_HasPrefix_iff)
  have split: "strings_Split ?name (CHR ''/'') = replicate n ''..'' @ cs"
    using assms(3,4) by (intro strings_Split_Join) auto
  define st where "st = foldl (clean_step True) [] (strings_Split dst (CHR ''/''))"
  have st: "''..'' \<notin> set st" "length st \<le> n"
    using clean_rooted_plain [of "[]"] assms(1,2) by (simp_all add: st_def clean_components_def)
  have "filter (\<lambda>c. c \<noteq> [] \<and> c \<noteq> ''.'') cs = cs" using assms(4) by (intro filter_True) auto
  then have "foldl (clean_step True) (drop n st) cs = rev cs" using st(2) assms(4) by (subst foldl_clean_plain) auto
  then have "clean_components (dst @ CHR ''/'' # ?name) = cs"
    unfolding clean_components_def strings_Split_append_sep foldl_append split using root st(1)
    by (simp add: clean_parents flip: st_def)
  then show ?thesis unfolding join filepath_Clean_def Let_def using root by simp
qed

text \<open>A file system: directories are not files, and writing a file changes that file alone.\<close>

locale filesystem =
  fixes env :: "'w archive_env" and files :: "'w \<Rightarrow> string \<Rightarrow> string option"
  assumes mkdir_frame: "ae_MkdirAll env d w = (r, w') \<Longrightarrow> files w' = files w"
    and write_frame: "ae_WriteFile env t m c w = (r, w') \<Longrightarrow> p \<noteq> t \<Longrightarrow> files w' p = files w p"
begin

lemma extract_items_frame:
  assumes "extract_items env dst items w = (r, w')"
    and "is_rooted dst" and "clean_components dst \<noteq> []"
    and "\<forall>h c. TarEntry h c \<in> set items \<longrightarrow> ''..'' \<notin> set (strings_Split (hdr_Name h) (CHR ''/''))"
    and "\<not> path_inside dst p"
  shows "files w' p = files w p"
  using assms(1,4)
proof (induction items arbitrary: w)
  case (Cons item items)
  show ?case
  proof (cases item)
    case (TarError err)
    with Cons.prems show ?thesis by simp
  next
    case (TarEntry h content)
    let ?t = "filepath_Join [dst, hdr_Name h]"
    from Cons.prems TarEntry have "''..'' \<notin> set (strings_Split (hdr_Name h) (CHR ''/''))" by auto
    then have out: "p \<noteq> ?t" using target_inside [OF assms(2,3)] assms(5) by blast
    have rest: "files w' p = files w1 p" if "extract_items env dst items w1 = (r, w')" for w1
      by (rule Cons.IH [OF that]) (use Cons.prems(2) in auto)
    have mk: "files w1 p = files w p" if "ae_MkdirAll env ?t w = (r1, w1)" for r1 w1
      using mkdir_frame [OF that] by simp
    have wr: "files w1 p = files w p" if "ae_WriteFile env ?t m c w = (r1, w1)" for m c r1 w1
      using write_frame [OF that out] .
    show ?thesis
      using Cons.prems(1) TarEntry rest mk wr
      by (auto simp: Let_def split: if_splits prod.splits option.splits)
  qed
qed simp

end

text \<open>A file system that also holds what was written.\<close>

locale storing_filesystem = filesystem env files
  for env :: "'w archive_env" and files +
  assumes write_stores: "ae_WriteFile env t m (Inr content) w = (None, w') \<Longrightarrow> files w' t = Some content"
begin

lemma extract_last:
  assumes "extract_items env dst (items @ [TarEntry h (Inr content)]) w = (None, w')" and "hdr_IsReg h" and "\<not> hdr_IsDir h"
  shows "files w' (filepath_Join [dst, hdr_Name h]) = Some content"
  using assms(1)
proof (induction items arbitrary: w)
  case Nil
  with assms(2,3) show ?case by (auto simp: Let_def split: prod.splits option.splits dest: write_stores)
next
  case (Cons item items)
  then show ?case by (cases item) (auto simp: Let_def split: prod.splits option.splits if_splits)
qed

end

subsection \<open>An in-memory file system\<close>

definition mem_fs :: "http_response result \<Rightarrow> tar_item list \<Rightarrow> string gomap archive_env" where
  "mem_fs resp items =
     \<lparr>ae_Stat = \<lambda>p w. Inr DirInfo, ae_Get = \<lambda>u w. (resp, w), ae_Sleep = \<lambda>d w. w, ae_CtxErr = \<lambda>t w. None,
      ae_Create = \<lambda>fp body w. (case body of Inl e \<Rightarrow> (Some e, True, w) | Inr b \<Rightarrow> (None, True, map_put fp b w)),
      ae_Read = \<lambda>p n w. (case map_of w p of None \<Rightarrow> Inl (ErrText ''no such file'') | Some b \<Rightarrow> if b = [] then Inl (ErrText ''EOF'') else Inr (take n b)),
      ae_kinds_rng = rev,
      ae_MkdirAll = \<lambda>d w. (None, w),
      ae_OpenTar = \<lambda>p gz w. Inr items,
      ae_WriteFile = \<lambda>t m c w. (case c of Inl e \<Rightarrow> (Some e, w) | Inr b \<Rightarrow> (None, map_put t b w))\<rparr>"

interpretation memfs: filesystem "mem_fs resp items" map_of for resp items
  by unfold_locales (auto simp: mem_fs_def split: sum.splits)

interpretation memstore: storing_filesystem "mem_fs resp items" map_of for resp items
  by unfold_locales (auto simp: mem_fs_def)

text \<open>C17. Extracting an archive whose entries have no parent component in their names changes no file outside the destination.
\<close>

theorem extract_contained:
  assumes "filesystem env files" and "extract_items env dst items w = (r, w')"
    and "is_rooted dst" and "clean_components dst \<noteq> []"
    and "\<forall>h c. TarEntry h c \<in> set items \<longrightarrow> ''..'' \<notin> set (strings_Split (hdr_Name h) (CHR ''/''))"
    and "\<not> path_inside dst p"
  shows "files w' p = files w p"
  by (rule filesystem.extract_items_frame [OF assms])

lemma mem_fs_rng: "ae_kinds_rng (mem_fs resp items) = rev"
  by (simp add: mem_fs_def)

lemma mem_fs_mkdir: "ae_MkdirAll (mem_fs resp items) d w = (None, w)"
  by (simp add: mem_fs_def)

lemma mem_fs_read: "map_of w p = Some (tar_block name) \<Longrightarrow> length name \<le> 257 \<Longrightarrow> ae_Read (mem_fs resp items) p 512 w = Inr (tar_block name)"
  by (simp add: mem_fs_def) (simp add: tar_block_def)

text \<open>A file that the server sends is downloaded at the first try.\<close>

lemma fetched_file:
  "ExponentialBackoff (ae_Sleep (mem_fs (Inr \<lparr>resp_StatusCode = 200, resp_Body = Inr body\<rparr>) items)) defaultBackoff
     (fetch_condition (mem_fs (Inr \<lparr>resp_StatusCode = 200, resp_Body = Inr body\<rparr>) items) fileUrl fp timeout) w =
   (None, map_put fp body w)"
  by (subst ExponentialBackoff.simps) (simp add: mem_fs_def fetch_condition_def downloadFile_def defaultBackoff_def)

lemma read_tar_block: "length name \<le> 257 \<Longrightarrow> read_buffer 512 (tar_block name) = tar_block name"
  by (simp add: read_buffer_def tar_block_def)

lemma other_types: "\<forall>(kind, fn) \<in> set (concat (tl all_maps)). ft_MIME kind \<noteq> mimeTypeGzip \<and> ft_MIME kind \<noteq> mimeTypeTar"
  by (simp add: all_maps_def Document_map_def Font_map_def Audio_map_def Video_map_def Image_map_def Application_map_def newType_def
      mimeTypeGzip_def mimeTypeTar_def)


text \<open>C38. A build context is refused for bytes that an archive holds by chance: if a matcher of any map but the archives' accepts the first block of the downloaded
  file, the fetch ends with an error in every run, and nothing was extracted. The first bytes of a tar archive are the name of its first entry, so a context whose first
  entry is, for one, a directory \<^verbatim>\<open>GIF\<close> cannot be built.\<close>

theorem misread_context_refused:
  assumes "range_order (ae_kinds_rng env)" and "AssertDir (\<lambda>p. ae_Stat env p w) wd = None"
    and "ExponentialBackoff (ae_Sleep env) defaultBackoff (fetch_condition env fileUrl (filepath_Join [wd, ''archive'']) timeout) w = (None, w1)"
    and "ae_Read env (filepath_Join [wd, ''archive'']) 512 w1 = Inr bytes"
    and "(kind, fn) \<in> set (concat (tl all_maps))" and "fn (read_buffer 512 bytes)"
  shows "\<exists>mime. FetchAndExtract env fileUrl wd timeout w = (Inl (ErrText (''unsupported file type '' @ fmt_q mime)), w1)"
proof -
  have "read_buffer 512 bytes \<noteq> []" by (cases bytes) (simp_all add: read_buffer_def)
  from Match_checked_first [OF assms(1,5,6) this] obtain kind' fn'
    where k: "(kind', fn') \<in> set (concat (tl all_maps))" "filetype_Match (ae_kinds_rng env) (read_buffer 512 bytes) = Inr kind'" by metis
  from k(1) other_types have "ft_MIME kind' \<noteq> mimeTypeGzip" "ft_MIME kind' \<noteq> mimeTypeTar" by fastforce+
  with assms(2-4) k(2) show ?thesis by (auto simp: FetchAndExtract_def getFileContentType_def Let_def)
qed

theorem misread_context_refused_witness:
  "isl (fst (FetchAndExtract (mem_fs (Inr \<lparr>resp_StatusCode = 200, resp_Body = Inr (tar_block ''GIF/logo.txt'')\<rparr>) [])
     ''http://ctx'' BuildContextPath 0 [])) \<and> Tar (tar_block ''GIF/logo.txt'')"
proof -
  let ?env = "mem_fs (Inr \<lparr>resp_StatusCode = 200, resp_Body = Inr (tar_block ''GIF/logo.txt'')\<rparr>) []"
  let ?fp = "filepath_Join [BuildContextPath, ''archive'']"
  have gif: "(newType ''gif'' ''image/gif'', Gif) \<in> set (concat (tl all_maps))" by (simp add: all_maps_def Image_map_def)
  have "Gif (tar_block ''GIF/logo.txt'')" by (simp add: matcher_eval)
  then have hit: "Gif (read_buffer 512 (tar_block ''GIF/logo.txt''))" by (simp add: read_tar_block)
  have rng: "range_order (ae_kinds_rng ?env)" by (simp add: mem_fs_rng range_order_def)
  have dir: "AssertDir (\<lambda>p. ae_Stat ?env p []) BuildContextPath = None" by (simp add: AssertDir_def mem_fs_def)
  have read: "ae_Read ?env ?fp 512 (map_put ?fp (tar_block ''GIF/logo.txt'') []) = Inr (tar_block ''GIF/logo.txt'')" by (simp add: mem_fs_read)
  have "Tar (tar_block ''GIF/logo.txt'')" by (simp add: matcher_eval)
  then show ?thesis using misread_context_refused [OF rng dir fetched_file read gif hit, of "''http://ctx''" 0] by auto
qed


theorem extract_contained_witness:
  "map_of (snd (extract_items (mem_fs (Inl ErrWaitTimeout) []) ''/mnt/build/extracted''
      [TarEntry \<lparr>hdr_Name = ''a/b'', hdr_IsDir = False, hdr_IsReg = True, hdr_Mode = 420\<rparr> (Inr ''x'')]
      [(''/etc/passwd'', ''good'')])) ''/etc/passwd'' = Some ''good''"
proof -
  have "map_of (snd (extract_items (mem_fs (Inl ErrWaitTimeout) []) ''/mnt/build/extracted''
      [TarEntry \<lparr>hdr_Name = ''a/b'', hdr_IsDir = False, hdr_IsReg = True, hdr_Mode = 420\<rparr> (Inr ''x'')]
      [(''/etc/passwd'', ''good'')])) ''/etc/passwd'' = map_of [(''/etc/passwd'', ''good'')] ''/etc/passwd''"
  proof (rule extract_contained [OF memfs.filesystem_axioms prod.collapse [symmetric]])
    show "is_rooted ''/mnt/build/extracted''" "clean_components ''/mnt/build/extracted'' \<noteq> []" by code_simp+
    show "\<not> path_inside ''/mnt/build/extracted'' ''/etc/passwd''"
    proof -
      have "filepath_Clean ''/mnt/build/extracted'' = ''/mnt/build/extracted''" by code_simp
      then show ?thesis by (simp add: path_inside_def)
    qed
  qed auto
  then show ?thesis by simp
qed

theorem backoff_five_attempts_witness:
  "ExponentialBackoff (\<lambda>d (n, t). (n, t + d)) defaultBackoff (\<lambda>(n, t). ((False, None), (n + 1, t))) (0::nat, 0::int) =
   (Some ErrWaitTimeout, (5, 31000000000))"
  (is "ExponentialBackoff ?sleep _ ?c _ = _")
proof -
  have "transient ?sleep ?c 5 (0, 0)" by (auto simp: transient_def split: prod.splits)
  moreover have "attempt_world ?sleep ?c 5 (0, 0) = (5, 31000000000)" by (simp add: eval_nat_numeral)
  ultimately show ?thesis using backoff_five_attempts [of ?sleep ?c "(0, 0)"] by simp
qed

theorem downloadFile_retries_iff_witness:
  "fst (downloadFile (mem_fs (Inr \<lparr>resp_StatusCode = 503, resp_Body = Inr []\<rparr>) []) ''u'' ''f'' []) = (False, None)"
  using downloadFile_retries_iff [of "mem_fs (Inr \<lparr>resp_StatusCode = 503, resp_Body = Inr []\<rparr>) []" "''u''" "''f''" "[]"]
  by (simp add: mem_fs_def split: sum.splits)

end
