(* ===== verification/Forge_Driver.thy ===== *)
theory Forge_Driver
  imports Forge_Bkimage Forge_Plugins Forge_Archive "HOL-Library.Sublist"
begin

section \<open>The embedded builder\<close>

text \<open>
  \<^verbatim>\<open>internal/builder/embedded\<close>: the driver that fetches the build context, runs the preparer plugins, solves the build
  and pushes the image to every registry, and the solve request it makes from the options of a build. The download of the
  context is an argument of the driver, as in the code; the identities of requests, the environment of the process and the
  display of the progress are arguments too.
\<close>

subsection \<open>Solve requests\<close>

definition cacheTag :: string where
  "cacheTag = ''buildcache''"

definition defaultCacheMode :: string where
  "defaultCacheMode = ''max''"

definition getExportMode :: "(string \<Rightarrow> string) \<Rightarrow> string result" where
  "getExportMode getenv =
     (let mode = getenv ''EMBEDDED_BUILDER_CACHE_MODE'' in
      if mode = '''' then Inr defaultCacheMode
      else if mode \<noteq> ''min'' \<and> mode \<noteq> ''max'' then Inl (ErrText (''invalid embedded builder cache mode: '' @ mode))
      else Inr mode)"

text \<open>\<^verbatim>\<open>build.ParseOpt\<close> of BuildKit: words of the form \<^verbatim>\<open>key=value\<close>, later ones override.\<close>

fun attrMap :: "string list \<Rightarrow> string gomap \<Rightarrow> string gomap result" where
  "attrMap [] m = Inr m"
| "attrMap (v # vs) m =
     (case strings_Split2 v (CHR ''='') of
        [k, x] \<Rightarrow> attrMap vs (map_put k x m)
      | _ \<Rightarrow> Inl (ErrText (''invalid value '' @ v)))"

definition ParseOpt :: "(string gomap \<Rightarrow> string gomap) \<Rightarrow> string list \<Rightarrow> string gomap result" where
  "ParseOpt rng opts = (case attrMap opts [] of Inl err \<Rightarrow> Inl err | Inr modern \<Rightarrow> Inr (map_put_all [] (rng modern)))"

record 'w driver_env =
  de_bk :: "'w bk_env"
  de_NewID :: "'w \<Rightarrow> string \<times> 'w"
  de_getenv :: "string \<Rightarrow> string"
  de_rng :: "string gomap \<Rightarrow> string gomap"
  de_Extract :: "string \<Rightarrow> string \<Rightarrow> 64 word \<Rightarrow> 'w \<Rightarrow> Extraction result \<times> 'w"
  de_Display :: "'w call"

text \<open>The reference of the cached layers: the image under the cache tag.\<close>

definition cache_ref :: "'w bk_env \<Rightarrow> string \<Rightarrow> string result" where
  "cache_ref env img =
     (case be_ParseNormalizedNamed env img of
        Inl err \<Rightarrow> Inl err
      | Inr imageName \<Rightarrow> be_WithTag env imageName cacheTag)"

definition registry_entry :: "string gomap \<Rightarrow> CacheOptionsEntry" where
  "registry_entry attrs = \<lparr>ce_Type = ''registry'', ce_Attrs = attrs\<rparr>"

definition with_caches :: "'w driver_env \<Rightarrow> string \<Rightarrow> bool \<Rightarrow> BuildOptions \<Rightarrow> SolveRequest \<Rightarrow> SolveRequest result" where
  "with_caches env cacheTagRef cacheImageLayers opts req =
     (if \<not> cacheImageLayers then Inr req
      else
       (case (if bo_DisableLayerCacheExport opts then Inr req
              else (case getExportMode (de_getenv env) of
                      Inl err \<Rightarrow> Inl err
                    | Inr cacheMode \<Rightarrow>
                      Inr (req\<lparr>sr_Exports := [registry_entry [(''mode'', cacheMode), (''ref'', cacheTagRef)]],
                               sr_FrontendAttrs := map_put ''cache-from'' cacheTagRef (sr_FrontendAttrs req)\<rparr>))) of
          Inl err \<Rightarrow> Inl err
        | Inr req1 \<Rightarrow>
          Inr (if bo_DisableBuildCache opts then req1
               else req1\<lparr>sr_Imports := [registry_entry [(''ref'', cacheTagRef)]]\<rparr>)))"

definition with_build_args :: "'w driver_env \<Rightarrow> BuildOptions \<Rightarrow> SolveRequest \<Rightarrow> SolveRequest result" where
  "with_build_args env opts req =
     (if bo_BuildArgs opts = [] then Inr req
      else (case ParseOpt (de_rng env) (map (\<lambda>arg. ''build-arg:'' @ arg) (bo_BuildArgs opts)) of
              Inl err \<Rightarrow> Inl err
            | Inr attrs \<Rightarrow> Inr (req\<lparr>sr_FrontendAttrs := map_put_all (sr_FrontendAttrs req) (de_rng env attrs)\<rparr>)))"

definition with_labels :: "'w driver_env \<Rightarrow> BuildOptions \<Rightarrow> SolveRequest \<Rightarrow> SolveRequest" where
  "with_labels env opts req = req\<lparr>sr_FrontendAttrs :=
     map_put_all (sr_FrontendAttrs req) (map (\<lambda>(k, v). (''label:'' @ k, v)) (de_rng env (bo_Labels opts)))\<rparr>"

definition solveRequestWithContext ::
  "'w driver_env \<Rightarrow> string \<Rightarrow> string \<Rightarrow> bool \<Rightarrow> BuildOptions \<Rightarrow> 'w \<Rightarrow> SolveRequest result \<times> 'w" where
  "solveRequestWithContext env sessionID img cacheImageLayers opts w =
     (case de_NewID env w of
        (ref, w1) \<Rightarrow>
        (let req = \<lparr>sr_Ref = ref, sr_Session = sessionID, sr_Frontend = ''dockerfile.v0'',
               sr_FrontendAttrs = [(''filename'', ''Dockerfile'')], sr_Exporter = ''image'',
               sr_ExporterAttrs = [(''name'', img)], sr_Exports = [], sr_Imports = []\<rparr>
         in (case cache_ref (de_bk env) img of
               Inl err \<Rightarrow> Inl err
             | Inr cacheTagRef \<Rightarrow>
               (case with_caches env cacheTagRef cacheImageLayers opts req of
                  Inl err \<Rightarrow> Inl err
                | Inr req1 \<Rightarrow>
                  (let req2 = (if bo_DisableBuildCache opts
                               then req1\<lparr>sr_FrontendAttrs := map_put ''no-cache'' '''' (sr_FrontendAttrs req1)\<rparr>
                               else req1)
                   in (case with_build_args env opts req2 of
                         Inl err \<Rightarrow> Inl err
                       | Inr req3 \<Rightarrow> Inr (with_labels env opts req3)))), w1)))"

text \<open>The credentials and the plain HTTP test of a list of registries: the last entry of a host counts.\<close>

fun host_map :: "RegistryConfig list \<Rightarrow> RegistryConfig gomap \<Rightarrow> RegistryConfig gomap" where
  "host_map [] m = m"
| "host_map (reg # regs) m = host_map regs (map_put (rc_Host reg) reg m)"

definition generateRegistryFunc :: "RegistryConfig list \<Rightarrow> CredentialsFn \<times> TLSEnabledFn" where
  "generateRegistryFunc registries =
     (let rHostMap = host_map registries [] in
      (\<lambda>host. case map_of rHostMap host of
                Some reg \<Rightarrow> Inr (rc_Username reg, rc_Password reg) | None \<Rightarrow> Inr ('''', ''''),
       \<lambda>host. case map_of rHostMap host of Some reg \<Rightarrow> Inr (rc_NonSSL reg) | None \<Rightarrow> Inr False))"

subsection \<open>The driver\<close>

record 'w driver =
  dr_plugins :: "'w Preparer list"
  dr_cacheImageLayers :: bool

definition NewDriver ::
  "'w driver_env \<Rightarrow> 'w Preparer list \<Rightarrow> bool \<Rightarrow> 'w \<Rightarrow> ('w driver \<times> bk_client) result \<times> 'w" where
  "NewDriver env plugins cacheImageLayers w =
     (case NewClient (be_setup (de_bk env)) (GetStateDir (de_getenv env)) ''auto'' w of
        (Inl err, w1) \<Rightarrow> (Inl (errors_Wrap err ''cannot create buildkit client''), w1)
      | (Inr client, w1) \<Rightarrow> (Inr (\<lparr>dr_plugins = plugins, dr_cacheImageLayers = cacheImageLayers\<rparr>, client), w1))"

text \<open>
  The loop over the plugins defers a clean-up in every round before it calls the plugin. In the Go version of the module
  all the deferred functions share the loop variable, so when they run, after the body, each of them
  cleans up the plugin of the last round that was started.
\<close>

fun prepare_loop ::
  "'w Preparer list \<Rightarrow> string \<Rightarrow> string gomap \<Rightarrow> nat \<Rightarrow> 'w Preparer option \<Rightarrow> 'w \<Rightarrow>
   (go_error option \<times> nat \<times> 'w Preparer option) \<times> 'w" where
  "prepare_loop [] dir data n current w = ((None, n, current), w)"
| "prepare_loop (p # ps) dir data n current w =
     (case prep_Prepare p dir data w of
        (Some err, w1) \<Rightarrow> ((Some err, Suc n, Some p), w1)
      | (None, w1) \<Rightarrow> prepare_loop ps dir data (Suc n) (Some p) w1)"

fun run_deferred :: "nat \<Rightarrow> 'w Preparer option \<Rightarrow> 'w \<Rightarrow> 'w" where
  "run_deferred 0 p w = w"
| "run_deferred (Suc n) None w = w"
| "run_deferred (Suc n) (Some p) w = run_deferred n (Some p) (snd (prep_Cleanup p w))"

definition run_session :: "'w bk_env \<Rightarrow> bk_session \<Rightarrow> bk_client \<times> 'w \<Rightarrow> go_error option \<times> bk_client \<times> 'w" where
  "run_session env sess cw = on_world (be_RunSession env (ses_ID sess) (bc_hostCredentials (fst cw))) cw"

definition closing :: "'w bk_env \<Rightarrow> bk_session \<Rightarrow> ('w, 'a) bk \<Rightarrow> ('w, 'a) bk" where
  "closing env sess f = io_finally f (\<lambda>cw. (fst cw, be_CloseSession env (ses_ID sess) (snd cw)))"

definition on_error :: "('s \<Rightarrow> 's) \<Rightarrow> ('s, 'a) io \<Rightarrow> ('s, 'a) io" where
  "on_error d f s = (case f s of (Inl e, s1) \<Rightarrow> (Inl e, d s1) | (Inr x, s1) \<Rightarrow> (Inr x, s1))"

definition solve_context :: "'w driver_env \<Rightarrow> 'w driver \<Rightarrow> string \<Rightarrow> BuildOptions \<Rightarrow> string \<Rightarrow> ('w, unit) bk" where
  "solve_context env d img opts dir =
     io_bind (Session (de_bk env) [(''context'', dir), (''dockerfile'', dir)]) (\<lambda>sess.
     io_bind (on_error (\<lambda>cw. (fst cw, be_CloseSession (de_bk env) (ses_ID sess) (snd cw)))
               (on_world (solveRequestWithContext env (ses_ID sess) img (dr_cacheImageLayers d) opts))) (\<lambda>solveReq.
     eg_run (be_eg (de_bk env))
       [run_session (de_bk env) sess,
        as_call (closing (de_bk env) sess (Solve (de_bk env) solveReq)),
        on_world (de_Display env)]))"

definition with_plugins :: "'w driver \<Rightarrow> string gomap \<Rightarrow> string \<Rightarrow> ('w, unit) bk \<Rightarrow> ('w, unit) bk" where
  "with_plugins d data dir body cw =
     (case prepare_loop (dr_plugins d) dir data 0 None (snd cw) of
        ((err, n, current), w1) \<Rightarrow>
          io_finally (case err of Some e \<Rightarrow> io_fail e | None \<Rightarrow> body)
            (\<lambda>cw1. (fst cw1, run_deferred n current (snd cw1))) (fst cw, w1))"

definition driver_build :: "'w driver_env \<Rightarrow> 'w driver \<Rightarrow> string \<Rightarrow> BuildOptions \<Rightarrow> ('w, unit) bk" where
  "driver_build env d img opts =
     io_bind (on_world (de_Extract env (bo_ContextURL opts) BuildContextPath (bo_ContextTimeout opts))) (\<lambda>ex.
       with_plugins d (bo_PluginData opts) (ex_ContentsDir ex)
         (solve_context env d img opts (ex_ContentsDir ex)))"

definition driver_tag :: "'w driver_env \<Rightarrow> string \<Rightarrow> string \<Rightarrow> ('w, unit) bk" where
  "driver_tag env img target = TagImage (de_bk env) img target"

definition driver_push :: "'w driver_env \<Rightarrow> string \<Rightarrow> ('w, unit) bk" where
  "driver_push env img =
     io_bind (Session (de_bk env) []) (\<lambda>sess.
     eg_run (be_eg (de_bk env))
       [run_session (de_bk env) sess,
        as_call (closing (de_bk env) sess (PushImage (de_bk env) (ses_ID sess) img))])"

definition validateImageSize :: "'w driver_env \<Rightarrow> string \<Rightarrow> 64 word \<Rightarrow> ('w, 64 word) bk" where
  "validateImageSize env name limit cw =
     (case GetImage (de_bk env) name cw of
        (Inl err, cw1) \<Rightarrow> (Inl (ErrText (''cannot validate image size: '' @ error_text err)), cw1)
      | (Inr li, cw1) \<Rightarrow>
        (let imageSize = li_ContentSize li in
         if 0 < limit \<and> limit < imageSize
         then (Inl (ErrText (''image '' @ fmt_q name @ '' is too large to push to registry (size: ''
                 @ fmt_d (unat imageSize) @ '', limit: '' @ fmt_d (unat limit) @ '')'')), cw1)
         else (Inr imageSize, cw1)))"

text \<open>The name under which the image is pushed to a registry.\<close>

definition image_name :: "'w bk_env \<Rightarrow> string \<Rightarrow> string \<Rightarrow> string result" where
  "image_name env registry name =
     (let img = registry @ ''/'' @ name in
      case be_ParseNormalizedNamed env img of
        Inl err \<Rightarrow> Inl (ErrText (''parsing image name '' @ fmt_q img @ '' failed: '' @ error_text err))
      | Inr named \<Rightarrow> Inr (be_TagNameOnly env named))"

fun push_loop ::
  "'w driver_env \<Rightarrow> 'w driver \<Rightarrow> BuildOptions \<Rightarrow> nat \<Rightarrow> string \<Rightarrow> string list \<Rightarrow> 64 word \<Rightarrow> string list \<Rightarrow> ('w, Image) bk" where
  "push_loop env d opts idx headImg images imageSize [] = io_return \<lparr>img_URLs = images, img_Size = imageSize\<rparr>"
| "push_loop env d opts idx headImg images imageSize (registry # registries) =
     io_bind (io_of (image_name (de_bk env) registry (bo_ImageName opts))) (\<lambda>img.
     io_bind (if idx = 0
              then io_bind (driver_build env d img opts) (\<lambda>_.
                   io_bind (validateImageSize env img (bo_ImageSizeLimit opts)) (\<lambda>size1.
                   io_return (img, size1)))
              else io_bind (driver_tag env headImg img) (\<lambda>_. io_return (headImg, imageSize))) (\<lambda>hs.
     io_bind (driver_push env img) (\<lambda>_.
     push_loop env d opts (Suc idx) (fst hs) (images @ [img]) (snd hs) registries)))"

definition BuildAndPush :: "'w driver_env \<Rightarrow> 'w driver \<Rightarrow> BuildOptions \<Rightarrow> ('w, Image) bk" where
  "BuildAndPush env d opts =
     (if bo_PushRegistries opts = [] then io_fail (ErrText ''image builds require at least one push registry'')
      else io_finally
             (io_bind (on_client (ConfigureHosts (generateRegistryFunc (bo_Registries opts)))) (\<lambda>_.
              push_loop env d opts 0 '''' [] 0 (bo_PushRegistries opts)))
             (\<lambda>cw. (ResetHostConfigurations (fst cw), snd cw)))"

subsection \<open>Observing a build\<close>

text \<open>
  To speak about what a build does, and in which order, the same driver runs in an environment that notes four kinds of calls in a log:
  solving, measuring an image, storing an image under a name, and pushing. The notes carry the hosts, the names and the digests that were handed to the calls.
  A note says whether the call succeeded; of a measurement, whether the size is within the limit as well. An update of a name that the store does not know
  is not noted: the code then creates the name. The log is the first part of the world.
\<close>

datatype act = ASolve registry_hosts "string option" | ASize string string | ATag string string | APush registry_hosts string string

type_synonym act_log = "(act \<times> bool) list"

definition lift_setup :: "'w bk_setup \<Rightarrow> ('l \<times> 'w) bk_setup" where
  "lift_setup S =
     \<lparr>bs_OverlaySupported = (\<lambda>p lw. bs_OverlaySupported S p (snd lw)),
      bs_FuseSupported = (\<lambda>p lw. bs_FuseSupported S p (snd lw)),
      bs_OpenDB = on_world \<circ> bs_OpenDB S, bs_ContentStore = on_world \<circ> bs_ContentStore S,
      bs_Snapshotter = (\<lambda>b p. on_world (bs_Snapshotter S b p)), bs_InitDB = on_world (bs_InitDB S),
      bs_MetadataStore = on_world \<circ> bs_MetadataStore S, bs_MountProc = on_world (bs_MountProc S),
      bs_NetProviders = on_world (bs_NetProviders S),
      bs_Executor = (\<lambda>p r b. on_world (bs_Executor S p r b)), bs_WorkerID = on_world \<circ> bs_WorkerID S,
      bs_Platforms = bs_Platforms S, bs_ParsePlatform = bs_ParsePlatform S,
      bs_NewWorker = on_world \<circ> bs_NewWorker S, bs_AddWorker = on_world \<circ> bs_AddWorker S,
      bs_CacheStore = on_world \<circ> bs_CacheStore S, bs_NewController = on_world (bs_NewController S),
      bs_NewManager = on_world (bs_NewManager S)\<rparr>"

definition noting :: "('r \<Rightarrow> act_log) \<Rightarrow> ('w \<Rightarrow> 'r \<times> 'w) \<Rightarrow> act_log \<times> 'w \<Rightarrow> 'r \<times> act_log \<times> 'w" where
  "noting ev f lw = (case f (snd lw) of (r, w1) \<Rightarrow> (r, fst lw @ ev r, w1))"

definition note_size :: "64 word \<Rightarrow> store_image \<Rightarrow> 64 word result \<Rightarrow> act_log" where
  "note_size limit i r = [(ASize (si_Name i) (si_Digest i), case r of Inl _ \<Rightarrow> False | Inr n \<Rightarrow> \<not> (0 < limit \<and> limit < n))]"

definition note_update :: "store_image \<Rightarrow> go_error option \<Rightarrow> act_log" where
  "note_update i r =
     (case r of
        None \<Rightarrow> [(ATag (si_Name i) (si_Digest i), True)]
      | Some err \<Rightarrow> (if is_not_found err then [] else [(ATag (si_Name i) (si_Digest i), False)]))"

definition traced_bk :: "64 word \<Rightarrow> 'w bk_env \<Rightarrow> (act_log \<times> 'w) bk_env" where
  "traced_bk limit env =
     \<lparr>be_setup = lift_setup (be_setup env), be_ParseNormalizedNamed = be_ParseNormalizedNamed env,
      be_TagNameOnly = be_TagNameOnly env, be_WithTag = be_WithTag env,
      be_NewSession = on_world \<circ> be_NewSession env, be_RunSession = (\<lambda>i c. on_world (be_RunSession env i c)),
      be_CloseSession = (\<lambda>i lw. (fst lw, be_CloseSession env i (snd lw))),
      be_Get = on_world \<circ> be_Get env,
      be_Size = (\<lambda>img. noting (note_size limit img) (be_Size env img)),
      be_Update = (\<lambda>img. noting (note_update img) (be_Update env img)),
      be_Create = (\<lambda>img. noting (\<lambda>r. [(ATag (si_Name img) (si_Digest img), r = None)]) (be_Create env img)),
      be_Push = (\<lambda>h i dg name an. noting (\<lambda>r. [(APush h name dg, r = None)]) (be_Push env h i dg name an)),
      be_Solve = (\<lambda>h req. noting (\<lambda>r. [(ASolve h (map_of (sr_ExporterAttrs req) ''name''), r = None)]) (be_Solve env h req)),
      be_Status = on_world \<circ> be_Status env, be_eg = be_eg env, be_dirs_rng = be_dirs_rng env\<rparr>"

definition lift_plugin :: "'w Preparer \<Rightarrow> ('l \<times> 'w) Preparer" where
  "lift_plugin p = \<lparr>prep_Prepare = (\<lambda>dir data. on_world (prep_Prepare p dir data)), prep_Cleanup = on_world (prep_Cleanup p)\<rparr>"

definition traced :: "64 word \<Rightarrow> 'w driver_env \<Rightarrow> (act_log \<times> 'w) driver_env" where
  "traced limit env =
     \<lparr>de_bk = traced_bk limit (de_bk env), de_NewID = on_world (de_NewID env), de_getenv = de_getenv env,
      de_rng = de_rng env, de_Extract = (\<lambda>u p t. on_world (de_Extract env u p t)), de_Display = on_world (de_Display env)\<rparr>"

definition lift_driver :: "'w driver \<Rightarrow> ('l \<times> 'w) driver" where
  "lift_driver d = \<lparr>dr_plugins = map lift_plugin (dr_plugins d), dr_cacheImageLayers = dr_cacheImageLayers d\<rparr>"

text \<open>
  A log follows a plan if it is a prefix of it in which every call but possibly the last succeeded; on success it is the whole plan and every call succeeded.
\<close>

definition follows :: "act list \<Rightarrow> 'a result \<Rightarrow> act_log \<Rightarrow> bool" where
  "follows plan r es \<longleftrightarrow> prefix (map fst es) plan \<and> list_all snd (butlast es) \<and>
     (\<forall>x. r = Inr x \<longrightarrow> map fst es = plan \<and> list_all snd es)"

lemma follows_nil [simp]: "follows [] r es \<longleftrightarrow> es = []"
  by (auto simp: follows_def)

lemma follows_err: "follows A (Inl e) es \<Longrightarrow> follows (A @ B) (Inl e') es"
  by (auto simp: follows_def)

lemma follows_append:
  assumes "follows A (Inr x) es1" and "follows B r es2"
  shows "follows (A @ B) r (es1 @ es2)"
  using assms by (auto simp: follows_def butlast_append)

text \<open>A computation of the client that keeps the registry hosts and whose calls follow a plan.\<close>

definition emits :: "registry_hosts \<Rightarrow> act list \<Rightarrow> (act_log \<times> 'w, 'a) bk \<Rightarrow> bool" where
  "emits h plan f \<longleftrightarrow> (\<forall>c l w r c' l' w'. f (c, l, w) = (r, c', l', w') \<longrightarrow> bc_registryHosts c = h \<longrightarrow>
     bc_registryHosts c' = h \<and> (\<exists>es. l' = l @ es \<and> follows plan r es))"

named_theorems emits_rules \<open>plans of the client's operations\<close>

lemma emitsD:
  assumes "emits h plan f" and "f (c, l, w) = (r, c', l', w')" and "bc_registryHosts c = h"
  obtains es where "l' = l @ es" "follows plan r es" "bc_registryHosts c' = h"
  using assms unfolding emits_def by blast

lemma emitsI:
  assumes "\<And>c l w r c' l' w'. f (c, l, w) = (r, c', l', w') \<Longrightarrow> bc_registryHosts c = h \<Longrightarrow>
    bc_registryHosts c' = h \<and> (\<exists>es. l' = l @ es \<and> follows plan r es)"
  shows "emits h plan f"
  using assms unfolding emits_def by blast

lemma emits_bind:
  assumes "emits h A f" and "\<And>x s s1. f s = (Inr x, s1) \<Longrightarrow> emits h B (g x)"
  shows "emits h (A @ B) (io_bind f g)"
proof (rule emitsI)
  fix c l w r c' l' w'
  assume b: "io_bind f g (c, l, w) = (r, c', l', w')" and c: "bc_registryHosts c = h"
  show "bc_registryHosts c' = h \<and> (\<exists>es. l' = l @ es \<and> follows (A @ B) r es)"
    using b
  proof (cases rule: io_bind_cases)
    case (fails e)
    then show ?thesis using emitsD [OF assms(1) _ c] follows_err by metis
  next
    case (goes_on x s1)
    obtain c1 l1 w1 where s1: "s1 = (c1, l1, w1)" by (cases s1)
    obtain es1 where 1: "l1 = l @ es1" "follows A (Inr x) es1" "bc_registryHosts c1 = h"
      using emitsD [OF assms(1) goes_on(1) [unfolded s1] c] by blast
    obtain es2 where 2: "l' = l1 @ es2" "follows B r es2" "bc_registryHosts c' = h"
      using emitsD [OF assms(2) [OF goes_on(1)] goes_on(2) [unfolded s1] 1(3)] by blast
    show ?thesis using 1 2 follows_append by fastforce
  qed
qed

lemma emits_then:
  assumes "emits h [] f" and "\<And>x s s1. f s = (Inr x, s1) \<Longrightarrow> emits h B (g x)"
  shows "emits h B (io_bind f g)"
  using emits_bind [OF assms] by simp

lemma emits_pure [emits_rules]: "emits h [] (io_return x)" "emits h [] (io_fail e)" "emits h [] (io_of q)"
  by (auto intro!: emitsI)

lemma follows_wrap: "follows A (Inl e) es \<Longrightarrow> follows A (Inl e') es"
  by (simp add: follows_def)

lemma emits_wrap [emits_rules]: "emits h A f \<Longrightarrow> emits h A (io_wrap m f)"
  unfolding emits_def io_wrap_def
  by (fastforce split: prod.splits sum.splits dest: follows_wrap)

lemma emits_quiet [emits_rules]: "emits h [] (on_world (on_world f))"
  by (auto intro!: emitsI simp: on_world_def split: prod.splits)

lemma emits_quiet_err [emits_rules]: "emits h [] (bk_call (on_world f))"
  by (auto intro!: emitsI simp: on_world_def io_err_def split: prod.splits option.splits)

lemma emits_client [emits_rules]:
  assumes "\<And>c. bc_registryHosts (k c) = bc_registryHosts c"
  shows "emits h [] (on_client k)"
  using assms by (auto intro!: emitsI simp: on_client_def)

lemma emits_if [emits_rules]: "emits h A f \<Longrightarrow> emits h A g \<Longrightarrow> emits h A (if b then f else g)"
  by simp

lemma emits_state:
  assumes "\<And>s. bc_registryHosts (fst s) = h \<Longrightarrow> \<exists>g. f s = g s \<and> emits h A g"
  shows "emits h A f"
  unfolding emits_def using assms by (metis (no_types, lifting) emits_def fst_conv)


lemma emits_cond:
  assumes "\<And>s. f s = (if b s then g1 s else g2 s)" and "emits h A g1" and "emits h A g2"
  shows "emits h A f"
  using assms by (intro emits_state) metis

subsection \<open>Plans of the client's operations\<close>

lemmas bk_quiet_defs = traced_bk_def lift_setup_def traced_def comp_def

lemma emits_getSessionManager [emits_rules]: "emits h [] (getSessionManager (be_setup (traced_bk limit env)))"
proof (rule emits_cond)
  show "\<And>s. getSessionManager (be_setup (traced_bk limit env)) s =
      (if bc_sessionManager (fst s) then io_return () s
       else io_bind (io_wrap ''cannot create session manager'' (bk_call (on_world (bs_NewManager (be_setup env)))))
              (\<lambda>_. on_client (\<lambda>c. c\<lparr>bc_sessionManager := True\<rparr>)) s)"
    by (simp add: getSessionManager_def bk_quiet_defs io_return_def)
qed (intro emits_then emits_rules; simp)+

lemma emits_Session [emits_rules]: "emits h [] (Session (traced_bk limit env) dirs)"
  unfolding Session_def by (intro emits_then emits_rules) (simp_all add: bk_quiet_defs emits_rules)

lemma emits_getProcessMode [emits_rules]: "emits h [] (getProcessMode (be_setup (traced_bk limit env)))"
  by (auto intro!: emitsI simp: getProcessMode_def bk_quiet_defs on_world_def split: prod.splits)

lemma emits_createWorkerOpt [emits_rules]: "emits h [] (createWorkerOpt (be_setup (traced_bk limit env)))"
proof (rule emits_state)
  fix s
  show "\<exists>g. createWorkerOpt (be_setup (traced_bk limit env)) s = g s \<and> emits h [] g"
    unfolding createWorkerOpt_def Let_def
    by (rule exI, rule conjI, rule refl)
      (intro emits_then emits_rules; simp add: bk_quiet_defs emits_rules)
qed

lemma emits_createController [emits_rules]: "emits h [] (createController (be_setup (traced_bk limit env)))"
proof (rule emits_state)
  fix s
  show "\<exists>g. createController (be_setup (traced_bk limit env)) s = g s \<and> emits h [] g"
    unfolding createController_def Let_def
    by (rule exI, rule conjI, rule refl)
      (intro emits_then emits_rules; simp add: bk_quiet_defs emits_rules)
qed


text \<open>A group of which one member follows a plan and the others are quiet follows that plan.\<close>

lemma emits_run_all_quiet:
  assumes "\<forall>f \<in> set fs. emits h [] (io_err f)" and "run_all fs (c, l, w) = (errs, c', l', w')"
    and "bc_registryHosts c = h"
  shows "l' = l \<and> bc_registryHosts c' = h"
  using assms
proof (induction fs arbitrary: c l w errs)
  case (Cons f fs)
  obtain e s1 where f: "f (c, l, w) = (e, s1)" by (metis surj_pair)
  obtain c1 l1 w1 where s1: "s1 = (c1, l1, w1)" by (cases s1)
  have "io_err f (c, l, w) = (case e of Some x \<Rightarrow> Inl x | None \<Rightarrow> Inr (), c1, l1, w1)"
    by (simp add: io_err_def f s1 split: option.splits)
  then have "l1 = l \<and> bc_registryHosts c1 = h"
    using Cons.prems(1,3) by (auto elim!: emitsD)
  with Cons.IH [of c1 l1 w1] Cons.prems f s1 show ?case by (auto split: prod.splits)
qed simp

lemma run_all_append:
  "run_all (fs @ gs) s =
     (case run_all fs s of (es, s1) \<Rightarrow> case run_all gs s1 of (es2, s2) \<Rightarrow> (es @ es2, s2))"
  by (induction fs arbitrary: s) (auto split: prod.splits)

lemma eg_Wait_None: "range_order order \<Longrightarrow> eg_Wait order errs = None \<longleftrightarrow> set errs \<subseteq> {None}"
proof -
  assume r: "range_order order"
  have "set (order errs) = set errs" using r by (metis range_order_def set_mset_mset)
  moreover have "eg_Wait order errs = None \<longleftrightarrow> filter (\<lambda>e. e \<noteq> None) (order errs) = []"
  proof (cases "filter (\<lambda>e. e \<noteq> None) (order errs)")
    case (Cons e es)
    then have "e \<noteq> None" by (auto simp: filter_eq_Cons_iff)
    with Cons show ?thesis by (simp add: eg_Wait_def)
  qed (simp add: eg_Wait_def)
  ultimately show ?thesis by (auto simp: filter_empty_conv)
qed

lemma emits_group:
  assumes "range_order order" and "\<forall>g \<in> set (fs @ gs). emits h [] (io_err g)" and "emits h A (io_err f)"
  shows "emits h A (eg_run order (fs @ f # gs))"
proof (rule emitsI)
  fix c l w r c' l' w'
  assume run: "eg_run order (fs @ f # gs) (c, l, w) = (r, c', l', w')" and c: "bc_registryHosts c = h"
  obtain es1 c1 l1 w1 where 1: "run_all fs (c, l, w) = (es1, c1, l1, w1)" by (metis surj_pair)
  obtain e c2 l2 w2 where 2: "f (c1, l1, w1) = (e, c2, l2, w2)" by (metis surj_pair)
  obtain es3 c3 l3 w3 where 3: "run_all gs (c2, l2, w2) = (es3, c3, l3, w3)" by (metis surj_pair)
  have q1: "l1 = l" "bc_registryHosts c1 = h" using emits_run_all_quiet [OF _ 1 c] assms(2) by auto
  have "io_err f (c1, l1, w1) = (case e of Some x \<Rightarrow> Inl x | None \<Rightarrow> Inr (), c2, l2, w2)"
    by (simp add: io_err_def 2 split: option.splits)
  then obtain es where q2: "l2 = l @ es" "follows A (case e of Some x \<Rightarrow> Inl x | None \<Rightarrow> Inr ()) es"
      "bc_registryHosts c2 = h"
    using emitsD [OF assms(3) _ q1(2)] q1(1) by metis
  have q3: "l3 = l2" "bc_registryHosts c3 = h" using emits_run_all_quiet [OF _ 3 q2(3)] assms(2) by auto
  have all: "run_all (fs @ f # gs) (c, l, w) = (es1 @ e # es3, c3, l3, w3)"
    by (simp add: run_all_append 1 2 3)
  have r: "r = (case eg_Wait order (es1 @ e # es3) of Some x \<Rightarrow> Inl x | None \<Rightarrow> Inr ())"
    and s: "c' = c3" "l' = l3"
    using run by (auto simp: eg_run_def io_err_def all split: option.splits)
  have "follows A r es"
  proof (cases "eg_Wait order (es1 @ e # es3)")
    case None
    then have "e = None" using eg_Wait_None [OF assms(1)] by auto
    moreover have "r = Inr ()" by (simp only: r None option.case)
    ultimately show ?thesis using q2(2) by simp
  next
    case (Some x)
    have "prefix (map fst es) A \<and> list_all snd (butlast es)" using q2(2) by (simp add: follows_def)
    then show ?thesis by (simp add: r Some follows_def)
  qed
  then show "bc_registryHosts c' = h \<and> (\<exists>es. l' = l @ es \<and> follows A r es)"
    using q2 q3 s by auto
qed

lemma io_err_as_call: "io_err (as_call f) = f"
  by (rule ext) (simp add: io_err_def as_call_def split: prod.splits sum.splits)

lemma emits_as_call [emits_rules]: "emits h A f \<Longrightarrow> emits h A (io_err (as_call f))"
  by (simp add: io_err_as_call)

lemma emits_closing [emits_rules]:
  assumes "emits h A f"
  shows "emits h A (closing (traced_bk limit env) sess f)"
  using assms unfolding emits_def closing_def io_finally_def
  by (fastforce simp: traced_bk_def split: prod.splits)

lemma emits_run_session [emits_rules]: "emits h [] (io_err (run_session (traced_bk limit env) sess))"
proof (rule emits_state)
  fix s
  show "\<exists>g. io_err (run_session (traced_bk limit env) sess) s = g s \<and> emits h [] g"
    by (rule exI [of _ "bk_call (on_world (be_RunSession env (ses_ID sess) (bc_hostCredentials (fst s))))"])
      (simp add: io_err_def run_session_def traced_bk_def emits_rules)
qed

subsection \<open>Plans of the driver's operations\<close>

lemma emits_solve_call:
  assumes "map_of (sr_ExporterAttrs req) ''name'' = Some img"
  shows "emits h [ASolve h (Some img)] (solve_call (traced_bk limit env) req)"
  using assms
  by (auto intro!: emitsI simp: solve_call_def traced_bk_def noting_def io_err_def on_world_def follows_def
      split: prod.splits option.splits)

lemma emits_Solve:
  assumes "range_order (be_eg env)" and "map_of (sr_ExporterAttrs req) ''name'' = Some img"
  shows "emits h [ASolve h (Some img)] (Solve (traced_bk limit env) req)"
proof -
  let ?bk = "traced_bk limit env"
  have status: "emits h [] (io_err (on_world (be_Status ?bk (sr_Ref req))))"
    by (simp add: bk_quiet_defs emits_rules)
  have "emits h [ASolve h (Some img)] (eg_run (be_eg ?bk) ([] @ as_call (io_wrap ''failed to solve'' (solve_call ?bk req))
          # [on_world (be_Status ?bk (sr_Ref req))]))"
    using assms(1) status by (intro emits_group emits_as_call emits_wrap emits_solve_call assms(2)) (simp_all add: traced_bk_def)
  moreover have "emits h [] (\<lambda>cw. if bc_controller (fst cw) then (Inr (), cw) else createController (be_setup ?bk) cw)"
    by (rule emits_cond [where b = "\<lambda>s. bc_controller (fst s)" and ?g1.0 = "io_return ()"
            and ?g2.0 = "createController (be_setup ?bk)"])
      (simp_all add: io_return_def emits_createController emits_pure)
  ultimately show ?thesis unfolding Solve_def by (intro emits_then) simp_all
qed

lemma request_parts_exporter:
  "with_caches env ref cache opts req = Inr req' \<Longrightarrow> sr_ExporterAttrs req' = sr_ExporterAttrs req"
  "with_build_args env opts req = Inr req' \<Longrightarrow> sr_ExporterAttrs req' = sr_ExporterAttrs req"
  "sr_ExporterAttrs (with_labels env opts req) = sr_ExporterAttrs req"
  by (auto simp: with_caches_def with_build_args_def with_labels_def split: sum.splits if_splits)

lemma solveRequest_cases:
  assumes "solveRequestWithContext env sid img cache opts w = (Inr req, w')"
  obtains ref cacheTagRef req1 req3 where "de_NewID env w = (ref, w')" "cache_ref (de_bk env) img = Inr cacheTagRef"
    "with_caches env cacheTagRef cache opts
       \<lparr>sr_Ref = ref, sr_Session = sid, sr_Frontend = ''dockerfile.v0'',
        sr_FrontendAttrs = [(''filename'', ''Dockerfile'')], sr_Exporter = ''image'',
        sr_ExporterAttrs = [(''name'', img)], sr_Exports = [], sr_Imports = []\<rparr> = Inr req1"
    "with_build_args env opts (if bo_DisableBuildCache opts
       then req1\<lparr>sr_FrontendAttrs := map_put ''no-cache'' '''' (sr_FrontendAttrs req1)\<rparr> else req1) = Inr req3"
    "req = with_labels env opts req3"
  using assms unfolding solveRequestWithContext_def Let_def
  by (auto split: prod.splits sum.splits simp del: update_conv)

lemma solveRequest_name:
  assumes "solveRequestWithContext env sid img cache opts w = (Inr req, w')"
  shows "map_of (sr_ExporterAttrs req) ''name'' = Some img"
  using assms by (rule solveRequest_cases) (auto simp: request_parts_exporter split: if_splits)

lemma emits_on_error:
  assumes "emits h [] f"
  shows "emits h [] (on_error (\<lambda>cw. (fst cw, be_CloseSession (traced_bk limit env) i (snd cw))) f)"
  using assms unfolding emits_def on_error_def
  by (fastforce simp: traced_bk_def split: prod.splits sum.splits)

lemma traced_pure:
  "de_bk (traced limit env) = traced_bk limit (de_bk env)" "de_getenv (traced limit env) = de_getenv env"
  "de_rng (traced limit env) = de_rng env" "de_NewID (traced limit env) = on_world (de_NewID env)"
  "be_ParseNormalizedNamed (traced_bk limit bk) = be_ParseNormalizedNamed bk"
  "be_TagNameOnly (traced_bk limit bk) = be_TagNameOnly bk" "be_WithTag (traced_bk limit bk) = be_WithTag bk"
  "be_eg (traced_bk limit bk) = be_eg bk"
  "de_Display (traced limit env) = on_world (de_Display env)"
  "de_Extract (traced limit env) u p t = on_world (de_Extract env u p t)"
  by (simp_all add: traced_def traced_bk_def)

lemma request_parts_traced:
  "cache_ref (traced_bk limit bk) = cache_ref bk" "with_caches (traced limit env) = with_caches env"
  "with_build_args (traced limit env) = with_build_args env" "with_labels (traced limit env) = with_labels env"
  unfolding fun_eq_iff cache_ref_def with_caches_def with_build_args_def with_labels_def traced_pure by simp_all

lemma solveRequest_traced:
  "solveRequestWithContext (traced limit env) sid img cache opts =
   on_world (solveRequestWithContext env sid img cache opts)"
  unfolding solveRequestWithContext_def traced_pure request_parts_traced
  by (rule ext) (simp add: on_world_def split: prod.splits)

lemma emits_solve_context:
  assumes "range_order (be_eg (de_bk env))"
  shows "emits h [ASolve h (Some img)] (solve_context (traced limit env) d img opts dir)"
proof -
  let ?bk = "traced_bk limit (de_bk env)"
  have bk: "de_bk (traced limit env) = ?bk" by (simp add: traced_def)
  have show1: "emits h [] (io_err (on_world (de_Display (traced limit env))))"
    by (simp add: traced_def emits_rules)
  have group: "emits h [ASolve h (Some img)] (eg_run (be_eg ?bk)
      [run_session ?bk sess, as_call (closing ?bk sess (Solve ?bk req)), on_world (de_Display (traced limit env))])"
    if "map_of (sr_ExporterAttrs req) ''name'' = Some img" for sess :: bk_session and req
  proof -
    have "emits h [ASolve h (Some img)] (eg_run (be_eg ?bk)
      ([run_session ?bk sess] @ as_call (closing ?bk sess (Solve ?bk req)) # [on_world (de_Display (traced limit env))]))"
      by (rule emits_group)
        (simp_all add: assms traced_pure(8) show1 emits_run_session emits_as_call emits_closing emits_Solve that)
    then show ?thesis by simp
  qed
  show ?thesis
    unfolding solve_context_def bk
  proof (rule emits_then [OF emits_Session], rule emits_then [OF emits_on_error])
    fix sess :: bk_session
    show "emits h [] (on_world (solveRequestWithContext (traced limit env) (ses_ID sess) img (dr_cacheImageLayers d) opts))"
      by (simp add: solveRequest_traced emits_rules)
  next
    fix sess :: bk_session and req s s1
    assume "on_error (\<lambda>cw. (fst cw, be_CloseSession ?bk (ses_ID sess) (snd cw)))
      (on_world (solveRequestWithContext (traced limit env) (ses_ID sess) img (dr_cacheImageLayers d) opts)) s = (Inr req, s1)"
    then have "map_of (sr_ExporterAttrs req) ''name'' = Some img"
      by (auto simp: on_error_def on_world_def split: prod.splits sum.splits dest: solveRequest_name)
    then show "emits h [ASolve h (Some img)] (eg_run (be_eg ?bk) [run_session ?bk sess, as_call (closing ?bk sess (Solve ?bk req)),
        on_world (de_Display (traced limit env))])"
      by (rule group)
  qed
qed

lemma prepare_loop_quiet:
  "prepare_loop (map lift_plugin ps) dir data n (map_option lift_plugin cur) (l, w) =
     (case prepare_loop ps dir data n cur w of
        ((e, m, cur1), w1) \<Rightarrow> ((e, m, map_option lift_plugin cur1), (l, w1)))"
proof (induction ps arbitrary: n cur w)
  case (Cons p ps)
  show ?case
    using Cons.IH [where cur = "Some p"]
    by (auto simp: lift_plugin_def [of p] on_world_def split: prod.splits option.splits)
qed simp

lemma run_deferred_quiet:
  "run_deferred n (map_option lift_plugin p) (l, w) = (l, run_deferred n p w)"
proof (induction n arbitrary: w)
  case (Suc n)
  then show ?case by (cases p) (auto simp: lift_plugin_def on_world_def split: prod.splits)
qed simp

lemma emits_with_plugins:
  assumes "emits h A f"
  shows "emits h A (with_plugins (lift_driver d) data dir f)"
proof (rule emitsI)
  fix c l w r c' l' w'
  assume run: "with_plugins (lift_driver d) data dir f (c, l, w) = (r, c', l', w')" and c: "bc_registryHosts c = h"
  obtain e n cur w1 where p: "prepare_loop (dr_plugins d) dir data 0 None w = ((e, n, cur), w1)" by (metis surj_pair)
  have p': "prepare_loop (dr_plugins (lift_driver d)) dir data 0 None (l, w) = ((e, n, map_option lift_plugin cur), (l, w1))"
    using prepare_loop_quiet [of "dr_plugins d" dir data 0 None l w] by (simp add: p lift_driver_def)
  show "bc_registryHosts c' = h \<and> (\<exists>es. l' = l @ es \<and> follows A r es)"
  proof (cases e)
    case None
    obtain r2 c2 l2 w2 where f: "f (c, l, w1) = (r2, c2, l2, w2)" by (metis surj_pair)
    from run have "r = r2 \<and> c' = c2 \<and> l' = l2"
      by (simp add: with_plugins_def p' None io_finally_def f run_deferred_quiet)
    with emitsD [OF assms f c] show ?thesis by metis
  next
    case (Some err)
    with run have "r = Inl err \<and> c' = c \<and> l' = l"
      by (simp add: with_plugins_def p' io_finally_def io_fail_def run_deferred_quiet)
    with c show ?thesis by (auto simp: follows_def)
  qed
qed

lemma emits_driver_build:
  assumes "range_order (be_eg (de_bk env))"
  shows "emits h [ASolve h (Some img)] (driver_build (traced limit env) (lift_driver d) img opts)"
  unfolding driver_build_def traced_pure
  by (intro emits_then emits_with_plugins emits_solve_context assms emits_quiet)

lemma traced_ops:
  "be_Get (traced_bk limit bk) n = on_world (be_Get bk n)"
  "be_Update (traced_bk limit bk) i = noting (note_update i) (be_Update bk i)"
  "be_Create (traced_bk limit bk) i = noting (\<lambda>r. [(ATag (si_Name i) (si_Digest i), r = None)]) (be_Create bk i)"
  "be_Size (traced_bk limit bk) i = noting (note_size limit i) (be_Size bk i)"
  "be_Push (traced_bk limit bk) h sid dg name an = noting (\<lambda>r. [(APush h name dg, r = None)]) (be_Push bk h sid dg name an)"
  "be_NewSession (traced_bk limit bk) n = on_world (be_NewSession bk n)"
  "be_RunSession (traced_bk limit bk) sid cr = on_world (be_RunSession bk sid cr)"
  "be_CloseSession (traced_bk limit bk) sid lw = (fst lw, be_CloseSession bk sid (snd lw))"
  "bs_NewManager (be_setup (traced_bk limit bk)) = on_world (bs_NewManager (be_setup bk))"
  by (simp_all add: traced_bk_def lift_setup_def)

lemma parseImageName_traced: "parseImageName (traced_bk limit bk) = parseImageName bk"
  unfolding fun_eq_iff parseImageName_def traced_pure by simp

lemma emits_store_Get [emits_rules]: "emits h [] (store_Get (traced_bk limit bk) name)"
  unfolding store_Get_def traced_ops by (intro emits_rules)

lemma store_Get_quiet: "store_Get (traced_bk limit bk) name (c, l, w) = (r, s1) \<Longrightarrow> fst s1 = c \<and> fst (snd s1) = l"
  by (auto simp: store_Get_def traced_ops io_wrap_def on_world_def split: prod.splits sum.splits)

lemma emits_put_image: "emits h [ATag (si_Name img) (si_Digest img)] (put_image (traced_bk limit bk) img)"
  by (auto intro!: emitsI simp: put_image_def traced_ops noting_def note_update_def follows_def on_world_def io_wrap_def io_err_def
      split: prod.splits option.splits sum.splits if_splits)

lemma emits_push_call: "emits h [APush h name (si_Digest img)] (push_call (traced_bk limit bk) sid img name)"
  by (auto intro!: emitsI simp: push_call_def traced_ops noting_def io_err_def on_world_def follows_def
      split: prod.splits option.splits)

lemma io_of_Inr: "io_of (Inr x) = io_return x"
  by (rule ext) (simp add: io_of_def io_return_def)

subsection \<open>Which image is measured, tagged and pushed\<close>

text \<open>
  What the driver relies on of the image store: a read finds the image that the store has under the name; an image that was stored under a name is found there
  with the digest it was stored with; storing under a name leaves the other names alone; and measuring, pushing and
  the sessions with a registry store no image. What a solve stores is left open.
\<close>

locale image_store =
  fixes bk :: "'w bk_env" and imgs :: "'w \<Rightarrow> string \<Rightarrow> store_image option"
  assumes get_found: "be_Get bk n w = (Inr i, w') \<Longrightarrow> imgs w n = Some i \<and> si_Name i = n"
    and get_keeps: "be_Get bk n w = (r, w') \<Longrightarrow> imgs w' = imgs w"
    and update_digest: "be_Update bk i w = (None, w') \<Longrightarrow> imgs w' (si_Name i) = Some j \<Longrightarrow> si_Digest j = si_Digest i"
    and update_others: "be_Update bk i w = (e, w') \<Longrightarrow> n \<noteq> si_Name i \<Longrightarrow> imgs w' n = imgs w n"
    and create_digest: "be_Create bk i w = (None, w') \<Longrightarrow> imgs w' (si_Name i) = Some j \<Longrightarrow> si_Digest j = si_Digest i"
    and create_others: "be_Create bk i w = (e, w') \<Longrightarrow> n \<noteq> si_Name i \<Longrightarrow> imgs w' n = imgs w n"
    and size_keeps: "be_Size bk i w = (sz, w') \<Longrightarrow> imgs w' = imgs w"
    and push_keeps: "be_Push bk h sid dg n an w = (e, w') \<Longrightarrow> imgs w' = imgs w"
    and session_keeps: "be_NewSession bk m w = (q, w') \<Longrightarrow> imgs w' = imgs w"
    and run_keeps: "be_RunSession bk sid cr w = (e, w') \<Longrightarrow> imgs w' = imgs w"
    and close_keeps: "imgs (be_CloseSession bk sid w) = imgs w"
    and manager_keeps: "bs_NewManager (be_setup bk) w = (e, w') \<Longrightarrow> imgs w' = imgs w"

text \<open>Whatever is read under a name has a digest.\<close>

definition reads :: "('w \<Rightarrow> string \<Rightarrow> store_image option) \<Rightarrow> string \<Rightarrow> string \<Rightarrow> 'w \<Rightarrow> bool" where
  "reads imgs n dg w \<longleftrightarrow> (\<forall>i. imgs w n = Some i \<longrightarrow> si_Digest i = dg)"

lemma reads_some: "\<exists>dg. reads imgs n dg w"
  by (cases "imgs w n") (auto simp: reads_def)

text \<open>A computation that follows a plan if it starts in a world with \<open>P\<close>, and ends in a world with \<open>Q\<close> if it succeeds.\<close>

definition does :: "registry_hosts \<Rightarrow> ('w \<Rightarrow> bool) \<Rightarrow> act list \<Rightarrow> (act_log \<times> 'w, 'a) bk \<Rightarrow> ('w \<Rightarrow> bool) \<Rightarrow> bool" where
  "does h P plan f Q \<longleftrightarrow> (\<forall>c l w r c' l' w'. f (c, l, w) = (r, c', l', w') \<longrightarrow> bc_registryHosts c = h \<longrightarrow> P w \<longrightarrow>
     bc_registryHosts c' = h \<and> (\<exists>es. l' = l @ es \<and> follows plan r es) \<and> (\<forall>x. r = Inr x \<longrightarrow> Q w'))"

lemma doesD:
  assumes "does h P plan f Q" and "f (c, l, w) = (r, c', l', w')" and "bc_registryHosts c = h" and "P w"
  obtains es where "l' = l @ es" "follows plan r es" "bc_registryHosts c' = h" "\<forall>x. r = Inr x \<longrightarrow> Q w'"
proof -
  have "bc_registryHosts c' = h \<and> (\<exists>es. l' = l @ es \<and> follows plan r es) \<and> (\<forall>x. r = Inr x \<longrightarrow> Q w')"
    using assms(1) [unfolded does_def, rule_format, OF assms(2-4)] .
  then show thesis using that by blast
qed

lemma doesI:
  assumes "\<And>c l w r c' l' w'. f (c, l, w) = (r, c', l', w') \<Longrightarrow> bc_registryHosts c = h \<Longrightarrow> P w \<Longrightarrow>
    bc_registryHosts c' = h \<and> (\<exists>es. l' = l @ es \<and> follows plan r es) \<and> (\<forall>x. r = Inr x \<longrightarrow> Q w')"
  shows "does h P plan f Q"
  using assms unfolding does_def by blast

lemma emits_does:
  assumes "emits h A f" and "\<And>c l w x c' l' w'. f (c, l, w) = (Inr x, c', l', w') \<Longrightarrow> P w \<Longrightarrow> Q w'"
  shows "does h P A f Q"
proof (rule doesI)
  fix c l w r c' l' w'
  assume f: "f (c, l, w) = (r, c', l', w')" and c: "bc_registryHosts c = h" and P: "P w"
  from emitsD [OF assms(1) f c] have "bc_registryHosts c' = h \<and> (\<exists>es. l' = l @ es \<and> follows A r es)" by metis
  then show "bc_registryHosts c' = h \<and> (\<exists>es. l' = l @ es \<and> follows A r es) \<and> (\<forall>x. r = Inr x \<longrightarrow> Q w')"
    using assms(2) [of c l w _ c' l' w'] f P by auto
qed

lemma does_bind:
  assumes "does h P A f Q" and "\<And>x c l w s1. f (c, l, w) = (Inr x, s1) \<Longrightarrow> P w \<Longrightarrow> does h Q B (g x) R"
  shows "does h P (A @ B) (io_bind f g) R"
proof (rule doesI)
  fix c l w r c' l' w'
  assume b: "io_bind f g (c, l, w) = (r, c', l', w')" and c: "bc_registryHosts c = h" and P: "P w"
  show "bc_registryHosts c' = h \<and> (\<exists>es. l' = l @ es \<and> follows (A @ B) r es) \<and> (\<forall>x. r = Inr x \<longrightarrow> R w')"
    using b
  proof (cases rule: io_bind_cases)
    case (fails e)
    show ?thesis
      by (rule doesD [OF assms(1) fails(1) c P]) (simp add: fails(2), erule follows_err)
  next
    case (goes_on x s1)
    obtain c1 l1 w1 where s1: "s1 = (c1, l1, w1)" by (cases s1)
    obtain es1 where 1: "l1 = l @ es1" "follows A (Inr x) es1" "bc_registryHosts c1 = h" "Q w1"
      by (rule doesD [OF assms(1) goes_on(1) [unfolded s1] c P]) simp
    obtain es2 where 2: "l' = l1 @ es2" "follows B r es2" "bc_registryHosts c' = h" "\<forall>x. r = Inr x \<longrightarrow> R w'"
      by (rule doesD [OF assms(2) [OF goes_on(1) P] goes_on(2) [unfolded s1] 1(3,4)])
    show ?thesis using 1(1) 2 follows_append [OF 1(2) 2(2)] by simp
  qed
qed

lemma does_then:
  assumes "does h P [] f Q" and "\<And>x c l w s1. f (c, l, w) = (Inr x, s1) \<Longrightarrow> P w \<Longrightarrow> does h Q B (g x) R"
  shows "does h P B (io_bind f g) R"
  using does_bind [OF assms] by simp

lemma does_pure: "does h P [] (io_return x) P" "does h P [] (io_of q) P"
  by (auto intro!: doesI)

text \<open>The images that the store has before and after a computation are the same.\<close>

abbreviation same_images :: "('w \<Rightarrow> string \<Rightarrow> store_image option) \<Rightarrow> bk_client \<times> act_log \<times> 'w \<Rightarrow> bk_client \<times> act_log \<times> 'w \<Rightarrow> bool" where
  "same_images imgs s s' \<equiv> imgs (snd (snd s')) = imgs (snd (snd s))"

lemma same_images_preorder: "reflp (same_images imgs)" "transp (same_images imgs)"
  by (auto intro!: reflpI transpI)

lemma does_keeping:
  assumes "emits h A f" and "io_keeps (same_images imgs) f"
  shows "does h (reads imgs n dg) A f (reads imgs n dg)"
  by (rule emits_does [OF assms(1)]) (use io_keepsD [OF assms(2)] in \<open>force simp: reads_def\<close>)

lemma keeps_run_all:
  assumes "\<forall>f \<in> set fs. io_keeps (same_images imgs) (io_err f)"
  shows "same_images imgs s (snd (run_all fs s))"
  using assms
proof (induction fs arbitrary: s)
  case (Cons f fs)
  obtain e s1 where f: "f s = (e, s1)" by (metis surj_pair)
  have "io_keeps (same_images imgs) (io_err f)" using Cons.prems by simp
  then have "same_images imgs s (snd (io_err f s))" unfolding io_keeps_def by blast
  then have "same_images imgs s s1" by (simp only: io_err_state f snd_conv)
  with Cons.IH [of s1] Cons.prems show ?case by (auto simp: f split: prod.splits)
qed simp

lemma keeps_group:
  assumes "\<forall>f \<in> set fs. io_keeps (same_images imgs) (io_err f)"
  shows "io_keeps (same_images imgs) (eg_run order fs)"
  unfolding io_keeps_def
proof
  fix s
  have "snd (eg_run order fs s) = snd (run_all fs s)" by (simp add: eg_run_def io_err_state split: prod.splits)
  then show "same_images imgs s (snd (eg_run order fs s))" using keeps_run_all [OF assms] by simp
qed

text \<open>A group of which all but the last member are quiet and keep the images does what the last member does.\<close>

lemma does_group:
  assumes "range_order order" and "\<forall>g \<in> set fs. emits h [] (io_err g) \<and> io_keeps (same_images imgs) (io_err g)"
    and "does h (reads imgs n dg) A (io_err f) Q"
  shows "does h (reads imgs n dg) A (eg_run order (fs @ [f])) Q"
proof (rule doesI)
  fix c l w r c' l' w'
  assume run: "eg_run order (fs @ [f]) (c, l, w) = (r, c', l', w')" and c: "bc_registryHosts c = h" and P: "reads imgs n dg w"
  obtain es1 c1 l1 w1 where 1: "run_all fs (c, l, w) = (es1, c1, l1, w1)" by (metis surj_pair)
  obtain e where 2: "f (c1, l1, w1) = (e, c', l', w')" and r: "r = (case eg_Wait order (es1 @ [e]) of Some x \<Rightarrow> Inl x | None \<Rightarrow> Inr ())"
    using run by (auto simp: eg_run_def io_err_def run_all_append 1 split: prod.splits option.splits)
  have q1: "l1 = l" "bc_registryHosts c1 = h" using emits_run_all_quiet [OF _ 1 c] assms(2) by auto
  have "imgs w1 = imgs w" using keeps_run_all [of fs imgs "(c, l, w)"] assms(2) 1 by simp
  with P have P1: "reads imgs n dg w1" by (simp add: reads_def)
  have "io_err f (c1, l1, w1) = (case e of Some x \<Rightarrow> Inl x | None \<Rightarrow> Inr (), c', l', w')"
    by (simp add: io_err_def 2 split: option.splits)
  then obtain es where q2: "l' = l @ es" "follows A (case e of Some x \<Rightarrow> Inl x | None \<Rightarrow> Inr ()) es" "bc_registryHosts c' = h"
      "\<forall>x. (case e of Some x \<Rightarrow> Inl x | None \<Rightarrow> Inr ()) = Inr x \<longrightarrow> Q w'"
    using doesD [OF assms(3) _ q1(2) P1] q1(1) by blast
  have "follows A r es \<and> (\<forall>x. r = Inr x \<longrightarrow> Q w')"
  proof (cases "eg_Wait order (es1 @ [e])")
    case None
    then have "e = None" using eg_Wait_None [OF assms(1)] by auto
    moreover have "r = Inr ()" by (simp only: r None option.case)
    ultimately show ?thesis using q2(2,4) by simp
  next
    case (Some x)
    have "prefix (map fst es) A \<and> list_all snd (butlast es)" using q2(2) by (simp add: follows_def)
    then show ?thesis by (simp add: r Some follows_def)
  qed
  then show "bc_registryHosts c' = h \<and> (\<exists>es. l' = l @ es \<and> follows A r es) \<and> (\<forall>x. r = Inr x \<longrightarrow> Q w')"
    using q2 by auto
qed

context image_store
begin

lemma keeps_getSessionManager: "io_keeps (same_images imgs) (getSessionManager (be_setup (traced_bk limit bk)))"
  by (auto simp: io_keeps_def getSessionManager_def traced_ops io_bind_def io_wrap_def io_err_def on_client_def on_world_def
      split: prod.splits option.splits sum.splits dest: manager_keeps)

lemma keeps_Session: "io_keeps (same_images imgs) (Session (traced_bk limit bk) dirs)"
proof -
  have "io_keeps (same_images imgs) (on_world (on_world (be_NewSession bk n)))" for n
    by (auto simp: io_keeps_def on_world_def split: prod.splits dest: session_keeps)
  then show ?thesis
    unfolding Session_def traced_ops by (intro io_keeps_intros keeps_getSessionManager same_images_preorder)
qed

lemma keeps_run_session: "io_keeps (same_images imgs) (io_err (run_session (traced_bk limit bk) sess))"
  by (auto simp: io_keeps_def io_err_state run_session_def traced_ops on_world_def split: prod.splits dest: run_keeps)

lemma keeps_closing: "io_keeps (same_images imgs) f \<Longrightarrow> io_keeps (same_images imgs) (closing (traced_bk limit bk) sess f)"
  by (simp add: io_keeps_def closing_def io_finally_def traced_ops close_keeps split: prod.splits) (metis snd_conv)

lemma keeps_store_Get: "io_keeps (same_images imgs) (store_Get (traced_bk limit bk) name)"
  by (auto simp: io_keeps_def store_Get_def traced_ops io_wrap_def on_world_def split: prod.splits sum.splits dest: get_keeps)

lemma store_Get_digest:
  assumes "store_Get (traced_bk limit bk) name (c, l, w) = (Inr i, s1)" and "reads imgs name dg w"
  shows "si_Digest i = dg \<and> si_Name i = name"
  using assms
  by (auto simp: store_Get_def traced_ops io_wrap_def on_world_def reads_def split: prod.splits sum.splits dest!: get_found)

lemma keeps_push_call: "io_keeps (same_images imgs) (push_call (traced_bk limit bk) sid img name)"
  by (auto simp: io_keeps_def push_call_def traced_ops noting_def io_err_def on_world_def split: prod.splits option.splits dest: push_keeps)

lemma does_closing:
  assumes "does h (reads imgs n dg) A f (reads imgs n dg)"
  shows "does h (reads imgs n dg) A (io_err (as_call (closing (traced_bk limit bk) sess f))) (reads imgs n dg)"
proof (rule doesI)
  fix c l w r c' l' w'
  assume run: "io_err (as_call (closing (traced_bk limit bk) sess f)) (c, l, w) = (r, c', l', w')" and c: "bc_registryHosts c = h"
    and P: "reads imgs n dg w"
  obtain w1 where f: "f (c, l, w) = (r, c', l', w1)" and w': "w' = be_CloseSession bk (ses_ID sess) w1"
    using run by (auto simp: io_err_as_call closing_def io_finally_def traced_ops split: prod.splits)
  from doesD [OF assms f c P] obtain es where "l' = l @ es" "follows A r es" "bc_registryHosts c' = h"
    "\<forall>x. r = Inr x \<longrightarrow> reads imgs n dg w1" .
  then show "bc_registryHosts c' = h \<and> (\<exists>es. l' = l @ es \<and> follows A r es) \<and> (\<forall>x. r = Inr x \<longrightarrow> reads imgs n dg w')"
    by (auto simp: w' reads_def close_keeps)
qed

lemma does_PushImage:
  assumes "parseImageName bk n = Inr n"
  shows "does h (reads imgs n dg) [APush h n dg] (PushImage (traced_bk limit bk) sid n) (reads imgs n dg)"
  unfolding PushImage_def parseImageName_traced assms io_of_Inr io_return_bind
proof (rule does_then [OF does_keeping [OF emits_store_Get keeps_store_Get]])
  fix i c l w s1
  assume "store_Get (traced_bk limit bk) n (c, l, w) = (Inr i, s1)" "reads imgs n dg w"
  then have i: "si_Digest i = dg" using store_Get_digest by blast
  show "does h (reads imgs n dg) [APush h n dg]
      (io_bind (getSessionManager (be_setup (traced_bk limit bk))) (\<lambda>_. push_call (traced_bk limit bk) sid i n)) (reads imgs n dg)"
    by (rule does_then [OF does_keeping [OF emits_getSessionManager keeps_getSessionManager]])
      (rule does_keeping [OF emits_push_call [of h n i limit bk sid, unfolded i] keeps_push_call])
qed

lemma keeps_driver_push:
  assumes "de_bk env = bk"
  shows "io_keeps (same_images imgs) (driver_push (traced limit env) n)"
proof -
  have "io_keeps (same_images imgs) (PushImage (traced_bk limit bk) sid n)" for sid
    unfolding PushImage_def
    by (intro io_keeps_intros keeps_store_Get keeps_getSessionManager keeps_push_call same_images_preorder)
  then show ?thesis
    unfolding driver_push_def traced_pure assms
    by (intro io_keeps_intros keeps_Session keeps_group same_images_preorder)
      (simp add: keeps_run_session io_err_as_call keeps_closing)
qed

lemma does_driver_push:
  assumes "de_bk env = bk" and "range_order (be_eg bk)" and "parseImageName bk n = Inr n"
  shows "does h (\<lambda>w. reads imgs m dg w \<and> reads imgs n dg w) [APush h n dg] (driver_push (traced limit env) n) (reads imgs m dg)"
proof -
  let ?bk = "traced_bk limit bk"
  have "does h (reads imgs n dg) [APush h n dg]
      (eg_run (be_eg ?bk) ([run_session ?bk sess] @ [as_call (closing ?bk sess (PushImage ?bk (ses_ID sess) n))])) (reads imgs n dg)"
    for sess :: bk_session
    by (rule does_group)
      (simp_all add: assms(2) traced_pure emits_run_session keeps_run_session does_closing does_PushImage assms(3))
  then have "does h (reads imgs n dg) [APush h n dg] (driver_push (traced limit env) n) (reads imgs n dg)"
    unfolding driver_push_def traced_pure assms(1)
    by (intro does_then [OF does_keeping [OF emits_Session keeps_Session]]) simp
  then show ?thesis
    using io_keepsD [OF keeps_driver_push [OF assms(1)]] unfolding does_def reads_def by (metis (mono_tags, lifting) snd_conv)
qed

lemma put_image_images:
  assumes "put_image (traced_bk limit bk) i (c, l, w) = (Inr x, c', l', w')"
  shows "reads imgs (si_Name i) (si_Digest i) w' \<and> (\<forall>n. n \<noteq> si_Name i \<longrightarrow> imgs w' n = imgs w n)"
proof -
  obtain e w1 where u: "be_Update bk i w = (e, w1)" by (metis surj_pair)
  show ?thesis
  proof (cases e)
    case None
    with assms u have "w' = w1" by (auto simp: put_image_def traced_ops noting_def on_world_def)
    then show ?thesis using u None update_digest update_others by (auto simp: reads_def)
  next
    case (Some err)
    with assms u have "be_Create bk i w1 = (None, w')"
      by (auto simp: put_image_def traced_ops noting_def on_world_def io_wrap_def io_err_def split: if_splits prod.splits option.splits)
    then show ?thesis using update_others [OF u] create_digest create_others by (auto simp: reads_def)
  qed
qed

lemma does_driver_tag:
  assumes "de_bk env = bk" and "parseImageName bk src = Inr src" and "parseImageName bk dest = Inr dest"
  shows "does h (reads imgs src dg) [ATag dest dg] (driver_tag (traced limit env) src dest) (\<lambda>w. reads imgs src dg w \<and> reads imgs dest dg w)"
  unfolding driver_tag_def TagImage_def traced_pure parseImageName_traced assms io_of_Inr io_return_bind
proof (rule does_then [OF does_keeping [OF emits_store_Get keeps_store_Get]])
  fix i c l w s1
  assume "store_Get (traced_bk limit bk) src (c, l, w) = (Inr i, s1)" "reads imgs src dg w"
  then have i: "si_Digest i = dg" using store_Get_digest by blast
  let ?i = "\<lparr>si_Name = dest, si_Digest = si_Digest i, si_Annotations = si_Annotations i, si_CreatedAt = si_CreatedAt i\<rparr>"
  show "does h (reads imgs src dg) [ATag dest dg] (put_image (traced_bk limit bk) ?i) (\<lambda>w. reads imgs src dg w \<and> reads imgs dest dg w)"
  proof (rule emits_does)
    show "emits h [ATag dest dg] (put_image (traced_bk limit bk) ?i)" using emits_put_image [of h ?i limit bk] by (simp add: i)
    fix c l w x c' l' w'
    assume "put_image (traced_bk limit bk) ?i (c, l, w) = (Inr x, c', l', w')" "reads imgs src dg w"
    then show "reads imgs src dg w' \<and> reads imgs dest dg w'"
      using put_image_images [of limit ?i] i by (cases "src = dest") (auto simp: reads_def)
  qed
qed

lemma does_validateImageSize:
  assumes "de_bk env = bk" and "parseImageName bk n = Inr n"
  shows "does h (reads imgs n dg) [ASize n dg] (validateImageSize (traced limit env) n limit) (reads imgs n dg)"
proof (rule doesI)
  fix c l w r c' l' w'
  assume run: "validateImageSize (traced limit env) n limit (c, l, w) = (r, c', l', w')" and c: "bc_registryHosts c = h" and P: "reads imgs n dg w"
  obtain q w1 where g: "be_Get bk n w = (q, w1)" by (metis surj_pair)
  show "bc_registryHosts c' = h \<and> (\<exists>es. l' = l @ es \<and> follows [ASize n dg] r es) \<and> (\<forall>x. r = Inr x \<longrightarrow> reads imgs n dg w')"
  proof (cases q)
    case (Inl e)
    then show ?thesis
      using run g c
      by (auto simp: validateImageSize_def GetImage_def parseImageName_traced traced_pure traced_ops assms store_Get_def io_of_Inr
          io_bind_def io_wrap_def on_world_def follows_def)
  next
    case (Inr i)
    obtain sz w2 where z: "be_Size bk i w1 = (sz, w2)" by (metis surj_pair)
    have i: "si_Digest i = dg" "si_Name i = n" using get_found [OF g [unfolded Inr]] P by (auto simp: reads_def)
    have "reads imgs n dg w2" using P get_keeps [OF g] size_keeps [OF z] by (simp add: reads_def)
    moreover have "c' = c \<and> w' = w2 \<and> l' = l @ note_size limit i sz \<and> (\<forall>x. r = Inr x \<longrightarrow> snd (hd (note_size limit i sz)))"
      using run g z Inr
      by (auto simp: validateImageSize_def GetImage_def parseImageName_traced traced_pure traced_ops assms store_Get_def io_of_Inr io_return_def
          io_bind_def io_wrap_def on_world_def noting_def note_size_def Let_def split: sum.splits if_splits)
    ultimately show ?thesis using c i by (auto simp: note_size_def follows_def)
  qed
qed

end

text \<open>The names a build is pushed under, as far as they can be formed, and what a build does with them.\<close>

fun push_names :: "'w bk_env \<Rightarrow> string \<Rightarrow> string list \<Rightarrow> string list" where
  "push_names env name [] = []"
| "push_names env name (registry # registries) =
     (case image_name env registry name of Inl _ \<Rightarrow> [] | Inr img \<Rightarrow> img # push_names env name registries)"

definition push_plan :: "registry_hosts \<Rightarrow> string \<Rightarrow> string list \<Rightarrow> act list" where
  "push_plan h dg names = concat (map (\<lambda>img. [ATag img dg, APush h img dg]) names)"

definition build_plan :: "registry_hosts \<Rightarrow> string \<Rightarrow> string list \<Rightarrow> act list" where
  "build_plan h dg names =
     (case names of
        [] \<Rightarrow> []
      | img # imgs \<Rightarrow> [ASolve h (Some img), ASize img dg, APush h img dg] @ push_plan h dg imgs)"

text \<open>
  What the driver relies on of the reference parser: the text of a reference, tagged or completed with the default tag, parses back
  into the same reference.
\<close>

locale image_refs =
  fixes bk :: "'w bk_env"
  assumes reparse: "be_ParseNormalizedNamed bk s = Inr n \<Longrightarrow> parseImageName bk (be_TagNameOnly bk n) = Inr (be_TagNameOnly bk n)"
begin

lemma image_name_stable: "image_name bk reg name = Inr img \<Longrightarrow> parseImageName bk img = Inr img"
  by (auto simp: image_name_def Let_def split: sum.splits dest: reparse)

end

lemma image_name_traced: "image_name (traced_bk limit bk) = image_name bk"
  unfolding fun_eq_iff image_name_def traced_pure by simp

lemma push_names_traced: "push_names (traced_bk limit bk) name regs = push_names bk name regs"
  by (induction regs) (auto simp: image_name_traced split: sum.splits)

lemma does_push_tail:
  assumes "range_order (be_eg (de_bk env))" and "image_refs (de_bk env)" and "image_store (de_bk env) imgs"
    and "parseImageName (de_bk env) headImg = Inr headImg" and "0 < idx"
  shows "does h (reads imgs headImg dg) (push_plan h dg (push_names (de_bk env) (bo_ImageName opts) regs))
    (push_loop (traced limit env) d opts idx headImg images size1 regs) (\<lambda>_. True)"
  using assms(5)
proof (induction regs arbitrary: idx images)
  case (Cons reg regs)
  show ?case
  proof (cases "image_name (de_bk env) reg (bo_ImageName opts)")
    case (Inl e)
    then show ?thesis
      by (auto intro!: doesI simp: io_bind_def io_of_def traced_pure image_name_traced push_plan_def)
  next
    case (Inr img)
    have stable: "parseImageName (de_bk env) img = Inr img" using image_refs.image_name_stable [OF assms(2) Inr] .
    let ?E = "traced limit env" and ?names = "push_names (de_bk env) (bo_ImageName opts) regs"
    have loop: "push_loop ?E d opts idx headImg images size1 (reg # regs) =
      io_bind (driver_tag ?E headImg img) (\<lambda>_. io_bind (driver_push ?E img) (\<lambda>_.
        push_loop ?E d opts (Suc idx) headImg (images @ [img]) size1 regs))"
      using Cons.prems by (simp add: traced_pure image_name_traced Inr io_bind_assoc io_of_Inr)
    have "does h (reads imgs headImg dg) ([ATag img dg] @ [APush h img dg] @ push_plan h dg ?names)
        (push_loop ?E d opts idx headImg images size1 (reg # regs)) (\<lambda>_. True)"
      unfolding loop
    proof (rule does_bind [OF image_store.does_driver_tag [OF assms(3) refl assms(4) stable]],
        rule does_bind [OF image_store.does_driver_push [OF assms(3) refl assms(1) stable]])
      show "does h (reads imgs headImg dg) (push_plan h dg ?names)
          (push_loop ?E d opts (Suc idx) headImg (images @ [img]) size1 regs) (\<lambda>_. True)"
        by (rule Cons.IH) simp
    qed
    then show ?thesis by (simp add: Inr push_plan_def)
  qed
qed (auto intro!: doesI simp: push_plan_def)

text \<open>The whole loop: which digest the name has after the solve is known only when the image is measured.\<close>

lemma push_loop_follows:
  assumes "range_order (be_eg (de_bk env))" and "image_refs (de_bk env)" and "image_store (de_bk env) imgs"
    and "push_loop (traced (bo_ImageSizeLimit opts) env) (lift_driver d) opts 0 headImg [] 0 regs (c, l, w) = (r, c', l', w')"
    and "bc_registryHosts c = h"
  shows "\<exists>dg es. l' = l @ es \<and> follows (build_plan h dg (push_names (de_bk env) (bo_ImageName opts) regs)) r es"
proof (cases regs)
  case (Cons reg rest)
  let ?E = "traced (bo_ImageSizeLimit opts) env" and ?names = "push_names (de_bk env) (bo_ImageName opts) rest"
  show ?thesis
  proof (cases "image_name (de_bk env) reg (bo_ImageName opts)")
    case (Inl e)
    then show ?thesis
      using assms(4) by (auto simp: Cons io_bind_def io_of_def traced_pure image_name_traced build_plan_def)
  next
    case (Inr img)
    have stable: "parseImageName (de_bk env) img = Inr img" using image_refs.image_name_stable [OF assms(2) Inr] .
    let ?rest = "io_bind (validateImageSize ?E img (bo_ImageSizeLimit opts)) (\<lambda>size1.
      io_bind (driver_push ?E img) (\<lambda>_. push_loop ?E (lift_driver d) opts (Suc 0) img [img] size1 rest))"
    have rest: "does h (reads imgs img dg) ([ASize img dg] @ [APush h img dg] @ push_plan h dg ?names) ?rest (\<lambda>_. True)" for dg
    proof (rule does_bind [OF image_store.does_validateImageSize [OF assms(3) refl stable]],
        rule does_bind [where Q = "reads imgs img dg"])
      show "does h (reads imgs img dg) [APush h img dg] (driver_push ?E img) (reads imgs img dg)"
        using image_store.does_driver_push [OF assms(3) refl assms(1) stable, of h img dg] by simp
    qed (intro does_push_tail assms stable, simp)
    have run: "io_bind (driver_build ?E (lift_driver d) img opts) (\<lambda>_. ?rest) (c, l, w) = (r, c', l', w')"
      using assms(4) by (simp add: Cons traced_pure image_name_traced Inr io_bind_assoc io_of_Inr)
    have plan: "build_plan h dg (push_names (de_bk env) (bo_ImageName opts) regs) =
        [ASolve h (Some img)] @ ([ASize img dg] @ [APush h img dg] @ push_plan h dg ?names)" for dg
      by (simp add: Cons Inr build_plan_def)
    show ?thesis
      unfolding plan using run
    proof (cases rule: io_bind_cases)
      case (fails e)
      show "\<exists>dg es. l' = l @ es \<and> follows ([ASolve h (Some img)] @ ([ASize img dg] @ [APush h img dg] @ push_plan h dg ?names)) r es"
        unfolding fails(2) by (rule emitsD [OF emits_driver_build [OF assms(1)] fails(1) assms(5)]) (blast dest: follows_err)
    next
      case (goes_on x s1)
      obtain c1 l1 w1 where s1: "s1 = (c1, l1, w1)" by (cases s1)
      obtain es1 where 1: "l1 = l @ es1" "follows [ASolve h (Some img)] (Inr x) es1" "bc_registryHosts c1 = h"
        by (rule emitsD [OF emits_driver_build [OF assms(1)] goes_on(1) [unfolded s1] assms(5)])
      obtain dg where dg: "reads imgs img dg w1" using reads_some by metis
      obtain es2 where 2: "l' = l1 @ es2" "follows ([ASize img dg] @ [APush h img dg] @ push_plan h dg ?names) r es2"
        by (rule doesD [OF rest goes_on(2) [unfolded s1] 1(3) dg])
      show "\<exists>dg es. l' = l @ es \<and> follows ([ASolve h (Some img)] @ ([ASize img dg] @ [APush h img dg] @ push_plan h dg ?names)) r es"
        using follows_append [OF 1(2) 2(2)] 1(1) 2(1) by auto
    qed
  qed
qed (use assms(4) in \<open>auto simp: build_plan_def\<close>)

lemma push_loop_URLs:
  assumes "push_loop env d opts idx headImg images size1 regs s = (Inr img, s')"
  shows "img_URLs img = images @ push_names (de_bk env) (bo_ImageName opts) regs \<and>
    length (push_names (de_bk env) (bo_ImageName opts) regs) = length regs"
  using assms
proof (induction regs arbitrary: idx headImg images size1 s)
  case (Cons reg regs)
  then show ?case by (auto simp: io_bind_Inr dest!: Cons.IH split: sum.splits)
qed auto

lemma BuildAndPush_follows:
  assumes "range_order (be_eg (de_bk env))" and "image_refs (de_bk env)" and "image_store (de_bk env) imgs" and "bo_PushRegistries opts \<noteq> []"
    and "BuildAndPush (traced (bo_ImageSizeLimit opts) env) (lift_driver d) opts (c, [], w) = (r, c', l, w')"
  defines "names \<equiv> push_names (de_bk env) (bo_ImageName opts) (bo_PushRegistries opts)"
    and "hosts \<equiv> ConfiguredRegistries (fst (generateRegistryFunc (bo_Registries opts)))
           (snd (generateRegistryFunc (bo_Registries opts)))"
  shows "(\<exists>dg. follows (build_plan hosts dg names) r l) \<and> c' = ResetHostConfigurations c' \<and>
    (\<forall>img. r = Inr img \<longrightarrow> img_URLs img = names \<and> length names = length (bo_PushRegistries opts))"
proof -
  let ?E = "traced (bo_ImageSizeLimit opts) env" and ?c = "ConfigureHosts (generateRegistryFunc (bo_Registries opts)) c"
  obtain c1 l1 w1 where p: "push_loop ?E (lift_driver d) opts 0 '''' [] 0 (bo_PushRegistries opts) (?c, [], w) = (r, c1, l1, w1)"
    and fin: "c' = ResetHostConfigurations c1" "l = l1"
    using assms(4,5) by (auto simp: BuildAndPush_def io_finally_def io_bind_def on_client_def split: prod.splits)
  have "bc_registryHosts ?c = hosts" by (simp add: ConfigureHosts_def hosts_def)
  from push_loop_follows [OF assms(1-3) p this] have f: "\<exists>dg. follows (build_plan hosts dg names) r l"
    by (simp add: fin names_def)
  have "img_URLs img = names \<and> length names = length (bo_PushRegistries opts)" if "r = Inr img" for img
    using push_loop_URLs [OF p [unfolded that]] by (simp add: names_def traced_pure push_names_traced)
  with f show ?thesis by (auto simp: fin ResetHostConfigurations_def)
qed

text \<open>Nothing is pushed along the plan but the image that was measured, and only after its size was found to be within the limit.\<close>

lemma push_plan_digest: "APush h' n dg' \<in> set (push_plan h dg names) \<Longrightarrow> dg' = dg"
  by (auto simp: push_plan_def)

lemma follows_measured:
  assumes "follows (build_plan h dg names) r l" and "(APush h' n dg', b) \<in> set l"
  shows "dg' = dg \<and> (ASize (hd names) dg, True) \<in> set l"
proof -
  have l: "prefix (map fst l) (build_plan h dg names)" "list_all snd (butlast l)" using assms(1) by (auto simp: follows_def)
  have mem: "APush h' n dg' \<in> set (map fst l)" using assms(2) by force
  with set_mono_prefix [OF l(1)] have plan: "APush h' n dg' \<in> set (build_plan h dg names)" by blast
  then obtain img imgs where names: "names = img # imgs" by (cases names) (auto simp: build_plan_def)
  from plan have "dg' = dg" by (auto simp: names build_plan_def dest: push_plan_digest)
  moreover obtain e1 e2 e3 es where "l = e1 # e2 # e3 # es" "fst e2 = ASize img dg"
    using l(1) mem by (auto simp: names build_plan_def prefix_Cons map_eq_Cons_conv split: if_splits)
  moreover from this l(2) have "snd e2" by (simp split: if_splits)
  ultimately show ?thesis by (cases e2) (simp add: names)
qed

text \<open>C2. A build calls out along a fixed plan and stops at the first call that fails: solve the image under its first name, measure the image that the store
  then has under that name, push that image under that name, and, for every other name in the order of the registries, store the same image under the name and push it. Every push is of the
  one digest that was measured, and comes after the measurement found it within the size limit. All
  these calls use the credentials and the plain HTTP hosts of this build's registries, and the client is left without any. A build
  that succeeds has carried out the whole plan and returns exactly the names it pushed.\<close>

theorem BuildAndPush_plan:
  assumes "range_order (be_eg (de_bk env))" and "image_refs (de_bk env)" and "image_store (de_bk env) imgs" and "bo_PushRegistries opts \<noteq> []"
    and "BuildAndPush (traced (bo_ImageSizeLimit opts) env) (lift_driver d) opts (c, [], w) = (r, c', l, w')"
  defines "names \<equiv> push_names (de_bk env) (bo_ImageName opts) (bo_PushRegistries opts)"
    and "hosts \<equiv> ConfiguredRegistries (fst (generateRegistryFunc (bo_Registries opts)))
           (snd (generateRegistryFunc (bo_Registries opts)))"
  shows "\<exists>dg. prefix (map fst l) (build_plan hosts dg names) \<and> list_all snd (butlast l) \<and>
    (\<forall>h n dg' b. (APush h n dg', b) \<in> set l \<longrightarrow> dg' = dg \<and> (ASize (hd names) dg, True) \<in> set l) \<and>
    bc_registryHosts c' = DefaultRegistries \<and> bc_hostCredentials c' = (\<lambda>host. Inr ('''', '''')) \<and>
    (\<forall>img. r = Inr img \<longrightarrow> map fst l = build_plan hosts dg names \<and> list_all snd l \<and> img_URLs img = names \<and>
       length names = length (bo_PushRegistries opts))"
proof -
  have built: "(\<exists>dg. follows (build_plan hosts dg names) r l) \<and> c' = ResetHostConfigurations c' \<and>
    (\<forall>img. r = Inr img \<longrightarrow> img_URLs img = names \<and> length names = length (bo_PushRegistries opts))"
    unfolding names_def hosts_def using assms(1-5) by (rule BuildAndPush_follows)
  then obtain dg where f: "follows (build_plan hosts dg names) r l" by blast
  have "bc_registryHosts c' = DefaultRegistries \<and> bc_hostCredentials c' = (\<lambda>host. Inr ('''', ''''))"
    using built by (cases c') (simp add: ResetHostConfigurations_def)
  moreover have "\<forall>h n dg' b. (APush h n dg', b) \<in> set l \<longrightarrow> dg' = dg \<and> (ASize (hd names) dg, True) \<in> set l"
    using follows_measured [OF f] by blast
  ultimately show ?thesis
    using f built unfolding follows_def by (intro exI [of _ dg]) blast
qed

end
