(* ===== verification/Forge_Request.thy ===== *)
theory Forge_Request
  imports Forge_Driver
begin

section \<open>The embedded builder: requests, hosts, plugins and tags\<close>

text \<open>
  Properties of the parts of the builder that \<open>Forge_Driver\<close> and \<open>Forge_Bkimage\<close> define: the solve request as a function
  of the build options, the credentials per host, the clean-up of plugins, tagging over the contract of the image store, and an
  in-memory builder on which all contracts hold and whole builds are evaluated.
\<close>

subsection \<open>The solve request\<close>

text \<open>A build argument as the pair its first equals sign separates.\<close>

definition split_arg :: "string \<Rightarrow> string \<times> string" where
  "split_arg a = (takeWhile (\<lambda>c. c \<noteq> CHR ''='') a, tl (dropWhile (\<lambda>c. c \<noteq> CHR ''='') a))"

lemma split_arg_parts: "CHR ''='' \<notin> set k \<Longrightarrow> split_arg (k @ CHR ''='' # v) = (k, v)"
  by (induction k) (auto simp: split_arg_def)

lemma split_arg_prefix:
  "CHR ''='' \<notin> set p \<Longrightarrow> split_arg (p @ a) = (p @ fst (split_arg a), snd (split_arg a))"
  by (simp add: split_arg_def takeWhile_append dropWhile_append)

lemma attrMap_spec:
  "wf_map m \<Longrightarrow> (case attrMap vs m of
     Inl _ \<Rightarrow> \<exists>v \<in> set vs. CHR ''='' \<notin> set v
   | Inr m' \<Rightarrow> (\<forall>v \<in> set vs. CHR ''='' \<in> set v) \<and> wf_map m' \<and>
       map_of m' = map_of m ++ map_of (rev (map split_arg vs)))"
proof (induction vs arbitrary: m)
  case (Cons v vs)
  show ?case
  proof (cases rule: strings_Split2_cases [of "CHR ''=''" v])
    case whole
    then show ?thesis by simp
  next
    case (parts k x)
    then have s: "split_arg v = (k, x)" by (simp add: split_arg_parts)
    have step: "attrMap (v # vs) m = attrMap vs (map_put k x m)" by (simp add: parts(3))
    have "CHR ''='' \<in> set v" using parts(1) by simp
    moreover have "map_of m ++ map_of (rev (map split_arg (v # vs))) =
        map_of (map_put k x m) ++ map_of (rev (map split_arg vs))"
      by (auto simp: s update_conv' map_add_def fun_eq_iff split: option.splits)
    moreover have "wf_map (map_put k x m)" using Cons.prems by simp
    ultimately show ?thesis using Cons.IH [of "map_put k x m"] unfolding step
      by (auto split: sum.splits)
  qed
qed simp

lemma map_of_prefixed:
  "map_of (map (\<lambda>(k, v). (p @ k, v)) kvs) (p @ k) = map_of kvs k"
  "\<forall>t. q \<noteq> p @ t \<Longrightarrow> map_of (map (\<lambda>(k, v). (p @ k, v)) kvs) q = None"
  by (induction kvs) auto

lemma wf_map_range: "range_order rng \<Longrightarrow> wf_map m \<Longrightarrow> wf_map (rng m)"
  unfolding range_order_def wf_map_def by (metis mset_eq_imp_distinct_iff mset_map)

lemma map_of_range: "range_order rng \<Longrightarrow> wf_map m \<Longrightarrow> map_of (rng m) = map_of m"
  using wf_map_range [of rng m] range_order_set [of rng m] unfolding wf_map_def by (metis map_of_inject_set)

lemma wf_map_prefixed: "wf_map kvs \<Longrightarrow> wf_map (map (\<lambda>(k, v). (p @ k, v)) kvs)"
  unfolding wf_map_def by (induction kvs) (auto, force)

lemma map_of_put_prefixed:
  assumes "range_order rng" and "wf_map m"
  shows "map_of (map_put_all dst (map (\<lambda>(k, v). (p @ k, v)) (rng m))) =
    map_of dst ++ map_of (map (\<lambda>(k, v). (p @ k, v)) (rng m))"
  by (rule map_of_put_all [OF wf_map_prefixed [OF wf_map_range [OF assms]]])

lemma ParseOpt_prefixed:
  assumes "range_order rng" and "CHR ''='' \<notin> set p"
  shows "case ParseOpt rng (map (\<lambda>a. p @ a) args) of
      Inl _ \<Rightarrow> \<exists>a \<in> set args. CHR ''='' \<notin> set a
    | Inr attrs \<Rightarrow> (\<forall>a \<in> set args. CHR ''='' \<in> set a) \<and> wf_map attrs \<and>
        map_of attrs = map_of (map (\<lambda>(k, v). (p @ k, v)) (rev (map split_arg args)))"
proof -
  have "map split_arg (map (\<lambda>a. p @ a) args) = map (\<lambda>(k, v). (p @ k, v)) (map split_arg args)"
    using assms(2) by (auto simp: split_arg_prefix split: prod.splits)
  then have "map_of (rev (map split_arg (map (\<lambda>a. p @ a) args))) = map_of (map (\<lambda>(k, v). (p @ k, v)) (rev (map split_arg args)))"
    by (simp only: rev_map)
  then show ?thesis
    using attrMap_spec [of "[]" "map (\<lambda>a. p @ a) args"] assms
    by (auto simp: ParseOpt_def map_of_put_all_range wf_map_put_all split: sum.splits)
qed

lemma attrs_upd: "sr_FrontendAttrs (req\<lparr>sr_FrontendAttrs := m\<rparr>) = m"
  by simp

lemma with_build_args_spec:
  assumes "range_order (de_rng env)" and "with_build_args env opts req = Inr req'"
  shows "map_of (sr_FrontendAttrs req') = map_of (sr_FrontendAttrs req)
      ++ map_of (map (\<lambda>(k, v). (''build-arg:'' @ k, v)) (rev (map split_arg (bo_BuildArgs opts))))"
    and "sr_Exports req' = sr_Exports req" and "sr_Imports req' = sr_Imports req"
proof -
  show "sr_Exports req' = sr_Exports req" "sr_Imports req' = sr_Imports req"
    using assms(2) by (auto simp: with_build_args_def split: if_splits sum.splits)
  show "map_of (sr_FrontendAttrs req') = map_of (sr_FrontendAttrs req)
      ++ map_of (map (\<lambda>(k, v). (''build-arg:'' @ k, v)) (rev (map split_arg (bo_BuildArgs opts))))"
  proof (cases "bo_BuildArgs opts = []")
    case False
    let ?p = "ParseOpt (de_rng env) (map (\<lambda>arg. ''build-arg:'' @ arg) (bo_BuildArgs opts))"
    have w: "(case ?p of Inl err \<Rightarrow> Inl err
        | Inr attrs \<Rightarrow> Inr (req\<lparr>sr_FrontendAttrs := map_put_all (sr_FrontendAttrs req) (de_rng env attrs)\<rparr>)) = Inr req'"
      using assms(2) False unfolding with_build_args_def by (simp only: if_False)
    obtain attrs where p: "?p = Inr attrs"
      and req': "req' = req\<lparr>sr_FrontendAttrs := map_put_all (sr_FrontendAttrs req) (de_rng env attrs)\<rparr>"
    proof (cases ?p)
      case (Inl e)
      with w show ?thesis by (simp only: sum.case sum.distinct)
    next
      case (Inr attrs)
      with w show ?thesis using that [of attrs] by (simp only: sum.case sum.inject)
    qed
    have eq: "CHR ''='' \<notin> set ''build-arg:''" by simp
    have "wf_map attrs \<and> map_of attrs =
        map_of (map (\<lambda>(k, v). (''build-arg:'' @ k, v)) (rev (map split_arg (bo_BuildArgs opts))))"
      using ParseOpt_prefixed [OF assms(1) eq, of "bo_BuildArgs opts"] unfolding p by (simp only: sum.case)
    then show ?thesis unfolding req' attrs_upd by (simp only: map_of_put_all_range [OF assms(1)])
  qed (use assms(2) in \<open>simp add: with_build_args_def\<close>)
qed

text \<open>The four kinds of attributes do not overlap.\<close>

definition fixed_attrs :: "bool \<Rightarrow> bool \<Rightarrow> string \<Rightarrow> string gomap" where
  "fixed_attrs exports noCache ref =
     [(''filename'', ''Dockerfile'')] @ (if exports then [(''cache-from'', ref)] else [])
     @ (if noCache then [(''no-cache'', '''')] else [])"

lemma with_caches_spec:
  assumes "sr_FrontendAttrs req = [(''filename'', ''Dockerfile'')]" and "sr_Exports req = []" and "sr_Imports req = []"
    and "with_caches env ref cache opts req = Inr req'"
  shows "map_of (sr_FrontendAttrs req') = map_of (fixed_attrs (cache \<and> \<not> bo_DisableLayerCacheExport opts) False ref)"
    and "sr_Exports req' = (if cache \<and> \<not> bo_DisableLayerCacheExport opts
      then [registry_entry [(''mode'', projr (getExportMode (de_getenv env))), (''ref'', ref)]] else [])"
    and "sr_Imports req' = (if cache \<and> \<not> bo_DisableBuildCache opts then [registry_entry [(''ref'', ref)]] else [])"
  using assms by (auto simp: with_caches_def fixed_attrs_def split: sum.splits if_splits)

lemma no_cache_attrs:
  "map_of (sr_FrontendAttrs req) = map_of (fixed_attrs e False ref) \<Longrightarrow>
   map_of (sr_FrontendAttrs (if b then req\<lparr>sr_FrontendAttrs := map_put ''no-cache'' '''' (sr_FrontendAttrs req)\<rparr> else req)) =
   map_of (fixed_attrs e b ref)"
  by (auto simp: fixed_attrs_def update_conv' fun_eq_iff)

lemma map_of_prefixed_cong:
  assumes "map_of xs = map_of ys"
  shows "map_of (map (\<lambda>(k, v). (p @ k, v)) xs) = map_of (map (\<lambda>(k, v). (p @ k, v)) ys)"
proof
  fix q
  show "map_of (map (\<lambda>(k, v). (p @ k, v)) xs) q = map_of (map (\<lambda>(k, v). (p @ k, v)) ys) q"
    by (cases "\<exists>t. q = p @ t") (auto simp: map_of_prefixed assms)
qed

lemma solveRequest_attrs:
  assumes "range_order (de_rng env)" and "wf_map (bo_Labels opts)"
    and "solveRequestWithContext env sid img cache opts w = (Inr req, w')"
  obtains ref where "cache_ref (de_bk env) img = Inr ref"
    "map_of (sr_FrontendAttrs req) =
       map_of (fixed_attrs (cache \<and> \<not> bo_DisableLayerCacheExport opts) (bo_DisableBuildCache opts) ref)
       ++ map_of (map (\<lambda>(k, v). (''build-arg:'' @ k, v)) (rev (map split_arg (bo_BuildArgs opts))))
       ++ map_of (map (\<lambda>(k, v). (''label:'' @ k, v)) (bo_Labels opts))"
    "sr_Exports req = (if cache \<and> \<not> bo_DisableLayerCacheExport opts
       then [registry_entry [(''mode'', projr (getExportMode (de_getenv env))), (''ref'', ref)]] else [])"
    "sr_Imports req = (if cache \<and> \<not> bo_DisableBuildCache opts then [registry_entry [(''ref'', ref)]] else [])"
proof (rule solveRequest_cases [OF assms(3)])
  fix r ref req1 req3
  assume ref: "cache_ref (de_bk env) img = Inr ref"
    and caches: "with_caches env ref cache opts \<lparr>sr_Ref = r, sr_Session = sid, sr_Frontend = ''dockerfile.v0'',
        sr_FrontendAttrs = [(''filename'', ''Dockerfile'')], sr_Exporter = ''image'',
        sr_ExporterAttrs = [(''name'', img)], sr_Exports = [], sr_Imports = []\<rparr> = Inr req1"
    and args: "with_build_args env opts (if bo_DisableBuildCache opts
       then req1\<lparr>sr_FrontendAttrs := map_put ''no-cache'' '''' (sr_FrontendAttrs req1)\<rparr> else req1) = Inr req3"
    and req: "req = with_labels env opts req3"
  let ?req2 = "if bo_DisableBuildCache opts
       then req1\<lparr>sr_FrontendAttrs := map_put ''no-cache'' '''' (sr_FrontendAttrs req1)\<rparr> else req1"
  let ?fixed = "fixed_attrs (cache \<and> \<not> bo_DisableLayerCacheExport opts) (bo_DisableBuildCache opts) ref"
  let ?args = "map (\<lambda>(k, v). (''build-arg:'' @ k, v)) (rev (map split_arg (bo_BuildArgs opts)))"
  let ?labels = "\<lambda>ls. map (\<lambda>(k, v). (''label:'' @ k, v)) ls"
  note c = with_caches_spec [OF _ _ _ caches]
  have 2: "map_of (sr_FrontendAttrs ?req2) = map_of ?fixed" by (rule no_cache_attrs) (rule c(1), simp_all)
  have 3: "map_of (sr_FrontendAttrs req3) = map_of ?fixed ++ map_of ?args"
    "sr_Exports req3 = sr_Exports req1" "sr_Imports req3 = sr_Imports req1"
    using with_build_args_spec [OF assms(1) args] 2 by auto
  have 4: "map_of (sr_FrontendAttrs req) = map_of (sr_FrontendAttrs req3) ++ map_of (?labels (de_rng env (bo_Labels opts)))"
    unfolding req with_labels_def attrs_upd by (rule map_of_put_prefixed [OF assms(1,2)])
  have "map_of (?labels (de_rng env (bo_Labels opts))) = map_of (?labels (bo_Labels opts))"
    by (rule map_of_prefixed_cong) (rule map_of_range [OF assms(1,2)])
  with 3 4 c that [OF ref] show thesis by (simp add: req with_labels_def)
qed

text \<open>C18. The request of a build names the image, reads the Dockerfile of the context root, has one attribute per label and per build argument,
  the last argument of a name winning, and turns the cache off exactly when told to. Layers are exported to and imported from the cache image only if
  layer caching is on and the build does not disable it. The order in which Go visits maps does not matter.\<close>

theorem solveRequest_spec:
  assumes "range_order (de_rng env)" and "wf_map (bo_Labels opts)"
    and "solveRequestWithContext env sid img cache opts w = (Inr req, w')"
  shows "\<exists>ref. cache_ref (de_bk env) img = Inr ref \<and>
    map_of (sr_ExporterAttrs req) ''name'' = Some img \<and>
    map_of (sr_FrontendAttrs req) ''filename'' = Some ''Dockerfile'' \<and>
    map_of (sr_FrontendAttrs req) ''no-cache'' = (if bo_DisableBuildCache opts then Some '''' else None) \<and>
    map_of (sr_FrontendAttrs req) ''cache-from'' =
      (if cache \<and> \<not> bo_DisableLayerCacheExport opts then Some ref else None) \<and>
    (\<forall>k. map_of (sr_FrontendAttrs req) (''label:'' @ k) = map_of (bo_Labels opts) k) \<and>
    (\<forall>k. map_of (sr_FrontendAttrs req) (''build-arg:'' @ k) = map_of (rev (map split_arg (bo_BuildArgs opts))) k) \<and>
    (sr_Exports req \<noteq> [] \<longleftrightarrow> cache \<and> \<not> bo_DisableLayerCacheExport opts) \<and>
    (sr_Imports req \<noteq> [] \<longleftrightarrow> cache \<and> \<not> bo_DisableBuildCache opts)"
proof (rule solveRequest_attrs [OF assms])
  fix ref
  let ?fixed = "fixed_attrs (cache \<and> \<not> bo_DisableLayerCacheExport opts) (bo_DisableBuildCache opts) ref"
  let ?args = "map (\<lambda>(k, v). (''build-arg:'' @ k, v)) (rev (map split_arg (bo_BuildArgs opts)))"
  let ?labels = "map (\<lambda>(k, v). (''label:'' @ k, v)) (bo_Labels opts)"
  assume ref: "cache_ref (de_bk env) img = Inr ref"
    and attrs: "map_of (sr_FrontendAttrs req) = map_of ?fixed ++ map_of ?args ++ map_of ?labels"
    and caches: "sr_Exports req = (if cache \<and> \<not> bo_DisableLayerCacheExport opts
         then [registry_entry [(''mode'', projr (getExportMode (de_getenv env))), (''ref'', ref)]] else [])"
      "sr_Imports req = (if cache \<and> \<not> bo_DisableBuildCache opts then [registry_entry [(''ref'', ref)]] else [])"
  have none: "map_of ?args q = None" if "\<forall>t. q \<noteq> ''build-arg:'' @ t" for q using that by (rule map_of_prefixed(2))
  have none': "map_of ?labels q = None" if "\<forall>t. q \<noteq> ''label:'' @ t" for q using that by (rule map_of_prefixed(2))
  have own: "map_of (sr_FrontendAttrs req) q = map_of ?fixed q"
    if "\<forall>t. q \<noteq> ''build-arg:'' @ t" "\<forall>t. q \<noteq> ''label:'' @ t" for q
    unfolding attrs map_add_def none [OF that(1)] none' [OF that(2)] by simp
  have "map_of ?fixed (''label:'' @ k) = None" "map_of ?args (''label:'' @ k) = None" for k
    by (simp add: fixed_attrs_def) (rule none, simp)
  then have labels: "map_of (sr_FrontendAttrs req) (''label:'' @ k) = map_of (bo_Labels opts) k" for k
    unfolding attrs map_add_def map_of_prefixed(1) by (simp split: option.splits del: append.simps)
  have "map_of ?fixed (''build-arg:'' @ k) = None" "map_of ?labels (''build-arg:'' @ k) = None" for k
    by (simp add: fixed_attrs_def) (rule none', simp)
  then have args: "map_of (sr_FrontendAttrs req) (''build-arg:'' @ k) = map_of (rev (map split_arg (bo_BuildArgs opts))) k" for k
    unfolding attrs map_add_def map_of_prefixed(1) by (simp split: option.splits del: append.simps)
  have "map_of (sr_FrontendAttrs req) ''filename'' = Some ''Dockerfile''"
    "map_of (sr_FrontendAttrs req) ''no-cache'' = (if bo_DisableBuildCache opts then Some '''' else None)"
    "map_of (sr_FrontendAttrs req) ''cache-from'' = (if cache \<and> \<not> bo_DisableLayerCacheExport opts then Some ref else None)"
    by (simp_all add: own fixed_attrs_def)
  then show ?thesis
    using ref labels args caches solveRequest_name [OF assms(3)] by simp
qed

lemma with_caches_fails:
  "(\<exists>e. with_caches env ref cache opts req = Inl e) \<longleftrightarrow>
     cache \<and> \<not> bo_DisableLayerCacheExport opts \<and>
     de_getenv env ''EMBEDDED_BUILDER_CACHE_MODE'' \<notin> {'''', ''min'', ''max''}"
  by (auto simp: with_caches_def getExportMode_def Let_def)

lemma with_build_args_fails:
  assumes "range_order (de_rng env)"
  shows "(\<exists>e. with_build_args env opts req = Inl e) \<longleftrightarrow> (\<exists>a. a \<in> set (bo_BuildArgs opts) \<and> CHR ''='' \<notin> set a)"
proof -
  let ?p = "ParseOpt (de_rng env) (map (\<lambda>arg. ''build-arg:'' @ arg) (bo_BuildArgs opts))"
  have "CHR ''='' \<notin> set ''build-arg:''" by simp
  note spec = ParseOpt_prefixed [OF assms this, of "bo_BuildArgs opts"]
  show ?thesis
  proof (cases ?p)
    case (Inl e)
    with spec have a: "\<exists>a \<in> set (bo_BuildArgs opts). CHR ''='' \<notin> set a" by (simp only: sum.case)
    then have "bo_BuildArgs opts \<noteq> []" by auto
    then have "with_build_args env opts req = Inl e" unfolding with_build_args_def Inl by (simp only: if_False sum.case)
    with a show ?thesis by blast
  next
    case (Inr attrs)
    with spec have "\<forall>a \<in> set (bo_BuildArgs opts). CHR ''='' \<in> set a" by (auto simp only: sum.case)
    moreover have "\<exists>r. with_build_args env opts req = Inr r" unfolding with_build_args_def Inr by (simp only: sum.case) auto
    ultimately show ?thesis by auto
  qed
qed

text \<open>A request cannot be formed exactly when the image has no cache reference, when layers are to be exported and the cache mode of the environment is
  none of the two known ones, or when a build argument has no equals sign.\<close>

theorem solveRequest_fails_iff:
  assumes "range_order (de_rng env)"
  shows "(\<exists>e. fst (solveRequestWithContext env sid img cache opts w) = Inl e) \<longleftrightarrow>
    (\<exists>e. cache_ref (de_bk env) img = Inl e) \<or>
    (cache \<and> \<not> bo_DisableLayerCacheExport opts \<and>
       de_getenv env ''EMBEDDED_BUILDER_CACHE_MODE'' \<notin> {'''', ''min'', ''max''}) \<or>
    (\<exists>a. a \<in> set (bo_BuildArgs opts) \<and> CHR ''='' \<notin> set a)"
proof -
  obtain ref w1 where id1: "de_NewID env w = (ref, w1)" by (metis surj_pair)
  show ?thesis
  proof (cases "cache_ref (de_bk env) img")
    case (Inr cr)
    let ?req = "\<lparr>sr_Ref = ref, sr_Session = sid, sr_Frontend = ''dockerfile.v0'',
        sr_FrontendAttrs = [(''filename'', ''Dockerfile'')], sr_Exporter = ''image'',
        sr_ExporterAttrs = [(''name'', img)], sr_Exports = [], sr_Imports = []\<rparr>"
    show ?thesis
    proof (cases "with_caches env cr cache opts ?req")
      case (Inl e)
      then have "\<exists>e. with_caches env cr cache opts ?req = Inl e" by blast
      moreover have "solveRequestWithContext env sid img cache opts w = (Inl e, w1)"
        by (simp add: solveRequestWithContext_def id1 Inr Inl Let_def)
      ultimately show ?thesis unfolding with_caches_fails by simp
    next
      case ok: (Inr req1)
      then have "\<not> (\<exists>e. with_caches env cr cache opts ?req = Inl e)" by simp
      then show ?thesis
        unfolding with_caches_fails with_build_args_fails [OF assms, symmetric,
            of opts "if bo_DisableBuildCache opts
              then req1\<lparr>sr_FrontendAttrs := map_put ''no-cache'' '''' (sr_FrontendAttrs req1)\<rparr> else req1"]
        by (auto simp: solveRequestWithContext_def id1 Inr ok Let_def split: sum.splits)
    qed
  qed (simp add: solveRequestWithContext_def id1 Let_def)
qed

subsection \<open>Registry hosts\<close>

lemma host_map_last:
  "map_of (host_map regs m) host =
     (case filter (\<lambda>reg. rc_Host reg = host) regs of [] \<Rightarrow> map_of m host | rs \<Rightarrow> Some (last rs))"
  by (induction regs arbitrary: m) (auto simp: update_conv' split: list.splits)

text \<open>A host gets the credentials and the scheme of its last registry entry; any other host gets no credentials, over TLS.\<close>

theorem generateRegistryFunc_last:
  "(fst (generateRegistryFunc regs) host, snd (generateRegistryFunc regs) host) =
     (case filter (\<lambda>reg. rc_Host reg = host) regs of
        [] \<Rightarrow> (Inr ('''', ''''), Inr False)
      | reg # rest \<Rightarrow> (Inr (rc_Username (last (reg # rest)), rc_Password (last (reg # rest))),
          Inr (rc_NonSSL (last (reg # rest)))))"
  by (auto simp: generateRegistryFunc_def host_map_last split: list.splits)

subsection \<open>Plugins\<close>

datatype plugin_event = Prepared nat | Cleaned nat

definition ghost :: "nat \<Rightarrow> 'w Preparer \<Rightarrow> (plugin_event list \<times> 'w) Preparer" where
  "ghost i p =
     \<lparr>prep_Prepare = (\<lambda>dir data lw. case prep_Prepare p dir data (snd lw) of (e, w1) \<Rightarrow> (e, fst lw @ [Prepared i], w1)),
      prep_Cleanup = (\<lambda>lw. case prep_Cleanup p (snd lw) of (e, w1) \<Rightarrow> (e, fst lw @ [Cleaned i], w1))\<rparr>"

definition ghosts :: "nat \<Rightarrow> 'w Preparer list \<Rightarrow> (plugin_event list \<times> 'w) Preparer list" where
  "ghosts k ps = map (\<lambda>(i, p). ghost i p) (enumerate k ps)"

lemma ghost_Prepare:
  "prep_Prepare p dir data w = (e, w1) \<Longrightarrow> prep_Prepare (ghost i p) dir data (l, w) = (e, l @ [Prepared i], w1)"
  by (simp add: ghost_def)

lemma run_deferred_ghost: "fst (run_deferred n (Some (ghost i p)) (l, w)) = l @ replicate n (Cleaned i)"
proof (induction n arbitrary: l w)
  case (Suc n)
  obtain e w1 where "prep_Cleanup p w = (e, w1)" by (metis surj_pair)
  then show ?case using Suc by (simp add: ghost_def)
qed simp

lemma prepare_loop_ghosts:
  assumes "prepare_loop (ghosts k ps) dir data k cur (l0, w) = ((e, n, cur1), (l, w1))"
  shows "\<exists>j \<le> length ps. n = k + j \<and> l = l0 @ map Prepared [k..<k + j] \<and> (e = None \<longrightarrow> j = length ps) \<and>
    cur1 = (if j = 0 then cur else Some (ghost (k + j - 1) (ps ! (j - 1))))"
  using assms
proof (induction ps arbitrary: k cur l0 w)
  case (Cons p ps)
  obtain e2 w2 where p: "prep_Prepare p dir data w = (e2, w2)" by (metis surj_pair)
  show ?case
  proof (cases e2)
    case (Some x)
    with Cons.prems p show ?thesis by (intro exI [of _ 1]) (auto simp: ghosts_def ghost_def)
  next
    case None
    with Cons.prems p have "prepare_loop (ghosts (Suc k) ps) dir data (Suc k) (Some (ghost k p)) (l0 @ [Prepared k], w2) =
        ((e, n, cur1), (l, w1))"
      by (simp add: ghosts_def ghost_Prepare)
    from Cons.IH [OF this] obtain j where j: "j \<le> length ps" "n = Suc k + j"
        "l = (l0 @ [Prepared k]) @ map Prepared [Suc k..<Suc k + j]" "e = None \<longrightarrow> j = length ps"
        "cur1 = (if j = 0 then Some (ghost k p) else Some (ghost (Suc k + j - 1) (ps ! (j - 1))))" by blast
    then show ?thesis by (intro exI [of _ "Suc j"]) (auto simp: upt_conv_Cons nth_Cons')
  qed
qed (auto simp: ghosts_def)

text \<open>C37. The plugins are prepared in order until one fails; afterwards only the last one that was started is cleaned up, as often as plugins
  were started. A plugin before it is never cleaned up.\<close>

theorem plugins_cleanup_last_only:
  assumes "prepare_loop (ghosts 0 ps) dir data 0 None ([], w) = ((e, n, cur), (l, w1))"
  shows "\<exists>m \<le> length ps. l = map Prepared [0..<m] \<and> (e = None \<longrightarrow> m = length ps) \<and>
    (\<forall>l2 w2. fst (run_deferred n cur (l2, w2)) = l2 @ replicate m (Cleaned (m - 1)))"
proof -
  obtain m where m: "m \<le> length ps" "n = m" "l = map Prepared [0..<m]" "e = None \<longrightarrow> m = length ps"
      "cur = (if m = 0 then None else Some (ghost (m - 1) (ps ! (m - 1))))"
    using prepare_loop_ghosts [OF assms] by auto
  then show ?thesis by (intro exI [of _ m]) (auto simp: run_deferred_ghost)
qed

subsection \<open>An in-memory builder\<close>

text \<open>A reference parser that takes every text for a reference and completes it with the tag \<^verbatim>\<open>latest\<close>, an image store that is an association
  list, and a builder that stores an image under the requested name.\<close>

definition mem_tag :: "string \<Rightarrow> string" where
  "mem_tag s = (if CHR '':'' \<in> set s then s else s @ '':latest'')"

definition ok_call :: "'w call" where
  "ok_call w = (None, w)"

definition mem_setup :: "'w bk_setup" where
  "mem_setup =
     \<lparr>bs_OverlaySupported = (\<lambda>_ _. None), bs_FuseSupported = (\<lambda>_ _. None), bs_OpenDB = (\<lambda>_. ok_call),
      bs_ContentStore = (\<lambda>_. ok_call), bs_Snapshotter = (\<lambda>_ _. ok_call), bs_InitDB = ok_call, bs_MetadataStore = (\<lambda>_. ok_call),
      bs_MountProc = ok_call, bs_NetProviders = ok_call, bs_Executor = (\<lambda>_ _ _. ok_call), bs_WorkerID = (\<lambda>_ w. (Inr ''worker'', w)),
      bs_Platforms = [''linux/amd64''], bs_ParsePlatform = Inr, bs_NewWorker = (\<lambda>_. ok_call), bs_AddWorker = (\<lambda>_. ok_call),
      bs_CacheStore = (\<lambda>_. ok_call), bs_NewController = ok_call, bs_NewManager = ok_call\<rparr>"

definition mem_image :: "string \<Rightarrow> store_image" where
  "mem_image name = \<lparr>si_Name = name, si_Digest = ''sha256:1'', si_Annotations = [], si_CreatedAt = 0\<rparr>"

definition mem_bk :: "64 word \<Rightarrow> store_image gomap bk_env" where
  "mem_bk size1 =
     \<lparr>be_setup = mem_setup, be_ParseNormalizedNamed = Inr, be_TagNameOnly = mem_tag, be_WithTag = (\<lambda>s t. Inr (s @ '':'' @ t)),
      be_NewSession = (\<lambda>_ w. (Inr ''session'', w)), be_RunSession = (\<lambda>_ _. ok_call), be_CloseSession = (\<lambda>_ w. w),
      be_Get = (\<lambda>n w. (case map_of w n of None \<Rightarrow> Inl (ApiError NotFound ''not found'') | Some i \<Rightarrow> Inr (i\<lparr>si_Name := n\<rparr>), w)),
      be_Size = (\<lambda>_ w. (Inr size1, w)),
      be_Update = (\<lambda>i w. if map_of w (si_Name i) = None then (Some (ApiError NotFound ''not found''), w)
                         else (None, map_put (si_Name i) i w)),
      be_Create = (\<lambda>i w. (None, map_put (si_Name i) i w)), be_Push = (\<lambda>_ _ _ _ _. ok_call),
      be_Solve = (\<lambda>_ req w. (None, case map_of (sr_ExporterAttrs req) ''name'' of
                    None \<Rightarrow> w | Some n \<Rightarrow> map_put n (mem_image n) w)),
      be_Status = (\<lambda>_. ok_call), be_eg = (\<lambda>es. es), be_dirs_rng = (\<lambda>m. m)\<rparr>"

interpretation mem_refs: image_refs "mem_bk size1"
  by unfold_locales (simp add: mem_bk_def parseImageName_def mem_tag_def)

definition mem_images :: "store_image gomap \<Rightarrow> string \<Rightarrow> store_image option" where
  "mem_images w n = map_option (\<lambda>i. i\<lparr>si_Name := n\<rparr>) (map_of w n)"

interpretation mem_store: image_store "mem_bk size1" mem_images
  by unfold_locales (auto simp: mem_bk_def mem_setup_def ok_call_def mem_images_def update_conv' split: option.splits if_splits)

definition mem_client :: bk_client where
  "mem_client = \<lparr>bc_backend = ''native'', bc_rootDir = ''/state'', bc_stores = True, bc_sessionManager = False,
     bc_controller = False, bc_workerOpt = None, bc_registryHosts = DefaultRegistries, bc_hostCredentials = (\<lambda>_. Inr ('''', ''''))\<rparr>"

lemma parseImageName_mem: "parseImageName (mem_bk size1) n = Inr (mem_tag n)"
  by (simp add: parseImageName_def mem_bk_def)

definition mem_driver_env :: "64 word \<Rightarrow> store_image gomap driver_env" where
  "mem_driver_env size1 = \<lparr>de_bk = mem_bk size1, de_NewID = (\<lambda>w. (''id'', w)), de_getenv = (\<lambda>_. ''''), de_rng = rev,
     de_Extract = (\<lambda>_ p _ w. (Inr \<lparr>ex_Archive = p @ ''/archive'', ex_ContentsDir = p @ ''/extracted''\<rparr>, w)), de_Display = ok_call\<rparr>"

definition mem_opts :: "64 word \<Rightarrow> BuildOptions" where
  "mem_opts limit = \<lparr>bo_ContextURL = ''http://ctx'', bo_ContextTimeout = 0, bo_ImageName = ''app'', bo_ImageSizeLimit = limit,
     bo_Labels = [(''team'', ''x'')], bo_BuildArgs = [''A=1'', ''A=2''], bo_DisableBuildCache = False, bo_DisableLayerCacheExport = False, bo_Timeout = 0,
     bo_Registries = [\<lparr>rc_Host = ''r1'', rc_NonSSL = True, rc_Username = ''u'', rc_Password = ''p''\<rparr>],
     bo_PushRegistries = [''r1'', ''r2''], bo_PluginData = [], bo_CacheFrom = []\<rparr>"

definition mem_driver :: "'w driver" where
  "mem_driver = \<lparr>dr_plugins = [], dr_cacheImageLayers = True\<rparr>"

definition mem_run :: "64 word \<Rightarrow> Image result \<times> bk_client \<times> act_log \<times> store_image gomap" where
  "mem_run limit = BuildAndPush (traced (bo_ImageSizeLimit (mem_opts limit)) (mem_driver_env 7)) (lift_driver mem_driver) (mem_opts limit) (mem_client, [], [])"

lemma mem_run_result: "fst (mem_run 9) = Inr \<lparr>img_URLs = [''r1/app:latest'', ''r2/app:latest''], img_Size = 7\<rparr>"
  by code_simp

lemma mem_driver_laws:
  "range_order (be_eg (de_bk (mem_driver_env size1)))" "image_refs (de_bk (mem_driver_env size1))" "range_order (de_rng (mem_driver_env size1))"
  "image_store (de_bk (mem_driver_env size1)) mem_images"
proof -
  have bk: "de_bk (mem_driver_env size1) = mem_bk size1" by (simp add: mem_driver_env_def)
  show "image_refs (de_bk (mem_driver_env size1))" unfolding bk by (rule mem_refs.image_refs_axioms)
  show "image_store (de_bk (mem_driver_env size1)) mem_images" unfolding bk by (rule mem_store.image_store_axioms)
qed (simp_all add: mem_driver_env_def mem_bk_def range_order_def)

theorem BuildAndPush_plan_witness:
  "\<exists>c' l w' creds plain dg. mem_run 9 = (Inr \<lparr>img_URLs = [''r1/app:latest'', ''r2/app:latest''], img_Size = 7\<rparr>, c', l, w') \<and>
     map fst l = [ASolve (ConfiguredRegistries creds plain) (Some ''r1/app:latest''), ASize ''r1/app:latest'' dg,
       APush (ConfiguredRegistries creds plain) ''r1/app:latest'' dg, ATag ''r2/app:latest'' dg,
       APush (ConfiguredRegistries creds plain) ''r2/app:latest'' dg] \<and>
     creds ''r1'' = Inr (''u'', ''p'') \<and> bc_registryHosts c' = DefaultRegistries"
proof -
  obtain c' l w' where run: "mem_run 9 = (Inr \<lparr>img_URLs = [''r1/app:latest'', ''r2/app:latest''], img_Size = 7\<rparr>, c', l, w')"
    using mem_run_result by (metis prod.collapse)
  have regs: "bo_PushRegistries (mem_opts 9) \<noteq> []" by (simp add: mem_opts_def)
  have names: "push_names (de_bk (mem_driver_env 7)) (bo_ImageName (mem_opts 9)) (bo_PushRegistries (mem_opts 9)) =
      [''r1/app:latest'', ''r2/app:latest'']" by code_simp
  have creds: "fst (generateRegistryFunc (bo_Registries (mem_opts 9))) ''r1'' = Inr (''u'', ''p'')" by code_simp
  let ?hosts = "ConfiguredRegistries (fst (generateRegistryFunc (bo_Registries (mem_opts 9)))) (snd (generateRegistryFunc (bo_Registries (mem_opts 9))))"
  obtain dg where plan: "map fst l = build_plan ?hosts dg [''r1/app:latest'', ''r2/app:latest'']" and reset: "bc_registryHosts c' = DefaultRegistries"
    using BuildAndPush_plan [OF mem_driver_laws(1,2,4) regs run [unfolded mem_run_def]] unfolding names by blast
  show ?thesis
  proof (intro exI conjI)
    show "map fst l = [ASolve ?hosts (Some ''r1/app:latest''), ASize ''r1/app:latest'' dg, APush ?hosts ''r1/app:latest'' dg,
        ATag ''r2/app:latest'' dg, APush ?hosts ''r2/app:latest'' dg]"
      unfolding plan by (simp add: build_plan_def push_plan_def)
  qed (rule run creds reset)+
qed

theorem solveRequest_spec_witness:
  "\<exists>req w'. solveRequestWithContext (mem_driver_env 7) ''s'' ''r1/app'' True (mem_opts 9) [] = (Inr req, w') \<and>
     map_of (sr_FrontendAttrs req) (''build-arg:'' @ ''A'') = Some ''2'' \<and>
     map_of (sr_FrontendAttrs req) (''label:'' @ ''team'') = Some ''x'' \<and> sr_Imports req \<noteq> []"
proof -
  have "isl (fst (solveRequestWithContext (mem_driver_env 7) ''s'' ''r1/app'' True (mem_opts 9) [])) = False" by code_simp
  then obtain req w' where run: "solveRequestWithContext (mem_driver_env 7) ''s'' ''r1/app'' True (mem_opts 9) [] = (Inr req, w')"
    by (metis isl_def prod.collapse sumE)
  have "wf_map (bo_Labels (mem_opts 9))" by code_simp
  from solveRequest_spec [OF mem_driver_laws(3) this run]
  have "map_of (sr_FrontendAttrs req) (''build-arg:'' @ ''A'') = map_of (rev (map split_arg (bo_BuildArgs (mem_opts 9)))) ''A''"
    "map_of (sr_FrontendAttrs req) (''label:'' @ ''team'') = map_of (bo_Labels (mem_opts 9)) ''team''"
    "sr_Imports req \<noteq> [] \<longleftrightarrow> True \<and> \<not> bo_DisableBuildCache (mem_opts 9)"
    by blast+
  moreover have "map_of (rev (map split_arg (bo_BuildArgs (mem_opts 9)))) ''A'' = Some ''2''"
    "map_of (bo_Labels (mem_opts 9)) ''team'' = Some ''x''" "\<not> bo_DisableBuildCache (mem_opts 9)" by code_simp+
  ultimately show ?thesis using run by (simp del: append.simps)
qed

theorem solveRequest_fails_iff_witness:
  "\<exists>e. fst (solveRequestWithContext (mem_driver_env 7) ''s'' ''r1/app'' True ((mem_opts 9)\<lparr>bo_BuildArgs := [''A'']\<rparr>) []) = Inl e"
  unfolding solveRequest_fails_iff [OF mem_driver_laws(3)] by simp

theorem plugins_cleanup_last_only_witness:
  "fst (snd (prepare_loop (ghosts 0 [\<lparr>prep_Prepare = (\<lambda>_ _. ok_call), prep_Cleanup = ok_call\<rparr>,
       \<lparr>prep_Prepare = (\<lambda>_ _. ok_call), prep_Cleanup = ok_call\<rparr>]) ''dir'' [] 0 None ([], ()))) = [Prepared 0, Prepared 1] \<and>
   (\<exists>n cur. fst (prepare_loop (ghosts 0 [\<lparr>prep_Prepare = (\<lambda>_ _. ok_call), prep_Cleanup = ok_call\<rparr>,
       \<lparr>prep_Prepare = (\<lambda>_ _. ok_call), prep_Cleanup = ok_call\<rparr>]) ''dir'' [] 0 None ([], ())) = (None, n, cur) \<and>
     fst (run_deferred n cur ([], ())) = [Cleaned 1, Cleaned 1])"
proof -
  let ?p = "\<lparr>prep_Prepare = (\<lambda>_ _. ok_call), prep_Cleanup = ok_call\<rparr>"
  let ?run = "prepare_loop (ghosts 0 [?p, ?p]) ''dir'' [] 0 None ([], ())"
  have err: "fst (fst ?run) = None" by (simp add: ghosts_def ghost_def ok_call_def)
  obtain n cur l w1 where run: "?run = ((None, n, cur), (l, w1))" using err by (metis prod.collapse)
  have "l = [Prepared 0, Prepared 1] \<and> fst (run_deferred n cur ([], ())) = [Cleaned 1, Cleaned 1]"
    using plugins_cleanup_last_only [OF run] by auto
  then show ?thesis using run by simp
qed

end
