(* ===== verification/Forge_Auth.thy ===== *)
theory Forge_Auth
  imports Forge_Bkimage
begin

section \<open>The registry auth provider of a session\<close>

text \<open>
  \<^verbatim>\<open>internal/builder/embedded/bkimage/authprovider.go\<close>: what BuildKit asks a session for when a registry wants credentials. The token
  endpoints, the random source and the signature scheme are arguments. A token endpoint is asked with a GET request or, as
  a fallback, with a POST request of the OAuth flow.
\<close>

subsection \<open>Credentials\<close>

record CredentialsResponse =
  cred_Username :: string
  cred_Secret :: string

definition ap_host :: "string \<Rightarrow> string" where
  "ap_host host = (if host = ''registry-1.docker.io'' then ''https://index.docker.io/v1/'' else host)"

definition ap_credentials :: "CredentialsFn \<Rightarrow> string \<Rightarrow> CredentialsResponse result" where
  "ap_credentials credFn host1 =
     (let host = ap_host host1 in
      case credFn host of
        Inl err \<Rightarrow> Inl (errors_Wrap err (''credential fetch failed for '' @ fmt_q host))
      | Inr (username, password) \<Rightarrow> Inr \<lparr>cred_Username = username, cred_Secret = password\<rparr>)"

subsection \<open>Tokens\<close>

record FetchTokenRequest =
  ftr_Host :: string
  ftr_Realm :: string
  ftr_Service :: string
  ftr_Scopes :: "string list"

record TokenOptions =
  to_Realm :: string
  to_Service :: string
  to_Scopes :: "string list"
  to_Username :: string
  to_Secret :: string

record TokenReply =
  tr_Token :: string
  tr_ExpiresIn :: int
  tr_IssuedAt :: "int option"

record FetchTokenResponse =
  resp_Token :: string
  resp_ExpiresIn :: int
  resp_IssuedAt :: int

text \<open>The zero time is \<^verbatim>\<open>None\<close>; a time is its Unix second.\<close>

definition toTokenResponse :: "TokenReply \<Rightarrow> FetchTokenResponse" where
  "toTokenResponse t =
     \<lparr>resp_Token = tr_Token t, resp_ExpiresIn = tr_ExpiresIn t,
      resp_IssuedAt = (case tr_IssuedAt t of None \<Rightarrow> 0 | Some s \<Rightarrow> s)\<rparr>"

record 'w token_env =
  te_FetchToken :: "TokenOptions \<Rightarrow> 'w \<Rightarrow> TokenReply result \<times> 'w"
  te_FetchTokenWithOAuth :: "TokenOptions \<Rightarrow> 'w \<Rightarrow> TokenReply result \<times> 'w"

fun as_status :: "go_error \<Rightarrow> nat option" where
  "as_status (StatusError code _) = Some code"
| "as_status (WithMessage _ e) = as_status e"
| "as_status (WithStack e) = as_status e"
| "as_status (FmtWrap _ e) = as_status e"
| "as_status _ = None"

definition retry_with_post :: "TokenOptions \<Rightarrow> go_error \<Rightarrow> bool" where
  "retry_with_post to err =
     (case as_status err of
        None \<Rightarrow> False
      | Some code \<Rightarrow> (code = 405 \<and> to_Username to \<noteq> '''') \<or> code = 404 \<or> code = 401)"

text \<open>
  The deferred function of the branch with credentials assigns to a variable that no result refers to, so the errors of this branch
  are returned as they are.
\<close>

definition FetchToken ::
  "'w token_env \<Rightarrow> CredentialsFn \<Rightarrow> FetchTokenRequest \<Rightarrow> 'w \<Rightarrow> FetchTokenResponse result \<times> 'w" where
  "FetchToken env credFn req w =
     (case ap_credentials credFn (ftr_Host req) of
        Inl err \<Rightarrow> (Inl err, w)
      | Inr creds \<Rightarrow>
        (let to = \<lparr>to_Realm = ftr_Realm req, to_Service = ftr_Service req, to_Scopes = ftr_Scopes req,
               to_Username = cred_Username creds, to_Secret = cred_Secret creds\<rparr>
         in if cred_Secret creds \<noteq> '''' then
              (case te_FetchToken env to w of
                 (Inr resp, w1) \<Rightarrow> (Inr (toTokenResponse resp), w1)
               | (Inl err, w1) \<Rightarrow>
                 (if retry_with_post to err then
                    (case te_FetchTokenWithOAuth env to w1 of
                       (Inl err2, w2) \<Rightarrow> (Inl err2, w2)
                     | (Inr resp, w2) \<Rightarrow> (Inr (toTokenResponse resp), w2))
                  else (Inl err, w1)))
            else
              (case te_FetchToken env to w of
                 (Inl err, w1) \<Rightarrow> (Inl (errors_Wrap err ''failed to fetch anonymous token''), w1)
               | (Inr resp, w1) \<Rightarrow> (Inr (toTokenResponse resp), w1))))"

subsection \<open>Token authorities\<close>

text \<open>The seeds of the hosts (\<^verbatim>\<open>None\<close> before the first use), and a random source that may fail.\<close>

type_synonym tokenSeeds = "string gomap option"

definition getSeed ::
  "('w \<Rightarrow> string result \<times> 'w) \<Rightarrow> string \<Rightarrow> tokenSeeds \<times> 'w \<Rightarrow> string result \<times> tokenSeeds \<times> 'w" where
  "getSeed rand host sw =
     (let m = nil_map (fst sw) in
      case map_of m host of
        Some v \<Rightarrow> (Inr v, Some (map_put host v m), snd sw)
      | None \<Rightarrow>
        (case rand (snd sw) of
           (Inl err, w1) \<Rightarrow> (Inl err, Some m, w1)
         | (Inr b, w1) \<Rightarrow> (Inr b, Some (map_put host b m), w1)))"

text \<open>\<open>mac\<close> is the HMAC of a salt and the bytes written to it, \<open>newKey\<close> makes a private key from its first 32 bytes.\<close>

definition getAuthorityKey ::
  "(string \<Rightarrow> string) \<Rightarrow> CredentialsFn \<Rightarrow> ('w \<Rightarrow> string result \<times> 'w) \<Rightarrow> (string \<Rightarrow> string \<Rightarrow> string) \<Rightarrow> (string \<Rightarrow> string) \<Rightarrow>
   string \<Rightarrow> string \<Rightarrow> tokenSeeds \<times> 'w \<Rightarrow> string result \<times> tokenSeeds \<times> 'w" where
  "getAuthorityKey getenv credFn rand mac newKey host salt sw =
     (if ParseBool (getenv ''BUILDKIT_NO_CLIENT_TOKEN'') = Inr True
      then (Inl (ErrText ''rpc error: code = Unavailable desc = client side tokens disabled''), sw)
      else (case ap_credentials credFn host of
              Inl err \<Rightarrow> (Inl err, sw)
            | Inr creds \<Rightarrow>
              (case getSeed rand host sw of
                 (Inl err, sw1) \<Rightarrow> (Inl err, sw1)
               | (Inr seed, sw1) \<Rightarrow>
                 (let sum1 = mac salt (if cred_Secret creds \<noteq> '''' then seed else '''')
                  in (Inr (newKey (take 32 sum1)), sw1)))))"

definition GetTokenAuthority ::
  "(string \<Rightarrow> string) \<Rightarrow> CredentialsFn \<Rightarrow> ('w \<Rightarrow> string result \<times> 'w) \<Rightarrow> (string \<Rightarrow> string \<Rightarrow> string) \<Rightarrow> (string \<Rightarrow> string) \<Rightarrow>
   string \<Rightarrow> string \<Rightarrow> tokenSeeds \<times> 'w \<Rightarrow> string result \<times> tokenSeeds \<times> 'w" where
  "GetTokenAuthority getenv credFn rand mac newKey host salt sw =
     (case getAuthorityKey getenv credFn rand mac newKey host salt sw of
        (Inl err, sw1) \<Rightarrow> (Inl err, sw1) | (Inr key, sw1) \<Rightarrow> (Inr (drop 32 key), sw1))"

definition VerifyTokenAuthority ::
  "(string \<Rightarrow> string) \<Rightarrow> CredentialsFn \<Rightarrow> ('w \<Rightarrow> string result \<times> 'w) \<Rightarrow> (string \<Rightarrow> string \<Rightarrow> string) \<Rightarrow> (string \<Rightarrow> string) \<Rightarrow>
   (string \<Rightarrow> string \<Rightarrow> string) \<Rightarrow> string \<Rightarrow> string \<Rightarrow> string \<Rightarrow> tokenSeeds \<times> 'w \<Rightarrow> string result \<times> tokenSeeds \<times> 'w" where
  "VerifyTokenAuthority getenv credFn rand mac newKey sign host salt payload sw =
     (case getAuthorityKey getenv credFn rand mac newKey host salt sw of
        (Inl err, sw1) \<Rightarrow> (Inl err, sw1) | (Inr key, sw1) \<Rightarrow> (Inr (sign payload key), sw1))"

subsection \<open>Token requests\<close>

datatype token_call = TokenGet TokenOptions "go_error option" | TokenPost TokenOptions

definition logged_tokens :: "'w token_env \<Rightarrow> (token_call list \<times> 'w) token_env" where
  "logged_tokens env =
     \<lparr>te_FetchToken = (\<lambda>to lw. case te_FetchToken env to (snd lw) of
         (r, w1) \<Rightarrow> (r, fst lw @ [TokenGet to (case r of Inl e \<Rightarrow> Some e | Inr _ \<Rightarrow> None)], w1)),
      te_FetchTokenWithOAuth = (\<lambda>to lw. case te_FetchTokenWithOAuth env to (snd lw) of
         (r, w1) \<Rightarrow> (r, fst lw @ [TokenPost to], w1))\<rparr>"

text \<open>A token is asked for with one GET request, in the name of the credentials of the host, Docker Hub's under its index name. Only a request with a
  secret is repeated, once and as a POST, and only if the first answer was 401, 404, or 405 to a named user; a success is the answer of the last request.\<close>

theorem FetchToken_requests:
  assumes "FetchToken (logged_tokens env) credFn req ([], w) = (r, (l, w'))"
  shows "(l = [] \<and> (\<exists>e. credFn (ap_host (ftr_Host req)) = Inl e) \<and> (\<exists>e. r = Inl e)) \<or>
    (\<exists>u p. credFn (ap_host (ftr_Host req)) = Inr (u, p) \<and>
      (let to = \<lparr>to_Realm = ftr_Realm req, to_Service = ftr_Service req, to_Scopes = ftr_Scopes req,
             to_Username = u, to_Secret = p\<rparr> in
       (l = [TokenGet to None] \<and> (\<exists>t. r = Inr t)) \<or>
       (\<exists>e. l = [TokenGet to (Some e)] \<and> (\<exists>e2. r = Inl e2) \<and> (p = '''' \<or> \<not> retry_with_post to e)) \<or>
       (\<exists>e. l = [TokenGet to (Some e), TokenPost to] \<and> p \<noteq> '''' \<and> retry_with_post to e)))"
  using assms
  by (auto simp: FetchToken_def ap_credentials_def logged_tokens_def Let_def
      split: prod.splits sum.splits if_splits)

subsection \<open>Authorities\<close>

text \<open>Whatever is asked of the provider, a seed once drawn for a host stays.\<close>

inductive ap_step ::
  "(string \<Rightarrow> string) \<Rightarrow> CredentialsFn \<Rightarrow> ('w \<Rightarrow> string result \<times> 'w) \<Rightarrow> (string \<Rightarrow> string \<Rightarrow> string) \<Rightarrow> (string \<Rightarrow> string) \<Rightarrow>
   tokenSeeds \<times> 'w \<Rightarrow> tokenSeeds \<times> 'w \<Rightarrow> bool"
  for getenv credFn rand mac newKey where
  ask: "getAuthorityKey getenv credFn rand mac newKey host salt sw = (r, sw') \<Longrightarrow>
    ap_step getenv credFn rand mac newKey sw sw'"
| world: "ap_step getenv credFn rand mac newKey (m, w) (m, w')"

abbreviation ap_reach where
  "ap_reach getenv credFn rand mac newKey \<equiv> (ap_step getenv credFn rand mac newKey)\<^sup>*\<^sup>*"

lemma getSeed_keeps:
  assumes "getSeed rand host sw = (r, sw')" and "map_of (nil_map (fst sw)) h = Some v"
  shows "map_of (nil_map (fst sw')) h = Some v"
  using assms
  by (auto simp: getSeed_def Let_def nil_map_def update_conv' split: option.splits prod.splits sum.splits if_splits)

lemma getSeed_stored:
  assumes "getSeed rand host sw = (Inr v, sw')"
  shows "map_of (nil_map (fst sw')) host = Some v"
  using assms
  by (auto simp: getSeed_def Let_def nil_map_def update_conv' split: option.splits prod.splits sum.splits)

lemma getSeed_known:
  assumes "map_of (nil_map (fst sw)) host = Some v"
  shows "\<exists>sw'. getSeed rand host sw = (Inr v, sw')"
  using assms by (simp add: getSeed_def Let_def)

lemma getAuthorityKey_result:
  obtains (refused) e where "getAuthorityKey getenv credFn rand mac newKey host salt sw = (Inl e, sw)"
  | (no_seed) e sw1 where "getSeed rand host sw = (Inl e, sw1)"
      "getAuthorityKey getenv credFn rand mac newKey host salt sw = (Inl e, sw1)"
  | (key) creds seed sw1 where "ParseBool (getenv ''BUILDKIT_NO_CLIENT_TOKEN'') \<noteq> Inr True"
      "ap_credentials credFn host = Inr creds" "getSeed rand host sw = (Inr seed, sw1)"
      "getAuthorityKey getenv credFn rand mac newKey host salt sw =
         (Inr (newKey (take 32 (mac salt (if cred_Secret creds \<noteq> '''' then seed else '''')))), sw1)"
proof (cases "ParseBool (getenv ''BUILDKIT_NO_CLIENT_TOKEN'') = Inr True")
  case True
  then show ?thesis using refused by (simp add: getAuthorityKey_def)
next
  case parse: False
  obtain q sw1 where s: "getSeed rand host sw = (q, sw1)" by (metis surj_pair)
  show ?thesis
  proof (cases "ap_credentials credFn host")
    case (Inl e)
    then show ?thesis using refused parse by (simp add: getAuthorityKey_def)
  next
    case (Inr creds)
    then show ?thesis using no_seed key parse s by (cases q) (simp_all add: getAuthorityKey_def Let_def)
  qed
qed

lemma ap_reach_keeps:
  assumes "ap_reach getenv credFn rand mac newKey sw sw'" and "map_of (nil_map (fst sw)) h = Some v"
  shows "map_of (nil_map (fst sw')) h = Some v"
  using assms
proof (induction rule: rtranclp_induct)
  case (step y z)
  note known = step.IH [OF step.prems]
  from step.hyps(2) show ?case
  proof cases
    case (ask host salt r)
    show ?thesis
      by (rule getAuthorityKey_result [of getenv credFn rand mac newKey host salt y])
        (use ask known in \<open>auto dest: getSeed_keeps\<close>)
  qed (use known in simp)
qed

text \<open>C35. The authority of a host is stable: a payload that the provider signs later, after any other requests to it, verifies under the public key it handed out
  before, for every signature scheme in which signatures verify under the public half of the key that made them.\<close>

theorem authority_verifies:
  assumes "\<forall>s p. verify (drop 32 (newKey s)) p (sign p (newKey s))"
    and "GetTokenAuthority getenv credFn rand mac newKey host salt sw = (Inr pub, sw1)"
    and "ap_reach getenv credFn rand mac newKey sw1 sw2"
  shows "\<exists>sig sw3. VerifyTokenAuthority getenv credFn rand mac newKey sign host salt payload sw2 = (Inr sig, sw3) \<and>
    verify pub payload sig"
proof -
  obtain creds seed where c: "ParseBool (getenv ''BUILDKIT_NO_CLIENT_TOKEN'') \<noteq> Inr True"
      "ap_credentials credFn host = Inr creds" "getSeed rand host sw = (Inr seed, sw1)"
    and pub: "pub = drop 32 (newKey (take 32 (mac salt (if cred_Secret creds \<noteq> '''' then seed else ''''))))"
    by (rule getAuthorityKey_result [of getenv credFn rand mac newKey host salt sw])
      (use assms(2) in \<open>simp_all add: GetTokenAuthority_def\<close>)
  obtain sw3 where s: "getSeed rand host sw2 = (Inr seed, sw3)"
    using getSeed_known [OF ap_reach_keeps [OF assms(3) getSeed_stored [OF c(3)]]] by blast
  have "VerifyTokenAuthority getenv credFn rand mac newKey sign host salt payload sw2 =
      (Inr (sign payload (newKey (take 32 (mac salt (if cred_Secret creds \<noteq> '''' then seed else ''''))))), sw3)"
    using c(1,2) s by (simp add: VerifyTokenAuthority_def getAuthorityKey_def Let_def)
  then show ?thesis using assms(1) by (auto simp: pub)
qed

definition sample_tokens :: "unit token_env" where
  "sample_tokens =
     \<lparr>te_FetchToken = (\<lambda>to w. (Inl (StatusError 404 ''not found''), w)),
      te_FetchTokenWithOAuth = (\<lambda>to w. (Inr \<lparr>tr_Token = ''t'', tr_ExpiresIn = 60, tr_IssuedAt = None\<rparr>, w))\<rparr>"

definition sample_token_run :: "FetchTokenResponse result \<times> token_call list \<times> unit" where
  "sample_token_run = FetchToken (logged_tokens sample_tokens) (\<lambda>h. Inr (h, ''secret''))
     \<lparr>ftr_Host = ''registry-1.docker.io'', ftr_Realm = ''r'', ftr_Service = ''s'', ftr_Scopes = []\<rparr> ([], ())"

theorem FetchToken_requests_witness:
  "(\<exists>t. fst sample_token_run = Inr t) \<and>
   (\<exists>to e. fst (snd sample_token_run) = [TokenGet to (Some e), TokenPost to] \<and> to_Username to = ''https://index.docker.io/v1/'')"
proof -
  obtain r l w where run: "sample_token_run = (r, (l, w))" by (metis surj_pair)
  have "\<not> isl (fst sample_token_run)" "length (fst (snd sample_token_run)) = 2" by code_simp+
  then obtain t where ok: "r = Inr t" "length l = 2" by (cases r) (simp_all add: run)
  show ?thesis
    using FetchToken_requests [OF run [unfolded sample_token_run_def]] ok
    by (auto simp: Let_def ap_host_def run)
qed

definition toy_key :: "string \<Rightarrow> string" where
  "toy_key s = take 32 (s @ replicate 32 (CHR ''0'')) @ s"

definition toy_authority :: "string result \<times> tokenSeeds \<times> string" where
  "toy_authority = GetTokenAuthority (\<lambda>_. '''') (\<lambda>_. Inr (''u'', ''p'')) (\<lambda>w. (Inr w, ''x'' @ w)) (@) toy_key ''h'' ''salt'' (None, ''seed'')"

theorem authority_verifies_witness:
  "\<exists>pub sw1 sig sw3. toy_authority = (Inr pub, sw1) \<and>
     VerifyTokenAuthority (\<lambda>_. '''') (\<lambda>_. Inr (''u'', ''p'')) (\<lambda>w. (Inr w, ''x'' @ w)) (@) toy_key (\<lambda>p k. drop 32 k @ p)
       ''h'' ''salt'' ''pay'' sw1 = (Inr sig, sw3) \<and> sig = pub @ ''pay''"
proof -
  obtain pub sw1 where g: "toy_authority = (Inr pub, sw1)"
    by (simp add: toy_authority_def GetTokenAuthority_def getAuthorityKey_def ParseBool_def ap_credentials_def ap_host_def
        getSeed_def nil_map_def Let_def)
  have "\<exists>sig sw3. VerifyTokenAuthority (\<lambda>_. '''') (\<lambda>_. Inr (''u'', ''p'')) (\<lambda>w. (Inr w, ''x'' @ w)) (@) toy_key (\<lambda>p k. drop 32 k @ p)
       ''h'' ''salt'' ''pay'' sw1 = (Inr sig, sw3) \<and> sig = pub @ ''pay''"
    by (rule authority_verifies [where verify = "\<lambda>pub p sig. sig = pub @ p", OF _ g [unfolded toy_authority_def] rtranclp.rtrancl_refl]) (intro allI refl)
  then show ?thesis
    by (elim exE) (rule exI [of _ pub], rule exI [of _ sw1], rule exI, rule exI, rule conjI, rule g, assumption)
qed

end
