(* ===== verification/Forge_Kube.thy ===== *)
theory Forge_Kube
  imports Forge_Api
begin

section \<open>The Kubernetes objects and the API client\<close>

text \<open>
  The objects the controller creates, with the fields it sets, the controller reference that
  \<^verbatim>\<open>controllerutil.SetControllerReference\<close> puts on them, and the client the controller calls.
  The API server is not part of Forge: the client is a record of functions over a world \<open>'w\<close> that
  every definition takes as an argument, and the locale \<open>kube_api\<close> states the documented contract
  of a server. \<open>mem_kube\<close> is an in-memory server with injected faults that satisfies it.
\<close>

subsection \<open>Objects\<close>

datatype volume_source =
    EmptyDir
  | SecretSource string "(string \<times> string) list"
  | ConfigMapSource string
  | OtherSource string

record Volume =
  vol_Name :: string
  vol_Source :: volume_source

record VolumeMount =
  vm_Name :: string
  vm_MountPath :: string
  vm_ReadOnly :: bool

record SecurityContext =
  sc_RunAsUser :: "int option"
  sc_Privileged :: "bool option"
  sc_SELinuxType :: "string option"

record Container =
  ctr_Name :: string
  ctr_Image :: string
  ctr_ImagePullPolicy :: string
  ctr_Command :: "string list"
  ctr_Args :: "string list"
  ctr_Env :: "EnvVar list"
  ctr_WorkingDir :: string
  ctr_SecurityContext :: SecurityContext
  ctr_VolumeMounts :: "VolumeMount list"
  ctr_Resources :: ResourceRequirements

record Toleration =
  tol_Key :: string
  tol_Operator :: string

record PodSpec =
  pod_ServiceAccountName :: string
  pod_NodeSelector :: "string gomap"
  pod_RestartPolicy :: string
  pod_InitContainers :: "Container list"
  pod_FSGroup :: "int option"
  pod_ImagePullSecrets :: "string list"
  pod_Tolerations :: "Toleration list"
  pod_Containers :: "Container list"
  pod_Volumes :: "Volume list"

record Job =
  job_Meta :: ObjectMeta
  job_BackoffLimit :: int
  job_PodMeta :: ObjectMeta
  job_PodSpec :: PodSpec

record PolicyRule =
  pr_APIGroups :: "string list"
  pr_Resources :: "string list"
  pr_Verbs :: "string list"
  pr_ResourceNames :: "string list"

record Role =
  role_Meta :: ObjectMeta
  role_Rules :: "PolicyRule list"

record Subject =
  subj_Kind :: string
  subj_Name :: string
  subj_Namespace :: string

record RoleBinding =
  rb_Meta :: ObjectMeta
  rb_RoleRefGroup :: string
  rb_RoleRefKind :: string
  rb_RoleRefName :: string
  rb_Subjects :: "Subject list"

record Secret =
  sec_Meta :: ObjectMeta
  sec_Type :: string
  sec_Data :: "string gomap"

datatype k8s_object =
    ServiceAccountObj ObjectMeta
  | RoleObj Role
  | RoleBindingObj RoleBinding
  | SecretObj Secret
  | JobObj Job
  | BuildObj ContainerImageBuild

datatype kind = ServiceAccountKind | RoleKind | RoleBindingKind | SecretKind | JobKind | BuildKind

text \<open>The type, namespace and name of an object: what a \<^verbatim>\<open>Get\<close> asks for.\<close>

type_synonym object_key = "kind \<times> string \<times> string"

fun object_meta :: "k8s_object \<Rightarrow> ObjectMeta" where
  "object_meta (ServiceAccountObj m) = m"
| "object_meta (RoleObj r) = role_Meta r"
| "object_meta (RoleBindingObj r) = rb_Meta r"
| "object_meta (SecretObj s) = sec_Meta s"
| "object_meta (JobObj j) = job_Meta j"
| "object_meta (BuildObj c) = cib_Meta c"

fun set_object_meta :: "ObjectMeta \<Rightarrow> k8s_object \<Rightarrow> k8s_object" where
  "set_object_meta m (ServiceAccountObj _) = ServiceAccountObj m"
| "set_object_meta m (RoleObj r) = RoleObj (r\<lparr>role_Meta := m\<rparr>)"
| "set_object_meta m (RoleBindingObj r) = RoleBindingObj (r\<lparr>rb_Meta := m\<rparr>)"
| "set_object_meta m (SecretObj s) = SecretObj (s\<lparr>sec_Meta := m\<rparr>)"
| "set_object_meta m (JobObj j) = JobObj (j\<lparr>job_Meta := m\<rparr>)"
| "set_object_meta m (BuildObj c) = BuildObj (c\<lparr>cib_Meta := m\<rparr>)"

fun object_kind :: "k8s_object \<Rightarrow> kind" where
  "object_kind (ServiceAccountObj _) = ServiceAccountKind"
| "object_kind (RoleObj _) = RoleKind"
| "object_kind (RoleBindingObj _) = RoleBindingKind"
| "object_kind (SecretObj _) = SecretKind"
| "object_kind (JobObj _) = JobKind"
| "object_kind (BuildObj _) = BuildKind"

definition object_key :: "k8s_object \<Rightarrow> object_key" where
  "object_key ob = (object_kind ob, om_Namespace (object_meta ob), om_Name (object_meta ob))"

subsection \<open>Controller references\<close>

definition api_group :: "string \<Rightarrow> string option" where
  "api_group gv = (case strings_Split gv (CHR ''/'') of
       [v] \<Rightarrow> Some '''' | [g, v] \<Rightarrow> Some g | _ \<Rightarrow> None)"

definition referSameObject :: "OwnerReference \<Rightarrow> OwnerReference \<Rightarrow> bool" where
  "referSameObject a b \<longleftrightarrow>
     api_group (own_APIVersion a) \<noteq> None \<and> api_group (own_APIVersion b) \<noteq> None \<and>
     api_group (own_APIVersion a) = api_group (own_APIVersion b) \<and>
     own_Kind a = own_Kind b \<and> own_Name a = own_Name b"

fun upsertOwnerRef :: "OwnerReference \<Rightarrow> OwnerReference list \<Rightarrow> OwnerReference list" where
  "upsertOwnerRef ref [] = [ref]"
| "upsertOwnerRef ref (r # rs) =
     (if referSameObject r ref then ref # rs else r # upsertOwnerRef ref rs)"

definition validateOwner :: "ObjectMeta \<Rightarrow> ObjectMeta \<Rightarrow> go_error option" where
  "validateOwner owner ob =
     (if om_Namespace owner = '''' then None
      else if om_Namespace ob = ''''
      then Some (ErrText (''cluster-scoped resource must not have a namespace-scoped owner, owner's namespace ''
                          @ om_Namespace owner))
      else if om_Namespace owner \<noteq> om_Namespace ob
      then Some (ErrText (''cross-namespace owner references are disallowed, owner's namespace ''
                          @ om_Namespace owner @ '', obj's namespace '' @ om_Namespace ob))
      else None)"

text \<open>The API version and kind of the owner come from the scheme, which may not know the type.\<close>

definition SetControllerReference ::
  "(string \<times> string) result \<Rightarrow> ContainerImageBuild \<Rightarrow> k8s_object \<Rightarrow> k8s_object result" where
  "SetControllerReference gvk owner ob =
     (case validateOwner (cib_Meta owner) (object_meta ob) of
        Some e \<Rightarrow> Inl e
      | None \<Rightarrow>
        (case gvk of
           Inl e \<Rightarrow> Inl e
         | Inr (apiVersion, knd) \<Rightarrow>
           (let ref = \<lparr>own_APIVersion = apiVersion, own_Kind = knd, own_Name = cib_Name owner,
                       own_UID = om_UID (cib_Meta owner), own_Controller = True\<rparr>;
                m = object_meta ob
            in case find own_Controller (om_OwnerReferences m) of
                 Some existing \<Rightarrow>
                   (if referSameObject existing ref
                    then Inr (set_object_meta
                           (m\<lparr>om_OwnerReferences := upsertOwnerRef ref (om_OwnerReferences m)\<rparr>) ob)
                    else Inl (ErrText (''Object '' @ om_Namespace m @ ''/'' @ om_Name m
                           @ '' is already owned by another '' @ own_Kind existing
                           @ '' controller '' @ own_Name existing)))
               | None \<Rightarrow>
                   Inr (set_object_meta
                     (m\<lparr>om_OwnerReferences := upsertOwnerRef ref (om_OwnerReferences m)\<rparr>) ob))))"

subsection \<open>The client\<close>

record 'w kube =
  kube_Get :: "'w \<Rightarrow> object_key \<Rightarrow> k8s_object result"
  kube_Create :: "k8s_object \<Rightarrow> 'w \<Rightarrow> go_error option \<times> 'w"
  kube_Delete :: "ContainerImageBuild \<Rightarrow> 'w \<Rightarrow> go_error option \<times> 'w"
  kube_List :: "'w \<Rightarrow> ContainerImageBuild list result"

text \<open>
  The contract of a server, over the objects \<open>objs w\<close> it stores in world \<open>w\<close>: a read that
  finds an object tells the truth, a create that reports success has stored an object under the key of the request, an
  object that a create brings about has the owners of the request (the server may fill in
  defaults elsewhere), a create of an existing object fails and leaves it alone, no create or delete touches the build of another key, and a delete with
  foreground propagation that reports success has removed the build or has marked it as being
  deleted. A call that fails may still have had its effect. Reads are taken to be current: a client that reads from a cache meets
  the contract only while the cache is up to date.
\<close>

definition being_deleted :: "k8s_object option \<Rightarrow> bool" where
  "being_deleted ob = (case ob of None \<Rightarrow> True | Some x \<Rightarrow> om_DeletionTimestamp (object_meta x) \<noteq> None)"

locale kube_api =
  fixes K :: "'w kube"
    and objs :: "'w \<Rightarrow> object_key \<Rightarrow> k8s_object option"
  assumes objs_key: "objs w k = Some ob \<Longrightarrow> object_key ob = k"
    and get_found: "kube_Get K w k = Inr ob \<Longrightarrow> objs w k = Some ob"
    and create_stores: "kube_Create K ob w = (None, w') \<Longrightarrow> objs w' (object_key ob) \<noteq> None"
    and create_owners: "kube_Create K ob w = (r, w') \<Longrightarrow> objs w (object_key ob) = None \<Longrightarrow>
      objs w' (object_key ob) = Some ob' \<Longrightarrow>
      om_OwnerReferences (object_meta ob') = om_OwnerReferences (object_meta ob)"
    and create_frame: "kube_Create K ob w = (r, w') \<Longrightarrow> k \<noteq> object_key ob \<Longrightarrow> objs w' k = objs w k"
    and create_existing: "kube_Create K ob w = (r, w') \<Longrightarrow> objs w (object_key ob) = Some ob' \<Longrightarrow>
      r \<noteq> None \<and> objs w' (object_key ob) = Some ob'"
    and delete_frame:
      "kube_Delete K c w = (r, w') \<Longrightarrow> k \<noteq> object_key (BuildObj c) \<Longrightarrow> fst k = BuildKind \<Longrightarrow>
       objs w' k = objs w k"
    and delete_marks: "kube_Delete K c w = (None, w') \<Longrightarrow> being_deleted (objs w' (object_key (BuildObj c)))"
    and list_lists: "kube_List K w = Inr cs \<Longrightarrow> BuildObj c \<in> ran (objs w) \<longleftrightarrow> c \<in> set cs"
    and list_distinct: "kube_List K w = Inr cs \<Longrightarrow> distinct cs"
begin

lemma get_key: "kube_Get K w k = Inr ob \<Longrightarrow> object_key ob = k"
  by (rule objs_key [OF get_found])

lemma create_keeps:
  assumes "kube_Create K ob w = (r, w')" and "objs w k = Some ob'"
  shows "objs w' k = Some ob'"
  using create_existing [OF assms(1)] create_frame [OF assms(1)] assms(2)
  by (cases "k = object_key ob") auto

end

subsection \<open>An in-memory server\<close>

text \<open>
  The stored objects are an association list; each call on a key fails with the fault that is
  injected for it, if any.
\<close>

record mem_world =
  mw_objs :: "(object_key \<times> k8s_object) list"
  mw_get_fault :: "object_key \<Rightarrow> go_error option"
  mw_create_fault :: "object_key \<Rightarrow> go_error option"
  mw_delete_fault :: "object_key \<Rightarrow> go_error option"
  mw_list_fault :: "go_error option"

definition mem_lookup :: "mem_world \<Rightarrow> object_key \<Rightarrow> k8s_object option" where
  "mem_lookup w k =
     (case map_of (mw_objs w) k of
        Some ob \<Rightarrow> (if object_key ob = k then Some ob else None)
      | None \<Rightarrow> None)"

definition not_found :: go_error where
  "not_found = ApiError NotFound ''not found''"

definition mem_Get :: "mem_world \<Rightarrow> object_key \<Rightarrow> k8s_object result" where
  "mem_Get w k =
     (case mem_lookup w k of
        None \<Rightarrow> (case mw_get_fault w k of Some e \<Rightarrow> Inl e | None \<Rightarrow> Inl not_found)
      | Some ob \<Rightarrow>
        (case mw_get_fault w k of
           Some e \<Rightarrow> (if is_not_found e then Inr ob else Inl e)
         | None \<Rightarrow> Inr ob))"

definition mem_Create :: "k8s_object \<Rightarrow> mem_world \<Rightarrow> go_error option \<times> mem_world" where
  "mem_Create ob w =
     (case mw_create_fault w (object_key ob) of
        Some e \<Rightarrow> (Some e, w)
      | None \<Rightarrow>
        (case mem_lookup w (object_key ob) of
           Some _ \<Rightarrow> (Some (ApiError AlreadyExists ''already exists''), w)
         | None \<Rightarrow> (None, w\<lparr>mw_objs := (object_key ob, ob) # mw_objs w\<rparr>)))"

definition mem_Delete :: "ContainerImageBuild \<Rightarrow> mem_world \<Rightarrow> go_error option \<times> mem_world" where
  "mem_Delete c w =
     (let k = object_key (BuildObj c) in
      case mw_delete_fault w k of
        Some e \<Rightarrow> (Some e, w)
      | None \<Rightarrow>
        (case mem_lookup w k of
           None \<Rightarrow> (Some not_found, w)
         | Some _ \<Rightarrow> (None, w\<lparr>mw_objs := AList.delete k (mw_objs w)\<rparr>)))"

fun mem_builds :: "mem_world \<Rightarrow> (object_key \<times> k8s_object) list \<Rightarrow> ContainerImageBuild list" where
  "mem_builds w [] = []"
| "mem_builds w ((k, ob) # kvs) =
     (case ob of
        BuildObj c \<Rightarrow> (if mem_lookup w k = Some (BuildObj c) then c # mem_builds w kvs else mem_builds w kvs)
      | _ \<Rightarrow> mem_builds w kvs)"

definition mem_List :: "mem_world \<Rightarrow> ContainerImageBuild list result" where
  "mem_List w = (case mw_list_fault w of Some e \<Rightarrow> Inl e | None \<Rightarrow> Inr (remdups (mem_builds w (mw_objs w))))"

definition mem_kube :: "mem_world kube" where
  "mem_kube = \<lparr>kube_Get = mem_Get, kube_Create = mem_Create, kube_Delete = mem_Delete,
     kube_List = mem_List\<rparr>"

definition mem_empty :: mem_world where
  "mem_empty = \<lparr>mw_objs = [], mw_get_fault = (\<lambda>_. None), mw_create_fault = (\<lambda>_. None),
     mw_delete_fault = (\<lambda>_. None), mw_list_fault = None\<rparr>"

lemmas mem_defs = mem_kube_def mem_Get_def mem_Create_def mem_Delete_def mem_List_def
  mem_lookup_def mem_empty_def not_found_def object_key_def

subsection \<open>Controller references: lemmas\<close>

lemma object_meta_set [simp]: "object_meta (set_object_meta m ob) = m"
  by (cases ob) auto

lemma object_kind_set [simp]: "object_kind (set_object_meta m ob) = object_kind ob"
  by (cases ob) auto

lemma upsertOwnerRef_mem: "ref \<in> set (upsertOwnerRef ref rs)"
  by (induction rs) auto

text \<open>Owning an object keeps its key and leaves everything but the owner references alone.\<close>

lemma SetControllerReference_key:
  "SetControllerReference gvk cib ob = Inr ob' \<Longrightarrow> object_key ob' = object_key ob"
  by (auto simp: SetControllerReference_def Let_def object_key_def
      split: option.splits sum.splits prod.splits if_splits)

lemma SetControllerReference_owned:
  "SetControllerReference gvk cib ob = Inr ob' \<Longrightarrow>
   \<exists>ref \<in> set (om_OwnerReferences (object_meta ob')).
     own_Controller ref \<and> own_Name ref = cib_Name cib \<and> own_UID ref = om_UID (cib_Meta cib)"
  unfolding SetControllerReference_def Let_def
  by (auto split: option.splits sum.splits prod.splits if_splits
      intro!: bexI [OF _ upsertOwnerRef_mem])

lemma SetControllerReference_fresh:
  assumes "om_OwnerReferences (object_meta ob) = []"
    and "om_Namespace (object_meta ob) = cib_Namespace cib"
  shows "SetControllerReference (Inr (av, knd)) cib ob =
    Inr (set_object_meta ((object_meta ob)\<lparr>om_OwnerReferences :=
      [\<lparr>own_APIVersion = av, own_Kind = knd, own_Name = cib_Name cib,
        own_UID = om_UID (cib_Meta cib), own_Controller = True\<rparr>]\<rparr>) ob)"
  using assms by (simp add: SetControllerReference_def validateOwner_def Let_def)

subsection \<open>The in-memory server satisfies the contract\<close>

lemma mem_builds_iff:
  "c \<in> set (mem_builds w kvs) \<longleftrightarrow>
   (\<exists>k. (k, BuildObj c) \<in> set kvs \<and> mem_lookup w k = Some (BuildObj c))"
  by (induction w kvs rule: mem_builds.induct) (auto split: k8s_object.splits)

lemma mem_lookup_key: "mem_lookup w k = Some ob \<Longrightarrow> (k, ob) \<in> set (mw_objs w)"
  by (auto simp: mem_lookup_def dest: map_of_SomeD split: option.splits if_splits)

lemma mem_lookup_delete:
  "mem_lookup (w\<lparr>mw_objs := AList.delete k (mw_objs w)\<rparr>) k' =
   (if k' = k then None else mem_lookup w k')"
  by (auto simp: mem_lookup_def delete_conv' split: option.splits)

lemma mem_lookup_insert:
  "mem_lookup (w\<lparr>mw_objs := (object_key ob, ob) # mw_objs w\<rparr>) k =
   (if k = object_key ob then Some ob else mem_lookup w k)"
  by (simp add: mem_lookup_def)

interpretation mem: kube_api mem_kube mem_lookup
proof (unfold_locales, goal_cases)
  case (1 w k ob)
  then show ?case by (auto simp: mem_lookup_def split: option.splits if_splits)
next
  case (2 w k ob)
  then show ?case
    by (auto simp: mem_kube_def mem_Get_def split: option.splits if_splits)
next
  case (3 ob w w')
  then show ?case
    by (auto simp: mem_kube_def mem_Create_def mem_lookup_insert split: option.splits)
next
  case (4 ob w r w' ob')
  then show ?case
    by (auto simp: mem_kube_def mem_Create_def mem_lookup_insert split: option.splits)
next
  case (5 ob w r w' k)
  then show ?case
    by (auto simp: mem_kube_def mem_Create_def mem_lookup_insert split: option.splits)
next
  case (6 ob w r w' ob')
  then show ?case
    by (cases "mw_create_fault w (object_key ob)") (auto simp: mem_kube_def mem_Create_def, metis)
next
  case (7 c w r w' k)
  then show ?case
    by (auto simp: mem_kube_def mem_Delete_def Let_def mem_lookup_delete split: option.splits)
next
  case (8 c w w')
  then show ?case
    by (auto simp: mem_kube_def mem_Delete_def Let_def mem_lookup_delete being_deleted_def
        split: option.splits)
next
  case (9 w cs c)
  then have "set cs = set (mem_builds w (mw_objs w))"
    by (auto simp: mem_kube_def mem_List_def split: option.splits)
  then show ?case
    using mem_lookup_key by (simp add: mem_builds_iff ran_def) blast
next
  case (10 w cs)
  then show ?case
    by (auto simp: mem_kube_def mem_List_def split: option.splits)
qed

end
