(* ===== verification/Forge_Cloud.thy ===== *)
theory Forge_Cloud
  imports Forge_Config
begin

section \<open>Cloud registry credentials\<close>

text \<open>
  \<^verbatim>\<open>internal/cloud\<close>: the registry that picks a credential loader by the host pattern, the AAD
  challenge, and the loaders for ECR, ACR and GCR. The cloud SDKs, HTTP and the passing of time are
  arguments over a world \<open>'w\<close>. A loader returns a pointer to an auth config and an error,
  either of which may be nil, and it may panic.
\<close>

subsection \<open>Regular expressions\<close>

text \<open>
  The fragment of \<^verbatim>\<open>regexp\<close> that the three patterns use, with its leftmost-first semantics:
  \<open>re_match r s\<close> lists what is left of \<open>s\<close> after each way of matching \<open>r\<close> at its start, in the order of
  preference. \<open>Many\<close> is a greedy repetition of a class.
\<close>

datatype re =
    Lit string
  | Cls "char \<Rightarrow> bool"
  | Many "char \<Rightarrow> bool"
  | Cat re re
  | Alt re re
  | Opt re

fun match_lit :: "string \<Rightarrow> string \<Rightarrow> string list" where
  "match_lit [] s = [s]"
| "match_lit (c # cs) [] = []"
| "match_lit (c # cs) (x # xs) = (if c = x then match_lit cs xs else [])"

fun match_many :: "(char \<Rightarrow> bool) \<Rightarrow> string \<Rightarrow> string list" where
  "match_many p [] = [[]]"
| "match_many p (x # xs) = (if p x then match_many p xs @ [x # xs] else [x # xs])"

fun re_match :: "re \<Rightarrow> string \<Rightarrow> string list" where
  "re_match (Lit l) s = match_lit l s"
| "re_match (Cls p) s = (case s of [] \<Rightarrow> [] | x # xs \<Rightarrow> (if p x then [xs] else []))"
| "re_match (Many p) s = match_many p s"
| "re_match (Cat a b) s = concat (map (re_match b) (re_match a s))"
| "re_match (Alt a b) s = re_match a s @ re_match b s"
| "re_match (Opt a) s = re_match a s @ [s]"

text \<open>A pattern with its source text, and whether it is anchored at the start.\<close>

datatype regexp = Regexp (re_text: string) (re_anchored: bool) (re_pattern: re)

fun suffixes_from :: "string \<Rightarrow> string list" where
  "suffixes_from [] = [[]]"
| "suffixes_from (x # xs) = (x # xs) # suffixes_from xs"

definition MatchString :: "regexp \<Rightarrow> string \<Rightarrow> bool" where
  "MatchString r s \<longleftrightarrow>
     (if re_anchored r then re_match (re_pattern r) s \<noteq> []
      else list_ex (\<lambda>t. re_match (re_pattern r) t \<noteq> []) (suffixes_from s))"

text \<open>\<^verbatim>\<open>FindAllString(s, -1)\<close> of a pattern that is not anchored and matches no empty string.\<close>

function find_all :: "re \<Rightarrow> string \<Rightarrow> string list" where
  "find_all r s =
     (if s = [] then []
      else (case re_match r s of
              rest # _ \<Rightarrow>
                (if length rest < length s
                 then take (length s - length rest) s # find_all r rest
                 else find_all r (tl s))
            | [] \<Rightarrow> find_all r (tl s)))"
  by pat_completeness auto
termination
  by (relation "measure (\<lambda>(r, s). length s)") auto

declare find_all.simps [simp del]

definition FindAllString :: "regexp \<Rightarrow> string \<Rightarrow> string list" where
  "FindAllString r s = find_all (re_pattern r) s"

definition any_char :: "char \<Rightarrow> bool" where
  "any_char c \<longleftrightarrow> c \<noteq> CHR 0x0A"

definition alnum :: "char \<Rightarrow> bool" where
  "alnum c \<longleftrightarrow> (let n = (of_char c :: nat) in
     48 \<le> n \<and> n \<le> 57 \<or> 65 \<le> n \<and> n \<le> 90 \<or> 97 \<le> n \<and> n \<le> 122)"

definition word_char :: "char \<Rightarrow> bool" where
  "word_char c \<longleftrightarrow> alnum c \<or> c = CHR ''-'' \<or> c = CHR ''_''"

text \<open>The source text of a pattern, written with \<^verbatim>\<open>~\<close> for the backslash.\<close>

definition pattern_text :: "string \<Rightarrow> string" where
  "pattern_text = map (\<lambda>c. if c = CHR ''~'' then CHR 0x5C else c)"

definition ecr_urlRegex :: regexp where
  "ecr_urlRegex = Regexp
     (pattern_text (''^(?P<aws_account_id>[a-zA-Z0-9][a-zA-Z0-9-_]*)~.dkr~.ecr(-fips)?~.''
        @ ''([a-zA-Z0-9][a-zA-Z0-9-_]*)~.amazonaws~.com(~.cn)?''))
     True
     (Cat (Cat (Cls alnum) (Many word_char))
     (Cat (Lit ''.dkr.ecr'')
     (Cat (Opt (Lit ''-fips''))
     (Cat (Lit ''.'')
     (Cat (Cat (Cls alnum) (Many word_char))
     (Cat (Lit ''.amazonaws.com'') (Opt (Lit ''.cn''))))))))"

definition acrRegex :: regexp where
  "acrRegex = Regexp
     (pattern_text ''.*~.azurecr~.io|.*~.azurecr~.cn|.*~.azurecr~.de|.*~.azurecr~.us'')
     False
     (Alt (Cat (Many any_char) (Lit ''.azurecr.io''))
     (Alt (Cat (Many any_char) (Lit ''.azurecr.cn''))
     (Alt (Cat (Many any_char) (Lit ''.azurecr.de''))
          (Cat (Many any_char) (Lit ''.azurecr.us'')))))"

definition gcrRegex :: regexp where
  "gcrRegex = Regexp (pattern_text ''.*-docker~.pkg~.dev|(?:.*~.)?gcr~.io'') False
     (Alt (Cat (Many any_char) (Lit ''-docker.pkg.dev''))
          (Cat (Opt (Cat (Many any_char) (Lit ''.''))) (Lit ''gcr.io'')))"

subsection \<open>The registry of loaders\<close>

type_synonym 'w loader =
  "string \<Rightarrow> 'w \<Rightarrow> (AuthConfig option \<times> go_error option) outcome \<times> 'w"

text \<open>
  The loaders are a map keyed by the pointer to the compiled pattern: the name of the variable that
  holds it.
\<close>

record 'w cloud_Registry =
  cr_loaders :: "(regexp \<times> 'w loader) gomap option"

definition errNoLoader :: go_error where
  "errNoLoader = ErrText ''no loader found''"

fun retrieve_loop ::
  "(regexp \<times> 'w loader) gomap \<Rightarrow> string \<Rightarrow> 'w \<Rightarrow> (AuthConfig option \<times> go_error option) outcome \<times> 'w" where
  "retrieve_loop [] server w = (Returns (None, Some errNoLoader), w)"
| "retrieve_loop ((p, (r, loader)) # rest) server w =
     (if MatchString r server then loader server w else retrieve_loop rest server w)"

definition RetrieveAuthorization ::
  "((string \<times> regexp \<times> 'w loader) list \<Rightarrow> (string \<times> regexp \<times> 'w loader) list) \<Rightarrow>
   'w cloud_Registry \<Rightarrow> string \<Rightarrow> 'w \<Rightarrow> (AuthConfig option \<times> go_error option) outcome \<times> 'w" where
  "RetrieveAuthorization rng r server w = retrieve_loop (rng (nil_map (cr_loaders r))) server w"

definition Registry_Register ::
  "string \<Rightarrow> regexp \<Rightarrow> 'w loader \<Rightarrow> 'w cloud_Registry \<Rightarrow> 'w cloud_Registry" where
  "Registry_Register p re loader r =
     (let r1 = (if cr_loaders r = None then r\<lparr>cr_loaders := Some []\<rparr> else r)
      in r1\<lparr>cr_loaders := Some (map_put p (re, loader) (nil_map (cr_loaders r1)))\<rparr>)"

subsection \<open>The login challenge\<close>

record AuthDirective =
  ad_Service :: string
  ad_Realm :: string

text \<open>
  The answer of \<^verbatim>\<open>V2SupportClient.Check\<close>: the HTTP response, if there was one, as its status and
  headers, and the error.
\<close>

record challenge =
  ch_response :: "(nat \<times> string list gomap) option"
  ch_err :: "go_error option"

fun parse_params :: "string list \<Rightarrow> string gomap \<Rightarrow> string gomap outcome" where
  "parse_params [] m = Returns m"
| "parse_params (p # ps) m =
     (case strings_Split2 (strings_TrimSpace p) (CHR ''='') of
        k # v # _ \<Rightarrow> parse_params ps (map_put k (strings_Trim v (CHR 0x22)) m)
      | _ \<Rightarrow> Panics ''index out of range [1] with length 1'')"

definition parse_challenge :: "string list gomap \<Rightarrow> AuthDirective result outcome" where
  "parse_challenge header =
     (case map_of header ''Www-Authenticate'' of
        None \<Rightarrow> Returns (Inl (ErrText (''challenge response does not contain header '' @ [CHR 0x27]
            @ ''Www-Authenticate'' @ [CHR 0x27])))
      | Some authHeader \<Rightarrow>
        (if length authHeader \<noteq> 1
         then Returns (Inl (ErrText (''registry did not issue a valid challenge, authenticate header [''
                @ strings_Join authHeader '', '' @ '']'')))
         else
          (let authSections = strings_Split2 (hd authHeader) (CHR '' '') in
           if \<not> strings_EqualFold ''Bearer'' (hd authSections)
           then Returns (Inl (ErrText (''Www-Authenticate: expected realm: Bearer, actual: ''
                  @ hd authSections)))
           else if length authSections < 2 then Panics ''index out of range [1] with length 1''
           else
            (case parse_params (strings_Split (authSections ! 1) (CHR '','')) [] of
               Panics p \<Rightarrow> Panics p
             | Returns authParams \<Rightarrow>
               (if map_get_default '''' authParams ''realm'' = ''''
                then Returns (Inl (ErrText (''Www-Authenticate: missing header '' @ fmt_q ''realm'')))
                else Returns (Inr \<lparr>ad_Service = map_get_default '''' authParams ''service'',
                                   ad_Realm = map_get_default '''' authParams ''realm''\<rparr>))))))"

definition IsHTTPStatus :: "challenge \<Rightarrow> nat \<Rightarrow> bool" where
  "IsHTTPStatus ch code = (case ch_response ch of None \<Rightarrow> False | Some (status, _) \<Rightarrow> status = code)"

definition ChallengeLoginServer ::
  "(string \<Rightarrow> 'w \<Rightarrow> challenge \<times> 'w) \<Rightarrow> string \<Rightarrow> 'w \<Rightarrow> AuthDirective result outcome \<times> 'w" where
  "ChallengeLoginServer check loginServerURL w =
     (case check loginServerURL w of
        (ch, w1) \<Rightarrow>
        (if \<not> IsHTTPStatus ch 401 then
           (case ch_err ch of
              Some e \<Rightarrow> (Returns (Inl e), w1)
            | None \<Rightarrow>
              (case ch_response ch of
                 None \<Rightarrow> (Panics ''nil pointer dereference'', w1)
               | Some (status, _) \<Rightarrow>
                 (Returns (Inl (ErrText (''registry did not issue a valid AAD challenge, status: ''
                    @ fmt_d status))), w1)))
         else
           (case ch_response ch of
              None \<Rightarrow> (Panics ''nil pointer dereference'', w1)
            | Some (_, header) \<Rightarrow> (parse_challenge header, w1))))"

subsection \<open>ECR\<close>

text \<open>Standard base64 as \<^verbatim>\<open>encoding/base64\<close> decodes it: newlines are skipped, padding is needed.\<close>

definition b64_value :: "char \<Rightarrow> nat option" where
  "b64_value c = (let n = (of_char c :: nat) in
     if 65 \<le> n \<and> n \<le> 90 then Some (n - 65)
     else if 97 \<le> n \<and> n \<le> 122 then Some (n - 71)
     else if 48 \<le> n \<and> n \<le> 57 then Some (n + 4)
     else if n = 43 then Some 62 else if n = 47 then Some 63 else None)"

fun b64_quads :: "string \<Rightarrow> string option" where
  "b64_quads [] = Some []"
| "b64_quads (a # b # c # d # rest) =
     (case (b64_value a, b64_value b, b64_value c, b64_value d) of
        (Some x, Some y, Some z, Some u) \<Rightarrow>
          map_option (\<lambda>t. char_of (x * 4 + y div 16) # char_of ((y mod 16) * 16 + z div 4)
                          # char_of ((z mod 4) * 64 + u) # t) (b64_quads rest)
      | (Some x, Some y, Some z, None) \<Rightarrow>
          (if d = CHR ''='' \<and> rest = []
           then Some [char_of (x * 4 + y div 16), char_of ((y mod 16) * 16 + z div 4)] else None)
      | (Some x, Some y, None, None) \<Rightarrow>
          (if c = CHR ''='' \<and> d = CHR ''='' \<and> rest = []
           then Some [char_of (x * 4 + y div 16)] else None)
      | _ \<Rightarrow> None)"
| "b64_quads _ = None"

definition b64_DecodeString :: "string \<Rightarrow> string option" where
  "b64_DecodeString s = b64_quads (filter (\<lambda>c. c \<noteq> CHR 0x0A \<and> c \<noteq> CHR 0x0D) s)"

definition decodeAuth :: "string \<Rightarrow> (string \<times> string) result" where
  "decodeAuth auth =
     (if auth = '''' then Inl (ErrText ''docker auth token cannot be blank'')
      else (case b64_DecodeString auth of
              None \<Rightarrow> Inl (errors_Wrap (ErrText ''illegal base64 data'')
                             ''failed to decode docker auth token'')
            | Some decoded \<Rightarrow>
              (case strings_Split2 decoded (CHR '':'') of
                 [u, p] \<Rightarrow> Inr (u, p)
               | creds \<Rightarrow> Inl (ErrText (''invalid docker auth token: ''
                   @ fmt_strings (map fmt_q creds))))))"

text \<open>\<open>getAuthorizationToken\<close> is the call of the AWS client: the tokens of the answer.\<close>

definition ecr_authenticate ::
  "('w \<Rightarrow> string option list result \<times> 'w) \<Rightarrow> 'w loader" where
  "ecr_authenticate getAuthorizationToken url w =
     (if \<not> MatchString ecr_urlRegex url
      then (Returns (None, Some (ErrText (''invalid ecr url: '' @ fmt_q url
              @ '' should match '' @ re_text ecr_urlRegex))), w)
      else (case getAuthorizationToken w of
              (Inl e, w1) \<Rightarrow> (Returns (None, Some (errors_Wrap e ''failed to get ecr auth token'')), w1)
            | (Inr tokens, w1) \<Rightarrow>
              (if length tokens \<noteq> 1
               then (Returns (None, errors_Wrap_opt None ''expected a single ecr authorization token''), w1)
               else (case decodeAuth (case hd tokens of None \<Rightarrow> '''' | Some t \<Rightarrow> t) of
                       Inl e \<Rightarrow> (Returns (None, Some (errors_Wrap e ''invalid ecr authorization token'')), w1)
                     | Inr (username, password) \<Rightarrow>
                       (Returns (Some (zero_ac\<lparr>ac_Username := username, ac_Password := password\<rparr>), None), w1)))))"

definition ecr_Register ::
  "('c result) \<Rightarrow> ('c \<Rightarrow> 'w \<Rightarrow> string option list result \<times> 'w) \<Rightarrow>
   'w cloud_Registry \<Rightarrow> go_error option \<times> 'w cloud_Registry" where
  "ecr_Register cfg newClient registry =
     (case cfg of
        Inl e \<Rightarrow> (None, registry)
      | Inr c \<Rightarrow> (None, Registry_Register ''ecr.urlRegex'' ecr_urlRegex
                          (ecr_authenticate (newClient c)) registry))"

subsection \<open>ACR\<close>

text \<open>
  \<open>delay\<close> is \<^verbatim>\<open>autorest.DelayForBackoff\<close> (false when the context is done), \<open>ctxErr\<close> the error of
  the context. The loop variable runs from 0 below \<open>attempts\<close>.
\<close>

function retry_from ::
  "nat \<Rightarrow> ('w \<Rightarrow> go_error option \<times> 'w) \<Rightarrow> (nat \<Rightarrow> 'w \<Rightarrow> bool \<times> 'w) \<Rightarrow> ('w \<Rightarrow> go_error option) \<Rightarrow>
   nat \<Rightarrow> go_error option \<Rightarrow> 'w \<Rightarrow> go_error option \<times> 'w" where
  "retry_from attempts f delay ctxErr i err w =
     (if i < attempts then
        (case f w of
           (None, w1) \<Rightarrow> (None, w1)
         | (Some e, w1) \<Rightarrow>
           (if i = attempts then (Some e, w1)
            else (case delay i w1 of
                    (False, w2) \<Rightarrow> (ctxErr w2, w2)
                  | (True, w2) \<Rightarrow> retry_from attempts f delay ctxErr (Suc i) (Some e) w2)))
      else (err, w))"
  by pat_completeness auto
termination
  by (relation "measure (\<lambda>(attempts, f, delay, ctxErr, i, err, w). attempts - i)") auto

declare retry_from.simps [simp del]

definition retry ::
  "nat \<Rightarrow> ('w \<Rightarrow> go_error option \<times> 'w) \<Rightarrow> (nat \<Rightarrow> 'w \<Rightarrow> bool \<times> 'w) \<Rightarrow> ('w \<Rightarrow> go_error option) \<Rightarrow>
   'w \<Rightarrow> go_error option \<times> 'w" where
  "retry attempts f delay ctxErr w = retry_from attempts f delay ctxErr 0 None w"

text \<open>What the ACR loader calls: the token refresh, the token, the challenge and the exchange.\<close>

record 'w acr_env =
  acr_ensureFresh :: "'w \<Rightarrow> go_error option \<times> 'w"
  acr_oauthToken :: "'w \<Rightarrow> string"
  acr_delay :: "nat \<Rightarrow> 'w \<Rightarrow> bool \<times> 'w"
  acr_ctxErr :: "'w \<Rightarrow> go_error option"
  acr_check :: "string \<Rightarrow> 'w \<Rightarrow> challenge \<times> 'w"
  acr_exchange :: "string \<Rightarrow> string \<Rightarrow> string \<Rightarrow> string \<Rightarrow> 'w \<Rightarrow> string option result \<times> 'w"

definition acrUserForRefreshToken :: string where
  "acrUserForRefreshToken = ''00000000-0000-0000-0000-000000000000''"

definition acr_authenticate :: "'w acr_env \<Rightarrow> string \<Rightarrow> 'w loader" where
  "acr_authenticate env tenantID server w =
     (let match = FindAllString acrRegex server in
      if length match \<noteq> 1
      then (Returns (None, Some (ErrText (''invalid acr url: '' @ fmt_q server
              @ '' should match '' @ re_text acrRegex))), w)
      else
       (let loginServer = hd match in
        case retry 3 (acr_ensureFresh env) (acr_delay env) (acr_ctxErr env) w of
          (Some e, w1) \<Rightarrow> (Returns (None, Some e), w1)
        | (None, w1) \<Rightarrow>
          (let armAccessToken = acr_oauthToken env w1;
               loginServerURL = ''https://'' @ loginServer
           in case ChallengeLoginServer (acr_check env) loginServerURL w1 of
                (Panics p, w2) \<Rightarrow> (Panics p, w2)
              | (Returns (Inl e), w2) \<Rightarrow> (Returns (None, Some e), w2)
              | (Returns (Inr directive), w2) \<Rightarrow>
                (case acr_exchange env loginServerURL (ad_Service directive) tenantID armAccessToken w2 of
                   (Inl e, w3) \<Rightarrow> (Returns (None, Some e), w3)
                 | (Inr refreshToken, w3) \<Rightarrow>
                   (Returns (Some (zero_ac\<lparr>ac_Username := acrUserForRefreshToken,
                      ac_Password := (case refreshToken of None \<Rightarrow> '''' | Some t \<Rightarrow> t)\<rparr>), None), w3)))))"

definition noCredsErr :: go_error where
  "noCredsErr = ErrText ''no Azure Credentials''"

text \<open>
  The settings of the environment as the tenant and client identifiers; \<open>clientCredentials\<close> is the
  outcome of \<^verbatim>\<open>GetClientCredentials\<close>, and of its \<^verbatim>\<open>ServicePrincipalToken\<close> when
  it succeeds; \<open>msiToken\<close> asks the managed identity.
\<close>

definition acr_newProvider ::
  "(string \<times> string) result \<Rightarrow> (go_error option) result \<Rightarrow> ('w \<Rightarrow> go_error option \<times> 'w) \<Rightarrow>
   (nat \<Rightarrow> 'w \<Rightarrow> bool \<times> 'w) \<Rightarrow> ('w \<Rightarrow> go_error option) \<Rightarrow> 'w \<Rightarrow> string result \<times> 'w" where
  "acr_newProvider settings clientCredentials msiToken delay ctxErr w =
     (case settings of
        Inl e \<Rightarrow> (Inl e, w)
      | Inr (tenantID, clientID) \<Rightarrow>
        (if tenantID = '''' \<or> clientID = '''' then (Inl noCredsErr, w)
         else (case clientCredentials of
                 Inr (Some e) \<Rightarrow> (Inl e, w)
               | Inr None \<Rightarrow> (Inr tenantID, w)
               | Inl _ \<Rightarrow>
                 (case retry 3 msiToken delay ctxErr w of
                    (Some e, w1) \<Rightarrow>
                      (Inl (FmtWrap (''retreiving Service Principal Token from MSI failed: ''
                              @ error_text e) e), w1)
                  | (None, w1) \<Rightarrow> (Inr tenantID, w1)))))"

definition acr_Register ::
  "string result \<times> 'w \<Rightarrow> 'w acr_env \<Rightarrow> 'w cloud_Registry \<Rightarrow> go_error option \<times> 'w cloud_Registry" where
  "acr_Register provider env registry =
     (case fst provider of
        Inl e \<Rightarrow> (if e = noCredsErr then (None, registry) else (Some e, registry))
      | Inr tenantID \<Rightarrow>
        (None, Registry_Register ''acrRegex'' acrRegex (acr_authenticate env tenantID) registry))"

subsection \<open>GCR\<close>

text \<open>
  \<open>gcr_newRequest\<close> is the error of \<^verbatim>\<open>http.NewRequestWithContext\<close> for a realm, \<open>gcr_do\<close> sends the
  request (realm, service, access token) and reads the body, \<open>gcr_unmarshal\<close> decodes the fields
  \<^verbatim>\<open>token\<close> and \<^verbatim>\<open>access_token\<close> of the answer.
\<close>

record 'w gcr_env =
  gcr_token :: "'w \<Rightarrow> string result \<times> 'w"
  gcr_check :: "string \<Rightarrow> 'w \<Rightarrow> challenge \<times> 'w"
  gcr_newRequest :: "string \<Rightarrow> go_error option"
  gcr_do :: "string \<Rightarrow> string \<Rightarrow> string \<Rightarrow> 'w \<Rightarrow> (nat \<times> string) result \<times> 'w"
  gcr_unmarshal :: "string \<Rightarrow> (string \<times> string) result"

definition gcr_authenticate :: "'w gcr_env \<Rightarrow> 'w loader" where
  "gcr_authenticate env server w =
     (let match = FindAllString gcrRegex server in
      if length match \<noteq> 1
      then (Returns (None, Some (ErrText (''invalid gcr url: '' @ fmt_q server
              @ '' should match '' @ re_text gcrRegex))), w)
      else
       (case gcr_token env w of
          (Inl e, w1) \<Rightarrow> (Returns (None, Some e), w1)
        | (Inr accessToken, w1) \<Rightarrow>
          (case ChallengeLoginServer (gcr_check env) (''https://'' @ hd match) w1 of
             (Panics p, w2) \<Rightarrow> (Panics p, w2)
           | (Returns (Inl e), w2) \<Rightarrow> (Returns (None, Some e), w2)
           | (Returns (Inr directive), w2) \<Rightarrow>
             (case gcr_newRequest env (ad_Realm directive) of
                Some e \<Rightarrow> (Returns (None, Some e), w2)
              | None \<Rightarrow>
                (case gcr_do env (ad_Realm directive) (ad_Service directive) accessToken w2 of
                   (Inl e, w3) \<Rightarrow> (Returns (None, Some e), w3)
                 | (Inr (statusCode, content), w3) \<Rightarrow>
                   (if statusCode \<noteq> 200
                    then (Returns (None, Some (ErrText (''failed to obtain token:'' @ [CHR 0x0A]
                            @ '' '' @ content))), w3)
                    else (case gcr_unmarshal env content of
                            Inl e \<Rightarrow> (Returns (None, Some e), w3)
                          | Inr (tok, access_token) \<Rightarrow>
                            (let tok' = (if access_token \<noteq> '''' then access_token else tok) in
                             if tok' = ''''
                             then (Returns (None, Some (ErrText (''no token in bearer response:''
                                     @ [CHR 0x0A] @ content))), w3)
                             else (Returns (Some (zero_ac\<lparr>ac_Username := ''oauth2accesstoken'',
                                     ac_Password := accessToken,
                                     ac_RegistryToken := tok'\<rparr>), None), w3)))))))))"

definition gcr_Register ::
  "go_error option \<Rightarrow> 'w gcr_env \<Rightarrow> 'w cloud_Registry \<Rightarrow> go_error option \<times> 'w cloud_Registry" where
  "gcr_Register findDefaultCredentials env registry =
     (case findDefaultCredentials of
        Some e \<Rightarrow>
          (if strings_Contains (error_text e) ''could not find default credentials''
           then (None, registry) else (Some e, registry))
      | None \<Rightarrow> (None, Registry_Register ''gcrRegex'' gcrRegex (gcr_authenticate env) registry))"

subsection \<open>Patterns: what they match\<close>

lemma match_lit_iff: "t \<in> set (match_lit l s) \<longleftrightarrow> s = l @ t"
  by (induction l s rule: match_lit.induct) auto

lemma match_lit_ne: "match_lit l s \<noteq> [] \<longleftrightarrow> (\<exists>t. s = l @ t)"
  unfolding match_lit_iff [symmetric] by (cases "match_lit l s") auto

lemma match_many_iff: "t \<in> set (match_many p s) \<longleftrightarrow> (\<exists>pre. s = pre @ t \<and> (\<forall>c \<in> set pre. p c))"
proof (induction s)
  case Nil
  then show ?case by simp
next
  case (Cons x xs)
  then show ?case
    by (auto simp: Cons_eq_append_conv)
qed

lemma suffixes_from_iff: "t \<in> set (suffixes_from s) \<longleftrightarrow> (\<exists>pre. s = pre @ t)"
  by (induction s) (auto simp: Cons_eq_append_conv)

lemma re_match_Cat_ne:
  "re_match (Cat a b) s \<noteq> [] \<longleftrightarrow> (\<exists>t \<in> set (re_match a s). re_match b t \<noteq> [])"
  by auto

definition matches_in :: "re \<Rightarrow> string \<Rightarrow> bool" where
  "matches_in r s \<longleftrightarrow> (\<exists>pre t. s = pre @ t \<and> re_match r t \<noteq> [])"

lemma matches_inI: "s = pre @ t \<Longrightarrow> re_match r t \<noteq> [] \<Longrightarrow> matches_in r s"
  unfolding matches_in_def by blast

lemma MatchString_unanchored: "MatchString (Regexp txt False r) s \<longleftrightarrow> matches_in r s"
  unfolding MatchString_def list_ex_iff matches_in_def Bex_def suffixes_from_iff regexp.sel if_False
  by blast

lemma matches_in_Alt: "matches_in (Alt a b) s \<longleftrightarrow> matches_in a s \<or> matches_in b s"
  unfolding matches_in_def re_match.simps append_is_Nil_conv by blast

lemma matches_in_Lit: "matches_in (Lit l) s \<longleftrightarrow> strings_Contains s l"
  unfolding matches_in_def re_match.simps match_lit_ne strings_Contains_iff by blast

lemma matches_in_Many_Lit: "matches_in (Cat (Many p) (Lit l)) s \<longleftrightarrow> strings_Contains s l"
proof
  assume "matches_in (Cat (Many p) (Lit l)) s"
  then obtain pre t u where s: "s = pre @ t" and "u \<in> set (match_many p t)" and "match_lit l u \<noteq> []"
    unfolding matches_in_def re_match_Cat_ne by auto
  then obtain a b where "t = a @ u" and "u = l @ b"
    unfolding match_many_iff match_lit_ne by blast
  with s have "s = (pre @ a) @ l @ b" by simp
  then show "strings_Contains s l" unfolding strings_Contains_iff by blast
next
  assume "strings_Contains s l"
  then obtain a b where s: "s = a @ l @ b" by (auto simp: strings_Contains_iff)
  have "l @ b \<in> set (match_many p (l @ b))" by (auto simp: match_many_iff)
  moreover have "match_lit l (l @ b) \<noteq> []" unfolding match_lit_ne by blast
  ultimately have "re_match (Cat (Many p) (Lit l)) (l @ b) \<noteq> []"
    by (simp only: re_match_Cat_ne re_match.simps(1,3)) blast
  with s show "matches_in (Cat (Many p) (Lit l)) s" by (rule matches_inI)
qed

lemma re_match_suffix: "u \<in> set (re_match r s) \<Longrightarrow> \<exists>p. s = p @ u"
proof (induction r arbitrary: s u)
  case (Lit l)
  then show ?case unfolding re_match.simps match_lit_iff by blast
next
  case (Cls p)
  then have "s = [hd s] @ u" by (cases s) (auto split: if_splits)
  then show ?case by blast
next
  case (Many p)
  then show ?case unfolding re_match.simps match_many_iff by blast
next
  case (Cat a b)
  then show ?case by fastforce
next
  case (Alt a b)
  then show ?case by auto
next
  case (Opt a)
  then show ?case by auto
qed

text \<open>An optional part in front adds nothing to where a literal occurs.\<close>

lemma matches_in_Opt_Lit: "matches_in (Cat (Opt a) (Lit l)) s \<longleftrightarrow> strings_Contains s l"
proof
  assume "matches_in (Cat (Opt a) (Lit l)) s"
  then obtain pre t u where s: "s = pre @ t" and u: "u \<in> set (re_match (Opt a) t)" and "match_lit l u \<noteq> []"
    unfolding matches_in_def re_match_Cat_ne by auto
  moreover from u obtain p where "t = p @ u" using re_match_suffix by blast
  ultimately obtain b where "s = (pre @ p) @ l @ b"
    unfolding match_lit_ne by auto
  then show "strings_Contains s l" unfolding strings_Contains_iff by blast
next
  assume "strings_Contains s l"
  then obtain a' b where s: "s = a' @ l @ b" by (auto simp: strings_Contains_iff)
  have "l @ b \<in> set (re_match (Opt a) (l @ b))" by simp
  moreover have "match_lit l (l @ b) \<noteq> []" unfolding match_lit_ne by blast
  ultimately have "re_match (Cat (Opt a) (Lit l)) (l @ b) \<noteq> []"
    by (simp only: re_match_Cat_ne re_match.simps(1)) blast
  with s show "matches_in (Cat (Opt a) (Lit l)) s" by (rule matches_inI)
qed

lemma MatchString_acr:
  "MatchString acrRegex s \<longleftrightarrow>
     strings_Contains s ''.azurecr.io'' \<or> strings_Contains s ''.azurecr.cn'' \<or>
     strings_Contains s ''.azurecr.de'' \<or> strings_Contains s ''.azurecr.us''"
  unfolding acrRegex_def MatchString_unanchored matches_in_Alt matches_in_Many_Lit ..

lemma MatchString_gcr:
  "MatchString gcrRegex s \<longleftrightarrow> strings_Contains s ''-docker.pkg.dev'' \<or> strings_Contains s ''gcr.io''"
  unfolding gcrRegex_def MatchString_unanchored matches_in_Alt matches_in_Many_Lit
    matches_in_Opt_Lit ..

text \<open>A match at the start of a text is a match at the start of every longer text.\<close>

lemma match_many_append:
  "u \<in> set (match_many p s) \<Longrightarrow> u @ post \<in> set (match_many p (s @ post))"
  unfolding match_many_iff by auto

lemma re_match_append: "u \<in> set (re_match r s) \<Longrightarrow> u @ post \<in> set (re_match r (s @ post))"
proof (induction r arbitrary: s u)
  case (Cat a b)
  from Cat.prems obtain v where "v \<in> set (re_match a s)" and "u \<in> set (re_match b v)"
    by auto
  then have "v @ post \<in> set (re_match a (s @ post))" and "u @ post \<in> set (re_match b (v @ post))"
    by (simp_all add: Cat.IH)
  then show ?case unfolding re_match.simps set_concat set_map by blast
next
  case (Cls p)
  then show ?case by (cases s) (auto split: if_splits)
next
  case (Many p)
  then show ?case by (simp add: match_many_append)
next
  case (Lit l)
  then show ?case by (simp add: match_lit_iff)
qed auto

lemma re_match_append_ne: "re_match r s \<noteq> [] \<Longrightarrow> re_match r (s @ post) \<noteq> []"
proof -
  assume "re_match r s \<noteq> []"
  then obtain u where "u \<in> set (re_match r s)" by (cases "re_match r s") auto
  then have "u @ post \<in> set (re_match r (s @ post))" by (rule re_match_append)
  then show "re_match r (s @ post) \<noteq> []" by auto
qed

lemma MatchString_anchored_append:
  "re_anchored r \<Longrightarrow> MatchString r s \<Longrightarrow> MatchString r (s @ post)"
  by (simp add: MatchString_def re_match_append_ne)

text \<open>The GCR and ACR patterns are not anchored: they accept every host that holds one of the service suffixes anywhere.\<close>

theorem host_patterns_unanchored:
  "(MatchString gcrRegex s \<longleftrightarrow>
      strings_Contains s ''-docker.pkg.dev'' \<or> strings_Contains s ''gcr.io'') \<and>
   (MatchString acrRegex s \<longleftrightarrow>
      strings_Contains s ''.azurecr.io'' \<or> strings_Contains s ''.azurecr.cn'' \<or>
      strings_Contains s ''.azurecr.de'' \<or> strings_Contains s ''.azurecr.us'')"
  unfolding MatchString_gcr MatchString_acr by blast

text \<open>The ECR pattern has no end anchor either.\<close>

lemma ecr_pattern_open_end:
  "MatchString ecr_urlRegex s \<Longrightarrow> MatchString ecr_urlRegex (s @ post)"
  by (rule MatchString_anchored_append) (simp add: ecr_urlRegex_def)

subsection \<open>Dispatch\<close>

definition entry_matches :: "string \<Rightarrow> string \<times> regexp \<times> 'w loader \<Rightarrow> bool" where
  "entry_matches server e = MatchString (fst (snd e)) server"

lemma retrieve_loop_filter:
  "retrieve_loop kvs server w =
     (case filter (entry_matches server) kvs of
        [] \<Rightarrow> (Returns (None, Some errNoLoader), w)
      | e # _ \<Rightarrow> snd (snd e) server w)"
  by (induction kvs server w rule: retrieve_loop.induct) (auto simp: entry_matches_def)

text \<open>When exactly one registered pattern matches the server, its loader answers, whatever order Go visits the map of loaders in.\<close>

theorem RetrieveAuthorization_dispatch:
  assumes "range_order rng"
    and "filter (entry_matches server) (nil_map (cr_loaders r)) = [(p, re, loader)]"
  shows "RetrieveAuthorization rng r server w = loader server w"
proof -
  have "mset (filter (entry_matches server) (rng (nil_map (cr_loaders r)))) = mset [(p, re, loader)]"
    unfolding assms(2) [symmetric] by (rule range_order_filter [OF assms(1)])
  then have "filter (entry_matches server) (rng (nil_map (cr_loaders r))) = [(p, re, loader)]"
    unfolding mset.simps mset_eq_singleton_list .
  then show ?thesis by (simp add: RetrieveAuthorization_def retrieve_loop_filter)
qed

lemma RetrieveAuthorization_none:
  assumes "range_order rng" and "filter (entry_matches server) (nil_map (cr_loaders r)) = []"
  shows "RetrieveAuthorization rng r server w = (Returns (None, Some errNoLoader), w)"
proof -
  have "mset (filter (entry_matches server) (rng (nil_map (cr_loaders r)))) = mset []"
    unfolding assms(2) [symmetric] by (rule range_order_filter [OF assms(1)])
  then have "filter (entry_matches server) (rng (nil_map (cr_loaders r))) = []"
    unfolding mset.simps mset_zero_iff .
  then show ?thesis by (simp add: RetrieveAuthorization_def retrieve_loop_filter)
qed

subsection \<open>Loaders\<close>

locale auth_loader =
  fixes load :: "'w loader"
  assumes exclusive: "load server w = (Returns (ac, err), w') \<Longrightarrow> (ac = None) \<longleftrightarrow> (err \<noteq> None)"
begin

lemma no_error_some: "load server w = (Returns (ac, None), w') \<Longrightarrow> \<exists>a. ac = Some a"
  using exclusive by blast

end

interpretation acr: auth_loader "acr_authenticate env tenantID" for env tenantID
  by unfold_locales
    (auto simp: acr_authenticate_def Let_def
      split: if_splits prod.splits option.splits outcome.splits sum.splits)

interpretation gcr: auth_loader "gcr_authenticate env" for env
  by unfold_locales
    (auto simp: gcr_authenticate_def Let_def
      split: if_splits prod.splits option.splits outcome.splits sum.splits)

locale auth_registry =
  fixes r :: "'w cloud_Registry"
  assumes loaders: "e \<in> set (nil_map (cr_loaders r)) \<Longrightarrow> auth_loader (snd (snd e))"
begin

lemma retrieve_exclusive:
  assumes "range_order rng" and ret: "RetrieveAuthorization rng r server w = (Returns (ac, err), w')"
  shows "(ac = None) \<longleftrightarrow> (err \<noteq> None)"
proof (cases "filter (entry_matches server) (rng (nil_map (cr_loaders r)))")
  case Nil
  with ret show ?thesis by (auto simp: RetrieveAuthorization_def retrieve_loop_filter)
next
  case (Cons e es)
  then have "e \<in> set (rng (nil_map (cr_loaders r)))" by (metis filter_eq_ConsD in_set_conv_decomp)
  then have "e \<in> set (nil_map (cr_loaders r))"
    by (simp add: range_order_set [OF assms(1)])
  then have "auth_loader (snd (snd e))" by (rule loaders)
  moreover from Cons ret have "snd (snd e) server w = (Returns (ac, err), w')"
    by (simp add: RetrieveAuthorization_def retrieve_loop_filter)
  ultimately show ?thesis by (rule auth_loader.exclusive)
qed

end


lemma Registry_Register_loaders:
  "e \<in> set (nil_map (cr_loaders (Registry_Register p re ld r))) \<Longrightarrow>
   e = (p, re, ld) \<or> e \<in> set (nil_map (cr_loaders r))"
  using set_map_put [of p "(re, ld)" "nil_map (cr_loaders r)"]
  by (auto simp: Registry_Register_def Let_def split: if_splits)

lemma auth_registry_Register:
  assumes "auth_registry r" and "auth_loader ld"
  shows "auth_registry (Registry_Register p re ld r)"
  using assms Registry_Register_loaders unfolding auth_registry_def by fastforce

lemma auth_registry_acr: "auth_registry r \<Longrightarrow> auth_registry (snd (acr_Register provider env r))"
  by (auto simp: acr_Register_def split: sum.splits intro: auth_registry_Register acr.auth_loader_axioms)

lemma auth_registry_gcr: "auth_registry r \<Longrightarrow> auth_registry (snd (gcr_Register creds env r))"
  by (auto simp: gcr_Register_def split: option.splits intro: auth_registry_Register gcr.auth_loader_axioms)

definition no_loaders :: "'w cloud_Registry" where
  "no_loaders = \<lparr>cr_loaders = None\<rparr>"

interpretation azgcr: auth_registry
  "snd (gcr_Register creds genv (snd (acr_Register provider aenv no_loaders)))"
  for creds genv provider aenv
  by (intro auth_registry_gcr auth_registry_acr) (simp add: auth_registry_def no_loaders_def)

text \<open>C28. A registry built from the ACR and GCR loaders never returns a nil config without an error, nor a config with one.\<close>

theorem RetrieveAuthorization_exclusive:
  assumes "range_order rng"
    and "RetrieveAuthorization rng
           (snd (gcr_Register creds genv (snd (acr_Register provider aenv no_loaders)))) server w
         = (Returns (ac, err), w')"
  shows "(ac = None) \<longleftrightarrow> (err \<noteq> None)"
  using assms by (rule azgcr.retrieve_exclusive)

text \<open>The ECR loader breaks that contract: any number of tokens other than one gives a nil config and a nil error, since the error it wraps is nil.\<close>

theorem ecr_nil_result:
  assumes "MatchString ecr_urlRegex url" and "getTok w = (Inr tokens, w')"
  shows "ecr_authenticate getTok url w = (Returns (None, None), w') \<longleftrightarrow> length tokens \<noteq> 1"
  using assms by (auto simp: ecr_authenticate_def split: sum.splits option.splits)

subsection \<open>The challenge header\<close>


lemma parse_params_Returns:
  "(\<exists>m'. parse_params ps m = Returns m') \<longleftrightarrow> (\<forall>p \<in> set ps. CHR ''='' \<in> set (strings_TrimSpace p))"
proof (induction ps arbitrary: m)
  case Nil
  show ?case by simp
next
  case (Cons p ps)
  show ?case
    by (rule strings_Split2_cases [of "CHR ''=''" "strings_TrimSpace p"]) (auto simp: Cons.IH)
qed

text \<open>The header of a challenge, as a registry that follows the specification writes it.\<close>

definition challenge_header :: "string \<Rightarrow> string \<Rightarrow> string" where
  "challenge_header realm service =
     ''Bearer realm='' @ [CHR 0x22] @ realm @ [CHR 0x22]
       @ '',service='' @ [CHR 0x22] @ service @ [CHR 0x22]"

definition quotable :: "string \<Rightarrow> bool" where
  "quotable s \<longleftrightarrow> CHR 0x22 \<notin> set s \<and> CHR '','' \<notin> set s"

lemma TrimBy_frame:
  assumes "\<not> p a" and "\<not> p z"
  shows "strings_TrimBy p (a # xs @ [z]) = a # xs @ [z]"
  using assms by (simp add: strings_TrimBy_def)

lemma Trim_quoted:
  assumes "quotable s"
  shows "strings_Trim (CHR 0x22 # s @ [CHR 0x22]) (CHR 0x22) = s"
proof (cases s)
  case (Cons a xs)
  with assms have "a \<noteq> CHR 0x22" and "last s \<noteq> CHR 0x22"
    unfolding quotable_def by (metis last_in_set list.distinct(1) list.set_intros(1))+
  moreover from this(2) have "dropWhile (\<lambda>x. x = CHR 0x22) (rev s) = rev s"
    by (simp add: dropWhile_eq_self_iff hd_rev)
  ultimately show ?thesis
    using Cons by (simp add: strings_Trim_def strings_TrimBy_def)
qed (simp add: strings_Trim_def strings_TrimBy_def)

lemma parse_params_step:
  assumes "CHR ''='' \<notin> set (a # k)" and "\<not> is_space a" and "quotable v"
  shows "parse_params (((a # k) @ CHR ''='' # CHR 0x22 # v @ [CHR 0x22]) # ps) m
    = parse_params ps (map_put (a # k) v m)"
proof -
  let ?p = "(a # k) @ CHR ''='' # CHR 0x22 # v @ [CHR 0x22]"
  have "strings_TrimSpace ?p = ?p"
    using TrimBy_frame [of is_space a "CHR 0x22" "k @ CHR ''='' # CHR 0x22 # v"] assms(2)
    by (simp add: strings_TrimSpace_def is_space_def)
  then show ?thesis
    using assms(3) strings_Split2_sep [OF assms(1)] by (simp del: append_Cons add: Trim_quoted)
qed

text \<open>A bearer challenge with a realm and a service is parsed into exactly these.\<close>

theorem parse_challenge_header:
  assumes "quotable realm" and "quotable service" and "realm \<noteq> []"
  shows "parse_challenge [(''Www-Authenticate'', [challenge_header realm service])] =
    Returns (Inr \<lparr>ad_Service = service, ad_Realm = realm\<rparr>)"
proof -
  let ?k1 = "''realm'' @ CHR ''='' # CHR 0x22 # realm @ [CHR 0x22]"
  let ?k2 = "''service'' @ CHR ''='' # CHR 0x22 # service @ [CHR 0x22]"
  have hdr: "challenge_header realm service = ''Bearer'' @ CHR '' '' # (?k1 @ CHR '','' # ?k2)"
    by (simp add: challenge_header_def)
  have sections: "strings_Split2 (challenge_header realm service) (CHR '' '')
      = [''Bearer'', ?k1 @ CHR '','' # ?k2]"
    unfolding hdr by (rule strings_Split2_sep) simp
  have "CHR '','' \<notin> set ?k1" and "CHR '','' \<notin> set ?k2"
    using assms(1,2) by (simp_all add: quotable_def)
  then have params: "strings_Split (?k1 @ CHR '','' # ?k2) (CHR '','') = [?k1, ?k2]"
    unfolding strings_Split_append_sep by (simp add: strings_Split_no_sep del: strings_Split.simps)
  have "parse_params [?k1, ?k2] [] = Returns [(''realm'', realm), (''service'', service)]"
    using parse_params_step [OF _ _ assms(1), of "CHR ''r''" "''ealm''"]
      parse_params_step [OF _ _ assms(2), of "CHR ''s''" "''ervice''"]
    by (simp add: is_space_def)
  with sections params assms(3) show ?thesis
    by (simp add: parse_challenge_def map_get_default_def strings_EqualFold_def del: append_Cons)
qed

theorem parse_challenge_header_witness:
  "parse_challenge [(''Www-Authenticate'',
      [challenge_header ''https://auth.io/token'' ''registry.io''])] =
   Returns (Inr \<lparr>ad_Service = ''registry.io'', ad_Realm = ''https://auth.io/token''\<rparr>)"
  by (rule parse_challenge_header) (simp_all add: quotable_def)

text \<open>C29. The parser indexes past the end exactly on a bearer header with no parameter part or with a part that has no equals sign.\<close>

theorem parse_challenge_panics_iff:
  "(\<exists>p. parse_challenge [(''Www-Authenticate'', [h])] = Panics p) \<longleftrightarrow>
     strings_EqualFold ''Bearer'' (hd (strings_Split2 h (CHR '' ''))) \<and>
     (CHR '' '' \<notin> set h \<or>
      (\<exists>section \<in> set (strings_Split (strings_Split2 h (CHR '' '') ! 1) (CHR '','')).
         CHR ''='' \<notin> set (strings_TrimSpace section)))"
proof (rule strings_Split2_cases [of "CHR '' ''" h])
  assume "CHR '' '' \<notin> set h" and "strings_Split2 h (CHR '' '') = [h]"
  then show ?thesis by (simp add: parse_challenge_def Let_def)
next
  fix a b
  assume h: "h = a @ CHR '' '' # b" "strings_Split2 h (CHR '' '') = [a, b]"
  from h(1) have "CHR '' '' \<in> set h" by simp
  then show ?thesis
    unfolding parse_challenge_def h(2) using parse_params_Returns [of "strings_Split b (CHR '','')" "[]"]
    by (cases "parse_params (strings_Split b (CHR '','')) []") (auto simp: Let_def h(2) split: if_splits)
qed

subsection \<open>The token decoder\<close>

definition b64_char :: "nat \<Rightarrow> char" where
  "b64_char n = (if n < 26 then char_of (n + 65) else if n < 52 then char_of (n + 71)
     else if n < 62 then char_of (n - 4) else if n = 62 then CHR ''+'' else CHR ''/'')"

definition byte :: "char \<Rightarrow> nat" where
  "byte c = of_char c"

fun b64_encode :: "string \<Rightarrow> string" where
  "b64_encode [] = []"
| "b64_encode [a] = [b64_char (byte a div 4), b64_char (byte a mod 4 * 16), CHR ''='', CHR ''='']"
| "b64_encode [a, b] =
     [b64_char (byte a div 4), b64_char (byte a mod 4 * 16 + byte b div 16),
      b64_char (byte b mod 16 * 4), CHR ''='']"
| "b64_encode (a # b # c # rest) =
     b64_char (byte a div 4) # b64_char (byte a mod 4 * 16 + byte b div 16)
     # b64_char (byte b mod 16 * 4 + byte c div 64) # b64_char (byte c mod 64) # b64_encode rest"

lemma byte_less: "byte c < 256"
  by (simp add: byte_def)

lemma char_of_byte [simp]: "char_of (byte c) = c"
  by (simp add: byte_def)

lemma b64_value_char: "n < 64 \<Longrightarrow> b64_value (b64_char n) = Some n"
  by (auto simp: b64_value_def b64_char_def of_char_of Let_def)

lemma b64_value_pad: "b64_value (CHR ''='') = None"
  by (simp add: b64_value_def)

lemma b64_char_plain:
  assumes "n < 64"
  shows "b64_char n \<noteq> CHR 0x0A \<and> b64_char n \<noteq> CHR 0x0D"
proof -
  have "b64_value (CHR 0x0A) = None" "b64_value (CHR 0x0D) = None"
    by (simp_all add: b64_value_def)
  with b64_value_char [OF assms] show ?thesis by (metis option.distinct(1))
qed

lemma six_bits:
  "byte a div 4 < 64" "byte a mod 4 * 16 < 64" "byte a mod 4 * 16 + byte b div 16 < 64"
  "byte b mod 16 * 4 < 64" "byte b mod 16 * 4 + byte c div 64 < 64" "byte c mod 64 < 64"
  using byte_less [of a] byte_less [of b] byte_less [of c] by linarith+

lemmas b64_digit = six_bits [THEN b64_value_char] and b64_plain = six_bits [THEN b64_char_plain]

lemma byte_parts:
  "byte b div 16 div 16 = 0" "byte b div 16 mod 16 = byte b div 16"
  "byte c div 64 div 4 = 0" "byte c div 64 mod 4 = byte c div 64"
  using byte_less [of b] byte_less [of c] by (simp_all flip: div_mult2_eq add: less_mult_imp_div_less)

lemma b64_quads_encode: "b64_quads (b64_encode s) = Some s"
  by (induction s rule: b64_encode.induct)
    (simp_all add: b64_digit b64_value_pad byte_parts del: mult_Suc_right)

lemma b64_encode_plain:
  "filter (\<lambda>c. c \<noteq> CHR 0x0A \<and> c \<noteq> CHR 0x0D) (b64_encode s) = b64_encode s"
  by (induction s rule: b64_encode.induct) (simp_all add: b64_plain)

lemma b64_roundtrip: "b64_DecodeString (b64_encode s) = Some s"
  by (simp add: b64_DecodeString_def b64_encode_plain b64_quads_encode)

text \<open>C30. Decoding the base64 of \<open>user:password\<close> gives the pair back; only the user may not hold a colon.\<close>

theorem decodeAuth_roundtrip:
  assumes "CHR '':'' \<notin> set user"
  shows "decodeAuth (b64_encode (user @ '':'' @ password)) = Inr (user, password)"
proof -
  have "b64_encode (user @ '':'' @ password) \<noteq> ''''"
    by (cases "user @ '':'' @ password" rule: b64_encode.cases) auto
  with assms show ?thesis
    by (simp add: decodeAuth_def b64_roundtrip strings_Split2_sep)
qed

theorem parse_challenge_panics_iff_witness:
  "\<exists>p. parse_challenge [(''Www-Authenticate'', [''bearer''])] = Panics p"
  unfolding parse_challenge_panics_iff by code_simp

theorem decodeAuth_roundtrip_witness:
  "decodeAuth (b64_encode (''AWS'' @ '':'' @ ''s3:cret'')) = Inr (''AWS'', ''s3:cret'')"
  by (rule decodeAuth_roundtrip) simp

subsection \<open>The retry loop\<close>

fun retry_world ::
  "('w \<Rightarrow> go_error option \<times> 'w) \<Rightarrow> (nat \<Rightarrow> 'w \<Rightarrow> bool \<times> 'w) \<Rightarrow> nat \<Rightarrow> 'w \<Rightarrow> 'w" where
  "retry_world f delay 0 w = w"
| "retry_world f delay (Suc i) w = snd (delay i (snd (f (retry_world f delay i w))))"

definition tries_fail ::
  "('w \<Rightarrow> go_error option \<times> 'w) \<Rightarrow> (nat \<Rightarrow> 'w \<Rightarrow> bool \<times> 'w) \<Rightarrow> nat \<Rightarrow> 'w \<Rightarrow> bool" where
  "tries_fail f delay k w \<longleftrightarrow>
     (\<forall>i<k. fst (f (retry_world f delay i w)) \<noteq> None \<and>
            fst (delay i (snd (f (retry_world f delay i w)))))"

lemma retry_after_failures:
  assumes "tries_fail f delay k w" and "k \<le> n"
  shows "retry n f delay ctxErr w =
    retry_from n f delay ctxErr k
      (if k = 0 then None else fst (f (retry_world f delay (k - 1) w))) (retry_world f delay k w)"
  using assms
proof (induction k)
  case 0
  show ?case by (simp add: retry_def)
next
  case (Suc k)
  then have IH: "retry n f delay ctxErr w = retry_from n f delay ctxErr k
      (if k = 0 then None else fst (f (retry_world f delay (k - 1) w))) (retry_world f delay k w)"
    by (simp add: tries_fail_def)
  from Suc.prems obtain e w1 where f: "f (retry_world f delay k w) = (Some e, w1)"
    by (cases "f (retry_world f delay k w)") (auto simp: tries_fail_def)
  moreover from this Suc.prems obtain w2 where "delay k w1 = (True, w2)"
    by (cases "delay k w1") (auto simp: tries_fail_def)
  ultimately show ?case
    using Suc.prems(2) by (simp add: IH retry_from.simps [of n f delay ctxErr k])
qed

text \<open>If \<open>k\<close> tries fail and try \<open>k\<close> succeeds, the loop stops there and reports success.\<close>

theorem retry_succeeds:
  assumes "tries_fail f delay k w" and "k < n" and "fst (f (retry_world f delay k w)) = None"
  shows "retry n f delay ctxErr w = (None, snd (f (retry_world f delay k w)))"
  using assms retry_after_failures [of f delay k w n ctxErr]
  by (cases "f (retry_world f delay k w)") (simp add: retry_from.simps [of n f delay ctxErr k])

text \<open>If every try fails, the error of the last one is returned, after as many delays as tries.\<close>

theorem retry_exhausted:
  assumes "tries_fail f delay n w" and "0 < n"
  shows "retry n f delay ctxErr w =
    (fst (f (retry_world f delay (n - 1) w)), retry_world f delay n w)"
  using assms retry_after_failures [of f delay n w n ctxErr]
  by (simp add: retry_from.simps [of n f delay ctxErr n])

lemma retry_cancelled:
  assumes "tries_fail f delay k w" and "k < n"
    and "f (retry_world f delay k w) = (Some e, w1)" and "delay k w1 = (False, w2)"
  shows "retry n f delay ctxErr w = (ctxErr w2, w2)"
  using assms retry_after_failures [of f delay k w n ctxErr]
  by (simp add: retry_from.simps [of n f delay ctxErr k])

text \<open>A refresh that fails twice and then succeeds, with the calls and delays counted.\<close>

theorem retry_succeeds_witness:
  "retry 3 (\<lambda>(c, d). if c < (2::nat) then (Some noCredsErr, (Suc c, d)) else (None, (Suc c, d)))
     (\<lambda>i (c, d). (True, (c, Suc d))) (\<lambda>_. None) (0, 0::nat) = (None, (3, 2))"
  (is "retry 3 ?f ?delay _ _ = _")
  using retry_succeeds [of ?f ?delay 2 "(0, 0)" 3 "\<lambda>_. None"]
  by (simp add: tries_fail_def less_Suc_eq numeral_2_eq_2)

theorem retry_exhausted_witness:
  "retry 3 (\<lambda>(c, d). (Some noCredsErr, (Suc c, d)))
     (\<lambda>i (c, d). (True, (c, Suc d))) (\<lambda>_. None) (0::nat, 0::nat) = (Some noCredsErr, (3, 3))"
  (is "retry 3 ?f ?delay _ _ = _")
  using retry_exhausted [of ?f ?delay 3 "(0, 0)" "\<lambda>_. None"]
  by (simp add: tries_fail_def less_Suc_eq numeral_3_eq_3)

subsection \<open>Witnesses\<close>

text \<open>A registry with two loaders, seen in reverse.\<close>

definition two_loaders :: "unit cloud_Registry" where
  "two_loaders =
     Registry_Register ''gcrRegex'' gcrRegex (\<lambda>s w. (Returns (Some (zero_ac\<lparr>ac_Username := ''g''\<rparr>), None), w))
      (Registry_Register ''acrRegex'' acrRegex (\<lambda>s w. (Returns (Some (zero_ac\<lparr>ac_Username := ''a''\<rparr>), None), w))
        no_loaders)"

theorem RetrieveAuthorization_dispatch_witness:
  "RetrieveAuthorization rev two_loaders ''us.gcr.io'' () =
   (Returns (Some (zero_ac\<lparr>ac_Username := ''g''\<rparr>), None), ())"
  by (subst RetrieveAuthorization_dispatch [where p = "''gcrRegex''" and re = gcrRegex
        and loader = "\<lambda>s w. (Returns (Some (zero_ac\<lparr>ac_Username := ''g''\<rparr>), None), w)"])
    (simp_all add: range_order_def two_loaders_def Registry_Register_def no_loaders_def
      entry_matches_def MatchString_acr MatchString_gcr)

theorem ecr_nil_result_witness:
  "ecr_authenticate (\<lambda>w. (Inr [], w)) ''1.dkr.ecr.us-west-2.amazonaws.com'' () = (Returns (None, None), ())"
  using ecr_nil_result [of "''1.dkr.ecr.us-west-2.amazonaws.com''" "\<lambda>w. (Inr [], w)" "()" "[]" "()"]
  by (simp add: MatchString_def ecr_urlRegex_def alnum_def word_char_def)

definition sample_gcr :: "'w gcr_env" where
  "sample_gcr = \<lparr>gcr_token = \<lambda>w. (Inr ''at'', w),
     gcr_check = \<lambda>_ w. (\<lparr>ch_response = Some (401, [(''Www-Authenticate'',
        [''Bearer realm=https://gcr.io/v2/token,service=gcr.io''])]), ch_err = None\<rparr>, w),
     gcr_newRequest = \<lambda>_. None,
     gcr_do = \<lambda>realm service tok w. (Inr (200, realm), w),
     gcr_unmarshal = \<lambda>c. Inr (c, '''')\<rparr>"

lemma sample_gcr_run:
  "gcr_authenticate sample_gcr ''us.gcr.io'' () =
     (Returns (Some (zero_ac\<lparr>ac_Username := ''oauth2accesstoken'', ac_Password := ''at'',
         ac_RegistryToken := ''https://gcr.io/v2/token''\<rparr>), None), ())"
  by code_simp

theorem RetrieveAuthorization_exclusive_witness:
  "\<forall>aenv. \<exists>ac err. RetrieveAuthorization rev
      (snd (gcr_Register None sample_gcr (snd (acr_Register (Inl noCredsErr, ()) aenv no_loaders))))
      ''us.gcr.io'' () = (Returns (Some ac, err), ()) \<and> err = None"
proof
  fix aenv :: "unit acr_env"
  have order: "range_order rev" by (simp add: range_order_def)
  have "RetrieveAuthorization rev
      (snd (gcr_Register None sample_gcr (snd (acr_Register (Inl noCredsErr, ()) aenv no_loaders))))
      ''us.gcr.io'' () = gcr_authenticate sample_gcr ''us.gcr.io'' ()"
    by (simp add: RetrieveAuthorization_def gcr_Register_def acr_Register_def Registry_Register_def
        no_loaders_def MatchString_gcr)
  note run = this [unfolded sample_gcr_run]
  from RetrieveAuthorization_exclusive [OF order run] run
  show "\<exists>ac err. RetrieveAuthorization rev
      (snd (gcr_Register None sample_gcr (snd (acr_Register (Inl noCredsErr, ()) aenv no_loaders))))
      ''us.gcr.io'' () = (Returns (Some ac, err), ()) \<and> err = None" by blast
qed

end
