(* ===== verification/Forge_Controller.thy ===== *)
theory Forge_Controller
  imports Forge_Kube Forge_Cloud
begin

section \<open>The resources of a build\<close>

text \<open>
  \<^verbatim>\<open>controllers/containerimagebuild_resources.go\<close>: what the controller creates for a build, in the
  order it creates it. The state of the reconciler is the world behind its client, its job
  configuration (which the check of the cloud credentials changes) and its metrics; everything it
  only calls is in \<open>rec_env\<close>. A handler returns its error, may panic, and
  hands on the state.
\<close>

subsection \<open>State and environment\<close>

record BuildJobConfig =
  jc_Image :: string
  jc_ImagePullSecret :: string
  jc_CustomCAConfigMap :: string
  jc_PreparerPluginPath :: string
  jc_Labels :: "string gomap"
  jc_Annotations :: "string gomap"
  jc_NodeSelector :: "string gomap"
  jc_TolerationKey :: string
  jc_GrantFullPrivilege :: bool
  jc_EnableLayerCaching :: bool
  jc_PodSecurityPolicy :: string
  jc_SecurityContextConstraints :: string
  jc_BrokerOpts :: "Options option"
  jc_Volumes :: "Volume list"
  jc_VolumeMounts :: "VolumeMount list"
  jc_EnvVar :: "EnvVar list"
  jc_EnableIstioSupport :: bool
  jc_DynamicVolumes :: "Volume list"
  jc_DynamicVolumeMounts :: "VolumeMount list"

text \<open>
  \<open>re_rng\<close> and \<open>re_loader_rng\<close> are the orders of the \<^verbatim>\<open>for range\<close> loops over maps, \<open>re_gvk\<close> what
  the scheme knows of the type of a build, \<open>re_marshal\<close> the JSON encoding of a Docker config
  with the given auths, \<open>re_parseQuantity\<close> is \<^verbatim>\<open>resource.ParseQuantity\<close>.
\<close>

record 'w rec_env =
  re_kube :: "'w kube"
  re_gvk :: "(string \<times> string) result"
  re_registry :: "'w cloud_Registry"
  re_loader_rng :: "(string \<times> regexp \<times> 'w loader) list \<Rightarrow> (string \<times> regexp \<times> 'w loader) list"
  re_rng :: "string gomap \<Rightarrow> string gomap"
  re_marshal :: "AuthConfigs \<Rightarrow> string result"
  re_parseQuantity :: "string \<Rightarrow> quantity result"
  re_getenv :: "string \<Rightarrow> string"

type_synonym counter = "nat gomap"

definition counter_Inc :: "string \<Rightarrow> counter \<Rightarrow> counter" where
  "counter_Inc label c = map_put label (map_get_default 0 c label + 1) c"

record 'w rec_state =
  rs_world :: 'w
  rs_JobConfig :: BuildJobConfig
  rs_buildsCount :: counter
  rs_gcCount :: counter
  rs_gcObserved :: nat
  rs_events :: "(string \<times> string) list"

type_synonym 'w handler = "'w rec_state \<Rightarrow> go_error option outcome \<times> 'w rec_state"

text \<open>\<^verbatim>\<open>if err := f(); err != nil { return err }\<close> followed by the rest of the body.\<close>

definition and_then :: "'w handler \<Rightarrow> 'w handler \<Rightarrow> 'w handler" where
  "and_then f g s =
     (case f s of
        (Returns None, s1) \<Rightarrow> g s1
      | (Returns (Some e), s1) \<Rightarrow> (Returns (Some e), s1)
      | (Panics p, s1) \<Rightarrow> (Panics p, s1))"

subsection \<open>Constants\<close>

definition rootlesskitCommand :: string where
  "rootlesskitCommand = ''rootlesskit''"

definition forgeCommand :: string where
  "forgeCommand = ''/usr/bin/forge''"

definition cloudCredentialsID :: string where
  "cloudCredentialsID = ''dynamic-cloud-credentials''"

definition istioCmdArg :: string where
  "istioCmdArg = [CHR 0x0A] @ ''EXIT_CODE=$?; wget -qO- --post-data '' @ [CHR 0x22, CHR 0x22]
     @ '' http://localhost:15020/quitquitquit; exit $EXIT_CODE''"

definition buildContextDirVolumeName :: string where
  "buildContextDirVolumeName = ''build-context-dir''"

definition stateDirVolumeName :: string where
  "stateDirVolumeName = ''state-dir''"

definition SchemeGroup :: string where
  "SchemeGroup = ''forge.dominodatalab.com''"

definition DockerConfigJsonKey :: string where
  "DockerConfigJsonKey = ''.dockerconfigjson''"

subsection \<open>Owned resources\<close>

definition withOwnedResource :: "'w rec_env \<Rightarrow> ContainerImageBuild \<Rightarrow> k8s_object \<Rightarrow> 'w handler" where
  "withOwnedResource env cib ob s =
     (case kube_Get (re_kube env) (rs_world s) (object_key ob) of
        Inr _ \<Rightarrow> (Returns None, s)
      | Inl err \<Rightarrow>
        (if \<not> is_not_found err then (Returns (Some err), s)
         else (case SetControllerReference (re_gvk env) cib ob of
                 Inl err2 \<Rightarrow> (Returns (Some err2), s)
               | Inr ob2 \<Rightarrow>
                 (case kube_Create (re_kube env) ob2 (rs_world s) of
                    (r, w1) \<Rightarrow> (Returns r, s\<lparr>rs_world := w1\<rparr>)))))"

text \<open>The metadata that all resources of a build share: its namespace and labels.\<close>

definition resource_meta :: "ContainerImageBuild \<Rightarrow> string \<Rightarrow> ObjectMeta" where
  "resource_meta cib name = zero_meta\<lparr>om_Name := name, om_Namespace := cib_Namespace cib,
     om_Labels := om_Labels (cib_Meta cib)\<rparr>"

definition service_account :: "ContainerImageBuild \<Rightarrow> k8s_object" where
  "service_account cib = ServiceAccountObj (resource_meta cib (cib_Name cib))"

definition checkServiceAccount :: "'w rec_env \<Rightarrow> ContainerImageBuild \<Rightarrow> 'w handler" where
  "checkServiceAccount env cib = withOwnedResource env cib (service_account cib)"

definition role_rules :: "BuildJobConfig \<Rightarrow> PolicyRule list" where
  "role_rules jc =
     [\<lparr>pr_APIGroups = [SchemeGroup], pr_Resources = [''containerimagebuilds''],
       pr_Verbs = [''get''], pr_ResourceNames = []\<rparr>,
      \<lparr>pr_APIGroups = [SchemeGroup], pr_Resources = [''containerimagebuilds/status''],
       pr_Verbs = [''update''], pr_ResourceNames = []\<rparr>,
      \<lparr>pr_APIGroups = [''''], pr_Resources = [''secrets''],
       pr_Verbs = [''get''], pr_ResourceNames = []\<rparr>]
     @ (if jc_PodSecurityPolicy jc \<noteq> ''''
        then [\<lparr>pr_APIGroups = [''policy''], pr_Resources = [''podsecuritypolicies''],
               pr_Verbs = [''use''], pr_ResourceNames = [jc_PodSecurityPolicy jc]\<rparr>] else [])
     @ (if jc_SecurityContextConstraints jc \<noteq> ''''
        then [\<lparr>pr_APIGroups = [''security.openshift.io''], pr_Resources = [''securitycontextconstraints''],
               pr_Verbs = [''use''], pr_ResourceNames = [jc_SecurityContextConstraints jc]\<rparr>] else [])"

definition build_role :: "BuildJobConfig \<Rightarrow> ContainerImageBuild \<Rightarrow> k8s_object" where
  "build_role jc cib =
     RoleObj \<lparr>role_Meta = resource_meta cib (cib_Name cib), role_Rules = role_rules jc\<rparr>"

definition checkRole :: "'w rec_env \<Rightarrow> ContainerImageBuild \<Rightarrow> 'w handler" where
  "checkRole env cib s = withOwnedResource env cib (build_role (rs_JobConfig s) cib) s"

definition role_binding :: "ContainerImageBuild \<Rightarrow> k8s_object" where
  "role_binding cib = RoleBindingObj
     \<lparr>rb_Meta = resource_meta cib (cib_Name cib),
      rb_RoleRefGroup = ''rbac.authorization.k8s.io'', rb_RoleRefKind = ''Role'',
      rb_RoleRefName = cib_Name cib,
      rb_Subjects = [\<lparr>subj_Kind = ''ServiceAccount'', subj_Name = cib_Name cib,
                      subj_Namespace = cib_Namespace cib\<rparr>]\<rparr>"

definition checkRoleBinding :: "'w rec_env \<Rightarrow> ContainerImageBuild \<Rightarrow> 'w handler" where
  "checkRoleBinding env cib = withOwnedResource env cib (role_binding cib)"

subsection \<open>Cloud credentials\<close>

fun cloud_auths ::
  "'w rec_env \<Rightarrow> Registry list \<Rightarrow> AuthConfigs \<Rightarrow> 'w \<Rightarrow> AuthConfigs result outcome \<times> 'w" where
  "cloud_auths env [] auths w = (Returns (Inr auths), w)"
| "cloud_auths env (reg # regs) auths w =
     (if \<not> reg_DynamicCloudCredentials reg then cloud_auths env regs auths w
      else (case RetrieveAuthorization (re_loader_rng env) (re_registry env) (reg_Server reg) w of
              (Panics p, w1) \<Rightarrow> (Panics p, w1)
            | (Returns (ac, Some err), w1) \<Rightarrow> (Returns (Inl err), w1)
            | (Returns (None, None), w1) \<Rightarrow> (Panics ''nil pointer dereference'', w1)
            | (Returns (Some ac, None), w1) \<Rightarrow>
                cloud_auths env regs (map_put (reg_Server reg) ac auths) w1))"

definition cloud_secret_name :: "ContainerImageBuild \<Rightarrow> string" where
  "cloud_secret_name cib = cib_Name cib @ ''-'' @ cloudCredentialsID"

definition cloud_secret :: "ContainerImageBuild \<Rightarrow> string \<Rightarrow> k8s_object" where
  "cloud_secret cib data = SecretObj
     \<lparr>sec_Meta = resource_meta cib (cloud_secret_name cib),
      sec_Type = ''kubernetes.io/dockerconfigjson'',
      sec_Data = [(DockerConfigJsonKey, data)]\<rparr>"

definition cloud_volume :: "ContainerImageBuild \<Rightarrow> Volume" where
  "cloud_volume cib = \<lparr>vol_Name = cloudCredentialsID,
     vol_Source = SecretSource (cloud_secret_name cib)
       [(DockerConfigJsonKey, DynamicCredentialsFilename)]\<rparr>"

definition cloud_mount :: VolumeMount where
  "cloud_mount = \<lparr>vm_Name = cloudCredentialsID, vm_MountPath = DynamicCredentialsPath,
     vm_ReadOnly = True\<rparr>"

definition with_cloud :: "ContainerImageBuild \<Rightarrow> BuildJobConfig \<Rightarrow> BuildJobConfig" where
  "with_cloud cib jc = jc\<lparr>jc_DynamicVolumes := jc_DynamicVolumes jc @ [cloud_volume cib],
     jc_DynamicVolumeMounts := jc_DynamicVolumeMounts jc @ [cloud_mount]\<rparr>"

definition add_dynamic :: "ContainerImageBuild \<Rightarrow> 'w handler" where
  "add_dynamic cib s = (Returns None, s\<lparr>rs_JobConfig := with_cloud cib (rs_JobConfig s)\<rparr>)"

definition checkCloudRegistrySecrets :: "'w rec_env \<Rightarrow> ContainerImageBuild \<Rightarrow> 'w handler" where
  "checkCloudRegistrySecrets env cib s =
     (case cloud_auths env (spec_Registries (cib_Spec cib)) [] (rs_world s) of
        (Panics p, w1) \<Rightarrow> (Panics p, s\<lparr>rs_world := w1\<rparr>)
      | (Returns (Inl err), w1) \<Rightarrow> (Returns (Some err), s\<lparr>rs_world := w1\<rparr>)
      | (Returns (Inr auths), w1) \<Rightarrow>
        (let s1 = s\<lparr>rs_world := w1\<rparr> in
         if auths = [] then (Returns None, s1)
         else (case re_marshal env auths of
                 Inl err \<Rightarrow> (Returns (Some err), s1)
               | Inr data \<Rightarrow>
                 and_then (withOwnedResource env cib (cloud_secret cib data)) (add_dynamic cib) s1)))"

definition checkPrerequisites :: "'w rec_env \<Rightarrow> ContainerImageBuild \<Rightarrow> 'w handler" where
  "checkPrerequisites env cib =
     and_then (checkServiceAccount env cib)
      (and_then (checkRole env cib)
        (and_then (checkRoleBinding env cib) (checkCloudRegistrySecrets env cib)))"

subsection \<open>The build job\<close>

definition prepareJobArgs :: "BuildJobConfig \<Rightarrow> ContainerImageBuild \<Rightarrow> string list" where
  "prepareJobArgs jc cib =
     (let args = [forgeCommand, ''build'', ''--resource='' @ cib_Name cib,
                  ''--enable-layer-caching='' @ fmt_t (jc_EnableLayerCaching jc)];
          args = (if jc_PreparerPluginPath jc \<noteq> ''''
                  then args @ [''--preparer-plugins-path='' @ jc_PreparerPluginPath jc] else args);
          args = (case jc_BrokerOpts jc of
                    None \<Rightarrow> args
                  | Some opts \<Rightarrow>
                    (let queueName = (if spec_MessageQueueName (cib_Spec cib) \<noteq> ''''
                                      then spec_MessageQueueName (cib_Spec cib) else opt_AmqpQueue opts)
                     in args @ [''--message-broker='' @ opt_Broker opts,
                                ''--amqp-uri='' @ opt_AmqpURI opts,
                                ''--amqp-queue='' @ queueName]));
          args = (if \<not> jc_GrantFullPrivilege jc then rootlesskitCommand # args else args);
          args = (if jc_EnableIstioSupport jc then args @ [istioCmdArg] else args)
      in [''-c'', strings_Join args '' ''])"

text \<open>
  The pod's labels are the map of the build itself when it has one, so the labels of the
  configuration are written into it and the job, which uses the same map, has them too; a
  build without labels gets a map of its own for the pod and the job has none.
\<close>

definition pod_labels :: "'w rec_env \<Rightarrow> BuildJobConfig \<Rightarrow> ContainerImageBuild \<Rightarrow> string gomap" where
  "pod_labels env jc cib = map_put_all (nil_map (om_Labels (cib_Meta cib))) (re_rng env (jc_Labels jc))"

definition job_labels :: "'w rec_env \<Rightarrow> BuildJobConfig \<Rightarrow> ContainerImageBuild \<Rightarrow> string gomap option" where
  "job_labels env jc cib =
     (case om_Labels (cib_Meta cib) of None \<Rightarrow> None | Some _ \<Rightarrow> Some (pod_labels env jc cib))"

definition pod_annotations :: "'w rec_env \<Rightarrow> BuildJobConfig \<Rightarrow> ContainerImageBuild \<Rightarrow> string gomap" where
  "pod_annotations env jc cib =
     map_put_all
       (map_put_all
          [(''container.apparmor.security.beta.kubernetes.io/forge-build'', ''unconfined''),
           (''container.seccomp.security.alpha.kubernetes.io/forge-build'', ''unconfined'')]
          (re_rng env (nil_map (om_Annotations (cib_Meta cib)))))
       (re_rng env (jc_Annotations jc))"

definition pod_fs_group :: "BuildJobConfig \<Rightarrow> int option" where
  "pod_fs_group jc = (if jc_GrantFullPrivilege jc then None else Some 1000)"

definition build_sec_ctx :: "BuildJobConfig \<Rightarrow> SecurityContext" where
  "build_sec_ctx jc =
     (let secCtx = \<lparr>sc_RunAsUser = Some 1000, sc_Privileged = None, sc_SELinuxType = Some ''spc_t''\<rparr>
      in if jc_GrantFullPrivilege jc
         then secCtx\<lparr>sc_RunAsUser := Some 0, sc_Privileged := Some True\<rparr> else secCtx)"

definition job_volumes :: "BuildJobConfig \<Rightarrow> Volume list" where
  "job_volumes jc =
     [\<lparr>vol_Name = buildContextDirVolumeName, vol_Source = EmptyDir\<rparr>,
      \<lparr>vol_Name = stateDirVolumeName, vol_Source = EmptyDir\<rparr>]
     @ jc_Volumes jc @ jc_DynamicVolumes jc
     @ (if jc_CustomCAConfigMap jc \<noteq> ''''
        then [\<lparr>vol_Name = ''ca-bundle'', vol_Source = ConfigMapSource (jc_CustomCAConfigMap jc)\<rparr>]
        else [])"

definition context_mount :: VolumeMount where
  "context_mount = \<lparr>vm_Name = buildContextDirVolumeName, vm_MountPath = BuildContextPath,
     vm_ReadOnly = False\<rparr>"

definition job_mounts :: "'w rec_env \<Rightarrow> BuildJobConfig \<Rightarrow> VolumeMount list" where
  "job_mounts env jc =
     [context_mount,
      \<lparr>vm_Name = stateDirVolumeName, vm_MountPath = GetStateDir (re_getenv env), vm_ReadOnly = False\<rparr>]
     @ jc_VolumeMounts jc @ jc_DynamicVolumeMounts jc
     @ (if jc_CustomCAConfigMap jc \<noteq> ''''
        then [\<lparr>vm_Name = ''ca-bundle'', vm_MountPath = ''/etc/ssl/certs'', vm_ReadOnly = True\<rparr>]
        else [])"

definition no_resources :: ResourceRequirements where
  "no_resources = \<lparr>rr_Limits = None, rr_Requests = None\<rparr>"

definition init_container :: "BuildJobConfig \<Rightarrow> InitContainer \<Rightarrow> Container" where
  "init_container jc ic =
     \<lparr>ctr_Name = ic_Name ic, ctr_Image = ic_Image ic, ctr_ImagePullPolicy = '''',
      ctr_Command = ic_Command ic, ctr_Args = ic_Args ic, ctr_Env = ic_Env ic,
      ctr_WorkingDir = BuildContextPath,
      ctr_SecurityContext = \<lparr>sc_RunAsUser = sc_RunAsUser (build_sec_ctx jc),
        sc_Privileged = None, sc_SELinuxType = None\<rparr>,
      ctr_VolumeMounts = [context_mount], ctr_Resources = no_resources\<rparr>"

definition put_resource :: "string \<Rightarrow> quantity \<Rightarrow> ResourceRequirements \<Rightarrow> ResourceRequirements" where
  "put_resource name q rr =
     rr\<lparr>rr_Limits := Some (map_put name q (nil_map (rr_Limits rr))),
        rr_Requests := Some (map_put name q (nil_map (rr_Requests rr)))\<rparr>"

definition quantity_field ::
  "'w rec_env \<Rightarrow> string \<Rightarrow> string \<Rightarrow> ResourceRequirements \<Rightarrow> ResourceRequirements result" where
  "quantity_field env field val rr =
     (if val = '''' then Inr rr
      else (case re_parseQuantity env val of
              Inl err \<Rightarrow> Inl (errors_Wrap err (''could not parse `'' @ field @ ''` field: '' @ val))
            | Inr q \<Rightarrow> Inr (put_resource field q rr)))"

definition job_resources :: "'w rec_env \<Rightarrow> ContainerImageBuild \<Rightarrow> ResourceRequirements result" where
  "job_resources env cib =
     (let res = spec_Resources (cib_Spec cib);
          res = res\<lparr>rr_Limits := Some (nil_map (rr_Limits res)),
                    rr_Requests := Some (nil_map (rr_Requests res))\<rparr>
      in case quantity_field env ''cpu'' (spec_CPU (cib_Spec cib)) res of
           Inl err \<Rightarrow> Inl err
         | Inr res1 \<Rightarrow> quantity_field env ''memory'' (spec_Memory (cib_Spec cib)) res1)"

definition build_container ::
  "'w rec_env \<Rightarrow> BuildJobConfig \<Rightarrow> ContainerImageBuild \<Rightarrow> ResourceRequirements \<Rightarrow> Container" where
  "build_container env jc cib res =
     \<lparr>ctr_Name = ''forge-build'', ctr_Image = jc_Image jc, ctr_ImagePullPolicy = ''IfNotPresent'',
      ctr_Command = [''/bin/sh''], ctr_Args = prepareJobArgs jc cib, ctr_Env = jc_EnvVar jc,
      ctr_WorkingDir = '''', ctr_SecurityContext = build_sec_ctx jc,
      ctr_VolumeMounts = job_mounts env jc, ctr_Resources = res\<rparr>"

definition job_for_build ::
  "'w rec_env \<Rightarrow> BuildJobConfig \<Rightarrow> ContainerImageBuild \<Rightarrow> ResourceRequirements \<Rightarrow> Job" where
  "job_for_build env jc cib res =
     \<lparr>job_Meta = (resource_meta cib (cib_Name cib))\<lparr>om_Labels := job_labels env jc cib\<rparr>,
      job_BackoffLimit = 0,
      job_PodMeta = (resource_meta cib (cib_Name cib))\<lparr>om_Labels := Some (pod_labels env jc cib),
        om_Annotations := Some (pod_annotations env jc cib)\<rparr>,
      job_PodSpec =
        \<lparr>pod_ServiceAccountName = cib_Name cib, pod_NodeSelector = jc_NodeSelector jc,
         pod_RestartPolicy = ''Never'',
         pod_InitContainers = map (init_container jc) (spec_InitContainers (cib_Spec cib)),
         pod_FSGroup = pod_fs_group jc,
         pod_ImagePullSecrets =
           (if jc_ImagePullSecret jc \<noteq> '''' then [jc_ImagePullSecret jc] else []),
         pod_Tolerations =
           (if jc_TolerationKey jc \<noteq> ''''
            then [\<lparr>tol_Key = jc_TolerationKey jc, tol_Operator = ''Exists''\<rparr>] else []),
         pod_Containers = [build_container env jc cib res],
         pod_Volumes = job_volumes jc\<rparr>\<rparr>"

definition reset_dynamic :: "'w rec_state \<Rightarrow> 'w rec_state" where
  "reset_dynamic s = s\<lparr>rs_JobConfig :=
     (rs_JobConfig s)\<lparr>jc_DynamicVolumes := [], jc_DynamicVolumeMounts := []\<rparr>\<rparr>"

definition createJobForBuild :: "'w rec_env \<Rightarrow> ContainerImageBuild \<Rightarrow> 'w handler" where
  "createJobForBuild env cib s =
     (case job_resources env cib of
        Inl err \<Rightarrow> (Returns (Some err), reset_dynamic s)
      | Inr res \<Rightarrow>
        (case withOwnedResource env cib (JobObj (job_for_build env (rs_JobConfig s) cib res)) s of
           (r, s1) \<Rightarrow> (r, reset_dynamic s1)))"

subsection \<open>Composition of handlers\<close>

lemma and_then_None:
  "and_then f g s = (Returns None, s') \<longleftrightarrow>
     (\<exists>s1. f s = (Returns None, s1) \<and> g s1 = (Returns None, s'))"
  by (auto simp: and_then_def split: prod.splits outcome.splits option.splits)

lemma and_then_cases:
  assumes "and_then f g s = (r, s')"
  obtains (first) "f s = (r, s')" "r \<noteq> Returns None"
  | (both) s1 where "f s = (Returns None, s1)" "g s1 = (r, s')"
  using assms by (auto simp: and_then_def split: prod.splits outcome.splits option.splits)

text \<open>A transitive relation that both handlers keep to is kept by their composition.\<close>

lemma and_then_rel:
  assumes "and_then f g s = (r, s')"
    and "\<And>s r s'. f s = (r, s') \<Longrightarrow> R s s'" and "\<And>s r s'. g s = (r, s') \<Longrightarrow> R s s'"
    and "\<And>x y z. R x y \<Longrightarrow> R y z \<Longrightarrow> R x z"
  shows "R s s'"
  using assms(1) by (cases rule: and_then_cases) (blast intro: assms(2-4))+

subsection \<open>Owned resources: lemmas\<close>

definition controlled_by :: "ContainerImageBuild \<Rightarrow> k8s_object \<Rightarrow> bool" where
  "controlled_by cib ob \<longleftrightarrow>
     (\<exists>ref \<in> set (om_OwnerReferences (object_meta ob)).
        own_Controller ref \<and> own_Name ref = cib_Name cib \<and> own_UID ref = om_UID (cib_Meta cib))"

text \<open>
  What a handler may do to the cluster: keep every object as it is and add objects, under keys of
  \<open>ks\<close> only and each controlled by the build.
\<close>

definition adds ::
  "('w \<Rightarrow> object_key \<Rightarrow> k8s_object option) \<Rightarrow> ContainerImageBuild \<Rightarrow> object_key set \<Rightarrow>
   'w \<Rightarrow> 'w \<Rightarrow> bool" where
  "adds objs cib ks w w' \<longleftrightarrow>
     (\<forall>k ob. objs w k = Some ob \<longrightarrow> objs w' k = Some ob) \<and>
     (\<forall>k ob. objs w k = None \<longrightarrow> objs w' k = Some ob \<longrightarrow> k \<in> ks \<and> controlled_by cib ob)"

lemma adds_refl [simp, intro]: "adds objs cib ks w w"
  by (simp add: adds_def)

lemma adds_same: "objs w' = objs w \<Longrightarrow> adds objs cib ks w w'"
  by (simp add: adds_def)

lemma adds_trans: "adds objs cib ks w1 w2 \<Longrightarrow> adds objs cib ks w2 w3 \<Longrightarrow> adds objs cib ks w1 w3"
  unfolding adds_def by (metis option.exhaust)

lemma adds_mono: "adds objs cib ks w w' \<Longrightarrow> ks \<subseteq> ks' \<Longrightarrow> adds objs cib ks' w w'"
  unfolding adds_def by blast

lemma adds_keeps: "adds objs cib ks w w' \<Longrightarrow> objs w k = Some ob \<Longrightarrow> objs w' k = Some ob"
  unfolding adds_def by blast

lemma adds_present: "adds objs cib ks w w' \<Longrightarrow> objs w k \<noteq> None \<Longrightarrow> objs w' k \<noteq> None"
  unfolding adds_def by (metis option.exhaust option.distinct(1))

lemma adds_outside: "adds objs cib ks w w' \<Longrightarrow> k \<notin> ks \<Longrightarrow> objs w' k = objs w k"
  unfolding adds_def by (metis option.exhaust)

definition build_key :: "kind \<Rightarrow> ContainerImageBuild \<Rightarrow> object_key" where
  "build_key knd cib = (knd, cib_Namespace cib, cib_Name cib)"

definition secret_key :: "ContainerImageBuild \<Rightarrow> object_key" where
  "secret_key cib = (SecretKind, cib_Namespace cib, cloud_secret_name cib)"

definition needs_cloud :: "ContainerImageBuild \<Rightarrow> bool" where
  "needs_cloud cib \<longleftrightarrow> list_ex reg_DynamicCloudCredentials (spec_Registries (cib_Spec cib))"

definition prereq_keys :: "ContainerImageBuild \<Rightarrow> object_key set" where
  "prereq_keys cib = {build_key ServiceAccountKind cib, build_key RoleKind cib,
     build_key RoleBindingKind cib} \<union> (if needs_cloud cib then {secret_key cib} else {})"

lemma resource_keys [simp]:
  "object_key (service_account cib) = build_key ServiceAccountKind cib"
  "object_key (build_role jc cib) = build_key RoleKind cib"
  "object_key (role_binding cib) = build_key RoleBindingKind cib"
  "object_key (cloud_secret cib data) = secret_key cib"
  "object_key (JobObj (job_for_build env jc cib res)) = build_key JobKind cib"
  by (simp_all add: object_key_def service_account_def build_role_def role_binding_def
      cloud_secret_def job_for_build_def resource_meta_def build_key_def secret_key_def)

lemma job_key_no_prereq: "build_key JobKind cib \<notin> prereq_keys cib"
  by (simp add: prereq_keys_def build_key_def secret_key_def)

text \<open>Two states of the reconciler that differ in the world alone.\<close>

definition same_fields :: "'w rec_state \<Rightarrow> 'w rec_state \<Rightarrow> bool" where
  "same_fields s s' \<longleftrightarrow> rs_JobConfig s' = rs_JobConfig s \<and> rs_buildsCount s' = rs_buildsCount s \<and>
     rs_gcCount s' = rs_gcCount s \<and> rs_gcObserved s' = rs_gcObserved s \<and> rs_events s' = rs_events s"

lemma withOwnedResource_fields:
  "withOwnedResource env cib ob s = (r, s') \<Longrightarrow> same_fields s s'"
  by (auto simp: withOwnedResource_def same_fields_def split: sum.splits if_splits prod.splits)

lemma map_put_ne [simp]: "map_put k v m \<noteq> []"
  by (cases m) auto

lemma cloud_auths_ne:
  "cloud_auths env regs auths w = (Returns (Inr auths'), w') \<Longrightarrow>
   (auths' = [] \<longleftrightarrow> auths = [] \<and> \<not> list_ex reg_DynamicCloudCredentials regs)"
  by (induction env regs auths w arbitrary: auths' w' rule: cloud_auths.induct)
    (auto split: if_splits prod.splits outcome.splits option.splits)

subsection \<open>The contract of a cluster\<close>

text \<open>A server that follows its contract, and credential loaders that leave the cluster alone.\<close>

locale cluster = kube_api "re_kube env" objs
  for env :: "'w rec_env" and objs +
  assumes retrieve_frame:
    "RetrieveAuthorization (re_loader_rng env) (re_registry env) server w = (r, w') \<Longrightarrow> objs w' = objs w"
begin

lemma withOwnedResource_adds:
  assumes "withOwnedResource env cib ob s = (r, s')" and "object_key ob \<in> ks"
  shows "adds objs cib ks (rs_world s) (rs_world s')"
proof (cases "rs_world s' = rs_world s")
  case False
  with assms(1) obtain ob2 r' where
    own: "SetControllerReference (re_gvk env) cib ob = Inr ob2"
    and create: "kube_Create (re_kube env) ob2 (rs_world s) = (r', rs_world s')"
    by (auto simp: withOwnedResource_def split: sum.splits if_splits prod.splits)
  from own have key: "object_key ob2 = object_key ob" by (rule SetControllerReference_key)
  show ?thesis
    unfolding adds_def
  proof (intro conjI allI impI)
    fix k ob' assume "objs (rs_world s) k = Some ob'"
    with create show "objs (rs_world s') k = Some ob'" by (rule create_keeps)
  next
    fix k ob' assume new: "objs (rs_world s) k = None" "objs (rs_world s') k = Some ob'"
    then have k: "k = object_key ob2"
      using create_frame [OF create, of k] by (metis option.distinct(1))
    with key assms(2) show "k \<in> ks" by simp
    from create_owners [OF create] new k
    have "om_OwnerReferences (object_meta ob') = om_OwnerReferences (object_meta ob2)" by simp
    with SetControllerReference_owned [OF own] show "controlled_by cib ob'"
      by (simp add: controlled_by_def)
  qed
qed simp

lemma withOwnedResource_provides:
  assumes "withOwnedResource env cib ob s = (Returns None, s')"
  shows "objs (rs_world s') (object_key ob) \<noteq> None"
  using assms create_stores
  by (fastforce simp: withOwnedResource_def split: sum.splits if_splits prod.splits
      dest: get_found SetControllerReference_key)

lemma cloud_auths_frame:
  "cloud_auths env regs auths w = (r, w') \<Longrightarrow> objs w' = objs w"
proof (induction regs arbitrary: auths w)
  case (Cons reg regs)
  then show ?case
    by (auto split: if_splits prod.splits outcome.splits option.splits dest!: retrieve_frame)
qed simp

lemma checkCloud_adds:
  assumes "checkCloudRegistrySecrets env cib s = (r, s')"
  shows "adds objs cib (prereq_keys cib) (rs_world s) (rs_world s')"
proof (cases "cloud_auths env (spec_Registries (cib_Spec cib)) [] (rs_world s)")
  case (Pair o1 w1)
  then have same: "objs w1 = objs (rs_world s)" by (rule cloud_auths_frame)
  have "adds objs cib (prereq_keys cib) w1 (rs_world s')"
  proof (cases "rs_world s' = w1")
    case False
    with assms Pair obtain data auths where auths: "o1 = Returns (Inr auths)" "auths \<noteq> []"
      and create: "and_then (withOwnedResource env cib (cloud_secret cib data)) (add_dynamic cib)
        (s\<lparr>rs_world := w1\<rparr>) = (r, s')"
      by (auto simp: checkCloudRegistrySecrets_def Let_def
          split: outcome.splits sum.splits if_splits)
    from Pair auths have "needs_cloud cib"
      using cloud_auths_ne by (fastforce simp: needs_cloud_def)
    with create show ?thesis
      by (cases rule: and_then_cases)
        (auto simp: add_dynamic_def prereq_keys_def dest!: withOwnedResource_adds [where ks = "{secret_key cib}"]
          intro: adds_mono)
  qed simp
  then show ?thesis unfolding adds_def same .
qed

lemma checkPrerequisites_adds:
  assumes "checkPrerequisites env cib s = (r, s')"
  shows "adds objs cib (prereq_keys cib) (rs_world s) (rs_world s')"
proof -
  let ?R = "\<lambda>s s'. adds objs cib (prereq_keys cib) (rs_world s) (rs_world s')"
  have checks: "checkServiceAccount env cib s = (r, s') \<Longrightarrow> ?R s s'"
    "checkRole env cib s = (r, s') \<Longrightarrow> ?R s s'" "checkRoleBinding env cib s = (r, s') \<Longrightarrow> ?R s s'" for s r s'
    unfolding checkServiceAccount_def checkRole_def checkRoleBinding_def
    by (auto elim!: withOwnedResource_adds simp: prereq_keys_def)
  note rel = and_then_rel [where R = ?R, OF _ _ _ adds_trans]
  from assms show ?thesis
    unfolding checkPrerequisites_def
    by (rule rel [OF _ checks(1) rel [OF _ checks(2) rel [OF _ checks(3) checkCloud_adds]]])
qed

lemma checkPrerequisites_provides:
  assumes "checkPrerequisites env cib s = (Returns None, s')"
  shows "objs (rs_world s') (build_key ServiceAccountKind cib) \<noteq> None"
    and "objs (rs_world s') (build_key RoleKind cib) \<noteq> None"
    and "objs (rs_world s') (build_key RoleBindingKind cib) \<noteq> None"
proof -
  from assms obtain s1 s2 s3 where
    steps: "withOwnedResource env cib (service_account cib) s = (Returns None, s1)"
      "withOwnedResource env cib (build_role (rs_JobConfig s1) cib) s1 = (Returns None, s2)"
      "withOwnedResource env cib (role_binding cib) s2 = (Returns None, s3)"
    and cloud: "checkCloudRegistrySecrets env cib s3 = (Returns None, s')"
    unfolding checkPrerequisites_def and_then_None checkServiceAccount_def checkRole_def
      checkRoleBinding_def by blast
  have "adds objs cib (prereq_keys cib) (rs_world s1) (rs_world s2)"
    and "adds objs cib (prereq_keys cib) (rs_world s2) (rs_world s3)"
    using steps by (auto elim!: withOwnedResource_adds simp: prereq_keys_def)
  moreover note checkCloud_adds [OF cloud]
  moreover note steps [THEN withOwnedResource_provides]
  ultimately show "objs (rs_world s') (build_key ServiceAccountKind cib) \<noteq> None"
    and "objs (rs_world s') (build_key RoleKind cib) \<noteq> None"
    and "objs (rs_world s') (build_key RoleBindingKind cib) \<noteq> None"
    unfolding resource_keys by (meson adds_present)+
qed

lemma checkCloud_provides:
  assumes "checkCloudRegistrySecrets env cib s = (Returns None, s')" and "needs_cloud cib"
  shows "objs (rs_world s') (secret_key cib) \<noteq> None"
proof (cases "cloud_auths env (spec_Registries (cib_Spec cib)) [] (rs_world s)")
  case (Pair o1 w1)
  with assms obtain auths where auths: "o1 = Returns (Inr auths)"
    by (auto simp: checkCloudRegistrySecrets_def split: outcome.splits sum.splits)
  with Pair assms(2) have "auths \<noteq> []"
    using cloud_auths_ne by (fastforce simp: needs_cloud_def)
  with assms(1) Pair auths obtain data s1 where
    "withOwnedResource env cib (cloud_secret cib data) (s\<lparr>rs_world := w1\<rparr>) = (Returns None, s1)"
    "add_dynamic cib s1 = (Returns None, s')"
    by (auto simp: checkCloudRegistrySecrets_def Let_def and_then_None split: sum.splits)
  then show ?thesis
    by (auto simp: add_dynamic_def dest!: withOwnedResource_provides)
qed

lemma createJobForBuild_adds:
  "createJobForBuild env cib s = (r, s') \<Longrightarrow>
   adds objs cib {build_key JobKind cib} (rs_world s) (rs_world s')"
  by (auto simp: createJobForBuild_def reset_dynamic_def split: sum.splits prod.splits
      dest!: withOwnedResource_adds [where ks = "{build_key JobKind cib}"])

lemma createJobForBuild_provides:
  "createJobForBuild env cib s = (Returns None, s') \<Longrightarrow>
   objs (rs_world s') (build_key JobKind cib) \<noteq> None"
  by (auto simp: createJobForBuild_def reset_dynamic_def split: sum.splits prod.splits
      dest!: withOwnedResource_provides)

end

subsection \<open>The job configuration\<close>

definition no_dynamic :: "BuildJobConfig \<Rightarrow> bool" where
  "no_dynamic jc \<longleftrightarrow> jc_DynamicVolumes jc = [] \<and> jc_DynamicVolumeMounts jc = []"

lemma checkCloud_config:
  assumes "checkCloudRegistrySecrets env cib s = (r, s')"
  shows "rs_JobConfig s' =
    (if r = Returns None \<and> needs_cloud cib
     then with_cloud cib (rs_JobConfig s) else rs_JobConfig s)"
proof (cases "cloud_auths env (spec_Registries (cib_Spec cib)) [] (rs_world s)")
  case (Pair o1 w1)
  show ?thesis
  proof (cases "\<exists>auths data. o1 = Returns (Inr auths) \<and> auths \<noteq> [] \<and> re_marshal env auths = Inr data")
    case True
    then obtain auths data where auths: "o1 = Returns (Inr auths)" "auths \<noteq> []"
      and data: "re_marshal env auths = Inr data" by blast
    from Pair auths have need: "needs_cloud cib"
      using cloud_auths_ne by (fastforce simp: needs_cloud_def)
    from assms Pair auths data have
      "and_then (withOwnedResource env cib (cloud_secret cib data)) (add_dynamic cib)
        (s\<lparr>rs_world := w1\<rparr>) = (r, s')"
      by (simp add: checkCloudRegistrySecrets_def Let_def)
    then show ?thesis
      using need by (cases rule: and_then_cases)
        (auto simp: add_dynamic_def same_fields_def dest!: withOwnedResource_fields)
  next
    case False
    with assms Pair show ?thesis
      by (auto simp: checkCloudRegistrySecrets_def Let_def needs_cloud_def cloud_auths_ne
          split: outcome.splits sum.splits if_splits)
  qed
qed


lemma checkPrerequisites_config:
  assumes "checkPrerequisites env cib s = (r, s')"
  shows "rs_JobConfig s' = (if r = Returns None \<and> needs_cloud cib
    then with_cloud cib (rs_JobConfig s) else rs_JobConfig s)"
proof -
  have checks: "checkServiceAccount env cib s = (r, s') \<Longrightarrow> rs_JobConfig s' = rs_JobConfig s"
    "checkRole env cib s = (r, s') \<Longrightarrow> rs_JobConfig s' = rs_JobConfig s"
    "checkRoleBinding env cib s = (r, s') \<Longrightarrow> rs_JobConfig s' = rs_JobConfig s" for s r s'
    unfolding checkServiceAccount_def checkRole_def checkRoleBinding_def
    by (auto simp: same_fields_def dest!: withOwnedResource_fields)
  from assms show ?thesis
    unfolding checkPrerequisites_def
    by (elim and_then_cases) (auto dest!: checks checkCloud_config)
qed

lemma createJobForBuild_config:
  "createJobForBuild env cib s = (r, s') \<Longrightarrow>
   rs_JobConfig s' = (rs_JobConfig s)\<lparr>jc_DynamicVolumes := [], jc_DynamicVolumeMounts := []\<rparr>"
  by (auto simp: createJobForBuild_def reset_dynamic_def same_fields_def
      split: sum.splits prod.splits dest!: withOwnedResource_fields)

subsection \<open>What the job asks for\<close>

text \<open>The pod's annotations are the two unconfined profiles, overridden by the annotations of the
  build, overridden by those of the configuration; its labels are the build's, overridden by the
  configuration's. The order in which Go visits the maps does not matter.\<close>

theorem pod_metadata_precedence:
  assumes "range_order (re_rng env)"
    and "wf_map (nil_map (om_Annotations (cib_Meta cib)))"
    and "wf_map (jc_Annotations jc)" and "wf_map (jc_Labels jc)"
  shows "map_of (pod_annotations env jc cib) =
      map_of [(''container.apparmor.security.beta.kubernetes.io/forge-build'', ''unconfined''),
        (''container.seccomp.security.alpha.kubernetes.io/forge-build'', ''unconfined'')]
      ++ map_of (nil_map (om_Annotations (cib_Meta cib))) ++ map_of (jc_Annotations jc) \<and>
    map_of (pod_labels env jc cib) =
      map_of (nil_map (om_Labels (cib_Meta cib))) ++ map_of (jc_Labels jc)"
proof (rule conjI)
  note order = map_of_put_all_range [OF assms(1)]
  show "map_of (pod_labels env jc cib) =
      map_of (nil_map (om_Labels (cib_Meta cib))) ++ map_of (jc_Labels jc)"
    unfolding pod_labels_def by (rule order [OF assms(4)])
  show "map_of (pod_annotations env jc cib) =
      map_of [(''container.apparmor.security.beta.kubernetes.io/forge-build'', ''unconfined''),
        (''container.seccomp.security.alpha.kubernetes.io/forge-build'', ''unconfined'')]
      ++ map_of (nil_map (om_Annotations (cib_Meta cib))) ++ map_of (jc_Annotations jc)"
    unfolding pod_annotations_def order [OF assms(3)] order [OF assms(2)] by (rule refl)
qed

lemma job_volumes_dynamic:
  assumes "checkPrerequisites env cib s = (Returns None, s1)" and "no_dynamic (rs_JobConfig s)"
  shows "jc_DynamicVolumes (rs_JobConfig s1) = (if needs_cloud cib then [cloud_volume cib] else [])"
    and "jc_DynamicVolumeMounts (rs_JobConfig s1) = (if needs_cloud cib then [cloud_mount] else [])"
  using checkPrerequisites_config [OF assms(1)] assms(2)
  by (auto simp: with_cloud_def no_dynamic_def)


text \<open>C27. The job has one build container, privileged and root exactly under the full-privilege option; every init
  container runs as the same user, is never privileged and sees the build context directory alone.\<close>

theorem job_privileges:
  "let job = job_for_build env jc cib res; main = hd (pod_Containers (job_PodSpec job)) in
   length (pod_Containers (job_PodSpec job)) = 1 \<and>
   (sc_Privileged (ctr_SecurityContext main) = Some True \<longleftrightarrow> jc_GrantFullPrivilege jc) \<and>
   (sc_RunAsUser (ctr_SecurityContext main) = Some 0 \<longleftrightarrow> jc_GrantFullPrivilege jc) \<and>
   (list_all (\<lambda>c. sc_Privileged (ctr_SecurityContext c) = None \<and>
       sc_RunAsUser (ctr_SecurityContext c) = sc_RunAsUser (ctr_SecurityContext main) \<and>
       map vm_MountPath (ctr_VolumeMounts c) = [BuildContextPath])
     (pod_InitContainers (job_PodSpec job)))"
  by (simp add: Let_def job_for_build_def build_container_def build_sec_ctx_def init_container_def
      context_mount_def list_all_length)

text \<open>The words of the command line, before they are joined.\<close>

definition job_words :: "BuildJobConfig \<Rightarrow> ContainerImageBuild \<Rightarrow> string list" where
  "job_words jc cib =
     (if jc_GrantFullPrivilege jc then [] else [''rootlesskit''])
     @ [''/usr/bin/forge'', ''build'', ''--resource='' @ cib_Name cib,
        ''--enable-layer-caching='' @ fmt_t (jc_EnableLayerCaching jc)]
     @ (if jc_PreparerPluginPath jc = '''' then []
        else [''--preparer-plugins-path='' @ jc_PreparerPluginPath jc])
     @ (case jc_BrokerOpts jc of None \<Rightarrow> []
        | Some opts \<Rightarrow> [''--message-broker='' @ opt_Broker opts, ''--amqp-uri='' @ opt_AmqpURI opts,
            ''--amqp-queue='' @ (if spec_MessageQueueName (cib_Spec cib) = '''' then opt_AmqpQueue opts
               else spec_MessageQueueName (cib_Spec cib))])"

lemma prepareJobArgs_words:
  "prepareJobArgs jc cib =
     [''-c'', strings_Join (job_words jc cib @ (if jc_EnableIstioSupport jc then [istioCmdArg] else [])) '' '']"
  by (simp add: prepareJobArgs_def job_words_def rootlesskitCommand_def forgeCommand_def Let_def
      split: option.splits)

text \<open>The shell command of the job splits at blanks into exactly the intended words, with the queue of the build taking
  precedence over the configured one, provided that no word holds a blank.\<close>

theorem prepareJobArgs_split:
  assumes "\<forall>arg \<in> set (job_words jc cib). CHR '' '' \<notin> set arg" and "\<not> jc_EnableIstioSupport jc"
  shows "prepareJobArgs jc cib ! 0 = ''-c'' \<and>
    strings_Split (prepareJobArgs jc cib ! 1) (CHR '' '') = job_words jc cib"
proof -
  have "job_words jc cib \<noteq> []" by (simp add: job_words_def)
  then show ?thesis
    using strings_Split_Join [OF _ assms(1)] assms(2) by (simp add: prepareJobArgs_words)
qed

end
