(* ===== verification/Forge_Reconcile.thy ===== *)
theory Forge_Reconcile
  imports Forge_Controller
begin

section \<open>Reconciliation and garbage collection\<close>

text \<open>
  \<^verbatim>\<open>controllers/containerimagebuild_controller.go\<close>: the handler of the work queue, and the
  deletion of old builds. The queue runs one reconciliation at a time. The sort of the standard library
  is an argument: \<^verbatim>\<open>sort.Slice\<close> gives some permutation that is in order. So is the capacity
  of a slice that grew by \<^verbatim>\<open>append\<close>, which a slice expression may reach beyond the
  length of the slice.
\<close>

subsection \<open>Reconcile\<close>

definition as_build :: "k8s_object \<Rightarrow> ContainerImageBuild option" where
  "as_build ob = (case ob of BuildObj c \<Rightarrow> Some c | _ \<Rightarrow> None)"

definition count_build :: "string \<Rightarrow> 'w rec_state \<Rightarrow> 'w rec_state" where
  "count_build label s = s\<lparr>rs_buildsCount := counter_Inc label (rs_buildsCount s)\<rparr>"

definition Reconcile :: "'w rec_env \<Rightarrow> string \<times> string \<Rightarrow> 'w handler" where
  "Reconcile env req s =
     (case kube_Get (re_kube env) (rs_world s) (BuildKind, fst req, snd req) of
        Inl err \<Rightarrow> (Returns (if is_not_found err then None else Some err), s)
      | Inr ob \<Rightarrow>
        (case as_build ob of
           None \<Rightarrow> (Returns (Some (ErrText ''cannot decode the object'')), s)
         | Some build \<Rightarrow>
           (let s1 = (if om_DeletionTimestamp (cib_Meta build) \<noteq> None
                      then count_build ''deleted'' s else s)
            in if cib_State build \<noteq> ''''
               then (Returns None, count_build (strings_ToLower (cib_State build)) s1)
               else and_then (checkPrerequisites env build) (createJobForBuild env build)
                      (count_build ''initializing'' s1))))"

subsection \<open>RunGC\<close>

definition gc_state :: "BuildState \<Rightarrow> bool" where
  "gc_state state \<longleftrightarrow> state = BuildStateCompleted \<or> state = BuildStateFailed"

definition gc_eligible :: "ContainerImageBuild \<Rightarrow> bool" where
  "gc_eligible cib \<longleftrightarrow> gc_state (cib_State cib)"

abbreviation created_at :: "ContainerImageBuild \<Rightarrow> time" where
  "created_at cib \<equiv> om_CreationTimestamp (cib_Meta cib)"

text \<open>\<^verbatim>\<open>xs[:n]\<close> of a slice with capacity \<open>capacity\<close>, whose spare elements are zero values.\<close>

definition slice_to :: "'a \<Rightarrow> nat \<Rightarrow> 'a list \<Rightarrow> int \<Rightarrow> 'a list outcome" where
  "slice_to zero capacity xs n =
     (if n < 0 \<or> int capacity < n then Panics ''slice bounds out of range''
      else Returns (take (nat n) (xs @ replicate (capacity - length xs) zero)))"

fun gc_deletes :: "'w kube \<Rightarrow> ContainerImageBuild list \<Rightarrow> 'w rec_state \<Rightarrow> 'w rec_state" where
  "gc_deletes K [] s = s"
| "gc_deletes K (build # builds) s =
     (case kube_Delete K build (rs_world s) of
        (err, w1) \<Rightarrow>
        (let s1 = s\<lparr>rs_world := w1\<rparr>;
             s2 = (case err of
                     None \<Rightarrow> s1
                   | Some e \<Rightarrow> s1\<lparr>rs_gcCount := counter_Inc ''failed'' (rs_gcCount s1),
                       rs_events := rs_events s1 @ [(cib_Name build, ''Delete operation failed'')]\<rparr>);
             s3 = s2\<lparr>rs_gcCount := counter_Inc ''successful'' (rs_gcCount s2)\<rparr>
         in gc_deletes K builds s3))"

definition gc_observe :: "unit outcome \<times> 'w rec_state \<Rightarrow> unit outcome \<times> 'w rec_state" where
  "gc_observe res = (fst res, (snd res)\<lparr>rs_gcObserved := Suc (rs_gcObserved (snd res))\<rparr>)"

definition RunGC ::
  "(ContainerImageBuild list \<Rightarrow> ContainerImageBuild list) \<Rightarrow> (nat \<Rightarrow> nat) \<Rightarrow> 'w rec_env \<Rightarrow> int \<Rightarrow>
   'w rec_state \<Rightarrow> unit outcome \<times> 'w rec_state" where
  "RunGC sort_Slice capacity env retentionCount s =
     gc_observe
      (case kube_List (re_kube env) (rs_world s) of
         Inl err \<Rightarrow>
           (Returns (), s\<lparr>rs_events := rs_events s
              @ [('''', ''Unable to list ContainerImageBuild resources'')]\<rparr>)
       | Inr items \<Rightarrow>
         (if items = [] then (Returns (), s)
          else
           (let builds = filter gc_eligible items in
            if int (length builds) \<le> retentionCount then (Returns (), s)
            else
             (case slice_to zero_cib (capacity (length builds)) (sort_Slice builds)
                     (int (length builds) - retentionCount) of
                Panics p \<Rightarrow> (Panics p, s)
              | Returns old \<Rightarrow> (Returns (), gc_deletes (re_kube env) old s)))))"

subsection \<open>Reconcile: lemmas\<close>

definition fresh_build :: "'w rec_env \<Rightarrow> string \<times> string \<Rightarrow> 'w rec_state \<Rightarrow> ContainerImageBuild \<Rightarrow> bool" where
  "fresh_build env req s cib \<longleftrightarrow>
     kube_Get (re_kube env) (rs_world s) (BuildKind, fst req, snd req) = Inr (BuildObj cib) \<and>
     cib_State cib = ''''"

lemma count_build_simps [simp]:
  "rs_world (count_build l s) = rs_world s" "rs_JobConfig (count_build l s) = rs_JobConfig s"
  by (simp_all add: count_build_def)

lemma as_build_Some: "as_build ob = Some c \<longleftrightarrow> ob = BuildObj c"
  by (auto simp: as_build_def split: k8s_object.splits)

text \<open>A reconciliation either does nothing, or runs the two stages on a build without a state.\<close>

lemma Reconcile_cases:
  assumes "Reconcile env req s = (r, s')"
  obtains (idle) "\<nexists>cib. fresh_build env req s cib" "rs_world s' = rs_world s"
      "rs_JobConfig s' = rs_JobConfig s"
  | (work) cib s0 where "fresh_build env req s cib" "rs_world s0 = rs_world s"
      "rs_JobConfig s0 = rs_JobConfig s"
      "and_then (checkPrerequisites env cib) (createJobForBuild env cib) s0 = (r, s')"
proof (cases "\<exists>cib. fresh_build env req s cib")
  case True
  then obtain cib where fresh: "fresh_build env req s cib" by blast
  show ?thesis
  proof (rule work [OF fresh])
    let ?s0 = "count_build ''initializing''
      (if om_DeletionTimestamp (cib_Meta cib) \<noteq> None then count_build ''deleted'' s else s)"
    show "and_then (checkPrerequisites env cib) (createJobForBuild env cib) ?s0 = (r, s')"
      using assms fresh by (simp add: Reconcile_def fresh_build_def as_build_def Let_def split: if_splits)
  qed simp_all
next
  case False
  show ?thesis
  proof (rule idle [OF False])
    have "rs_world s' = rs_world s \<and> rs_JobConfig s' = rs_JobConfig s"
      using assms False
      by (auto simp: Reconcile_def fresh_build_def as_build_Some Let_def
          split: sum.splits option.splits if_splits)
    then show "rs_world s' = rs_world s" "rs_JobConfig s' = rs_JobConfig s" by blast+
  qed
qed

lemma fresh_build_unique: "fresh_build env req s cib \<Longrightarrow> fresh_build env req s cib' \<Longrightarrow> cib' = cib"
  by (simp add: fresh_build_def)

lemma Reconcile_JobConfig:
  assumes "Reconcile env req s = (r, s')" and "no_dynamic (rs_JobConfig s)"
  shows "rs_JobConfig s' = rs_JobConfig s"
  using assms(1)
proof (cases rule: Reconcile_cases)
  case (work cib s0)
  from work(4) show ?thesis
  proof (cases rule: and_then_cases)
    case first
    with work(3) checkPrerequisites_config [OF first(1)] show ?thesis by simp
  next
    case (both s1)
    from createJobForBuild_config [OF both(2)] checkPrerequisites_config [OF both(1)] work(3) assms(2)
    show ?thesis by (auto simp: with_cloud_def no_dynamic_def)
  qed
qed

text \<open>A reconciliation hands on the job configuration it found, on every path, failures and panics included: the
  cloud volumes it adds for one build never reach the job of another.\<close>

theorem Reconcile_keeps_config:
  assumes "Reconcile env req s = (r, s')" and "no_dynamic (rs_JobConfig s)"
  shows "rs_JobConfig s' = rs_JobConfig s"
  using assms by (rule Reconcile_JobConfig)

text \<open>A build that already has a state is left alone; it is only counted under that state.\<close>

lemma Reconcile_settled:
  assumes "kube_Get (re_kube env) (rs_world s) (BuildKind, ns, name) = Inr (BuildObj cib)"
    and "cib_State cib \<noteq> ''''" and "om_DeletionTimestamp (cib_Meta cib) = None"
  shows "Reconcile env (ns, name) s =
    (Returns None, s\<lparr>rs_buildsCount := counter_Inc (strings_ToLower (cib_State cib)) (rs_buildsCount s)\<rparr>)"
  using assms by (simp add: Reconcile_def as_build_def count_build_def)

definition all_keys :: "ContainerImageBuild \<Rightarrow> object_key set" where
  "all_keys cib = insert (build_key JobKind cib) (prereq_keys cib)"

context cluster
begin

lemma Reconcile_adds:
  assumes "Reconcile env req s = (r, s')" and "fresh_build env req s cib"
  shows "adds objs cib (all_keys cib) (rs_world s) (rs_world s')"
  using assms(1)
proof (cases rule: Reconcile_cases)
  case idle
  with assms(2) show ?thesis by blast
next
  case (work cib' s0)
  then have cib: "cib' = cib" using assms(2) fresh_build_unique by blast
  have stages: "checkPrerequisites env cib s = (r, s') \<Longrightarrow> adds objs cib (all_keys cib) (rs_world s) (rs_world s')"
    "createJobForBuild env cib s = (r, s') \<Longrightarrow> adds objs cib (all_keys cib) (rs_world s) (rs_world s')"
    for s r s'
    unfolding all_keys_def
    by (auto dest!: checkPrerequisites_adds createJobForBuild_adds elim!: adds_mono)
  from work(4) have "adds objs cib (all_keys cib) (rs_world s0) (rs_world s')"
    unfolding cib
    by (rule and_then_rel [where R = "\<lambda>s s'. adds objs cib (all_keys cib) (rs_world s) (rs_world s')",
          OF _ stages adds_trans])
  with work(2) show ?thesis by simp
qed

lemma prerequisites_present:
  assumes "checkPrerequisites env cib s = (Returns None, s')" and "k \<in> prereq_keys cib"
  shows "objs (rs_world s') k \<noteq> None"
proof (cases "k = secret_key cib \<and> needs_cloud cib")
  case True
  from assms(1) obtain s3 where "checkCloudRegistrySecrets env cib s3 = (Returns None, s')"
    unfolding checkPrerequisites_def and_then_None by blast
  with True show ?thesis using checkCloud_provides by blast
next
  case False
  with assms(2) checkPrerequisites_provides [OF assms(1)] show ?thesis
    by (auto simp: prereq_keys_def split: if_splits)
qed

lemma Reconcile_provides:
  assumes "Reconcile env req s = (Returns None, s')" and "fresh_build env req s cib" and "k \<in> all_keys cib"
  shows "objs (rs_world s') k \<noteq> None"
  using assms(1)
proof (cases rule: Reconcile_cases)
  case idle
  with assms(2) show ?thesis by blast
next
  case (work cib' s0)
  then have cib: "cib' = cib" using assms(2) fresh_build_unique by blast
  from work(4) obtain s1 where stages: "checkPrerequisites env cib s0 = (Returns None, s1)"
    "createJobForBuild env cib s1 = (Returns None, s')"
    unfolding cib and_then_None by blast
  show ?thesis
  proof (cases "k \<in> prereq_keys cib")
    case True
    with adds_present [OF createJobForBuild_adds [OF stages(2)]] prerequisites_present [OF stages(1)]
    show ?thesis by blast
  next
    case False
    with assms(3) createJobForBuild_provides [OF stages(2)] show ?thesis by (simp add: all_keys_def)
  qed
qed

text \<open>The job comes last: it is created only on top of everything it needs.\<close>

lemma Reconcile_job_last:
  assumes "Reconcile env req s = (r, s')" and "fresh_build env req s cib"
    and "objs (rs_world s) (build_key JobKind cib) = None"
    and "objs (rs_world s') (build_key JobKind cib) \<noteq> None" and "k \<in> prereq_keys cib"
  shows "objs (rs_world s') k \<noteq> None"
  using assms(1)
proof (cases rule: Reconcile_cases)
  case idle
  with assms(2) show ?thesis by blast
next
  case (work cib' s0)
  then have cib: "cib' = cib" using assms(2) fresh_build_unique by blast
  from work(4) show ?thesis
    unfolding cib
  proof (cases rule: and_then_cases)
    case first
    from adds_outside [OF checkPrerequisites_adds [OF first(1)] job_key_no_prereq] assms(3,4) work(2)
    show ?thesis by simp
  next
    case (both s1)
    with adds_present [OF createJobForBuild_adds [OF both(2)]] prerequisites_present [OF both(1) assms(5)]
    show ?thesis by blast
  qed
qed

lemma Reconcile_twice:
  assumes "Reconcile env req s = (Returns None, s1)" and "fresh_build env req s cib"
    and "Reconcile env req s1 = (r, s2)" and "fresh_build env req s1 cib"
  shows "objs (rs_world s2) = objs (rs_world s1)"
proof
  fix k
  show "objs (rs_world s2) k = objs (rs_world s1) k"
  proof (cases "k \<in> all_keys cib")
    case True
    with Reconcile_provides [OF assms(1,2)] obtain ob where "objs (rs_world s1) k = Some ob" by blast
    with adds_keeps [OF Reconcile_adds [OF assms(3,4)]] show ?thesis by simp
  next
    case False
    with Reconcile_adds [OF assms(3,4)] show ?thesis by (rule adds_outside)
  qed
qed

end

subsection \<open>RunGC: lemmas\<close>

locale slice_sort =
  fixes srt :: "'a list \<Rightarrow> 'a list" and key :: "'a \<Rightarrow> int"
  assumes perm: "mset (srt xs) = mset xs"
    and in_order: "sorted (map key (srt xs))"
begin

lemma length_srt [simp]: "length (srt xs) = length xs"
  using perm by (metis size_mset)

lemma prefix_oldest:
  assumes "v \<in> set (take n (srt xs))" and "d \<in> set (drop n (srt xs))"
  shows "key v \<le> key d"
proof -
  have "sorted (map key (take n (srt xs)) @ map key (drop n (srt xs)))"
    using in_order by (simp flip: map_append)
  with assms show ?thesis by (auto simp: sorted_append)
qed

end

interpretation by_creation: slice_sort "sort_key created_at" created_at
  by unfold_locales simp_all

definition gc_victims ::
  "(ContainerImageBuild list \<Rightarrow> ContainerImageBuild list) \<Rightarrow> ContainerImageBuild list \<Rightarrow> int \<Rightarrow>
   ContainerImageBuild list" where
  "gc_victims srt items retentionCount =
     (let builds = filter gc_eligible items in
      take (nat (int (length builds) - retentionCount)) (srt builds))"

lemma RunGC_nonneg:
  assumes "slice_sort srt created_at" and "\<And>n. n \<le> capacity n" and "0 \<le> ret"
    and "kube_List (re_kube env) (rs_world s) = Inr items"
  shows "RunGC srt capacity env ret s =
    gc_observe (Returns (), gc_deletes (re_kube env) (gc_victims srt items ret) s)"
proof -
  have len: "length (srt xs) = length xs" for xs
    by (rule slice_sort.length_srt [OF assms(1)])
  let ?n = "length (filter gc_eligible items)"
  have "slice_to zero_cib (capacity ?n) (srt (filter gc_eligible items)) (int ?n - ret) =
      Returns (gc_victims srt items ret)" if "ret < int ?n"
    using that assms(2) [of ?n] assms(3) by (simp add: slice_to_def gc_victims_def len Let_def)
  moreover have "gc_victims srt items ret = []" if "int ?n \<le> ret"
    using that by (simp add: gc_victims_def)
  moreover have "?n = 0" if "items = []" using that by simp
  ultimately show ?thesis
    using assms(3,4) by (auto simp: RunGC_def Let_def gc_victims_def)
qed

lemma counter_Inc_get:
  "map_get_default 0 (counter_Inc l c) l' = map_get_default 0 c l' + (if l' = l then 1 else 0)"
  by (simp add: counter_Inc_def map_get_default_def)

fun gc_failures :: "'w kube \<Rightarrow> ContainerImageBuild list \<Rightarrow> 'w \<Rightarrow> nat" where
  "gc_failures K [] w = 0"
| "gc_failures K (b # bs) w =
     (case kube_Delete K b w of (err, w1) \<Rightarrow> (if err = None then 0 else 1) + gc_failures K bs w1)"

lemma gc_deletes_counts:
  "map_get_default 0 (rs_gcCount (gc_deletes K bs s)) ''successful'' =
     map_get_default 0 (rs_gcCount s) ''successful'' + length bs"
  "map_get_default 0 (rs_gcCount (gc_deletes K bs s)) ''failed'' =
     map_get_default 0 (rs_gcCount s) ''failed'' + gc_failures K bs (rs_world s)"
  by (induction K bs s rule: gc_deletes.induct)
    (simp_all add: Let_def counter_Inc_get split: prod.splits option.splits)

context cluster
begin

lemma gc_deletes_frame:
  assumes "fst k = BuildKind" and "k \<notin> (object_key \<circ> BuildObj) ` set bs"
  shows "objs (rs_world (gc_deletes (re_kube env) bs s)) k = objs (rs_world s) k"
  using assms(2)
proof (induction bs arbitrary: s)
  case (Cons b bs)
  obtain err w1 where del: "kube_Delete (re_kube env) b (rs_world s) = (err, w1)" by fastforce
  from Cons.prems have "k \<noteq> object_key (BuildObj b)" by simp
  from delete_frame [OF del this assms(1)] Cons del show ?case
    by (simp add: Let_def split: option.splits)
qed simp

lemma gc_deletes_all:
  assumes "gc_failures (re_kube env) bs (rs_world s) = 0"
    and "distinct (map (object_key \<circ> BuildObj) bs)" and "b \<in> set bs"
  shows "being_deleted (objs (rs_world (gc_deletes (re_kube env) bs s)) (object_key (BuildObj b)))"
  using assms
proof (induction bs arbitrary: s)
  case (Cons c bs)
  then obtain w1 where del: "kube_Delete (re_kube env) c (rs_world s) = (None, w1)"
    and rest: "gc_failures (re_kube env) bs w1 = 0"
    by (auto split: prod.splits if_splits)
  define s3 where "s3 = s\<lparr>rs_world := w1, rs_gcCount := counter_Inc ''successful'' (rs_gcCount s)\<rparr>"
  from del have step: "gc_deletes (re_kube env) (c # bs) s = gc_deletes (re_kube env) bs s3"
    by (simp add: Let_def s3_def)
  show ?case
  proof (cases "b = c")
    case True
    have "fst (object_key (BuildObj c)) = BuildKind" by (simp add: object_key_def)
    moreover have "object_key (BuildObj c) \<notin> (object_key \<circ> BuildObj) ` set bs"
      using Cons.prems(2) by simp
    ultimately have "objs (rs_world (gc_deletes (re_kube env) bs s3)) (object_key (BuildObj c)) =
        objs w1 (object_key (BuildObj c))"
      using gc_deletes_frame by (simp add: s3_def)
    with delete_marks [OF del] True step show ?thesis by simp
  next
    case False
    with Cons.IH [of s3] Cons.prems step rest show ?thesis by (simp add: s3_def)
  qed
qed simp

lemma list_keys_inj:
  assumes "kube_List (re_kube env) w = Inr items"
  shows "inj_on (object_key \<circ> BuildObj) (set items)"
proof (rule inj_onI)
  fix c d assume cd: "c \<in> set items" "d \<in> set items" and eq: "(object_key \<circ> BuildObj) c = (object_key \<circ> BuildObj) d"
  from cd have "BuildObj c \<in> ran (objs w)" "BuildObj d \<in> ran (objs w)"
    using list_lists [OF assms] by blast+
  then obtain k l where k: "objs w k = Some (BuildObj c)" and l: "objs w l = Some (BuildObj d)"
    unfolding ran_def by blast
  with eq have "k = l" by (simp add: objs_key [OF k, symmetric] objs_key [OF l, symmetric])
  with k l show "c = d" by simp
qed

lemma victims_distinct:
  assumes "slice_sort srt created_at" and "kube_List (re_kube env) w = Inr items"
  shows "set (gc_victims srt items ret) \<subseteq> {c \<in> set items. gc_eligible c}"
    and "distinct (map (object_key \<circ> BuildObj) (gc_victims srt items ret))"
proof -
  have perm: "mset (srt xs) = mset xs" for xs by (rule slice_sort.perm [OF assms(1)])
  then have set: "set (srt xs) = set xs" and dist: "distinct (srt xs) = distinct xs" for xs
    using mset_eq_setD mset_eq_imp_distinct_iff by blast+
  show sub: "set (gc_victims srt items ret) \<subseteq> {c \<in> set items. gc_eligible c}"
    by (auto simp: gc_victims_def Let_def set dest: in_set_takeD)
  have "distinct (gc_victims srt items ret)"
    using list_distinct [OF assms(2)] by (simp add: gc_victims_def Let_def dist distinct_take)
  moreover have "inj_on (object_key \<circ> BuildObj) (set (gc_victims srt items ret))"
    by (rule inj_on_subset [OF list_keys_inj [OF assms(2)]]) (use sub in blast)
  ultimately show "distinct (map (object_key \<circ> BuildObj) (gc_victims srt items ret))"
    by (simp add: distinct_map)
qed

end

context cluster
begin

lemma gc_kept:
  assumes "slice_sort srt created_at" and "0 \<le> ret"
  obtains kept where "srt (filter gc_eligible items) = gc_victims srt items ret @ kept"
    and "length kept = min (nat ret) (length (filter gc_eligible items))"
proof -
  let ?b = "filter gc_eligible items"
  let ?n = "nat (int (length ?b) - ret)"
  have "length (srt ?b) = length ?b" by (rule slice_sort.length_srt [OF assms(1)])
  with assms(2) have "length (drop ?n (srt ?b)) = min (nat ret) (length ?b)" by auto
  moreover have "srt ?b = gc_victims srt items ret @ drop ?n (srt ?b)"
    by (simp add: gc_victims_def Let_def)
  ultimately show ?thesis using that by blast
qed

lemma gc_live_kept:
  assumes srt: "slice_sort srt created_at" and list: "kube_List (re_kube env) (rs_world s) = Inr items"
    and "gc_failures (re_kube env) (gc_victims srt items ret) (rs_world s) = 0"
    and split: "srt (filter gc_eligible items) = gc_victims srt items ret @ kept"
    and s': "s' = gc_deletes (re_kube env) (gc_victims srt items ret) s"
    and live: "objs (rs_world s') k = Some (BuildObj c)" "gc_eligible c"
      "\<not> being_deleted (objs (rs_world s') k)"
  shows "k \<in> (object_key \<circ> BuildObj) ` set kept"
proof -
  let ?v = "gc_victims srt items ret"
  from objs_key [OF live(1)] have k: "k = object_key (BuildObj c)" by simp
  have "k \<notin> (object_key \<circ> BuildObj) ` set ?v"
    using gc_deletes_all [OF assms(3) victims_distinct(2) [OF srt list]] live(3) s' by auto
  moreover from this have "objs (rs_world s) k = Some (BuildObj c)"
    using gc_deletes_frame [of k ?v s] live(1) s' k by (simp add: object_key_def)
  then have "c \<in> set (filter gc_eligible items)"
    using list_lists [OF list, THEN iffD1, OF ranI] live(2) by simp
  then have "c \<in> set (srt (filter gc_eligible items))"
    using mset_eq_setD [OF slice_sort.perm [OF srt]] by blast
  ultimately show ?thesis using split k by auto
qed

lemma gc_victims_no_active:
  assumes srt: "slice_sort srt created_at" and list: "kube_List (re_kube env) (rs_world s) = Inr items"
    and c: "objs (rs_world s) k = Some (BuildObj c)" "\<not> gc_eligible c"
  shows "fst k = BuildKind" and "k \<notin> (object_key \<circ> BuildObj) ` set (gc_victims srt items ret)"
proof -
  from objs_key [OF c(1)] have k: "k = object_key (BuildObj c)" by simp
  then show "fst k = BuildKind" by (simp add: object_key_def)
  from c(1) have "BuildObj c \<in> ran (objs (rs_world s))" by (rule ranI)
  then have "c \<in> set items" by (rule list_lists [OF list, THEN iffD1])
  moreover have "x \<in> set items \<and> gc_eligible x" if "x \<in> set (gc_victims srt items ret)" for x
    using victims_distinct(1) [OF srt list, of ret] that by blast
  ultimately show "k \<notin> (object_key \<circ> BuildObj) ` set (gc_victims srt items ret)"
    using inj_onD [OF list_keys_inj [OF list]] k c(2) by (metis comp_apply imageE)
qed

end

lemma gc_eligible_states: "gc_eligible = (\<lambda>c. cib_State c \<in> {BuildStateCompleted, BuildStateFailed})"
  by (simp add: fun_eq_iff gc_eligible_def gc_state_def)

text \<open>The world after the deletions of a collection.\<close>

abbreviation delete_all :: "'w kube \<Rightarrow> ContainerImageBuild list \<Rightarrow> 'w \<Rightarrow> 'w" where
  "delete_all K builds w \<equiv> foldl (\<lambda>w build. snd (kube_Delete K build w)) w builds"

lemma gc_deletes_world: "rs_world (gc_deletes K builds s) = delete_all K builds (rs_world s)"
  by (induction K builds s rule: gc_deletes.induct) (auto simp: Let_def split: prod.splits option.splits)

text \<open>C6. A collection splits the completed and failed builds into victims and as many kept ones as the retention count allows, every victim
  at least as old as every kept build. It calls for the deletion of each victim once, whatever the earlier deletions returned, does nothing else to the cluster,
  and changes no build but the victims.\<close>

theorem RunGC_collects:
  assumes "cluster env objs" and "slice_sort srt created_at" and "\<forall>n. n \<le> capacity n" and "0 \<le> ret"
    and "kube_List (re_kube env) (rs_world s) = Inr items" and "RunGC srt capacity env ret s = (r, s')"
  shows "r = Returns () \<and>
    (let done = filter (\<lambda>c. cib_State c \<in> {BuildStateCompleted, BuildStateFailed}) items
     in \<exists>victims kept. mset done = mset (victims @ kept) \<and> length kept = min (nat ret) (length done) \<and>
       (\<forall>v \<in> set victims. \<forall>d \<in> set kept. created_at v \<le> created_at d) \<and>
       rs_world s' = delete_all (re_kube env) victims (rs_world s) \<and>
       (\<forall>k. fst k = BuildKind \<and> k \<notin> (object_key \<circ> BuildObj) ` set victims \<longrightarrow>
          objs (rs_world s') k = objs (rs_world s) k))"
proof -
  let ?v = "gc_victims srt items ret"
  have run: "RunGC srt capacity env ret s = gc_observe (Returns (), gc_deletes (re_kube env) ?v s)"
    by (rule RunGC_nonneg [OF assms(2) _ assms(4,5)]) (use assms(3) in blast)
  obtain kept where split: "srt (filter gc_eligible items) = ?v @ kept"
    and len: "length kept = min (nat ret) (length (filter gc_eligible items))"
    using cluster.gc_kept [OF assms(1,2,4)] by blast
  have "kept = drop (length ?v) (srt (filter gc_eligible items))" "?v = take (length ?v) (srt (filter gc_eligible items))"
    using split by simp_all
  then have "\<forall>v \<in> set ?v. \<forall>d \<in> set kept. created_at v \<le> created_at d"
    using slice_sort.prefix_oldest [OF assms(2)] by metis
  moreover have "mset (filter gc_eligible items) = mset (?v @ kept)"
    unfolding split [symmetric] slice_sort.perm [OF assms(2)] ..
  moreover have "\<forall>k. fst k = BuildKind \<and> k \<notin> (object_key \<circ> BuildObj) ` set ?v \<longrightarrow>
      objs (rs_world s') k = objs (rs_world s) k"
    using assms(6) cluster.gc_deletes_frame [OF assms(1)] by (auto simp: run gc_observe_def)
  moreover have "r = Returns ()" "rs_world s' = delete_all (re_kube env) ?v (rs_world s)"
    using assms(6) by (auto simp: run gc_observe_def gc_deletes_world)
  ultimately show ?thesis unfolding Let_def gc_eligible_states [symmetric] using len by blast
qed

text \<open>A collection never touches a build that is not completed or failed.\<close>

lemma RunGC_protects_active:
  assumes "cluster env objs" and "slice_sort srt created_at" and "\<forall>n. n \<le> capacity n" and "0 \<le> ret"
    and "RunGC srt capacity env ret s = (r, s')"
    and "objs (rs_world s) k = Some (BuildObj c)" and "\<not> gc_eligible c"
  shows "objs (rs_world s') k = Some (BuildObj c)"
proof (cases "kube_List (re_kube env) (rs_world s)")
  case (Inl e)
  with assms(5,6) show ?thesis by (auto simp: RunGC_def gc_observe_def)
next
  case (Inr items)
  have "RunGC srt capacity env ret s =
      gc_observe (Returns (), gc_deletes (re_kube env) (gc_victims srt items ret) s)"
    by (rule RunGC_nonneg [OF assms(2) _ assms(4) Inr]) (use assms(3) in blast)
  with assms(5,6) show ?thesis
    using cluster.gc_deletes_frame [OF assms(1) cluster.gc_victims_no_active [OF assms(1,2) Inr assms(6,7)]]
    by (auto simp: gc_observe_def)
qed

text \<open>C25. If no delete fails, at most the retention count of finished builds is left that is not being deleted.\<close>

theorem RunGC_bounds_finished:
  assumes "cluster env objs" and "slice_sort srt created_at" and "\<forall>n. n \<le> capacity n" and "0 \<le> ret"
    and "kube_List (re_kube env) (rs_world s) = Inr items"
    and "gc_failures (re_kube env) (gc_victims srt items ret) (rs_world s) = 0"
    and "RunGC srt capacity env ret s = (r, s')"
  shows "card {k. (\<exists>c. objs (rs_world s') k = Some (BuildObj c) \<and> cib_State c \<in> {BuildStateCompleted, BuildStateFailed}) \<and>
      \<not> being_deleted (objs (rs_world s') k)} \<le> nat ret"
proof -
  let ?v = "gc_victims srt items ret"
  have run: "RunGC srt capacity env ret s = gc_observe (Returns (), gc_deletes (re_kube env) ?v s)"
    by (rule RunGC_nonneg [OF assms(2) _ assms(4,5)]) (use assms(3) in blast)
  obtain kept where split: "srt (filter gc_eligible items) = ?v @ kept"
    and len: "length kept = min (nat ret) (length (filter gc_eligible items))"
    using cluster.gc_kept [OF assms(1,2,4)] by blast
  have world: "rs_world s' = rs_world (gc_deletes (re_kube env) ?v s)"
    using assms(7) by (auto simp: run gc_observe_def)
  have "{k. (\<exists>c. objs (rs_world s') k = Some (BuildObj c) \<and> gc_eligible c) \<and>
      \<not> being_deleted (objs (rs_world s') k)} \<subseteq> (object_key \<circ> BuildObj) ` set kept" (is "?live \<subseteq> ?keys")
    unfolding world using cluster.gc_live_kept [OF assms(1,2,5,6) split refl] by blast
  then have "card ?live \<le> card ?keys" by (simp add: card_mono)
  also have "\<dots> \<le> length kept" using card_image_le [OF finite_set] card_length le_trans by blast
  finally show ?thesis using len unfolding gc_eligible_states by simp
qed

text \<open>The counter of successful deletions grows by the number of attempts, failed ones included; only the counter of
  failures is exact.\<close>

theorem RunGC_counts_attempts:
  assumes "slice_sort srt created_at" and "\<forall>n. n \<le> capacity n" and "0 \<le> ret"
    and "kube_List (re_kube env) (rs_world s) = Inr items" and "RunGC srt capacity env ret s = (r, s')"
  shows "map_get_default 0 (rs_gcCount s') ''successful'' =
      map_get_default 0 (rs_gcCount s) ''successful'' + length (gc_victims srt items ret) \<and>
    map_get_default 0 (rs_gcCount s') ''failed'' =
      map_get_default 0 (rs_gcCount s) ''failed'' + gc_failures (re_kube env) (gc_victims srt items ret) (rs_world s)"
proof -
  have "RunGC srt capacity env ret s =
      gc_observe (Returns (), gc_deletes (re_kube env) (gc_victims srt items ret) s)"
    by (rule RunGC_nonneg [OF assms(1) _ assms(3,4)]) (use assms(2) in blast)
  with assms(5) show ?thesis by (auto simp: gc_observe_def gc_deletes_counts)
qed

text \<open>With a negative retention count the slice expression reaches beyond the capacity and the collection panics.\<close>

lemma RunGC_negative_panics:
  assumes "ret < 0" and "kube_List (re_kube env) (rs_world s) = Inr items" and "items \<noteq> []"
    and "int (capacity (length (filter gc_eligible items))) < int (length (filter gc_eligible items)) - ret"
  shows "\<exists>p s'. RunGC srt capacity env ret s = (Panics p, s')"
  using assms by (simp add: RunGC_def slice_to_def gc_observe_def Let_def)

subsection \<open>An in-memory cluster\<close>

text \<open>The in-memory server with the GCR loader, whose answers are canned.\<close>

definition mem_env :: "mem_world rec_env" where
  "mem_env = \<lparr>re_kube = mem_kube, re_gvk = Inr (''forge.dominodatalab.com/v1alpha1'', ''ContainerImageBuild''),
     re_registry = snd (gcr_Register None sample_gcr no_loaders), re_loader_rng = rev, re_rng = rev,
     re_marshal = \<lambda>auths. Inr (strings_Join (map fst auths) '',''),
     re_parseQuantity = \<lambda>q. Inr (Quantity q), re_getenv = \<lambda>_. ''''\<rparr>"

lemma mem_env_kube [simp]: "re_kube mem_env = mem_kube"
  by (simp add: mem_env_def)

lemma sample_gcr_frame: "gcr_authenticate sample_gcr server w = (r, w') \<Longrightarrow> w' = w"
  by (auto simp: gcr_authenticate_def sample_gcr_def ChallengeLoginServer_def Let_def
      split: if_splits prod.splits outcome.splits sum.splits)

interpretation memc: cluster mem_env mem_lookup
proof (intro cluster.intro cluster_axioms.intro)
  show "kube_api (re_kube mem_env) mem_lookup" unfolding mem_env_kube by (rule mem.kube_api_axioms)
  fix server w r w'
  assume "RetrieveAuthorization (re_loader_rng mem_env) (re_registry mem_env) server w = (r, w')"
  then have "w' = w"
    by (auto simp: mem_env_def RetrieveAuthorization_def gcr_Register_def Registry_Register_def
        no_loaders_def dest: sample_gcr_frame split: if_splits)
  then show "mem_lookup w' = mem_lookup w" by simp
qed

subsection \<open>Reconcile: properties\<close>

text \<open>C5. A reconciliation of a build without a state that reports success has left a service account, a role, a role binding, a
  job and, if the build asked for cloud credentials, their secret.\<close>

theorem Reconcile_provisions:
  assumes "cluster env objs" and "fresh_build env req s cib"
    and "Reconcile env req s = (Returns None, s')"
  shows "\<forall>k \<in> {build_key ServiceAccountKind cib, build_key RoleKind cib, build_key RoleBindingKind cib,
      build_key JobKind cib} \<union> (if needs_cloud cib then {secret_key cib} else {}).
      objs (rs_world s') k \<noteq> None"
  using cluster.Reconcile_provides [OF assms(1,3,2)] by (auto simp: all_keys_def prereq_keys_def)

text \<open>C14. Whatever its result, a reconciliation keeps every object of the cluster as it was, and every object it adds is one of
  the build's resources and has the build as its controller.\<close>

theorem Reconcile_only_adds:
  assumes "cluster env objs" and "fresh_build env req s cib" and "Reconcile env req s = (r, s')"
  shows "(\<forall>k ob. objs (rs_world s) k = Some ob \<longrightarrow> objs (rs_world s') k = Some ob) \<and>
    (\<forall>k ob. objs (rs_world s) k = None \<longrightarrow> objs (rs_world s') k = Some ob \<longrightarrow>
       k \<in> all_keys cib \<and> controlled_by cib ob)"
  using cluster.Reconcile_adds [OF assms(1,3,2)] unfolding adds_def .

text \<open>C12. A job is created only once everything it relies on is there.\<close>

theorem Reconcile_job_after_prerequisites:
  assumes "cluster env objs" and "fresh_build env req s cib" and "Reconcile env req s = (r, s')"
    and "objs (rs_world s) (build_key JobKind cib) = None"
    and "objs (rs_world s') (build_key JobKind cib) \<noteq> None"
  shows "\<forall>k \<in> prereq_keys cib. objs (rs_world s') k \<noteq> None"
  using cluster.Reconcile_job_last [OF assms(1,3,2,4,5)] by blast

text \<open>C13. After a success, reconciling the same build again changes no object, whatever that second run returns.\<close>

theorem Reconcile_again_harmless:
  assumes "cluster env objs" and "fresh_build env req s cib"
    and "Reconcile env req s = (Returns None, s1)"
    and "fresh_build env req s1 cib" and "Reconcile env req s1 = (r, s2)"
  shows "objs (rs_world s2) = objs (rs_world s1)"
  by (rule cluster.Reconcile_twice [OF assms(1,3,2,5,4)])

subsection \<open>Witnesses\<close>

definition sample_build :: ContainerImageBuild where
  "sample_build = zero_cib\<lparr>cib_Meta := zero_meta\<lparr>om_Name := ''b'', om_Namespace := ''ns'', om_UID := ''u1''\<rparr>,
     cib_Spec := zero_spec\<lparr>spec_Registries := [\<lparr>reg_Server = ''us.gcr.io'', reg_NonSSL = False,
       reg_BasicAuth = zero_auth, reg_DynamicCloudCredentials = True\<rparr>]\<rparr>\<rparr>"

definition zero_config :: BuildJobConfig where
  "zero_config = \<lparr>jc_Image = '''', jc_ImagePullSecret = '''', jc_CustomCAConfigMap = '''',
     jc_PreparerPluginPath = '''', jc_Labels = [], jc_Annotations = [], jc_NodeSelector = [],
     jc_TolerationKey = '''', jc_GrantFullPrivilege = False, jc_EnableLayerCaching = False,
     jc_PodSecurityPolicy = '''', jc_SecurityContextConstraints = '''', jc_BrokerOpts = None,
     jc_Volumes = [], jc_VolumeMounts = [], jc_EnvVar = [], jc_EnableIstioSupport = False,
     jc_DynamicVolumes = [], jc_DynamicVolumeMounts = []\<rparr>"

definition state_of :: "mem_world \<Rightarrow> mem_world rec_state" where
  "state_of w = \<lparr>rs_world = w, rs_JobConfig = zero_config, rs_buildsCount = [], rs_gcCount = [],
     rs_gcObserved = 0, rs_events = []\<rparr>"

definition world_of :: "ContainerImageBuild list \<Rightarrow> mem_world" where
  "world_of cs = mem_empty\<lparr>mw_objs := map (\<lambda>c. (object_key (BuildObj c), BuildObj c)) cs\<rparr>"

definition sample_state :: "mem_world rec_state" where
  "sample_state = state_of (world_of [sample_build])"

definition sample_after :: "mem_world rec_state" where
  "sample_after = snd (Reconcile mem_env (''ns'', ''b'') sample_state)"

lemma sample_fresh: "fresh_build mem_env (''ns'', ''b'') sample_state sample_build"
  by (simp add: fresh_build_def sample_state_def state_of_def world_of_def sample_build_def
      zero_defs mem_defs)

lemma sample_result: "fst (Reconcile mem_env (''ns'', ''b'') sample_state) = Returns None"
  by code_simp

lemma sample_run: "Reconcile mem_env (''ns'', ''b'') sample_state = (Returns None, sample_after)"
  by (simp add: sample_after_def flip: sample_result)

theorem Reconcile_provisions_witness:
  "mem_lookup (rs_world sample_after) (build_key JobKind sample_build) \<noteq> None \<and>
   mem_lookup (rs_world sample_after) (secret_key sample_build) \<noteq> None"
  using Reconcile_provisions [OF memc.cluster_axioms sample_fresh sample_run]
  by (auto simp: needs_cloud_def sample_build_def)

theorem Reconcile_only_adds_witness:
  "mem_lookup (rs_world sample_after) (BuildKind, ''ns'', ''b'') = Some (BuildObj sample_build)"
  using Reconcile_only_adds [OF memc.cluster_axioms sample_fresh sample_run]
  by (simp add: sample_state_def state_of_def world_of_def sample_build_def zero_defs mem_defs)

lemma sample_job:
  "mem_lookup (rs_world sample_state) (build_key JobKind sample_build) = None"
  "mem_lookup (rs_world sample_after) (build_key JobKind sample_build) \<noteq> None"
  by code_simp+

theorem Reconcile_job_after_prerequisites_witness:
  "mem_lookup (rs_world sample_after) (build_key RoleBindingKind sample_build) \<noteq> None"
  using Reconcile_job_after_prerequisites [OF memc.cluster_axioms sample_fresh sample_run sample_job]
  by (simp add: prereq_keys_def)

lemma sample_after_fresh: "fresh_build mem_env (''ns'', ''b'') sample_after sample_build"
  by code_simp

theorem Reconcile_again_harmless_witness:
  "mem_lookup (rs_world (snd (Reconcile mem_env (''ns'', ''b'') sample_after))) =
   mem_lookup (rs_world sample_after)"
  using Reconcile_again_harmless [OF memc.cluster_axioms sample_fresh sample_run sample_after_fresh
      prod.collapse [symmetric]] .

theorem Reconcile_keeps_config_witness: "rs_JobConfig sample_after = zero_config"
  using Reconcile_keeps_config [OF sample_run]
  by (simp add: no_dynamic_def sample_state_def state_of_def zero_config_def)

definition finished :: "string \<Rightarrow> BuildState \<Rightarrow> time \<Rightarrow> ContainerImageBuild" where
  "finished name state t = zero_cib\<lparr>cib_Meta := zero_meta\<lparr>om_Name := name, om_Namespace := ''ns'',
     om_CreationTimestamp := t\<rparr>, cib_Status := zero_status\<lparr>st_State := state\<rparr>\<rparr>"

definition gc_builds :: "ContainerImageBuild list" where
  "gc_builds = [finished ''new'' ''Completed'' 3, finished ''busy'' ''Building'' 1, finished ''old'' ''Failed'' 2]"

definition gc_start :: "mem_world rec_state" where
  "gc_start = state_of (world_of gc_builds)"

definition gc_end :: "mem_world rec_state" where
  "gc_end = snd (RunGC (sort_key created_at) id mem_env 1 gc_start)"

lemma Reconcile_settled_example:
  "Reconcile mem_env (''ns'', ''new'') gc_start =
   (Returns None, gc_start\<lparr>rs_buildsCount := [(''completed'', 1)]\<rparr>)"
proof -
  have "kube_Get (re_kube mem_env) (rs_world gc_start) (BuildKind, ''ns'', ''new'') =
      Inr (BuildObj (finished ''new'' ''Completed'' 3))" by code_simp
  from Reconcile_settled [OF this] have
    "Reconcile mem_env (''ns'', ''new'') gc_start = (Returns None, gc_start\<lparr>rs_buildsCount :=
       counter_Inc (strings_ToLower ''Completed'') (rs_buildsCount gc_start)\<rparr>)"
    by (simp add: finished_def zero_defs)
  moreover have "counter_Inc (strings_ToLower ''Completed'') (rs_buildsCount gc_start) = [(''completed'', 1)]"
    by code_simp
  ultimately show ?thesis by simp
qed

lemma gc_list: "kube_List (re_kube mem_env) (rs_world gc_start) = Inr gc_builds"
  by code_simp

lemma gc_run: "RunGC (sort_key created_at) id mem_env 1 gc_start =
  (fst (RunGC (sort_key created_at) id mem_env 1 gc_start), gc_end)"
  by (simp add: gc_end_def)

theorem RunGC_collects_witness:
  "fst (RunGC (sort_key created_at) id mem_env 1 gc_start) = Returns () \<and>
   (\<exists>v. rs_world (snd (RunGC (sort_key created_at) id mem_env 1 gc_start)) = delete_all (re_kube mem_env) [v] (rs_world gc_start))"
proof -
  let ?done = "filter (\<lambda>c. cib_State c \<in> {BuildStateCompleted, BuildStateFailed}) gc_builds"
  have two: "length ?done = 2" by code_simp
  from RunGC_collects [OF memc.cluster_axioms by_creation.slice_sort_axioms _ _ gc_list gc_run, unfolded Let_def] obtain victims kept
    where r: "fst (RunGC (sort_key created_at) id mem_env 1 gc_start) = Returns ()" and m: "mset ?done = mset (victims @ kept)"
      and l: "length kept = min (nat 1) (length ?done)"
      and w: "rs_world gc_end = delete_all (re_kube mem_env) victims (rs_world gc_start)"
    using gc_run by auto
  have "length ?done = length victims + length kept" by (metis m size_mset length_append)
  with l two have "length victims = 1" by simp
  then obtain v where "victims = [v]" by (cases victims) auto
  with r w gc_run show ?thesis by auto
qed

lemma RunGC_protects_active_example:
  "mem_lookup (rs_world gc_end) (BuildKind, ''ns'', ''busy'') = Some (BuildObj (finished ''busy'' ''Building'' 1))"
  by (rule RunGC_protects_active [OF memc.cluster_axioms by_creation.slice_sort_axioms _ _ gc_run])
    (simp, simp, code_simp, code_simp)

theorem RunGC_bounds_finished_witness:
  "card {k. (\<exists>c. mem_lookup (rs_world gc_end) k = Some (BuildObj c) \<and> cib_State c \<in> {BuildStateCompleted, BuildStateFailed}) \<and>
      \<not> being_deleted (mem_lookup (rs_world gc_end) k)} \<le> 1"
proof -
  have "gc_failures (re_kube mem_env) (gc_victims (sort_key created_at) gc_builds 1) (rs_world gc_start) = 0"
    by code_simp
  from RunGC_bounds_finished [OF memc.cluster_axioms by_creation.slice_sort_axioms _ _ gc_list this gc_run]
  show ?thesis by simp
qed

theorem RunGC_counts_attempts_witness:
  "map_get_default 0 (rs_gcCount gc_end) ''successful'' = 1"
proof -
  have "length (gc_victims (sort_key created_at) gc_builds 1) = 1" by code_simp
  moreover have "map_get_default 0 (rs_gcCount gc_start) ''successful'' = 0" by code_simp
  ultimately show ?thesis
    using RunGC_counts_attempts [OF by_creation.slice_sort_axioms _ _ gc_list gc_run] by simp
qed

lemma RunGC_negative_panics_example:
  "\<exists>p s'. RunGC (sort_key created_at) id mem_env (- 1) gc_start = (Panics p, s')"
  by (rule RunGC_negative_panics [OF _ gc_list]) (simp_all add: gc_builds_def)

theorem pod_metadata_precedence_witness:
  "map_of (pod_annotations mem_env (zero_config\<lparr>jc_Annotations := [(''a'', ''1'')]\<rparr>) sample_build) ''a'' = Some ''1''"
  using pod_metadata_precedence [of mem_env sample_build "zero_config\<lparr>jc_Annotations := [(''a'', ''1'')]\<rparr>"]
  by (simp add: mem_env_def range_order_def sample_build_def zero_defs zero_config_def wf_map_def)


theorem prepareJobArgs_split_witness:
  "strings_Split (prepareJobArgs zero_config sample_build ! 1) (CHR '' '') =
   [''rootlesskit'', ''/usr/bin/forge'', ''build'', ''--resource=b'', ''--enable-layer-caching=false'']"
  using prepareJobArgs_split [of zero_config sample_build]
  by (simp add: job_words_def zero_config_def sample_build_def fmt_t_def)

end
