(* ===== verification/Forge_Start.thy ===== *)
theory Forge_Start
  imports Forge_Reconcile
begin

section \<open>The controller process\<close>

text \<open>
  \<^verbatim>\<open>controllers/start.go\<close>: setting up the controller, and its life as a sequence of events: requests that the manager hands to
  \<^verbatim>\<open>Reconcile\<close> and ticks on which the goroutine of the garbage collection runs. A panic in either ends the process.
  New Relic, the manager and the set-up of the cloud clients are arguments.
\<close>

subsection \<open>Set-up\<close>

record ControllerConfig =
  cc_Debug :: bool
  cc_Namespace :: string
  cc_MetricsAddr :: string
  cc_EnableLeaderElection :: bool
  cc_GCMaxRetentionCount :: int
  cc_GCInterval :: "64 word"
  cc_JobConfig :: BuildJobConfig

record 'w start_env =
  se_ecr_config :: "unit result"
  se_ecr_tokens :: "'w \<Rightarrow> string option list result \<times> 'w"
  se_acr_provider :: "'w \<Rightarrow> string result \<times> 'w"
  se_acr :: "'w acr_env"
  se_gcr_credentials :: "go_error option"
  se_gcr :: "'w gcr_env"
  se_NewRelic :: "go_error option"
  se_Shutdown :: "'w \<Rightarrow> 'w"
  se_NewManager :: "ControllerConfig \<Rightarrow> 'w rec_env result"
  se_Setup :: "go_error option"

definition register_clouds :: "'w start_env \<Rightarrow> 'w \<Rightarrow> 'w cloud_Registry result \<times> 'w" where
  "register_clouds env w =
     (case ecr_Register (se_ecr_config env) (\<lambda>_. se_ecr_tokens env) \<lparr>cr_loaders = None\<rparr> of
        (Some err, _) \<Rightarrow> (Inl err, w)
      | (None, r1) \<Rightarrow>
        (let provider = se_acr_provider env w; w1 = snd provider in
         case acr_Register provider (se_acr env) r1 of
           (Some err, _) \<Rightarrow> (Inl err, w1)
         | (None, r2) \<Rightarrow>
           (case gcr_Register (se_gcr_credentials env) (se_gcr env) r2 of
              (Some err, _) \<Rightarrow> (Inl err, w1)
            | (None, r3) \<Rightarrow> (Inr r3, w1))))"

definition new_state :: "ControllerConfig \<Rightarrow> 'w \<Rightarrow> 'w rec_state" where
  "new_state cfg w = \<lparr>rs_world = w, rs_JobConfig = cc_JobConfig cfg, rs_buildsCount = [], rs_gcCount = [],
     rs_gcObserved = 0, rs_events = []\<rparr>"

subsection \<open>Events\<close>

datatype ctl_event = OnRequest "string \<times> string" | OnTick

text \<open>A tick reaches the collector only if an interval is configured; a failed reconciliation is retried by a later request.\<close>

definition ctl_step ::
  "(ContainerImageBuild list \<Rightarrow> ContainerImageBuild list) \<Rightarrow> (nat \<Rightarrow> nat) \<Rightarrow> 'w rec_env \<Rightarrow> ControllerConfig \<Rightarrow> ctl_event \<Rightarrow>
   'w rec_state \<Rightarrow> unit outcome \<times> 'w rec_state" where
  "ctl_step srt capacity env cfg ev s =
     (case ev of
        OnRequest req \<Rightarrow>
          (case Reconcile env req s of (Returns _, s1) \<Rightarrow> (Returns (), s1) | (Panics p, s1) \<Rightarrow> (Panics p, s1))
      | OnTick \<Rightarrow>
          (if 0 <s cc_GCInterval cfg then RunGC srt capacity env (cc_GCMaxRetentionCount cfg) s
           else (Returns (), s)))"

fun run_events ::
  "(ContainerImageBuild list \<Rightarrow> ContainerImageBuild list) \<Rightarrow> (nat \<Rightarrow> nat) \<Rightarrow> 'w rec_env \<Rightarrow> ControllerConfig \<Rightarrow> ctl_event list \<Rightarrow>
   'w rec_state \<Rightarrow> unit outcome \<times> 'w rec_state" where
  "run_events srt capacity env cfg [] s = (Returns (), s)"
| "run_events srt capacity env cfg (ev # evs) s =
     (case ctl_step srt capacity env cfg ev s of
        (Returns _, s1) \<Rightarrow> run_events srt capacity env cfg evs s1
      | (Panics p, s1) \<Rightarrow> (Panics p, s1))"

text \<open>\<open>startErr\<close> is what the manager returns after the events.\<close>

definition StartManager ::
  "(ContainerImageBuild list \<Rightarrow> ContainerImageBuild list) \<Rightarrow> (nat \<Rightarrow> nat) \<Rightarrow> 'w start_env \<Rightarrow> ControllerConfig \<Rightarrow> ctl_event list \<Rightarrow>
   go_error option \<Rightarrow> 'w \<Rightarrow> go_error option outcome \<times> 'w" where
  "StartManager srt capacity env cfg evs startErr w =
     (case register_clouds env w of
        (Inl err, w1) \<Rightarrow> (Returns (Some err), w1)
      | (Inr registry, w1) \<Rightarrow>
        (case se_NewRelic env of
           Some err \<Rightarrow> (Returns (Some err), w1)
         | None \<Rightarrow>
           (case se_NewManager env cfg of
              Inl err \<Rightarrow> (Returns (Some err), se_Shutdown env w1)
            | Inr renv \<Rightarrow>
              (case se_Setup env of
                 Some err \<Rightarrow> (Returns (Some err), se_Shutdown env w1)
               | None \<Rightarrow>
                 (case run_events srt capacity (renv\<lparr>re_registry := registry\<rparr>) cfg evs (new_state cfg w1) of
                    (Panics p, s) \<Rightarrow> (Panics p, rs_world s)
                  | (Returns _, s) \<Rightarrow> (Returns startErr, se_Shutdown env (rs_world s)))))))"

subsection \<open>What a running controller keeps\<close>

lemma gc_deletes_JobConfig [simp]: "rs_JobConfig (gc_deletes K builds s) = rs_JobConfig s"
  by (induction K builds s rule: gc_deletes.induct) (auto simp: Let_def split: prod.splits option.splits)

lemma RunGC_JobConfig: "RunGC srt capacity env ret s = (r, s') \<Longrightarrow> rs_JobConfig s' = rs_JobConfig s"
  by (auto simp: RunGC_def gc_observe_def Let_def split: sum.splits if_splits outcome.splits)

lemma ctl_step_JobConfig:
  assumes "ctl_step srt capacity env cfg ev s = (r, s')" and "no_dynamic (rs_JobConfig s)"
  shows "rs_JobConfig s' = rs_JobConfig s"
proof (cases ev)
  case (OnRequest req)
  then obtain r1 where "Reconcile env req s = (r1, s')"
    using assms(1) by (auto simp: ctl_step_def split: prod.splits outcome.splits)
  then show ?thesis using assms(2) by (rule Reconcile_JobConfig)
next
  case OnTick
  then show ?thesis using assms(1) by (auto simp: ctl_step_def split: if_splits dest: RunGC_JobConfig)
qed

lemma run_events_rel:
  assumes "run_events srt capacity env cfg evs s = (r, s')"
    and "\<And>ev s r s'. ctl_step srt capacity env cfg ev s = (r, s') \<Longrightarrow> P s \<Longrightarrow> P s'" and "P s"
  shows "P s'"
  using assms(1,3)
proof (induction evs arbitrary: s)
  case (Cons ev evs)
  obtain q s1 where step: "ctl_step srt capacity env cfg ev s = (q, s1)" by (metis surj_pair)
  have "P s1" using assms(2) [OF step Cons.prems(2)] .
  then show ?case using Cons.IH [of s1] Cons.prems(1) step by (cases q) auto
qed simp

context cluster
begin

lemma Reconcile_keeps_objects:
  assumes "Reconcile env req s = (r, s')" and "objs (rs_world s) k = Some ob"
  shows "objs (rs_world s') k = Some ob"
proof (cases "\<exists>cib. fresh_build env req s cib")
  case True
  then show ?thesis using adds_keeps [OF Reconcile_adds [OF assms(1)]] assms(2) by blast
next
  case False
  have "rs_world s' = rs_world s" using assms(1) False by (cases rule: Reconcile_cases) auto
  with assms(2) show ?thesis by simp
qed

end

lemma ctl_step_keeps_unfinished:
  assumes "cluster env objs" and "slice_sort srt created_at" and "\<forall>n. n \<le> capacity n" and "0 \<le> cc_GCMaxRetentionCount cfg"
    and "ctl_step srt capacity env cfg ev s = (r, s')"
    and "objs (rs_world s) k = Some (BuildObj c)" and "\<not> gc_eligible c"
  shows "objs (rs_world s') k = Some (BuildObj c)"
proof (cases ev)
  case (OnRequest req)
  then obtain r1 where "Reconcile env req s = (r1, s')"
    using assms(5) by (auto simp: ctl_step_def split: prod.splits outcome.splits)
  then show ?thesis using cluster.Reconcile_keeps_objects [OF assms(1)] assms(6) by blast
next
  case OnTick
  then show ?thesis
    using assms(5,6) RunGC_protects_active [OF assms(1-4) _ assms(6,7), of r s']
    by (auto simp: ctl_step_def split: if_splits)
qed

lemma ctl_step_no_gc:
  assumes "cluster env objs" and "\<not> 0 <s cc_GCInterval cfg" and "ctl_step srt capacity env cfg ev s = (r, s')"
    and "objs (rs_world s) k = Some ob"
  shows "objs (rs_world s') k = Some ob"
proof (cases ev)
  case (OnRequest req)
  then obtain r1 where "Reconcile env req s = (r1, s')"
    using assms(3) by (auto simp: ctl_step_def split: prod.splits outcome.splits)
  then show ?thesis using cluster.Reconcile_keeps_objects [OF assms(1)] assms(4) by blast
qed (use assms in \<open>simp add: ctl_step_def\<close>)

text \<open>After any sequence of requests and collections the configuration is the one of the start: the volume that a build added is taken out again.\<close>

lemma run_events_JobConfig:
  assumes "run_events srt capacity env cfg evs (new_state cfg w) = (r, s')" and "no_dynamic (cc_JobConfig cfg)"
  shows "rs_JobConfig s' = cc_JobConfig cfg"
proof -
  have "rs_JobConfig s' = cc_JobConfig cfg \<and> no_dynamic (cc_JobConfig cfg)"
    by (rule run_events_rel [OF assms(1)]) (use assms(2) in \<open>auto simp: new_state_def dest: ctl_step_JobConfig\<close>)
  then show ?thesis ..
qed

text \<open>C15. No sequence of requests and collections changes or removes a build that is neither completed nor failed: a build stuck in the building state stays
  until someone deletes it. With the collection disabled, no object at all is changed or removed.\<close>

theorem controller_keeps_unfinished:
  assumes "cluster env objs" and "slice_sort srt created_at" and "\<forall>n. n \<le> capacity n" and "0 \<le> cc_GCMaxRetentionCount cfg"
    and "run_events srt capacity env cfg evs s = (r, s')" and "objs (rs_world s) k = Some ob"
    and "(\<exists>c. ob = BuildObj c \<and> cib_State c \<notin> {BuildStateCompleted, BuildStateFailed}) \<or> sint (cc_GCInterval cfg) \<le> 0"
  shows "objs (rs_world s') k = Some ob"
proof (cases "sint (cc_GCInterval cfg) \<le> 0")
  case True
  then have "\<not> 0 <s cc_GCInterval cfg" by (simp add: word_sless_alt)
  then show ?thesis
    by (intro run_events_rel [OF assms(5), where P = "\<lambda>s. objs (rs_world s) k = Some ob"])
      (use assms(6) ctl_step_no_gc [OF assms(1)] in blast)+
next
  case False
  with assms(7) obtain c where c: "ob = BuildObj c" "\<not> gc_eligible c" unfolding gc_eligible_states by blast
  show ?thesis
    by (intro run_events_rel [OF assms(5), where P = "\<lambda>s. objs (rs_world s) k = Some ob"])
      (use assms(6) c ctl_step_keeps_unfinished [OF assms(1-4)] in blast)+
qed

definition sample_cc :: "64 word \<Rightarrow> ControllerConfig" where
  "sample_cc interval = \<lparr>cc_Debug = False, cc_Namespace = ''ns'', cc_MetricsAddr = '''', cc_EnableLeaderElection = False,
     cc_GCMaxRetentionCount = 0, cc_GCInterval = interval, cc_JobConfig = zero_config\<rparr>"

definition sample_events :: "ctl_event list" where
  "sample_events = [OnRequest (''ns'', ''b''), OnTick, OnRequest (''ns'', ''busy'')]"

definition sample_life :: "unit outcome \<times> mem_world rec_state" where
  "sample_life = run_events (sort_key created_at) id mem_env (sample_cc 1) sample_events
     (new_state (sample_cc 1) (world_of (sample_build # gc_builds)))"

theorem controller_keeps_unfinished_witness:
  "mem_lookup (rs_world (snd sample_life)) (BuildKind, ''ns'', ''old'') = None \<and>
   mem_lookup (rs_world (snd sample_life)) (BuildKind, ''ns'', ''busy'') = Some (BuildObj (finished ''busy'' ''Building'' 1))"
proof
  show "mem_lookup (rs_world (snd sample_life)) (BuildKind, ''ns'', ''old'') = None" by code_simp
  have start: "mem_lookup (rs_world (new_state (sample_cc 1) (world_of (sample_build # gc_builds)))) (BuildKind, ''ns'', ''busy'') =
      Some (BuildObj (finished ''busy'' ''Building'' 1))" by code_simp
  have "cib_State (finished ''busy'' ''Building'' 1) \<notin> {BuildStateCompleted, BuildStateFailed}" by code_simp
  then show "mem_lookup (rs_world (snd sample_life)) (BuildKind, ''ns'', ''busy'') = Some (BuildObj (finished ''busy'' ''Building'' 1))"
    unfolding sample_life_def
    by (intro controller_keeps_unfinished [OF memc.cluster_axioms by_creation.slice_sort_axioms _ _ prod.collapse [symmetric] start])
      (auto simp: sample_cc_def)
qed

end
