(* ===== verification/Forge_Buildjob.thy ===== *)
theory Forge_Buildjob
  imports Forge_Kube Forge_Config
begin

section \<open>The build job\<close>

text \<open>
  \<^verbatim>\<open>internal/buildjob\<close>: the program that runs inside the job of a build. It fetches the resource, moves it to the
  building state, turns its specification into build options, builds and pushes, and records the outcome. The API clients, the message
  producer, the clock, the file system, the Docker config loader and the image builder are fields of \<open>job_env\<close>, functions
  over a world \<open>'w\<close>; \<open>je_Push\<close> is \<^verbatim>\<open>None\<close> when there is no producer. Of the log, the model keeps the message of
  \<^verbatim>\<open>logError\<close>.
\<close>

subsection \<open>State and environment\<close>

record StatusUpdate =
  su_Name :: string
  su_Annotations :: "string gomap option"
  su_ObjectLink :: string
  su_PreviousState :: string
  su_CurrentState :: string
  su_ErrorMessage :: string
  su_ImageURLs :: "string list"
  su_ImageSize :: "64 word"

record 'w job_env =
  je_GetBuild :: "string \<Rightarrow> string \<Rightarrow> 'w \<Rightarrow> ContainerImageBuild result \<times> 'w"
  je_UpdateStatus :: "string \<Rightarrow> ContainerImageBuild \<Rightarrow> 'w \<Rightarrow> ContainerImageBuild result \<times> 'w"
  je_Push :: "(StatusUpdate \<Rightarrow> 'w \<Rightarrow> go_error option \<times> 'w) option"
  je_Now :: "'w \<Rightarrow> time"
  je_GetSecret :: "string \<Rightarrow> string \<Rightarrow> 'w \<Rightarrow> Secret result \<times> 'w"
  je_NotExist :: "string \<Rightarrow> 'w \<Rightarrow> go_error option"
  je_ReadFile :: "string \<Rightarrow> 'w \<Rightarrow> string result"
  je_LoadAuths :: "string \<Rightarrow> AuthConfigs result"
  je_BuildAndPush :: "BuildOptions \<Rightarrow> 'w \<Rightarrow> Image result \<times> 'w"
  je_auths_rng :: "AuthConfigs \<Rightarrow> AuthConfigs"
  je_configs_rng :: "RegistryConfig gomap \<Rightarrow> RegistryConfig gomap"
  je_Log :: "string \<Rightarrow> 'w \<Rightarrow> 'w"

record build_job =
  bj_name :: string
  bj_namespace :: string

subsection \<open>Status updates\<close>

definition status_update :: "ContainerImageBuild \<Rightarrow> StatusUpdate" where
  "status_update cib =
     \<lparr>su_Name = cib_Name cib, su_Annotations = om_Annotations (cib_Meta cib),
      su_ObjectLink = strings_TrimSuffix (om_SelfLink (cib_Meta cib)) ''/status'',
      su_PreviousState = st_PreviousState (cib_Status cib), su_CurrentState = cib_State cib,
      su_ErrorMessage = st_ErrorMessage (cib_Status cib), su_ImageURLs = st_ImageURLs (cib_Status cib),
      su_ImageSize = 0\<rparr>"

definition updateStatus ::
  "'w job_env \<Rightarrow> build_job \<Rightarrow> ContainerImageBuild \<Rightarrow> 'w \<Rightarrow> ContainerImageBuild result \<times> 'w" where
  "updateStatus env j cib w =
     (case je_UpdateStatus env (bj_namespace j) cib w of
        (Inl err, w1) \<Rightarrow> (Inl (errors_Wrap err ''unable to update status''), w1)
      | (Inr cib1, w1) \<Rightarrow>
        (case je_Push env of
           None \<Rightarrow> (Inr cib1, w1)
         | Some push \<Rightarrow>
           (case push (status_update cib1) w1 of
              (Some err, w2) \<Rightarrow> (Inl (errors_Wrap err ''unable to publish message''), w2)
            | (None, w2) \<Rightarrow> (Inr cib1, w2))))"

definition building :: "time \<Rightarrow> ContainerImageBuild \<Rightarrow> ContainerImageBuild" where
  "building now cib = cib\<lparr>cib_Status := (SetState BuildStateBuilding (cib_Status cib))
     \<lparr>st_BuildStartedAt := Some now\<rparr>\<rparr>"

definition completed :: "time \<Rightarrow> Image \<Rightarrow> ContainerImageBuild \<Rightarrow> ContainerImageBuild" where
  "completed now img cib = cib\<lparr>cib_Status := (SetState BuildStateCompleted (cib_Status cib))
     \<lparr>st_ImageURLs := img_URLs img, st_ImageSize := img_Size img, st_BuildCompletedAt := Some now\<rparr>\<rparr>"

definition failed :: "time \<Rightarrow> go_error \<Rightarrow> ContainerImageBuild \<Rightarrow> ContainerImageBuild" where
  "failed now err cib = cib\<lparr>cib_Status := (SetState BuildStateFailed (cib_Status cib))
     \<lparr>st_ErrorMessage := error_text err, st_BuildCompletedAt := Some now\<rparr>\<rparr>"

definition transitionToBuilding ::
  "'w job_env \<Rightarrow> build_job \<Rightarrow> ContainerImageBuild \<Rightarrow> 'w \<Rightarrow> ContainerImageBuild result \<times> 'w" where
  "transitionToBuilding env j cib w = updateStatus env j (building (je_Now env w) cib) w"

definition transitionToComplete ::
  "'w job_env \<Rightarrow> build_job \<Rightarrow> ContainerImageBuild \<Rightarrow> Image \<Rightarrow> 'w \<Rightarrow> go_error option \<times> 'w" where
  "transitionToComplete env j cib img w =
     (case updateStatus env j (completed (je_Now env w) img cib) w of
        (Inl err, w1) \<Rightarrow> (Some err, w1) | (Inr _, w1) \<Rightarrow> (None, w1))"

definition transitionToFailure ::
  "'w job_env \<Rightarrow> build_job \<Rightarrow> ContainerImageBuild \<Rightarrow> go_error \<Rightarrow> 'w \<Rightarrow> go_error option \<times> 'w" where
  "transitionToFailure env j cib err w =
     (case updateStatus env j (failed (je_Now env w) err cib) w of
        (Inl err2, w1) \<Rightarrow> (Some err2, w1) | (Inr _, w1) \<Rightarrow> (None, w1))"

subsection \<open>Registry configurations\<close>

definition getDockerAuthsFromFS :: "'w job_env \<Rightarrow> 'w \<Rightarrow> AuthConfigs result" where
  "getDockerAuthsFromFS env w =
     (case je_NotExist env DynamicCredentialsFilepath w of
        Some err \<Rightarrow> Inl (errors_Wrap err ''cannot find dynamic cloud credentials in the filesystem'')
      | None \<Rightarrow>
        (case je_ReadFile env DynamicCredentialsFilepath w of
           Inl err \<Rightarrow> Inl (errors_Wrap err ''cannot read dynamic cloud credentials from the filesystem'')
         | Inr input \<Rightarrow>
           (case ExtractAuthConfigs (je_LoadAuths env) input of
              Inl err \<Rightarrow> Inl (errors_Wrap err ''cannot extract dynamic cloud credentials from provided data'')
            | Inr auths \<Rightarrow> Inr auths)))"

definition SecretTypeDockerConfigJson :: string where
  "SecretTypeDockerConfigJson = ''kubernetes.io/dockerconfigjson''"

definition getDockerAuthsFromSecret ::
  "'w job_env \<Rightarrow> string \<Rightarrow> string \<Rightarrow> 'w \<Rightarrow> AuthConfigs result \<times> 'w" where
  "getDockerAuthsFromSecret env secretName secretNamespace w =
     (case je_GetSecret env secretNamespace secretName w of
        (Inl err, w1) \<Rightarrow> (Inl (errors_Wrap err ''failed to fetch registry auth secret''), w1)
      | (Inr secret, w1) \<Rightarrow>
        (if sec_Type secret \<noteq> SecretTypeDockerConfigJson
         then (Inl (ErrText (''cannot read registry auth secret. Secret must be type ''
                 @ SecretTypeDockerConfigJson @ '', not '' @ sec_Type secret)), w1)
         else (case ExtractAuthConfigs (je_LoadAuths env)
                      (map_get_default '''' (sec_Data secret) ''.dockerconfigjson'') of
                 Inl err \<Rightarrow> (Inl (errors_Wrap err ''Failed to read docker auth from secret''), w1)
               | Inr auths \<Rightarrow> (Inr auths, w1))))"

definition getBasicAuthForHost :: "AuthConfigs \<Rightarrow> string \<Rightarrow> (string \<times> string) result" where
  "getBasicAuthForHost auths host =
     (case ExtractBasicAuthForHost auths host of
        Inl err \<Rightarrow> Inl (errors_Wrap err (''did not find docker auth for specified host (''
                    @ fmt_q host @ '') in the supplied secret''))
      | Inr up \<Rightarrow> Inr up)"

fun add_implicit :: "AuthConfigs \<Rightarrow> RegistryConfig gomap \<Rightarrow> RegistryConfig gomap" where
  "add_implicit [] configured = configured"
| "add_implicit ((host, ac) # rest) configured =
     (if map_of configured host \<noteq> None then add_implicit rest configured
      else add_implicit rest (map_put host
             \<lparr>rc_Host = host, rc_NonSSL = False, rc_Username = ac_Username ac, rc_Password = ac_Password ac\<rparr>
             configured))"

definition explicit_config :: "Registry \<Rightarrow> string \<times> string \<Rightarrow> RegistryConfig" where
  "explicit_config reg up = \<lparr>rc_Host = reg_Server reg, rc_NonSSL = reg_NonSSL reg,
     rc_Username = fst up, rc_Password = snd up\<rparr>"

text \<open>One round of the loop: the credentials of the entry, and the other hosts its secret configures.\<close>

definition registry_auth ::
  "'w job_env \<Rightarrow> Registry \<Rightarrow> 'w \<Rightarrow> ((string \<times> string) \<times> AuthConfigs) result \<times> 'w" where
  "registry_auth env reg w =
     (let auth = reg_BasicAuth reg in
      case Validate auth of
        Some err \<Rightarrow> (Inl (errors_Wrap err ''basic auth validation failed''), w)
      | None \<Rightarrow>
        (if IsInline auth then (Inr ((ba_Username auth, ba_Password auth), []), w)
         else if IsSecret auth then
           (case getDockerAuthsFromSecret env (ba_SecretName auth) (ba_SecretNamespace auth) w of
              (Inl err, w1) \<Rightarrow> (Inl err, w1)
            | (Inr auths, w1) \<Rightarrow>
              (case getBasicAuthForHost auths (reg_Server reg) of
                 Inl err \<Rightarrow> (Inl err, w1)
               | Inr up \<Rightarrow> (Inr (up, auths), w1)))
         else if reg_DynamicCloudCredentials reg then
           (case getDockerAuthsFromFS env w of
              Inl err \<Rightarrow> (Inl err, w)
            | Inr auths \<Rightarrow>
              (case getBasicAuthForHost auths (reg_Server reg) of
                 Inl err \<Rightarrow> (Inl err, w)
               | Inr up \<Rightarrow> (Inr (up, []), w)))
         else (Inr (('''', ''''), []), w)))"

fun configure_registries ::
  "'w job_env \<Rightarrow> Registry list \<Rightarrow> RegistryConfig gomap \<Rightarrow> 'w \<Rightarrow> RegistryConfig gomap result \<times> 'w" where
  "configure_registries env [] configured w = (Inr configured, w)"
| "configure_registries env (reg # regs) configured w =
     (case registry_auth env reg w of
        (Inl err, w1) \<Rightarrow> (Inl err, w1)
      | (Inr (up, others), w1) \<Rightarrow>
        configure_registries env regs
          (add_implicit (je_auths_rng env others)
             (map_put (reg_Server reg) (explicit_config reg up) configured)) w1)"

definition buildRegistryConfigs ::
  "'w job_env \<Rightarrow> Registry list \<Rightarrow> 'w \<Rightarrow> RegistryConfig list result \<times> 'w" where
  "buildRegistryConfigs env apiRegs w =
     (case configure_registries env apiRegs [] w of
        (Inl err, w1) \<Rightarrow> (Inl err, w1)
      | (Inr configured, w1) \<Rightarrow> (Inr (map snd (je_configs_rng env configured)), w1))"

subsection \<open>Build options\<close>

definition seconds :: "16 word \<Rightarrow> 64 word" where
  "seconds s = ucast s * 1000000000"

definition generateBuildOptions ::
  "'w job_env \<Rightarrow> ContainerImageBuild \<Rightarrow> 'w \<Rightarrow> BuildOptions result \<times> 'w" where
  "generateBuildOptions env cib w =
     (let spec = cib_Spec cib in
      case buildRegistryConfigs env (spec_Registries spec) w of
        (Inl err, w1) \<Rightarrow> (Inl (errors_Wrap err ''cannot build registry config''), w1)
      | (Inr registries, w1) \<Rightarrow>
        (Inr \<lparr>bo_ContextURL = spec_Context spec,
              bo_ContextTimeout = seconds (spec_ContextTimeoutSeconds spec),
              bo_ImageName = spec_ImageName spec, bo_ImageSizeLimit = spec_ImageSizeLimit spec,
              bo_Labels = spec_Labels spec, bo_BuildArgs = spec_BuildArgs spec,
              bo_DisableBuildCache = spec_DisableBuildCache spec,
              bo_DisableLayerCacheExport = spec_DisableLayerCacheExport spec,
              bo_Timeout = seconds (spec_TimeoutSeconds spec), bo_Registries = registries,
              bo_PushRegistries = spec_PushRegistries spec, bo_PluginData = spec_PluginData spec,
              bo_CacheFrom = []\<rparr>, w1))"

subsection \<open>Running\<close>

definition ignoredErrors :: "string list" where
  "ignoredErrors = [''runc did not terminate successfully'']"

text \<open>The message that is logged for a build error, if any.\<close>

definition logError :: "go_error \<Rightarrow> string option" where
  "logError err =
     (let err1 = (case errors_Unwrap err of Some e \<Rightarrow> e | None \<Rightarrow> err);
          cause = errors_Cause err1
      in if error_text cause \<in> set ignoredErrors then None
         else Some (''Error during image build and push: '' @ error_text cause))"

definition fail_with ::
  "'w job_env \<Rightarrow> build_job \<Rightarrow> ContainerImageBuild \<Rightarrow> go_error \<Rightarrow> 'w \<Rightarrow> go_error option \<times> 'w" where
  "fail_with env j cib err w =
     (case transitionToFailure env j cib err w of
        (Some iErr, w1) \<Rightarrow> (Some (errors_Wrap err (error_text iErr)), w1)
      | (None, w1) \<Rightarrow> (Some err, w1))"

definition build_stage ::
  "'w job_env \<Rightarrow> build_job \<Rightarrow> ContainerImageBuild \<Rightarrow> BuildOptions \<Rightarrow> 'w \<Rightarrow> go_error option \<times> 'w" where
  "build_stage env j cib opts w =
     (case je_BuildAndPush env opts w of
        (Inl err, w1) \<Rightarrow>
          fail_with env j cib err
            (case logError err of None \<Rightarrow> w1 | Some msg \<Rightarrow> je_Log env msg w1)
      | (Inr img, w1) \<Rightarrow> transitionToComplete env j cib img w1)"

definition Run :: "'w job_env \<Rightarrow> build_job \<Rightarrow> 'w \<Rightarrow> go_error option \<times> 'w" where
  "Run env j w =
     (case je_GetBuild env (bj_namespace j) (bj_name j) w of
        (Inl err, w1) \<Rightarrow> (Some (errors_Wrap err (''cannot find containerimagebuild '' @ bj_name j)), w1)
      | (Inr cib0, w1) \<Rightarrow>
        (case transitionToBuilding env j cib0 w1 of
           (Inl err, w2) \<Rightarrow> (Some err, w2)
         | (Inr cib, w2) \<Rightarrow>
           (case generateBuildOptions env cib w2 of
              (Inl err, w3) \<Rightarrow> fail_with env j cib (errors_Wrap err ''failed to generate build options'') w3
            | (Inr opts, w3) \<Rightarrow> build_stage env j cib opts w3)))"

subsection \<open>Set-up and clean-up\<close>

record job_config =
  cfg_ResourceName :: string
  cfg_ResourceNamespace :: string
  cfg_BrokerOpts :: "Options option"
  cfg_PreparerPluginsPath :: string
  cfg_EnableLayerCaching :: bool
  cfg_Debug :: bool

text \<open>What the set-up calls: the clients, the producer, the plugins and the builder, and how they are released.\<close>

record ('w, 'p, 'g, 'b) job_deps =
  jd_LoadConfig :: "go_error option"
  jd_KubeClient :: "go_error option"
  jd_ForgeClient :: "go_error option"
  jd_NewProducer :: "Options \<Rightarrow> 'w \<Rightarrow> 'p result \<times> 'w"
  jd_LoadPlugins :: "string \<Rightarrow> 'w \<Rightarrow> 'g list result \<times> 'w"
  jd_NewBuilder :: "'g list \<Rightarrow> bool \<Rightarrow> 'w \<Rightarrow> 'b result \<times> 'w"
  jd_Close :: "'p \<Rightarrow> 'w \<Rightarrow> 'w"
  jd_Kill :: "'g \<Rightarrow> 'w \<Rightarrow> 'w"

datatype ('p, 'g) cleanup_step = CloseProducer 'p | KillPlugins "'g list"

record ('p, 'g, 'b) new_job =
  nj_job :: build_job
  nj_producer :: "'p option"
  nj_plugins :: "'g list"
  nj_builder :: 'b
  nj_cleanupSteps :: "('p, 'g) cleanup_step list"

definition new_producer ::
  "('w, 'p, 'g, 'b) job_deps \<Rightarrow> Options option \<Rightarrow> 'w \<Rightarrow> 'p option result \<times> 'w" where
  "new_producer deps opts w =
     (case opts of
        None \<Rightarrow> (Inr None, w)
      | Some o1 \<Rightarrow>
        (case jd_NewProducer deps o1 w of
           (Inl err, w1) \<Rightarrow> (Inl err, w1) | (Inr p, w1) \<Rightarrow> (Inr (Some p), w1)))"

definition Job_New ::
  "('w, 'p, 'g, 'b) job_deps \<Rightarrow> job_config \<Rightarrow> 'w \<Rightarrow> ('p, 'g, 'b) new_job result \<times> 'w" where
  "Job_New deps cfg w =
     (case (jd_LoadConfig deps, jd_KubeClient deps, jd_ForgeClient deps) of
        (Some err, _, _) \<Rightarrow> (Inl (errors_Wrap err ''cannot load k8s config''), w)
      | (None, Some err, _) \<Rightarrow> (Inl (errors_Wrap err ''cannot create k8s api client''), w)
      | (None, None, Some err) \<Rightarrow> (Inl (errors_Wrap err ''cannot create forge api client''), w)
      | (None, None, None) \<Rightarrow>
        (case new_producer deps (cfg_BrokerOpts cfg) w of
           (Inl err, w1) \<Rightarrow> (Inl err, w1)
         | (Inr producer, w1) \<Rightarrow>
           (case jd_LoadPlugins deps (cfg_PreparerPluginsPath cfg) w1 of
              (Inl err, w2) \<Rightarrow>
                (Inl (errors_Wrap err (''unable to load preparer plugins path ''
                        @ fmt_q (cfg_PreparerPluginsPath cfg))), w2)
            | (Inr plugins, w2) \<Rightarrow>
              (case jd_NewBuilder deps plugins (cfg_EnableLayerCaching cfg) w2 of
                 (Inl err, w3) \<Rightarrow> (Inl (errors_Wrap err ''image builder initialization failed''), w3)
               | (Inr b, w3) \<Rightarrow>
                 (Inr \<lparr>nj_job = \<lparr>bj_name = cfg_ResourceName cfg, bj_namespace = cfg_ResourceNamespace cfg\<rparr>,
                       nj_producer = producer, nj_plugins = plugins, nj_builder = b,
                       nj_cleanupSteps =
                         (case producer of None \<Rightarrow> [] | Some p \<Rightarrow> [CloseProducer p]) @ [KillPlugins plugins]\<rparr>,
                  w3)))))"

fun run_cleanup_step :: "('w, 'p, 'g, 'b) job_deps \<Rightarrow> ('p, 'g) cleanup_step \<Rightarrow> 'w \<Rightarrow> 'w" where
  "run_cleanup_step deps (CloseProducer p) w = jd_Close deps p w"
| "run_cleanup_step deps (KillPlugins plugins) w = foldl (\<lambda>v g. jd_Kill deps g v) w plugins"

definition Cleanup :: "('w, 'p, 'g, 'b) job_deps \<Rightarrow> ('p, 'g, 'b) new_job \<Rightarrow> 'w \<Rightarrow> 'w" where
  "Cleanup deps job w = foldl (\<lambda>v step. run_cleanup_step deps step v) w (nj_cleanupSteps job)"

text \<open>A job that was set up is cleaned up completely: its producer, if it has one, and all its plugins.\<close>

lemma Cleanup_complete:
  assumes "Job_New deps cfg w = (Inr job, w1)"
  shows "Cleanup deps job w2 =
    foldl (\<lambda>v g. jd_Kill deps g v)
      (case nj_producer job of None \<Rightarrow> w2 | Some p \<Rightarrow> jd_Close deps p w2) (nj_plugins job)"
  using assms
  by (auto simp: Job_New_def Cleanup_def split: option.splits prod.splits sum.splits)

text \<open>A set-up that fails after the producer was made returns nothing that could close it.\<close>

lemma Job_New_leaks_producer:
  assumes "jd_LoadConfig deps = None" "jd_KubeClient deps = None" "jd_ForgeClient deps = None"
    and "cfg_BrokerOpts cfg = Some opts" and "jd_NewProducer deps opts w = (Inr p, w1)"
    and "jd_LoadPlugins deps (cfg_PreparerPluginsPath cfg) w1 = (Inl err, w2)"
  shows "\<exists>err'. Job_New deps cfg w = (Inl err', w2)"
  using assms by (simp add: Job_New_def new_producer_def)

subsection \<open>Build options: lemmas\<close>

text \<open>The timeouts of a specification are whole seconds that never overflow a duration.\<close>

theorem seconds_exact: "uint (seconds s) = uint s * 1000000000 \<and> 0 \<le> sint (seconds s)"
proof -
  have "uint s < 2 ^ 16" using uint_lt2p [of s] by simp
  then have small: "uint s * 1000000000 < 2 ^ 63" by simp
  have u: "uint (seconds s) = uint s * 1000000000"
    using small by (simp add: seconds_def uint_word_ariths unsigned_ucast_eq take_bit_eq_mod mod_mult_left_eq)
  have "sint (seconds s) = signed_take_bit 63 (uint (seconds s))"
    by (simp add: sint_uint)
  also have "\<dots> = uint s * 1000000000"
  proof -
    have "- (2 ^ 63) \<le> uint s * 1000000000"
      by (rule order_trans [of _ 0]) simp_all
    with small show ?thesis unfolding u by (intro signed_take_bit_int_eq_self)
  qed
  finally show ?thesis using u by simp
qed

subsection \<open>Registry configurations: lemmas\<close>

definition implicit_config :: "string \<Rightarrow> AuthConfig \<Rightarrow> RegistryConfig" where
  "implicit_config host ac = \<lparr>rc_Host = host, rc_NonSSL = False, rc_Username = ac_Username ac,
     rc_Password = ac_Password ac\<rparr>"

lemma map_of_add_implicit:
  "map_of (add_implicit auths m) h =
     (case map_of m h of Some c \<Rightarrow> Some c | None \<Rightarrow> map_option (implicit_config h) (map_of auths h))"
  by (induction auths m rule: add_implicit.induct)
    (auto simp: implicit_config_def split: option.splits)

lemma wf_add_implicit: "wf_map m \<Longrightarrow> wf_map (add_implicit auths m)"
  by (induction auths m rule: add_implicit.induct) auto

text \<open>The credentials of the entries, one after the other.\<close>

type_synonym auth_result = "Registry \<times> (string \<times> string) \<times> AuthConfigs"

fun auth_results :: "'w job_env \<Rightarrow> Registry list \<Rightarrow> 'w \<Rightarrow> auth_result list result \<times> 'w" where
  "auth_results env [] w = (Inr [], w)"
| "auth_results env (reg # regs) w =
     (case registry_auth env reg w of
        (Inl err, w1) \<Rightarrow> (Inl err, w1)
      | (Inr (up, others), w1) \<Rightarrow>
        (case auth_results env regs w1 of
           (Inl err, w2) \<Rightarrow> (Inl err, w2)
         | (Inr rs, w2) \<Rightarrow> (Inr ((reg, up, others) # rs), w2)))"

definition config_step ::
  "'w job_env \<Rightarrow> RegistryConfig gomap \<Rightarrow> auth_result \<Rightarrow> RegistryConfig gomap" where
  "config_step env m r =
     (case r of (reg, up, others) \<Rightarrow>
        add_implicit (je_auths_rng env others) (map_put (reg_Server reg) (explicit_config reg up) m))"

lemma configure_foldl:
  "configure_registries env regs m w =
     (case auth_results env regs w of
        (Inl err, w1) \<Rightarrow> (Inl err, w1)
      | (Inr rs, w1) \<Rightarrow> (Inr (foldl (config_step env) m rs), w1))"
  by (induction env regs m w rule: configure_registries.induct)
    (auto simp: config_step_def split: prod.splits sum.splits)

lemma registry_auth_wf: "registry_auth env reg w = (Inr (up, others), w1) \<Longrightarrow> wf_map others"
  by (auto simp: registry_auth_def getDockerAuthsFromSecret_def ExtractAuthConfigs_def Let_def
      split: option.splits if_splits prod.splits sum.splits)

lemma auth_results_wf:
  "auth_results env regs w = (Inr rs, w1) \<Longrightarrow> r \<in> set rs \<Longrightarrow> wf_map (snd (snd r))"
proof (induction regs arbitrary: w rs)
  case (Cons reg regs)
  from Cons.prems(1) obtain up others w2 rs' where auth: "registry_auth env reg w = (Inr (up, others), w2)"
    and rest: "auth_results env regs w2 = (Inr rs', w1)" and rs: "rs = (reg, up, others) # rs'"
    by (auto split: prod.splits sum.splits)
  from Cons.prems(2) rs Cons.IH [OF rest] registry_auth_wf [OF auth] show ?case by auto
qed simp

text \<open>
  What a host ends up with: the last entry that names it; failing that, the first secret that holds it.
\<close>

definition registry_spec :: "auth_result list \<Rightarrow> string \<Rightarrow> RegistryConfig option" where
  "registry_spec rs h =
     (case find (\<lambda>(reg, up, others). reg_Server reg = h) (rev rs) of
        Some (reg, up, others) \<Rightarrow> Some (explicit_config reg up)
      | None \<Rightarrow>
        (case find (\<lambda>(reg, up, others). map_of others h \<noteq> None) rs of
           Some (reg, up, others) \<Rightarrow> map_option (implicit_config h) (map_of others h)
         | None \<Rightarrow> None))"

lemma registry_spec_None:
  "registry_spec rs h = None \<Longrightarrow> find (\<lambda>(reg, up, others). map_of others h \<noteq> None) rs = None"
  by (auto simp: registry_spec_def split: option.splits prod.splits dest: find_holds)

lemma registry_spec_snoc:
  "registry_spec (rs @ [(reg, up, others)]) h =
     (if h = reg_Server reg then Some (explicit_config reg up)
      else case registry_spec rs h of Some c \<Rightarrow> Some c
           | None \<Rightarrow> map_option (implicit_config h) (map_of others h))"
proof (cases "h = reg_Server reg")
  case True
  then show ?thesis by (simp add: registry_spec_def)
next
  case False
  show ?thesis
  proof (cases "registry_spec rs h")
    case None
    have "find (\<lambda>(reg, up, others). reg_Server reg = h) (rev rs) = None"
      using None by (auto simp: registry_spec_def split: option.splits)
    with None registry_spec_None [OF None] False show ?thesis
      by (simp add: registry_spec_def find_append)
  next
    case (Some c)
    with False show ?thesis
      by (auto simp: registry_spec_def find_append split: option.splits)
  qed
qed

lemma foldl_config_step:
  assumes "range_order (je_auths_rng env)" and "\<forall>r \<in> set rs. wf_map (snd (snd r))"
  shows "map_of (foldl (config_step env) [] rs) h = registry_spec rs h"
  using assms(2)
proof (induction rs rule: rev_induct)
  case Nil
  show ?case by (simp add: registry_spec_def)
next
  case (snoc r rs)
  obtain reg up others where r: "r = (reg, up, others)" by (cases r)
  from assms(1) have "mset (je_auths_rng env others) = mset others" unfolding range_order_def by blast
  moreover from snoc.prems r have "wf_map others" by simp
  ultimately have rng: "map_of (je_auths_rng env others) = map_of others" by (intro map_of_perm)
  from snoc have "map_of (foldl (config_step env) [] rs) h = registry_spec rs h" by simp
  then show ?case
    unfolding r registry_spec_snoc foldl_append foldl.simps config_step_def [of env _ "(reg, up, others)"]
      prod.case map_of_add_implicit rng by (simp split: option.splits)
qed

lemma buildRegistryConfigs_entries:
  assumes "range_order (je_auths_rng env)" and "range_order (je_configs_rng env)"
    and "buildRegistryConfigs env regs w = (Inr cfgs, w')"
  shows "\<exists>rs. auth_results env regs w = (Inr rs, w') \<and> distinct (map rc_Host cfgs) \<and>
    (\<forall>c. c \<in> set cfgs \<longleftrightarrow> registry_spec rs (rc_Host c) = Some c)"
proof -
  from assms(3) obtain m where conf: "configure_registries env regs [] w = (Inr m, w')"
    and cfgs: "cfgs = map snd (je_configs_rng env m)"
    by (auto simp: buildRegistryConfigs_def split: prod.splits sum.splits)
  from conf obtain rs where rs: "auth_results env regs w = (Inr rs, w')"
    and m: "m = foldl (config_step env) [] rs"
    by (auto simp: configure_foldl split: prod.splits sum.splits)
  have map_m: "map_of m h = registry_spec rs h" for h
    unfolding m using auth_results_wf [OF rs] by (intro foldl_config_step [OF assms(1)]) blast
  have wf: "wf_map m"
    unfolding m by (induction rs rule: rev_induct)
      (auto simp: config_step_def intro!: wf_add_implicit split: prod.splits)
  have host: "rc_Host c = h" if "registry_spec rs h = Some c" for h c
    using that by (auto simp: registry_spec_def explicit_config_def implicit_config_def
        split: option.splits prod.splits dest: find_holds)
  have entries: "set (je_configs_rng env m) = set m" by (rule range_order_set [OF assms(2)])
  have in_m: "(h, c) \<in> set m \<longleftrightarrow> registry_spec rs h = Some c" for h c
    using wf by (simp flip: map_m add: wf_map_def)
  have hosts: "map rc_Host cfgs = map fst (je_configs_rng env m)"
    unfolding cfgs map_map comp_def using entries in_m host by (intro map_cong refl) (metis prod.collapse)
  have "distinct (map rc_Host cfgs)"
    unfolding hosts using wf_map_perm [OF wf] assms(2) by (simp add: range_order_def wf_map_def)
  moreover have "c \<in> set cfgs \<longleftrightarrow> registry_spec rs (rc_Host c) = Some c" for c
  proof -
    have "c \<in> set cfgs \<longleftrightarrow> (\<exists>h. (h, c) \<in> set m)" unfolding cfgs set_map entries by force
    then show ?thesis unfolding in_m using host by blast
  qed
  ultimately show ?thesis using rs by blast
qed

text \<open>C11. The configurations a build uses have one entry per host. A host that entries of the specification name gets the
  credentials of the last of them; any other host gets those of the first secret that holds it, over TLS. Neither depends on the
  order in which Go visits a map.
\<close>

theorem buildRegistryConfigs_spec:
  assumes "range_order (je_auths_rng env)" and "range_order (je_configs_rng env)"
    and "buildRegistryConfigs env regs w = (Inr cfgs, w')"
  shows "\<exists>rs. auth_results env regs w = (Inr rs, w') \<and> distinct (map rc_Host cfgs) \<and>
    (\<forall>c. c \<in> set cfgs \<longleftrightarrow> registry_spec rs (rc_Host c) = Some c)"
  using assms by (rule buildRegistryConfigs_entries)

subsection \<open>The trace of a run\<close>

text \<open>
  The same environment with a log: every status request, every message and every build, in order, with whether it
  succeeded.
\<close>

datatype job_event =
    EvStatus ContainerImageBuild bool
  | EvMessage StatusUpdate bool
  | EvBuild BuildOptions bool

definition is_ok :: "'a result \<Rightarrow> bool" where
  "is_ok r = (case r of Inl _ \<Rightarrow> False | Inr _ \<Rightarrow> True)"

definition logged :: "'w job_env \<Rightarrow> ('w \<times> job_event list) job_env" where
  "logged env =
     \<lparr>je_GetBuild = \<lambda>ns name (w, l). (case je_GetBuild env ns name w of (r, w1) \<Rightarrow> (r, (w1, l))),
      je_UpdateStatus = \<lambda>ns cib (w, l). (case je_UpdateStatus env ns cib w of
         (r, w1) \<Rightarrow> (r, (w1, l @ [EvStatus cib (is_ok r)]))),
      je_Push = map_option (\<lambda>push u (w, l). (case push u w of
         (r, w1) \<Rightarrow> (r, (w1, l @ [EvMessage u (r = None)])))) (je_Push env),
      je_Now = \<lambda>(w, l). je_Now env w,
      je_GetSecret = \<lambda>ns name (w, l). (case je_GetSecret env ns name w of (r, w1) \<Rightarrow> (r, (w1, l))),
      je_NotExist = \<lambda>p (w, l). je_NotExist env p w,
      je_ReadFile = \<lambda>p (w, l). je_ReadFile env p w,
      je_LoadAuths = je_LoadAuths env,
      je_BuildAndPush = \<lambda>opts (w, l). (case je_BuildAndPush env opts w of
         (r, w1) \<Rightarrow> (r, (w1, l @ [EvBuild opts (is_ok r)]))),
      je_auths_rng = je_auths_rng env, je_configs_rng = je_configs_rng env,
      je_Log = \<lambda>msg (w, l). (je_Log env msg w, l)\<rparr>"

lemma is_ok_simps [simp]: "is_ok (Inl e) = False" "is_ok (Inr x) = True"
  by (simp_all add: is_ok_def)

text \<open>The status requests and builds of a log.\<close>

datatype phase = PStatus BuildState bool | PBuild bool

fun phases :: "job_event list \<Rightarrow> phase list" where
  "phases [] = []"
| "phases (EvStatus c ok # l) = PStatus (cib_State c) ok # phases l"
| "phases (EvMessage u ok # l) = phases l"
| "phases (EvBuild opts ok # l) = PBuild ok # phases l"

lemma phases_append [simp]: "phases (l @ l') = phases l @ phases l'"
  by (induction l rule: phases.induct) auto

lemma updateStatus_logged:
  assumes "updateStatus (logged env) j cib (w, l) = (r, (w', l'))"
  shows "\<exists>ok. phases l' = phases l @ [PStatus (cib_State cib) ok] \<and> (is_ok r \<longrightarrow> ok)"
  using assms
  by (auto simp: updateStatus_def logged_def split: prod.splits sum.splits option.splits)

lemma registry_auth_logged:
  "registry_auth (logged env) reg (w, l) = (r, (w', l')) \<Longrightarrow> l' = l"
  by (auto simp: registry_auth_def getDockerAuthsFromSecret_def logged_def Let_def
      split: option.splits if_splits prod.splits sum.splits)

lemma configure_registries_logged:
  "configure_registries (logged env) regs m (w, l) = (r, (w', l')) \<Longrightarrow> l' = l"
proof (induction regs arbitrary: m w)
  case (Cons reg regs)
  obtain r1 w1 l1 where auth: "registry_auth (logged env) reg (w, l) = (r1, (w1, l1))"
    by (metis prod.collapse)
  then have "l1 = l" by (rule registry_auth_logged)
  with Cons auth show ?case
    by (cases r1) (auto split: prod.splits)
qed simp

lemma generateBuildOptions_logged:
  "generateBuildOptions (logged env) cib (w, l) = (r, (w', l')) \<Longrightarrow> l' = l"
  by (auto simp: generateBuildOptions_def buildRegistryConfigs_def Let_def
      split: prod.splits sum.splits dest!: configure_registries_logged)

lemma fail_with_logged:
  assumes "fail_with (logged env) j cib err (w, l) = (r, (w', l'))"
  shows "\<exists>ok. phases l' = phases l @ [PStatus ''Failed'' ok] \<and> r \<noteq> None"
proof -
  obtain r1 w1 l1 where up: "updateStatus (logged env) j (failed (je_Now (logged env) (w, l)) err cib) (w, l) = (r1, (w1, l1))"
    by (metis prod.collapse)
  from updateStatus_logged [OF up] obtain ok where "phases l1 = phases l @ [PStatus ''Failed'' ok]"
    by (auto simp: failed_def)
  moreover from assms up have "l' = l1 \<and> r \<noteq> None"
    by (auto simp: fail_with_def transitionToFailure_def split: prod.splits sum.splits option.splits)
  ultimately show ?thesis by blast
qed

lemma complete_logged:
  assumes "transitionToComplete (logged env) j cib img (w, l) = (r, (w', l'))"
  shows "\<exists>ok. phases l' = phases l @ [PStatus ''Completed'' ok] \<and> (r = None \<longrightarrow> ok)"
proof -
  obtain r1 w1 l1 where up: "updateStatus (logged env) j (completed (je_Now (logged env) (w, l)) img cib) (w, l) = (r1, (w1, l1))"
    by (metis prod.collapse)
  from updateStatus_logged [OF up] obtain ok where "phases l1 = phases l @ [PStatus ''Completed'' ok]" "is_ok r1 \<longrightarrow> ok"
    by (auto simp: completed_def)
  moreover from assms up have "l' = l1" "r = None \<longrightarrow> is_ok r1"
    by (auto simp: transitionToComplete_def split: prod.splits sum.splits)
  ultimately show ?thesis by blast
qed

lemma build_stage_logged:
  assumes "build_stage (logged env) j cib opts (w, l) = (r, (w', l'))"
  shows "(\<exists>ok. phases l' = phases l @ [PBuild False, PStatus ''Failed'' ok] \<and> r \<noteq> None) \<or>
    (\<exists>ok. phases l' = phases l @ [PBuild True, PStatus ''Completed'' ok] \<and> (r = None \<longrightarrow> ok))"
proof -
  obtain r1 w1 where build: "je_BuildAndPush env opts w = (r1, w1)" by fastforce
  then have logged: "je_BuildAndPush (logged env) opts (w, l) = (r1, (w1, l @ [EvBuild opts (is_ok r1)]))"
    by (simp add: logged_def)
  show ?thesis
  proof (cases r1)
    case (Inl err)
    obtain w2 where "(case logError err of None \<Rightarrow> (w1, l @ [EvBuild opts False])
        | Some msg \<Rightarrow> je_Log (logged env) msg (w1, l @ [EvBuild opts False])) = (w2, l @ [EvBuild opts False])"
      by (cases "logError err") (auto simp: logged_def)
    with assms logged Inl have "fail_with (logged env) j cib err (w2, l @ [EvBuild opts False]) = (r, (w', l'))"
      by (simp add: build_stage_def)
    from fail_with_logged [OF this] show ?thesis by auto
  next
    case (Inr img)
    with assms logged have "transitionToComplete (logged env) j cib img (w1, l @ [EvBuild opts True]) = (r, (w', l'))"
      by (simp add: build_stage_def)
    from complete_logged [OF this] show ?thesis by auto
  qed
qed

lemma Run_cases:
  assumes "Run env j w = (r, w')"
  obtains (missing) err where "je_GetBuild env (bj_namespace j) (bj_name j) w = (Inl err, w')" "r \<noteq> None"
  | (stuck) cib0 w1 err where "je_GetBuild env (bj_namespace j) (bj_name j) w = (Inr cib0, w1)"
      "transitionToBuilding env j cib0 w1 = (Inl err, w')" "r \<noteq> None"
  | (options) cib0 w1 cib w2 err w3 where "je_GetBuild env (bj_namespace j) (bj_name j) w = (Inr cib0, w1)"
      "transitionToBuilding env j cib0 w1 = (Inr cib, w2)" "generateBuildOptions env cib w2 = (Inl err, w3)"
      "fail_with env j cib (errors_Wrap err ''failed to generate build options'') w3 = (r, w')"
  | (built) cib0 w1 cib w2 opts w3 where "je_GetBuild env (bj_namespace j) (bj_name j) w = (Inr cib0, w1)"
      "transitionToBuilding env j cib0 w1 = (Inr cib, w2)" "generateBuildOptions env cib w2 = (Inr opts, w3)"
      "build_stage env j cib opts w3 = (r, w')"
  using assms unfolding Run_def by (auto split: prod.splits sum.splits)

lemma building_logged:
  assumes "transitionToBuilding (logged env) j cib (w, l) = (r, (w', l'))"
  shows "\<exists>ok. phases l' = phases l @ [PStatus ''Building'' ok] \<and> (is_ok r \<longrightarrow> ok)"
  using updateStatus_logged [OF assms [unfolded transitionToBuilding_def]] by (simp add: building_def)

lemma get_logged:
  "je_GetBuild (logged env) ns name (w, l) = (r, (w', l')) \<Longrightarrow> l' = l"
  by (auto simp: logged_def split: prod.splits)

text \<open>C4. A run requests at most two state changes and at most one build, in this order: building; then, only once that is
  accepted, a build unless the options cannot be formed; then failed or completed, according to the build. It reports success
  only when the build succeeded and the completed state was accepted.\<close>

theorem Run_phases:
  assumes "Run (logged env) j (w, []) = (r, (w', l))"
  shows "(phases l = [] \<and> r \<noteq> None) \<or>
    (\<exists>ok. phases l = [PStatus ''Building'' ok] \<and> r \<noteq> None) \<or>
    (\<exists>ok. phases l = [PStatus ''Building'' True, PStatus ''Failed'' ok] \<and> r \<noteq> None) \<or>
    (\<exists>ok. phases l = [PStatus ''Building'' True, PBuild False, PStatus ''Failed'' ok] \<and> r \<noteq> None) \<or>
    (\<exists>ok. phases l = [PStatus ''Building'' True, PBuild True, PStatus ''Completed'' ok] \<and> (r = None \<longrightarrow> ok))"
  using assms
proof (cases rule: Run_cases)
  case (missing err)
  from get_logged [OF missing(1)] have "l = []" .
  with missing(2) show ?thesis by simp
next
  case (stuck cib0 w1 err)
  obtain v1 where w1: "w1 = (v1, [])" using stuck(1) by (cases w1) (blast dest: get_logged)
  from building_logged [OF stuck(2) [unfolded w1]] have "\<exists>ok. phases l = [PStatus ''Building'' ok]"
    unfolding phases.simps append_Nil by blast
  with stuck(3) show ?thesis by blast
next
  case (options cib0 w1 cib w2 err w3)
  obtain v1 where w1: "w1 = (v1, [])" using options(1) by (cases w1) (blast dest: get_logged)
  obtain v2 l2 where w2: "w2 = (v2, l2)" by (cases w2)
  obtain v3 where w3: "w3 = (v3, l2)" using options(3) w2 by (cases w3) (blast dest: generateBuildOptions_logged)
  have l2: "phases l2 = [PStatus ''Building'' True]"
    using building_logged [OF options(2) [unfolded w1 w2]] by auto
  from fail_with_logged [OF options(4) [unfolded w3], unfolded l2 append_Cons append_Nil]
  show ?thesis by blast
next
  case (built cib0 w1 cib w2 opts w3)
  obtain v1 where w1: "w1 = (v1, [])" using built(1) by (cases w1) (blast dest: get_logged)
  obtain v2 l2 where w2: "w2 = (v2, l2)" by (cases w2)
  obtain v3 where w3: "w3 = (v3, l2)" using built(3) w2 by (cases w3) (blast dest: generateBuildOptions_logged)
  have l2: "phases l2 = [PStatus ''Building'' True]"
    using building_logged [OF built(2) [unfolded w1 w2]] by auto
  from build_stage_logged [OF built(4) [unfolded w3], unfolded l2 append_Cons append_Nil]
  show ?thesis by blast
qed

fun messages :: "job_event list \<Rightarrow> StatusUpdate list" where
  "messages [] = []"
| "messages (EvMessage u ok # l) = u # messages l"
| "messages (EvStatus c ok # l) = messages l"
| "messages (EvBuild opts ok # l) = messages l"

lemma messages_append [simp]: "messages (l @ l') = messages l @ messages l'"
  by (induction l rule: messages.induct) auto

text \<open>A server that answers in JSON: what it returns has lost the field that JSON does not carry.\<close>

definition json_server :: "'w job_env \<Rightarrow> bool" where
  "json_server env \<longleftrightarrow> (\<forall>ns cib w c w'. je_UpdateStatus env ns cib w = (Inr c, w') \<longrightarrow> json_view c = c)"

definition bare :: "StatusUpdate \<Rightarrow> bool" where
  "bare u \<longleftrightarrow> su_PreviousState u = '''' \<and> su_ImageSize u = 0"

lemma status_update_bare: "json_view c = c \<Longrightarrow> bare (status_update c)"
  unfolding bare_def status_update_def by (metis StatusUpdate.select_convs(4,8) json_view_fields(3))

lemma updateStatus_bare:
  assumes "updateStatus (logged env) j cib (w, l) = (r, (w', l'))" and "json_server env"
    and "\<forall>u \<in> set (messages l). bare u"
  shows "\<forall>u \<in> set (messages l'). bare u"
proof (cases "je_UpdateStatus env (bj_namespace j) cib w")
  case (Pair r1 w1)
  show ?thesis
  proof (cases r1)
    case (Inl e)
    with Pair assms show ?thesis by (auto simp: updateStatus_def logged_def)
  next
    case (Inr c)
    with Pair assms(2) have "bare (status_update c)"
      unfolding json_server_def by (blast intro: status_update_bare)
    with Pair Inr assms(1,3) show ?thesis
      by (auto simp: updateStatus_def logged_def split: option.splits prod.splits)
  qed
qed

lemma fail_with_bare:
  assumes "fail_with (logged env) j cib err (w, l) = (r, (w', l'))" and "json_server env"
    and "\<forall>u \<in> set (messages l). bare u"
  shows "\<forall>u \<in> set (messages l'). bare u"
proof -
  obtain r1 w1 l1 where up: "updateStatus (logged env) j (failed (je_Now (logged env) (w, l)) err cib) (w, l) = (r1, (w1, l1))"
    by (metis prod.collapse)
  from assms(1) up have "l' = l1"
    by (auto simp: fail_with_def transitionToFailure_def split: prod.splits sum.splits option.splits)
  with updateStatus_bare [OF up assms(2,3)] show ?thesis by simp
qed

lemma build_stage_bare:
  assumes "build_stage (logged env) j cib opts (w, l) = (r, (w', l'))" and "json_server env"
    and "\<forall>u \<in> set (messages l). bare u"
  shows "\<forall>u \<in> set (messages l'). bare u"
proof -
  obtain r1 w1 where build: "je_BuildAndPush env opts w = (r1, w1)" by fastforce
  then have logged: "je_BuildAndPush (logged env) opts (w, l) = (r1, (w1, l @ [EvBuild opts (is_ok r1)]))"
    by (simp add: logged_def)
  show ?thesis
  proof (cases r1)
    case (Inl err)
    obtain w2 where "(case logError err of None \<Rightarrow> (w1, l @ [EvBuild opts False])
        | Some msg \<Rightarrow> je_Log (logged env) msg (w1, l @ [EvBuild opts False])) = (w2, l @ [EvBuild opts False])"
      by (cases "logError err") (auto simp: logged_def)
    with assms logged Inl have "fail_with (logged env) j cib err (w2, l @ [EvBuild opts False]) = (r, (w', l'))"
      by (simp add: build_stage_def)
    from fail_with_bare [OF this assms(2)] assms(3) show ?thesis by simp
  next
    case (Inr img)
    obtain r2 w2 l2 where up: "updateStatus (logged env) j
        (completed (je_Now (logged env) (w1, l @ [EvBuild opts True])) img cib) (w1, l @ [EvBuild opts True]) = (r2, (w2, l2))"
      by (metis prod.collapse)
    from assms(1) logged Inr up have "l' = l2"
      by (auto simp: build_stage_def transitionToComplete_def split: sum.splits)
    with updateStatus_bare [OF up assms(2)] assms(3) show ?thesis by simp
  qed
qed

text \<open>The messages a run publishes never carry a previous state or an image size: the message is made from the
  server's JSON answer, which has no previous state, and the size is never set.\<close>

theorem Run_messages_bare:
  assumes "Run (logged env) j (w, []) = (r, (w', l))" and "json_server env"
  shows "\<forall>u \<in> set (messages l). su_PreviousState u = '''' \<and> su_ImageSize u = 0"
proof -
  have "\<forall>u \<in> set (messages l). bare u"
    using assms(1)
  proof (cases rule: Run_cases)
    case (missing err)
    from get_logged [OF missing(1)] show ?thesis by simp
  next
    case (stuck cib0 w1 err)
    obtain v1 where w1: "w1 = (v1, [])" using stuck(1) by (cases w1) (blast dest: get_logged)
    show ?thesis
      by (rule updateStatus_bare [OF stuck(2) [unfolded w1 transitionToBuilding_def] assms(2)]) simp
  next
    case (options cib0 w1 cib w2 err w3)
    obtain v1 where w1: "w1 = (v1, [])" using options(1) by (cases w1) (blast dest: get_logged)
    obtain v2 l2 where w2: "w2 = (v2, l2)" by (cases w2)
    obtain v3 where w3: "w3 = (v3, l2)" using options(3) w2 by (cases w3) (blast dest: generateBuildOptions_logged)
    have "\<forall>u \<in> set (messages l2). bare u"
      by (rule updateStatus_bare [OF options(2) [unfolded w1 w2 transitionToBuilding_def] assms(2)]) simp
    with fail_with_bare [OF options(4) [unfolded w3] assms(2)] show ?thesis by blast
  next
    case (built cib0 w1 cib w2 opts w3)
    obtain v1 where w1: "w1 = (v1, [])" using built(1) by (cases w1) (blast dest: get_logged)
    obtain v2 l2 where w2: "w2 = (v2, l2)" by (cases w2)
    obtain v3 where w3: "w3 = (v3, l2)" using built(3) w2 by (cases w3) (blast dest: generateBuildOptions_logged)
    have "\<forall>u \<in> set (messages l2). bare u"
      by (rule updateStatus_bare [OF built(2) [unfolded w1 w2 transitionToBuilding_def] assms(2)]) simp
    with build_stage_bare [OF built(4) [unfolded w3] assms(2)] show ?thesis by blast
  qed
  then show ?thesis unfolding bare_def .
qed

text \<open>C32. If the first message cannot be published, the run stops with the building state accepted and requests no
  further state.\<close>

theorem Run_stuck_building:
  assumes "je_GetBuild env (bj_namespace j) (bj_name j) w = (Inr cib0, w1)"
    and "je_UpdateStatus env (bj_namespace j) (building (je_Now env w1) cib0) w1 = (Inr cib, w2)"
    and "je_Push env = Some push" and "push (status_update cib) w2 = (Some err, w3)"
  shows "Run (logged env) j (w, []) =
    (Some (errors_Wrap err ''unable to publish message''),
     (w3, [EvStatus (building (je_Now env w1) cib0) True, EvMessage (status_update cib) False]))"
  using assms by (simp add: Run_def transitionToBuilding_def updateStatus_def logged_def)

subsection \<open>Witnesses\<close>

text \<open>A build whose registry credentials are in a secret that holds a second host; the build succeeds and the push may fail.\<close>

definition job_build :: ContainerImageBuild where
  "job_build = zero_cib\<lparr>cib_Meta := zero_meta\<lparr>om_Name := ''b'', om_Namespace := ''ns''\<rparr>,
     cib_Spec := zero_spec\<lparr>spec_Registries := [\<lparr>reg_Server = ''r1'', reg_NonSSL = False,
       reg_BasicAuth = zero_auth\<lparr>ba_SecretName := ''s'', ba_SecretNamespace := ''ns''\<rparr>,
       reg_DynamicCloudCredentials = False\<rparr>]\<rparr>\<rparr>"

definition job_sample :: "go_error option \<Rightarrow> unit job_env" where
  "job_sample push_error =
     \<lparr>je_GetBuild = \<lambda>ns name w. (Inr job_build, w),
      je_UpdateStatus = \<lambda>ns cib w. (Inr (json_view cib), w),
      je_Push = Some (\<lambda>u w. (push_error, w)), je_Now = \<lambda>w. 5,
      je_GetSecret = \<lambda>ns name w. (Inr \<lparr>sec_Meta = zero_meta, sec_Type = ''kubernetes.io/dockerconfigjson'',
        sec_Data = [(''.dockerconfigjson'', ''data'')]\<rparr>, w),
      je_NotExist = \<lambda>p w. None, je_ReadFile = \<lambda>p w. Inr '''',
      je_LoadAuths = \<lambda>d. Inr [(''r1'', zero_ac\<lparr>ac_Username := ''u1'', ac_Password := ''p1''\<rparr>),
        (''r2'', zero_ac\<lparr>ac_Username := ''u2'', ac_Password := ''p2''\<rparr>)],
      je_BuildAndPush = \<lambda>opts w. (Inr \<lparr>img_URLs = [''r1/b''], img_Size = 7\<rparr>, w),
      je_auths_rng = rev, je_configs_rng = rev, je_Log = \<lambda>m w. w\<rparr>"

definition job_ref :: build_job where
  "job_ref = \<lparr>bj_name = ''b'', bj_namespace = ''ns''\<rparr>"

theorem buildRegistryConfigs_spec_witness:
  "map rc_Host (projr (fst (buildRegistryConfigs (job_sample None) (spec_Registries (cib_Spec job_build)) ()))) =
     [''r2'', ''r1''] \<and>
   distinct (map rc_Host (projr (fst (buildRegistryConfigs (job_sample None) (spec_Registries (cib_Spec job_build)) ()))))"
proof -
  have run: "buildRegistryConfigs (job_sample None) (spec_Registries (cib_Spec job_build)) () =
    (Inr [\<lparr>rc_Host = ''r2'', rc_NonSSL = False, rc_Username = ''u2'', rc_Password = ''p2''\<rparr>,
          \<lparr>rc_Host = ''r1'', rc_NonSSL = False, rc_Username = ''u1'', rc_Password = ''p1''\<rparr>], ())"
    by code_simp
  have "range_order (je_auths_rng (job_sample None))" "range_order (je_configs_rng (job_sample None))"
    by (simp_all add: range_order_def job_sample_def)
  from buildRegistryConfigs_spec [OF this run] run show ?thesis by auto
qed

definition job_log :: "job_event list" where
  "job_log = snd (snd (Run (logged (job_sample None)) job_ref ((), [])))"

lemma job_run: "Run (logged (job_sample None)) job_ref ((), []) = (None, ((), job_log))"
  by code_simp

theorem Run_phases_witness:
  "phases job_log = [PStatus ''Building'' True, PBuild True, PStatus ''Completed'' True]"
  using Run_phases [OF job_run] by auto

theorem Run_messages_bare_witness:
  "map su_CurrentState (messages job_log) = [''Building'', ''Completed''] \<and>
   su_PreviousState ` set (messages job_log) \<subseteq> {''''}"
proof
  show "map su_CurrentState (messages job_log) = [''Building'', ''Completed'']" by code_simp
  have "json_server (job_sample None)" by (simp add: json_server_def job_sample_def)
  from Run_messages_bare [OF job_run this] show "su_PreviousState ` set (messages job_log) \<subseteq> {''''}"
    by blast
qed

theorem Run_stuck_building_witness:
  "phases (snd (snd (Run (logged (job_sample (Some (ErrText ''down'')))) job_ref ((), [])))) =
   [PStatus ''Building'' True]"
  using Run_stuck_building [of "job_sample (Some (ErrText ''down''))" job_ref "()" job_build "()"
      "json_view (building 5 job_build)" "()" "\<lambda>u w. (Some (ErrText ''down''), w)" "ErrText ''down''" "()"]
  by (simp add: job_sample_def building_def)

end
