(* ===== verification/Forge_Clientset.thy ===== *)
theory Forge_Clientset
  imports Forge_Config
begin

section \<open>The generated client set and the definition of the resource\<close>

text \<open>
  \<^verbatim>\<open>internal/clientset\<close>: the typed client of the build resource as the requests it sends to the API server, and the set-up of the
  client; \<^verbatim>\<open>internal/crd\<close> and \<^verbatim>\<open>internal/kubernetes\<close>: installing and removing the custom resource definition. The REST
  client, its configuration loader and the API of definitions are arguments.
\<close>

subsection \<open>Requests\<close>

datatype rest_body = NoBody | BuildBody ContainerImageBuild | DeleteOptionsBody | PatchBody string string

record rest_request =
  rq_verb :: string
  rq_namespace :: string
  rq_resource :: string
  rq_name :: string
  rq_subresource :: string
  rq_watch :: bool
  rq_timeout :: "64 word"
  rq_body :: rest_body

definition builds_request :: "string \<Rightarrow> string \<Rightarrow> rest_request" where
  "builds_request verb ns =
     \<lparr>rq_verb = verb, rq_namespace = ns, rq_resource = ''containerimagebuilds'', rq_name = '''', rq_subresource = '''',
      rq_watch = False, rq_timeout = 0, rq_body = NoBody\<rparr>"

text \<open>The options of a list give a timeout in seconds, or none.\<close>

definition list_timeout :: "64 word option \<Rightarrow> 64 word" where
  "list_timeout TimeoutSeconds = (case TimeoutSeconds of None \<Rightarrow> 0 | Some s \<Rightarrow> s * 1000000000)"

definition client_Get :: "(rest_request \<Rightarrow> 'w \<Rightarrow> 'r \<times> 'w) \<Rightarrow> string \<Rightarrow> string \<Rightarrow> 'w \<Rightarrow> 'r \<times> 'w" where
  "client_Get rest ns name = rest ((builds_request ''GET'' ns)\<lparr>rq_name := name\<rparr>)"

definition client_List :: "(rest_request \<Rightarrow> 'w \<Rightarrow> 'r \<times> 'w) \<Rightarrow> string \<Rightarrow> 64 word option \<Rightarrow> 'w \<Rightarrow> 'r \<times> 'w" where
  "client_List rest ns timeoutSeconds = rest ((builds_request ''GET'' ns)\<lparr>rq_timeout := list_timeout timeoutSeconds\<rparr>)"

definition client_Watch :: "(rest_request \<Rightarrow> 'w \<Rightarrow> 'r \<times> 'w) \<Rightarrow> string \<Rightarrow> 64 word option \<Rightarrow> 'w \<Rightarrow> 'r \<times> 'w" where
  "client_Watch rest ns timeoutSeconds =
     rest ((builds_request ''GET'' ns)\<lparr>rq_watch := True, rq_timeout := list_timeout timeoutSeconds\<rparr>)"

definition client_Create :: "(rest_request \<Rightarrow> 'w \<Rightarrow> 'r \<times> 'w) \<Rightarrow> string \<Rightarrow> ContainerImageBuild \<Rightarrow> 'w \<Rightarrow> 'r \<times> 'w" where
  "client_Create rest ns cib = rest ((builds_request ''POST'' ns)\<lparr>rq_body := BuildBody cib\<rparr>)"

definition client_Update :: "(rest_request \<Rightarrow> 'w \<Rightarrow> 'r \<times> 'w) \<Rightarrow> string \<Rightarrow> ContainerImageBuild \<Rightarrow> 'w \<Rightarrow> 'r \<times> 'w" where
  "client_Update rest ns cib = rest ((builds_request ''PUT'' ns)\<lparr>rq_name := cib_Name cib, rq_body := BuildBody cib\<rparr>)"

definition client_UpdateStatus :: "(rest_request \<Rightarrow> 'w \<Rightarrow> 'r \<times> 'w) \<Rightarrow> string \<Rightarrow> ContainerImageBuild \<Rightarrow> 'w \<Rightarrow> 'r \<times> 'w" where
  "client_UpdateStatus rest ns cib =
     rest ((builds_request ''PUT'' ns)\<lparr>rq_name := cib_Name cib, rq_subresource := ''status'', rq_body := BuildBody cib\<rparr>)"

definition client_Delete :: "(rest_request \<Rightarrow> 'w \<Rightarrow> 'r \<times> 'w) \<Rightarrow> string \<Rightarrow> string \<Rightarrow> 'w \<Rightarrow> 'r \<times> 'w" where
  "client_Delete rest ns name = rest ((builds_request ''DELETE'' ns)\<lparr>rq_name := name, rq_body := DeleteOptionsBody\<rparr>)"

definition client_DeleteCollection :: "(rest_request \<Rightarrow> 'w \<Rightarrow> 'r \<times> 'w) \<Rightarrow> string \<Rightarrow> 64 word option \<Rightarrow> 'w \<Rightarrow> 'r \<times> 'w" where
  "client_DeleteCollection rest ns timeoutSeconds =
     rest ((builds_request ''DELETE'' ns)\<lparr>rq_timeout := list_timeout timeoutSeconds, rq_body := DeleteOptionsBody\<rparr>)"

definition client_Patch ::
  "(rest_request \<Rightarrow> 'w \<Rightarrow> 'r \<times> 'w) \<Rightarrow> string \<Rightarrow> string \<Rightarrow> string \<Rightarrow> string \<Rightarrow> string list \<Rightarrow> 'w \<Rightarrow> 'r \<times> 'w" where
  "client_Patch rest ns name pt data subresources =
     rest ((builds_request ''PATCH'' ns)\<lparr>rq_name := name, rq_subresource := filepath_Join subresources, rq_body := PatchBody pt data\<rparr>)"

text \<open>The path of a request, as client-go forms it below the path of the group and version.\<close>

definition request_path :: "rest_request \<Rightarrow> string" where
  "request_path rq =
     filepath_Join ([''/apis/forge.dominodatalab.com/v1alpha1'']
       @ (if rq_namespace rq = '''' then [] else [''namespaces'', rq_namespace rq])
       @ [rq_resource rq, rq_name rq, rq_subresource rq])"

subsection \<open>Set-up\<close>

record rest_config =
  cf_QPS :: int
  cf_Burst :: int
  cf_RateLimiter :: bool
  cf_UserAgent :: string
  cf_Group :: string
  cf_Version :: string
  cf_APIPath :: string

definition setConfigDefaults :: "string \<Rightarrow> rest_config \<Rightarrow> rest_config" where
  "setConfigDefaults defaultUserAgent c =
     c\<lparr>cf_Group := ''forge.dominodatalab.com'', cf_Version := ''v1alpha1'', cf_APIPath := ''/apis'',
       cf_UserAgent := (if cf_UserAgent c = '''' then defaultUserAgent else cf_UserAgent c)\<rparr>"

definition forge_NewForConfig :: "string \<Rightarrow> (rest_config \<Rightarrow> 'c result) \<Rightarrow> rest_config \<Rightarrow> 'c result" where
  "forge_NewForConfig defaultUserAgent RESTClientFor c = RESTClientFor (setConfigDefaults defaultUserAgent c)"

definition clientset_NewForConfig ::
  "string \<Rightarrow> (rest_config \<Rightarrow> 'c result) \<Rightarrow> (rest_config \<Rightarrow> 'd result) \<Rightarrow> rest_config \<Rightarrow> ('c \<times> 'd) result" where
  "clientset_NewForConfig defaultUserAgent RESTClientFor discovery c =
     (if \<not> cf_RateLimiter c \<and> 0 < cf_QPS c \<and> cf_Burst c \<le> 0
      then Inl (ErrText ''burst is required to be greater than 0 when RateLimiter is not set and QPS is set to greater than 0'')
      else
       (let cfg = (if \<not> cf_RateLimiter c \<and> 0 < cf_QPS c then c\<lparr>cf_RateLimiter := True\<rparr> else c) in
        case forge_NewForConfig defaultUserAgent RESTClientFor cfg of
          Inl err \<Rightarrow> Inl err
        | Inr forge \<Rightarrow> (case discovery cfg of Inl err \<Rightarrow> Inl err | Inr d \<Rightarrow> Inr (forge, d))))"

definition LoadKubernetesConfig :: "'c result \<Rightarrow> 'c result \<Rightarrow> 'c result" where
  "LoadKubernetesConfig ClientConfig InClusterConfig =
     (case ClientConfig of Inr cfg \<Rightarrow> Inr cfg | Inl _ \<Rightarrow> InClusterConfig)"

subsection \<open>The custom resource definition\<close>

record crd_object =
  crd_Name :: string
  crd_ResourceVersion :: string
  crd_Spec :: string

record 'w crd_api =
  ca_Get :: "string \<Rightarrow> 'w \<Rightarrow> crd_object result \<times> 'w"
  ca_Create :: "crd_object \<Rightarrow> 'w \<Rightarrow> go_error option \<times> 'w"
  ca_Update :: "crd_object \<Rightarrow> 'w \<Rightarrow> go_error option \<times> 'w"
  ca_Delete :: "string \<Rightarrow> 'w \<Rightarrow> go_error option \<times> 'w"

definition loadCRD ::
  "string result \<Rightarrow> (string \<Rightarrow> string result) \<Rightarrow> (string \<Rightarrow> crd_object result) \<Rightarrow> crd_object result" where
  "loadCRD file YAMLToJSON Unmarshal =
     (case file of
        Inl err \<Rightarrow> Inl err
      | Inr yBytes \<Rightarrow> (case YAMLToJSON yBytes of Inl err \<Rightarrow> Inl err | Inr js \<Rightarrow> Unmarshal js))"

definition createOrUpdateCRD :: "'w crd_api \<Rightarrow> crd_object result \<Rightarrow> 'w \<Rightarrow> go_error option \<times> 'w" where
  "createOrUpdateCRD api loaded w =
     (case loaded of
        Inl err \<Rightarrow> (Some err, w)
      | Inr crd \<Rightarrow>
        (case ca_Get api (crd_Name crd) w of
           (Inl err, w1) \<Rightarrow> (if is_not_found err then ca_Create api crd w1 else (Some err, w1))
         | (Inr existing, w1) \<Rightarrow>
             ca_Update api (crd\<lparr>crd_ResourceVersion := crd_ResourceVersion existing\<rparr>) w1))"

definition deleteCRD :: "'w crd_api \<Rightarrow> crd_object result \<Rightarrow> 'w \<Rightarrow> go_error option \<times> 'w" where
  "deleteCRD api loaded w =
     (case loaded of Inl err \<Rightarrow> (Some err, w) | Inr crd \<Rightarrow> ca_Delete api (crd_Name crd) w)"

definition getCRDClient :: "'c result \<Rightarrow> ('c \<Rightarrow> 'w crd_api result) \<Rightarrow> 'w crd_api result" where
  "getCRDClient restCfg NewForConfig = (case restCfg of Inl err \<Rightarrow> Inl err | Inr cfg \<Rightarrow> NewForConfig cfg)"

definition crd_Apply :: "'w crd_api result \<Rightarrow> crd_object result \<Rightarrow> 'w \<Rightarrow> go_error option \<times> 'w" where
  "crd_Apply client loaded w =
     (case client of Inl err \<Rightarrow> (Some err, w) | Inr api \<Rightarrow> createOrUpdateCRD api loaded w)"

definition crd_Delete :: "'w crd_api result \<Rightarrow> crd_object result \<Rightarrow> 'w \<Rightarrow> go_error option \<times> 'w" where
  "crd_Delete client loaded w =
     (case client of Inl err \<Rightarrow> (Some err, w) | Inr api \<Rightarrow> deleteCRD api loaded w)"

text \<open>The same API with a note of every object that is sent to be written.\<close>

definition noting_writes :: "'w crd_api \<Rightarrow> (crd_object list \<times> 'w) crd_api" where
  "noting_writes api =
     \<lparr>ca_Get = (\<lambda>n lw. case ca_Get api n (snd lw) of (r, w1) \<Rightarrow> (r, fst lw, w1)),
      ca_Create = (\<lambda>c lw. case ca_Create api c (snd lw) of (r, w1) \<Rightarrow> (r, fst lw @ [c], w1)),
      ca_Update = (\<lambda>c lw. case ca_Update api c (snd lw) of (r, w1) \<Rightarrow> (r, fst lw @ [c], w1)),
      ca_Delete = (\<lambda>n lw. case ca_Delete api n (snd lw) of (r, w1) \<Rightarrow> (r, fst lw, w1))\<rparr>"

text \<open>
  An API server that is up and versions its objects: a read shows the current version, a create is accepted for a name that is free, and an update only with the current version.
  What the server stores is left open.
\<close>

locale crd_versions =
  fixes api :: "'w crd_api" and version :: "'w \<Rightarrow> string \<Rightarrow> string option"
  assumes get_found: "version w n = Some v \<Longrightarrow> \<exists>c w'. ca_Get api n w = (Inr c, w') \<and> crd_ResourceVersion c = v \<and> version w' = version w"
    and get_missing: "version w n = None \<Longrightarrow> \<exists>e w'. ca_Get api n w = (Inl e, w') \<and> is_not_found e \<and> version w' = version w"
    and create_accepted: "version w (crd_Name c) = None \<Longrightarrow> fst (ca_Create api c w) = None"
    and update_accepted: "version w (crd_Name c) = Some v \<Longrightarrow> fst (ca_Update api c w) = None \<longleftrightarrow> crd_ResourceVersion c = v"
begin

lemma createOrUpdateCRD_accepted:
  "\<exists>w'. createOrUpdateCRD (noting_writes api) (Inr crd) ([], w) =
     (None, [case version w (crd_Name crd) of None \<Rightarrow> crd | Some v \<Rightarrow> crd\<lparr>crd_ResourceVersion := v\<rparr>], w')"
proof (cases "version w (crd_Name crd)")
  case None
  from get_missing [OF this] obtain e w1 where g: "ca_Get api (crd_Name crd) w = (Inl e, w1)" "is_not_found e" "version w1 = version w" by blast
  obtain w' where "ca_Create api crd w1 = (None, w')" using create_accepted [of w1 crd] None g(3) by (metis prod.collapse)
  with g None show ?thesis by (simp add: createOrUpdateCRD_def noting_writes_def)
next
  case (Some v)
  let ?c = "crd\<lparr>crd_ResourceVersion := v\<rparr>"
  from get_found [OF Some] obtain c w1 where g: "ca_Get api (crd_Name crd) w = (Inr c, w1)" "crd_ResourceVersion c = v" "version w1 = version w" by blast
  have "fst (ca_Update api ?c w1) = None" using update_accepted [of w1 ?c v] Some g(3) by simp
  then obtain w' where "ca_Update api ?c w1 = (None, w')" by (metis prod.collapse)
  with g Some show ?thesis by (simp add: createOrUpdateCRD_def noting_writes_def)
qed

end

text \<open>C36. On a server that accepts an update only with the current version, applying the definition succeeds whether or not an older one is there. It sends exactly one object to be written:
  the loaded definition, with the version of the one that is there, if there is one.\<close>

theorem crd_Apply_accepted:
  assumes "crd_versions api version"
  shows "\<exists>w'. crd_Apply (Inr (noting_writes api)) (Inr crd) ([], w) =
    (None, [case version w (crd_Name crd) of None \<Rightarrow> crd | Some v \<Rightarrow> crd\<lparr>crd_ResourceVersion := v\<rparr>], w')"
  using crd_versions.createOrUpdateCRD_accepted [OF assms] by (simp add: crd_Apply_def)

subsection \<open>Definitions in memory\<close>

text \<open>Definitions by name, with a counter for the versions; an update must carry the current version.\<close>

type_synonym mem_crds = "crd_object gomap \<times> nat"

definition mem_crd_put :: "crd_object \<Rightarrow> mem_crds \<Rightarrow> go_error option \<times> mem_crds" where
  "mem_crd_put c w = (None, map_put (crd_Name c) (c\<lparr>crd_ResourceVersion := fmt_d (snd w)\<rparr>) (fst w), Suc (snd w))"

definition mem_crd_api :: "mem_crds crd_api" where
  "mem_crd_api =
     \<lparr>ca_Get = (\<lambda>n w. (case map_of (fst w) n of None \<Rightarrow> Inl (ApiError NotFound ''not found'') | Some c \<Rightarrow> Inr c, w)),
      ca_Create = (\<lambda>c w. if map_of (fst w) (crd_Name c) \<noteq> None then (Some (ApiError AlreadyExists ''exists''), w) else mem_crd_put c w),
      ca_Update = (\<lambda>c w. case map_of (fst w) (crd_Name c) of
          None \<Rightarrow> (Some (ApiError NotFound ''not found''), w)
        | Some old \<Rightarrow> (if crd_ResourceVersion old \<noteq> crd_ResourceVersion c then (Some (ApiError Conflict ''conflict''), w)
                       else mem_crd_put c w)),
      ca_Delete = (\<lambda>n w. (None, AList.delete n (fst w), snd w))\<rparr>"

interpretation mem_crd: crd_versions mem_crd_api "\<lambda>w n. map_option crd_ResourceVersion (map_of (fst w) n)"
  by unfold_locales (auto simp: mem_crd_api_def mem_crd_put_def split: if_splits)

definition sample_crd :: "string \<Rightarrow> crd_object" where
  "sample_crd spec = \<lparr>crd_Name = ''builds'', crd_ResourceVersion = '''', crd_Spec = spec\<rparr>"

definition installed_crds :: mem_crds where
  "installed_crds = snd (crd_Apply (Inr mem_crd_api) (Inr (sample_crd ''old'')) ([], 0))"

theorem crd_Apply_accepted_witness:
  "\<exists>w'. crd_Apply (Inr (noting_writes mem_crd_api)) (Inr (sample_crd ''new'')) ([], installed_crds) =
     (None, [\<lparr>crd_Name = ''builds'', crd_ResourceVersion = ''0'', crd_Spec = ''new''\<rparr>], w')"
proof -
  have v: "map_option crd_ResourceVersion (map_of (fst installed_crds) (crd_Name (sample_crd ''new''))) = Some ''0''" by code_simp
  have c: "(sample_crd ''new'')\<lparr>crd_ResourceVersion := ''0''\<rparr> = \<lparr>crd_Name = ''builds'', crd_ResourceVersion = ''0'', crd_Spec = ''new''\<rparr>"
    by (simp add: sample_crd_def)
  from crd_Apply_accepted [OF mem_crd.crd_versions_axioms, of "sample_crd ''new''" installed_crds] show ?thesis
    unfolding v option.case c .
qed

end
