(* ===== verification/Forge_Cmd.thy ===== *)
theory Forge_Cmd
  imports Forge_Start Forge_Buildjob Forge_Clientset
begin

section \<open>The command line\<close>

text \<open>
  \<^verbatim>\<open>cmd\<close>: the variables of the commands, their flags, and what each command does. The flag library
  (\<^verbatim>\<open>vendor/github.com/spf13/pflag\<close>) and the part of \<^verbatim>\<open>vendor/github.com/spf13/cobra\<close> that finds and
  executes a command are modelled as the module uses them. Numbers, durations, comma separated values and the JSON of the advanced configuration are
  parsed by arguments of the model.
\<close>

subsection \<open>Variables\<close>

record advancedConfig =
  adv_Env :: "EnvVar list"
  adv_Volumes :: "Volume list"
  adv_VolumeMounts :: "VolumeMount list"

text \<open>The package variables, the help flag, and the names of the flags that were set.\<close>

record cmd_vars =
  v_help :: bool
  v_debug :: bool
  v_gcInterval :: "64 word"
  v_gcMaxKeepCount :: int
  v_buildJobImage :: string
  v_buildJobImagePullSecret :: string
  v_buildJobLabels :: "string gomap"
  v_buildJobAnnotations :: "string gomap"
  v_buildJobNodeSelector :: "string gomap"
  v_buildJobTolerationKey :: string
  v_buildJobCustomCAConfigMap :: string
  v_buildJobPodSecurityPolicy :: string
  v_buildJobSecurityContextConstraints :: string
  v_buildJobGrantFullPrivilege :: bool
  v_buildAdvancedConfigFilename :: string
  v_buildJobIstioSupport :: bool
  v_namespace :: string
  v_metricsAddr :: string
  v_enableLeaderElection :: bool
  v_messageBroker :: string
  v_amqpURI :: string
  v_amqpQueue :: string
  v_preparerPluginsPath :: string
  v_enableLayerCaching :: bool
  v_brokerOpts :: "Options option"
  v_advCfg :: advancedConfig
  v_resourceName :: string
  v_resourceNamespace :: string
  v_changed :: "string list"

definition defaultMessageQueue :: string where
  "defaultMessageQueue = ''forge-status-update''"

definition default_vars :: "(string \<Rightarrow> string) \<Rightarrow> cmd_vars" where
  "default_vars getenv =
     \<lparr>v_help = False, v_debug = False, v_gcInterval = 30 * 60 * 1000000000, v_gcMaxKeepCount = 5, v_buildJobImage = '''',
      v_buildJobImagePullSecret = '''', v_buildJobLabels = [], v_buildJobAnnotations = [], v_buildJobNodeSelector = [],
      v_buildJobTolerationKey = '''', v_buildJobCustomCAConfigMap = '''', v_buildJobPodSecurityPolicy = '''',
      v_buildJobSecurityContextConstraints = '''', v_buildJobGrantFullPrivilege = False, v_buildAdvancedConfigFilename = '''',
      v_buildJobIstioSupport = False, v_namespace = ''default'', v_metricsAddr = '':8080'', v_enableLeaderElection = False,
      v_messageBroker = '''', v_amqpURI = '''', v_amqpQueue = defaultMessageQueue,
      v_preparerPluginsPath = filepath_Join [GetStateDir getenv, ''plugins''], v_enableLayerCaching = False, v_brokerOpts = None,
      v_advCfg = \<lparr>adv_Env = [], adv_Volumes = [], adv_VolumeMounts = []\<rparr>,
      v_resourceName = '''', v_resourceNamespace = '''', v_changed = []\<rparr>"

subsection \<open>Flag values\<close>

text \<open>A flag has a shorthand letter or none, the value it takes when it stands alone, and a setter.\<close>

record flag =
  flag_Shorthand :: "char option"
  flag_NoOptDefVal :: string
  flag_Set :: "string \<Rightarrow> cmd_vars \<Rightarrow> cmd_vars result"

definition StringVar :: "(string \<Rightarrow> cmd_vars \<Rightarrow> cmd_vars) \<Rightarrow> flag" where
  "StringVar put = \<lparr>flag_Shorthand = None, flag_NoOptDefVal = '''', flag_Set = (\<lambda>s v. Inr (put s v))\<rparr>"

definition BoolVar :: "(bool \<Rightarrow> cmd_vars \<Rightarrow> cmd_vars) \<Rightarrow> flag" where
  "BoolVar put = \<lparr>flag_Shorthand = None, flag_NoOptDefVal = ''true'',
     flag_Set = (\<lambda>s v. case ParseBool s of Inl err \<Rightarrow> Inl err | Inr b \<Rightarrow> Inr (put b v))\<rparr>"

definition NumberVar :: "(string \<Rightarrow> 'n result) \<Rightarrow> ('n \<Rightarrow> cmd_vars \<Rightarrow> cmd_vars) \<Rightarrow> flag" where
  "NumberVar parse put = \<lparr>flag_Shorthand = None, flag_NoOptDefVal = '''',
     flag_Set = (\<lambda>s v. case parse s of Inl err \<Rightarrow> Inl err | Inr n \<Rightarrow> Inr (put n v))\<rparr>"

text \<open>A map flag: pairs separated by commas; a second use of the flag adds to the first.\<close>

fun parse_pairs :: "string list \<Rightarrow> string gomap \<Rightarrow> string gomap result" where
  "parse_pairs [] out = Inr out"
| "parse_pairs (pair # ss) out =
     (case strings_Split2 pair (CHR ''='') of
        [k, v] \<Rightarrow> parse_pairs ss (map_put k v out)
      | _ \<Rightarrow> Inl (ErrText (pair @ '' must be formatted as key=value'')))"

definition stringToString_Set :: "(string \<Rightarrow> string list result) \<Rightarrow> string \<Rightarrow> bool \<Rightarrow> string gomap \<Rightarrow> string gomap result" where
  "stringToString_Set csv_Read val changed old =
     (let n = length (filter (\<lambda>c. c = CHR ''='') val);
          ss = (if n = 0 then Inl (ErrText (val @ '' must be formatted as key=value''))
                else if n = 1 then Inr [strings_Trim val (CHR 0x22)]
                else csv_Read val)
      in case ss of
           Inl err \<Rightarrow> Inl err
         | Inr pairs \<Rightarrow>
           (case parse_pairs pairs [] of
              Inl err \<Rightarrow> Inl err
            | Inr out \<Rightarrow> Inr (if changed then map_put_all old out else out)))"

definition MapVar :: "(string \<Rightarrow> string list result) \<Rightarrow> string \<Rightarrow> (cmd_vars \<Rightarrow> string gomap) \<Rightarrow>
    (string gomap \<Rightarrow> cmd_vars \<Rightarrow> cmd_vars) \<Rightarrow> string \<times> flag" where
  "MapVar csv_Read name get put = (name, \<lparr>flag_Shorthand = None, flag_NoOptDefVal = '''',
     flag_Set = (\<lambda>s v. case stringToString_Set csv_Read s (name \<in> set (v_changed v)) (get v) of
                         Inl err \<Rightarrow> Inl err | Inr m \<Rightarrow> Inr (put m v))\<rparr>)"

subsection \<open>The flags of the commands\<close>

definition persistent_flags :: "flag gomap" where
  "persistent_flags =
     [(''message-broker'', StringVar (\<lambda>s v. v\<lparr>v_messageBroker := s\<rparr>)),
      (''amqp-uri'', StringVar (\<lambda>s v. v\<lparr>v_amqpURI := s\<rparr>)),
      (''amqp-queue'', StringVar (\<lambda>s v. v\<lparr>v_amqpQueue := s\<rparr>)),
      (''preparer-plugins-path'', StringVar (\<lambda>s v. v\<lparr>v_preparerPluginsPath := s\<rparr>)),
      (''enable-layer-caching'', BoolVar (\<lambda>b v. v\<lparr>v_enableLayerCaching := b\<rparr>)),
      (''debug'', BoolVar (\<lambda>b v. v\<lparr>v_debug := b\<rparr>))]"

definition build_flags :: "flag gomap" where
  "build_flags =
     [(''resource'', StringVar (\<lambda>s v. v\<lparr>v_resourceName := s\<rparr>)),
      (''resource-namespace'', StringVar (\<lambda>s v. v\<lparr>v_resourceNamespace := s\<rparr>))] @ persistent_flags"

text \<open>The parsers of the standard library that the flags of the controller use.\<close>

record flag_parsers =
  fp_ParseInt :: "string \<Rightarrow> int result"
  fp_ParseDuration :: "string \<Rightarrow> 64 word result"
  fp_csv_Read :: "string \<Rightarrow> string list result"

definition root_flags :: "flag_parsers \<Rightarrow> flag gomap" where
  "root_flags fp =
     [(''namespace'', StringVar (\<lambda>s v. v\<lparr>v_namespace := s\<rparr>)),
      (''metrics-addr'', StringVar (\<lambda>s v. v\<lparr>v_metricsAddr := s\<rparr>)),
      (''enable-leader-election'', BoolVar (\<lambda>b v. v\<lparr>v_enableLeaderElection := b\<rparr>)),
      (''build-job-image'', StringVar (\<lambda>s v. v\<lparr>v_buildJobImage := s\<rparr>)),
      (''build-job-image-pull-secret'', StringVar (\<lambda>s v. v\<lparr>v_buildJobImagePullSecret := s\<rparr>)),
      MapVar (fp_csv_Read fp) ''build-job-labels'' v_buildJobLabels (\<lambda>m v. v\<lparr>v_buildJobLabels := m\<rparr>),
      MapVar (fp_csv_Read fp) ''build-job-annotations'' v_buildJobAnnotations (\<lambda>m v. v\<lparr>v_buildJobAnnotations := m\<rparr>),
      (''build-job-toleration-key'', StringVar (\<lambda>s v. v\<lparr>v_buildJobTolerationKey := s\<rparr>)),
      MapVar (fp_csv_Read fp) ''build-job-node-selector'' v_buildJobNodeSelector (\<lambda>m v. v\<lparr>v_buildJobNodeSelector := m\<rparr>),
      (''build-job-custom-ca'', StringVar (\<lambda>s v. v\<lparr>v_buildJobCustomCAConfigMap := s\<rparr>)),
      (''build-job-pod-security-policy'', StringVar (\<lambda>s v. v\<lparr>v_buildJobPodSecurityPolicy := s\<rparr>)),
      (''build-job-security-context-constraints'', StringVar (\<lambda>s v. v\<lparr>v_buildJobSecurityContextConstraints := s\<rparr>)),
      (''build-job-full-privilege'', BoolVar (\<lambda>b v. v\<lparr>v_buildJobGrantFullPrivilege := b\<rparr>)),
      (''build-job-advanced-config'', StringVar (\<lambda>s v. v\<lparr>v_buildAdvancedConfigFilename := s\<rparr>)),
      (''build-job-enable-istio-support'', BoolVar (\<lambda>b v. v\<lparr>v_buildJobIstioSupport := b\<rparr>)),
      (''gc-interval'', NumberVar (fp_ParseDuration fp) (\<lambda>d v. v\<lparr>v_gcInterval := d\<rparr>)),
      (''gc-max-keep'', NumberVar (fp_ParseInt fp) (\<lambda>n v. v\<lparr>v_gcMaxKeepCount := n\<rparr>))] @ persistent_flags"

text \<open>The help flag is added to a command when it is executed.\<close>

definition InitDefaultHelpFlag :: "flag gomap \<Rightarrow> flag gomap" where
  "InitDefaultHelpFlag formal =
     formal @ [(''help'', (BoolVar (\<lambda>b v. v\<lparr>v_help := b\<rparr>))\<lparr>flag_Shorthand := Some (CHR ''h'')\<rparr>)]"

subsection \<open>Parsing\<close>

definition FlagSet_Set :: "flag gomap \<Rightarrow> string \<Rightarrow> string \<Rightarrow> cmd_vars \<Rightarrow> cmd_vars result" where
  "FlagSet_Set formal name val v =
     (case map_of formal name of
        None \<Rightarrow> Inl (ErrText (''no such flag -'' @ name))
      | Some fl \<Rightarrow>
        (case flag_Set fl val v of
           Inl err \<Rightarrow>
             Inl (ErrText (''invalid argument '' @ fmt_q val @ '' for ''
               @ fmt_q ((case flag_Shorthand fl of None \<Rightarrow> ''--'' | Some c \<Rightarrow> ''-'' @ [c] @ '', --'') @ name)
               @ '' flag: '' @ error_text err))
         | Inr v1 \<Rightarrow> Inr (if name \<in> set (v_changed v1) then v1 else v1\<lparr>v_changed := v_changed v1 @ [name]\<rparr>)))"

text \<open>Both parsers of one argument return what is left of the arguments.\<close>

definition parseLongArg :: "flag gomap \<Rightarrow> string \<Rightarrow> string list \<Rightarrow> cmd_vars \<Rightarrow> (string list \<times> cmd_vars) result" where
  "parseLongArg formal s args v =
     (let name0 = drop 2 s in
      if name0 = [] \<or> hd name0 = CHR ''-'' \<or> hd name0 = CHR ''='' then Inl (ErrText (''bad flag syntax: '' @ s))
      else
       (let split1 = strings_Split2 name0 (CHR ''=''); name = hd split1 in
        case map_of formal name of
          None \<Rightarrow> Inl (if name = ''help'' then ErrText ''pflag: help requested'' else ErrText (''unknown flag: --'' @ name))
        | Some fl \<Rightarrow>
          (let set1 = (\<lambda>val rest. case FlagSet_Set formal name val v of Inl err \<Rightarrow> Inl err | Inr v1 \<Rightarrow> Inr (rest, v1)) in
           if length split1 = 2 then set1 (split1 ! 1) args
           else if flag_NoOptDefVal fl \<noteq> '''' then set1 (flag_NoOptDefVal fl) args
           else (case args of
                   [] \<Rightarrow> Inl (ErrText (''flag needs an argument: '' @ s))
                 | a # rest \<Rightarrow> set1 a rest))))"

definition shorthand_lookup :: "flag gomap \<Rightarrow> char \<Rightarrow> (string \<times> flag) option" where
  "shorthand_lookup formal c = List.find (\<lambda>(_, fl). flag_Shorthand fl = Some c) formal"

text \<open>The \<^verbatim>\<open>%q\<close> verb on a byte: the letter between apostrophes.\<close>

definition fmt_q_char :: "char \<Rightarrow> string" where
  "fmt_q_char c =
     [CHR 0x27] @ (if c = CHR 0x27 then [CHR 0x5C, CHR 0x27] else if c = CHR 0x22 then [c] else quote_char c) @ [CHR 0x27]"

definition parseSingleShortArg ::
  "flag gomap \<Rightarrow> string \<Rightarrow> string list \<Rightarrow> cmd_vars \<Rightarrow> (string \<times> string list \<times> cmd_vars) result" where
  "parseSingleShortArg formal shorthands args v =
     (if strings_HasPrefix shorthands ''test.'' then Inr ('''', args, v)
      else
       (let c = hd shorthands; outShorts = tl shorthands in
        case shorthand_lookup formal c of
          None \<Rightarrow> Inl (if c = CHR ''h'' then ErrText ''pflag: help requested''
                     else ErrText (''unknown shorthand flag: '' @ fmt_q_char c @ '' in -'' @ shorthands))
        | Some (name, fl) \<Rightarrow>
          (let set1 = (\<lambda>val out rest.
                 case FlagSet_Set formal name val v of Inl err \<Rightarrow> Inl err | Inr v1 \<Rightarrow> Inr (out, rest, v1)) in
           if 2 < length shorthands \<and> shorthands ! 1 = CHR ''='' then set1 (drop 2 shorthands) '''' args
           else if flag_NoOptDefVal fl \<noteq> '''' then set1 (flag_NoOptDefVal fl) outShorts args
           else if 1 < length shorthands then set1 (drop 1 shorthands) '''' args
           else (case args of
                   [] \<Rightarrow> Inl (ErrText (''flag needs an argument: '' @ fmt_q_char c @ '' in -'' @ shorthands))
                 | a # rest \<Rightarrow> set1 a outShorts rest))))"

lemma parseSingleShortArg_shorter:
  assumes "parseSingleShortArg formal shorthands args v = Inr (out, rest, v1)" and "shorthands \<noteq> []"
  shows "length out < length shorthands" and "length rest \<le> length args"
  using assms
  by (auto simp: parseSingleShortArg_def Let_def split: if_splits option.splits sum.splits list.splits)

text \<open>The letters of a short argument are read with the same arguments behind it each time.\<close>

function parse_letters ::
  "flag gomap \<Rightarrow> string \<Rightarrow> string list \<Rightarrow> string list \<Rightarrow> cmd_vars \<Rightarrow> (string list \<times> cmd_vars) result" where
  "parse_letters formal shorthands args a v =
     (if shorthands = [] then Inr (a, v)
      else (case parseSingleShortArg formal shorthands args v of
              Inl err \<Rightarrow> Inl err
            | Inr (out, a1, v1) \<Rightarrow> parse_letters formal out args a1 v1))"
  by pat_completeness auto
termination by (relation "measure (\<lambda>(_, shorthands, _). length shorthands)") (auto dest: parseSingleShortArg_shorter)

definition parseShortArg :: "flag gomap \<Rightarrow> string \<Rightarrow> string list \<Rightarrow> cmd_vars \<Rightarrow> (string list \<times> cmd_vars) result" where
  "parseShortArg formal s args v = parse_letters formal (tl s) args args v"

declare parse_letters.simps [simp del]

lemma parse_letters_shorter:
  "parse_letters formal shorthands args a v = Inr (rest, v1) \<Longrightarrow> length a \<le> length args \<Longrightarrow> length rest \<le> length args"
proof (induction formal shorthands args a v arbitrary: rest v1 rule: parse_letters.induct)
  case (1 formal shorthands args a v)
  show ?case
  proof (cases "shorthands = []")
    case True
    with 1 show ?thesis by (simp add: parse_letters.simps)
  next
    case False
    with 1(2) obtain out a1 v2 where p: "parseSingleShortArg formal shorthands args v = Inr (out, a1, v2)"
      and q: "parse_letters formal out args a1 v2 = Inr (rest, v1)"
      by (subst (asm) parse_letters.simps) (auto split: sum.splits)
    from 1(1) [OF False p refl refl q] show ?thesis using parseSingleShortArg_shorter(2) [OF p False] .
  qed
qed

lemma parseShortArg_shorter: "parseShortArg formal s args v = Inr (rest, v1) \<Longrightarrow> length rest \<le> length args"
  unfolding parseShortArg_def by (erule parse_letters_shorter) simp

lemma parseLongArg_shorter: "parseLongArg formal s args v = Inr (rest, v1) \<Longrightarrow> length rest \<le> length args"
  by (auto simp: parseLongArg_def Let_def split: if_splits option.splits sum.splits list.splits)

text \<open>The result is the positional arguments and the variables.\<close>

function parseArgs :: "flag gomap \<Rightarrow> string list \<Rightarrow> string list \<Rightarrow> cmd_vars \<Rightarrow> (string list \<times> cmd_vars) result" where
  "parseArgs formal pos [] v = Inr (pos, v)"
| "parseArgs formal pos (s # args) v =
     (if s = [] \<or> hd s \<noteq> CHR ''-'' \<or> length s = 1 then parseArgs formal (pos @ [s]) args v
      else if s = ''--'' then Inr (pos @ args, v)
      else (case (if s ! 1 = CHR ''-'' then parseLongArg formal s args v else parseShortArg formal s args v) of
              Inl err \<Rightarrow> Inl err
            | Inr (args1, v1) \<Rightarrow> parseArgs formal pos args1 v1))"
  by pat_completeness auto
termination
  by (relation "measure (\<lambda>(_, _, args, _). length args)")
    (auto split: if_splits dest!: parseLongArg_shorter parseShortArg_shorter)

subsection \<open>Finding the command\<close>

text \<open>The commands of the module, and the ones that the library adds on its own.\<close>

datatype command = RootCmd | BuildCmd | ApplyCrdCmd | DeleteCrdCmd | VersionCmd | LibraryCmd string

definition subcommands :: "command gomap" where
  "subcommands =
     [(''build'', BuildCmd), (''crd-apply'', ApplyCrdCmd), (''crd-delete'', DeleteCrdCmd), (''version'', VersionCmd)]
     @ map (\<lambda>n. (n, LibraryCmd n)) [''help'', ''completion'', ''__complete'', ''__completeNoDesc'']"

definition command_flags :: "flag_parsers \<Rightarrow> command \<Rightarrow> flag gomap" where
  "command_flags fp c =
     (case c of RootCmd \<Rightarrow> root_flags fp | BuildCmd \<Rightarrow> build_flags | _ \<Rightarrow> persistent_flags)"

definition hasNoOptDefVal :: "flag gomap \<Rightarrow> string \<Rightarrow> bool" where
  "hasNoOptDefVal formal name = (case map_of formal name of None \<Rightarrow> False | Some fl \<Rightarrow> flag_NoOptDefVal fl \<noteq> '''')"

definition shortHasNoOptDefVal :: "flag gomap \<Rightarrow> string \<Rightarrow> bool" where
  "shortHasNoOptDefVal formal name =
     (case name of [] \<Rightarrow> False
      | c # _ \<Rightarrow> (case shorthand_lookup formal c of None \<Rightarrow> False | Some (_, fl) \<Rightarrow> flag_NoOptDefVal fl \<noteq> ''''))"

text \<open>An argument behind which the next one is skipped.\<close>

definition takes_next :: "flag gomap \<Rightarrow> string \<Rightarrow> bool" where
  "takes_next formal s \<longleftrightarrow>
     CHR ''='' \<notin> set s \<and>
     (strings_HasPrefix s ''--'' \<and> \<not> hasNoOptDefVal formal (drop 2 s) \<or>
      strings_HasPrefix s ''-'' \<and> length s = 2 \<and> \<not> shortHasNoOptDefVal formal (drop 1 s))"

fun stripFlags :: "flag gomap \<Rightarrow> string list \<Rightarrow> string list" where
  "stripFlags formal [] = []"
| "stripFlags formal (s # args) =
     (if s = ''--'' then []
      else if takes_next formal s
      then (case args of [] \<Rightarrow> [] | [_] \<Rightarrow> [] | _ # rest \<Rightarrow> stripFlags formal rest)
      else if s \<noteq> '''' \<and> \<not> strings_HasPrefix s ''-'' then s # stripFlags formal args
      else stripFlags formal args)"

text \<open>\<^verbatim>\<open>argsMinusFirstX\<close> removes the first equal argument. None of the module's commands below the root has commands of its own.\<close>

definition cobra_Find :: "flag_parsers \<Rightarrow> string list \<Rightarrow> (command \<times> string list) result" where
  "cobra_Find fp args =
     (case stripFlags (command_flags fp RootCmd) args of
        [] \<Rightarrow> Inr (RootCmd, args)
      | nextSubCmd # _ \<Rightarrow>
        (case map_of subcommands nextSubCmd of
           Some cmd \<Rightarrow> Inr (cmd, remove1 nextSubCmd args)
         | None \<Rightarrow> Inl (ErrText (''unknown command '' @ fmt_q nextSubCmd @ '' for '' @ fmt_q ''forge''))))"

subsection \<open>Hooks\<close>

text \<open>How a process ends: normally, with an error that is printed before it exits with status one, by exiting with status one, or by a panic.\<close>

datatype cmd_end = Ended | Failed go_error | ExitOne | Panicked go_error

definition processBrokerOpts :: "cmd_vars \<Rightarrow> cmd_vars result" where
  "processBrokerOpts v =
     (if v_messageBroker v = '''' then Inr v
      else
       (let opts = \<lparr>opt_Broker = strings_ToLower (v_messageBroker v), opt_AmqpURI = v_amqpURI v, opt_AmqpQueue = v_amqpQueue v\<rparr>
        in case ValidateOpts opts of Some err \<Rightarrow> Inl err | None \<Rightarrow> Inr (v\<lparr>v_brokerOpts := Some opts\<rparr>)))"

definition processAdvancedConfig ::
  "(string \<Rightarrow> string result) \<Rightarrow> (string \<Rightarrow> advancedConfig result) \<Rightarrow> cmd_vars \<Rightarrow> cmd_vars result" where
  "processAdvancedConfig ReadFile Decode v =
     (if v_buildAdvancedConfigFilename v = '''' then Inr v
      else (case ReadFile (v_buildAdvancedConfigFilename v) of
              Inl err \<Rightarrow> Inl err
            | Inr bs \<Rightarrow> (case Decode bs of Inl err \<Rightarrow> Inl err | Inr adv \<Rightarrow> Inr (v\<lparr>v_advCfg := adv\<rparr>))))"

definition namespace_file :: string where
  "namespace_file = ''/var/run/secrets/kubernetes.io/serviceaccount/namespace''"

definition build_PreRun :: "(string \<Rightarrow> string result) \<Rightarrow> cmd_vars \<Rightarrow> cmd_end + cmd_vars" where
  "build_PreRun ReadFile v =
     (case ReadFile namespace_file of
        Inl _ \<Rightarrow> Inr v
      | Inr bs \<Rightarrow> (case FlagSet_Set (InitDefaultHelpFlag build_flags) ''resource-namespace'' bs v of
                    Inl err \<Rightarrow> Inl (Panicked err) | Inr v1 \<Rightarrow> Inr v1))"

definition validateRequiredFlags :: "string list \<Rightarrow> cmd_vars \<Rightarrow> go_error option" where
  "validateRequiredFlags required v =
     (let missing = filter (\<lambda>n. n \<notin> set (v_changed v)) required in
      if missing = [] then None
      else Some (ErrText (''required flag(s) '' @ [CHR 0x22] @ strings_Join missing ([CHR 0x22] @ '', '' @ [CHR 0x22])
             @ [CHR 0x22] @ '' not set'')))"

text \<open>Executing a command: parse its flags, answer a call for help, run the hook that all commands share, the command's own hook, check the required flags,
  and run.\<close>

definition cobra_execute ::
  "flag gomap \<Rightarrow> (cmd_vars \<Rightarrow> cmd_end + cmd_vars) \<Rightarrow> string list \<Rightarrow> (cmd_vars \<Rightarrow> 'w \<Rightarrow> cmd_end \<times> 'w) \<Rightarrow> cmd_vars \<Rightarrow> string list \<Rightarrow> 'w \<Rightarrow>
   cmd_end \<times> 'w" where
  "cobra_execute formal preRun required run v args w =
     (case parseArgs (InitDefaultHelpFlag formal) [] args v of
        Inl err \<Rightarrow> (Failed err, w)
      | Inr (_, v1) \<Rightarrow>
        (if v_help v1 then (Ended, w)
         else (case processBrokerOpts v1 of
                 Inl err \<Rightarrow> (Failed err, w)
               | Inr v2 \<Rightarrow>
                 (case preRun v2 of
                    Inl e \<Rightarrow> (e, w)
                  | Inr v3 \<Rightarrow>
                    (case validateRequiredFlags required v3 of
                       Some err \<Rightarrow> (Failed err, w)
                     | None \<Rightarrow> run v3 w)))))"

subsection \<open>What the commands run\<close>

definition controller_config :: "cmd_vars \<Rightarrow> ControllerConfig" where
  "controller_config v =
     \<lparr>cc_Debug = v_debug v, cc_Namespace = v_namespace v, cc_MetricsAddr = v_metricsAddr v,
      cc_EnableLeaderElection = v_enableLeaderElection v, cc_GCMaxRetentionCount = v_gcMaxKeepCount v, cc_GCInterval = v_gcInterval v,
      cc_JobConfig =
        \<lparr>jc_Image = v_buildJobImage v, jc_ImagePullSecret = v_buildJobImagePullSecret v,
         jc_CustomCAConfigMap = v_buildJobCustomCAConfigMap v, jc_PreparerPluginPath = v_preparerPluginsPath v,
         jc_Labels = v_buildJobLabels v, jc_Annotations = v_buildJobAnnotations v, jc_NodeSelector = v_buildJobNodeSelector v,
         jc_TolerationKey = v_buildJobTolerationKey v, jc_GrantFullPrivilege = v_buildJobGrantFullPrivilege v,
         jc_EnableLayerCaching = v_enableLayerCaching v, jc_PodSecurityPolicy = v_buildJobPodSecurityPolicy v,
         jc_SecurityContextConstraints = v_buildJobSecurityContextConstraints v, jc_BrokerOpts = v_brokerOpts v,
         jc_Volumes = adv_Volumes (v_advCfg v), jc_VolumeMounts = adv_VolumeMounts (v_advCfg v), jc_EnvVar = adv_Env (v_advCfg v),
         jc_EnableIstioSupport = v_buildJobIstioSupport v, jc_DynamicVolumes = [], jc_DynamicVolumeMounts = []\<rparr>\<rparr>"

text \<open>A panic of the controller's process is kept apart by \<open>start\<close>, which returns what \<^verbatim>\<open>StartManager\<close> does.\<close>

definition root_Run :: "(ControllerConfig \<Rightarrow> 'w \<Rightarrow> go_error option outcome \<times> 'w) \<Rightarrow> cmd_vars \<Rightarrow> 'w \<Rightarrow> cmd_end \<times> 'w" where
  "root_Run start v w =
     (case start (controller_config v) w of
        (Returns (Some err), w1) \<Rightarrow> (ExitOne, w1)
      | (Returns None, w1) \<Rightarrow> (Ended, w1)
      | (Panics p, w1) \<Rightarrow> (Panicked (ErrText p), w1))"

definition build_job_config :: "cmd_vars \<Rightarrow> job_config" where
  "build_job_config v =
     \<lparr>cfg_ResourceName = v_resourceName v, cfg_ResourceNamespace = v_resourceNamespace v, cfg_BrokerOpts = v_brokerOpts v,
      cfg_PreparerPluginsPath = v_preparerPluginsPath v, cfg_EnableLayerCaching = v_enableLayerCaching v, cfg_Debug = v_debug v\<rparr>"

text \<open>The deferred clean-up runs before a panic leaves the command. The clean-up on a signal, from another goroutine, is \<open>build_signalled\<close>.\<close>

definition build_Run ::
  "('w, 'p, 'g, 'b) job_deps \<Rightarrow> (('p, 'g, 'b) new_job \<Rightarrow> 'w job_env) \<Rightarrow> cmd_vars \<Rightarrow> 'w \<Rightarrow> cmd_end \<times> 'w" where
  "build_Run deps env v w =
     (case Job_New deps (build_job_config v) w of
        (Inl err, w1) \<Rightarrow> (Panicked err, w1)
      | (Inr job, w1) \<Rightarrow>
        (case Run (env job) (nj_job job) w1 of
           (Some err, w2) \<Rightarrow> (Panicked err, Cleanup deps job w2)
         | (None, w2) \<Rightarrow> (Ended, Cleanup deps job w2)))"

definition build_signalled :: "('w, 'p, 'g, 'b) job_deps \<Rightarrow> ('p, 'g, 'b) new_job \<Rightarrow> 'w \<Rightarrow> cmd_end \<times> 'w" where
  "build_signalled deps job w = (Ended, Cleanup deps job w)"

definition crd_Run :: "('w \<Rightarrow> go_error option \<times> 'w) \<Rightarrow> cmd_vars \<Rightarrow> 'w \<Rightarrow> cmd_end \<times> 'w" where
  "crd_Run f v w = (case f w of (Some err, w1) \<Rightarrow> (Failed err, w1) | (None, w1) \<Rightarrow> (Ended, w1))"

subsection \<open>The program\<close>

record ('w, 'p, 'g, 'b) main_env =
  me_getenv :: "string \<Rightarrow> string"
  me_parsers :: flag_parsers
  me_ReadFile :: "string \<Rightarrow> string result"
  me_Decode :: "string \<Rightarrow> advancedConfig result"
  me_start :: "ControllerConfig \<Rightarrow> 'w \<Rightarrow> go_error option outcome \<times> 'w"
  me_deps :: "('w, 'p, 'g, 'b) job_deps"
  me_job :: "('p, 'g, 'b) new_job \<Rightarrow> 'w job_env"
  me_crd_client :: "'w crd_api result"
  me_crd :: "crd_object result"
  me_library :: "string \<Rightarrow> string list \<Rightarrow> 'w \<Rightarrow> cmd_end \<times> 'w"

definition Execute :: "('w, 'p, 'g, 'b) main_env \<Rightarrow> string list \<Rightarrow> 'w \<Rightarrow> cmd_end \<times> 'w" where
  "Execute env args w =
     (let v = default_vars (me_getenv env); fp = me_parsers env in
      case cobra_Find fp args of
        Inl err \<Rightarrow> (Failed err, w)
      | Inr (cmd, flags) \<Rightarrow>
        (case cmd of
           RootCmd \<Rightarrow>
             cobra_execute (root_flags fp)
               (\<lambda>v. case processAdvancedConfig (me_ReadFile env) (me_Decode env) v of Inl err \<Rightarrow> Inl (Failed err) | Inr v1 \<Rightarrow> Inr v1)
               [] (root_Run (me_start env)) v flags w
         | BuildCmd \<Rightarrow>
             cobra_execute build_flags (build_PreRun (me_ReadFile env)) [''resource'', ''resource-namespace'']
               (build_Run (me_deps env) (me_job env)) v flags w
         | ApplyCrdCmd \<Rightarrow> cobra_execute persistent_flags Inr [] (crd_Run (crd_Apply (me_crd_client env) (me_crd env))) v flags w
         | DeleteCrdCmd \<Rightarrow> cobra_execute persistent_flags Inr [] (crd_Run (crd_Delete (me_crd_client env) (me_crd env))) v flags w
         | VersionCmd \<Rightarrow> cobra_execute persistent_flags Inr [] (\<lambda>_ w. (Ended, w)) v flags w
         | LibraryCmd n \<Rightarrow> me_library env n flags w))"

subsection \<open>The command line of a job\<close>

lemma FlagSet_Set_ok:
  assumes "map_of formal name = Some fl" and "flag_Set fl val v = Inr v1"
  shows "FlagSet_Set formal name val v = Inr (if name \<in> set (v_changed v1) then v1 else v1\<lparr>v_changed := v_changed v1 @ [name]\<rparr>)"
  using assms by (simp add: FlagSet_Set_def)

text \<open>A flag with its value in one argument.\<close>

definition long_arg :: "string \<Rightarrow> string \<Rightarrow> string" where
  "long_arg name val = ''--'' @ name @ ''='' @ val"

definition flag_name :: "string \<Rightarrow> bool" where
  "flag_name name \<longleftrightarrow> name \<noteq> [] \<and> hd name \<noteq> CHR ''-'' \<and> CHR ''='' \<notin> set name"

lemma parseLongArg_long:
  assumes "flag_name name" and "FlagSet_Set formal name val v = Inr v1"
  shows "parseLongArg formal (long_arg name val) args v = Inr (args, v1)"
proof -
  from assms(1) have n: "name \<noteq> []" "hd name \<noteq> CHR ''-''" "CHR ''='' \<notin> set name" by (auto simp: flag_name_def)
  then have "hd name \<noteq> CHR ''=''" by (cases name) auto
  moreover have "drop 2 (long_arg name val) = name @ CHR ''='' # val" by (simp add: long_arg_def)
  moreover obtain fl where "map_of formal name = Some fl"
    using assms(2) by (auto simp: FlagSet_Set_def split: option.splits)
  ultimately show ?thesis
    using n assms(2) by (simp add: parseLongArg_def strings_Split2_sep Let_def)
qed

lemma parseArgs_long:
  assumes "flag_name name" and "FlagSet_Set formal name val v = Inr v1"
  shows "parseArgs formal pos (long_arg name val # args) v = parseArgs formal pos args v1"
proof -
  have "hd (long_arg name val) = CHR ''-''" "long_arg name val ! 1 = CHR ''-''" "length (long_arg name val) \<noteq> 1"
    "long_arg name val \<noteq> []" "long_arg name val \<noteq> ''--''" by (simp_all add: long_arg_def)
  then show ?thesis by (simp add: parseArgs.simps(2) parseLongArg_long [OF assms])
qed

text \<open>The same for a whole list of assignments.\<close>

fun set_flags :: "flag gomap \<Rightarrow> (string \<times> string) list \<Rightarrow> cmd_vars \<Rightarrow> cmd_vars result" where
  "set_flags formal [] v = Inr v"
| "set_flags formal ((name, val) # rest) v =
     (case FlagSet_Set formal name val v of Inl err \<Rightarrow> Inl err | Inr v1 \<Rightarrow> set_flags formal rest v1)"

declare parseArgs.simps(2) [simp del]

lemma parseArgs_print:
  "\<forall>a \<in> set as. flag_name (fst a) \<Longrightarrow> set_flags formal as v = Inr v1 \<Longrightarrow>
   parseArgs formal pos (map (\<lambda>(n, x). long_arg n x) as) v = Inr (pos, v1)"
  by (induction formal as v rule: set_flags.induct) (auto simp: parseArgs_long split: sum.splits)

lemma stripFlags_print: "stripFlags formal (map (\<lambda>(n, x). long_arg n x) as) = []"
  by (induction as) (auto simp: long_arg_def takes_next_def)

lemma cobra_Find_build:
  "cobra_Find fp (''build'' # map (\<lambda>(n, x). long_arg n x) as) = Inr (BuildCmd, map (\<lambda>(n, x). long_arg n x) as)"
proof -
  have "\<not> takes_next f ''build''" for f by (simp add: takes_next_def)
  then show ?thesis by (simp add: cobra_Find_def stripFlags_print subcommands_def)
qed


text \<open>The flags of a build job's command line.\<close>

definition job_queue :: "ContainerImageBuild \<Rightarrow> Options \<Rightarrow> Options" where
  "job_queue cib opts =
     (if spec_MessageQueueName (cib_Spec cib) = '''' then opts
      else opts\<lparr>opt_AmqpQueue := spec_MessageQueueName (cib_Spec cib)\<rparr>)"

definition job_flags :: "BuildJobConfig \<Rightarrow> ContainerImageBuild \<Rightarrow> (string \<times> string) list" where
  "job_flags jc cib =
     [(''resource'', cib_Name cib), (''enable-layer-caching'', fmt_t (jc_EnableLayerCaching jc))]
     @ (if jc_PreparerPluginPath jc = '''' then [] else [(''preparer-plugins-path'', jc_PreparerPluginPath jc)])
     @ (case map_option (job_queue cib) (jc_BrokerOpts jc) of None \<Rightarrow> []
        | Some opts \<Rightarrow> [(''message-broker'', opt_Broker opts), (''amqp-uri'', opt_AmqpURI opts), (''amqp-queue'', opt_AmqpQueue opts)])"

lemma job_words_flags:
  "job_words jc cib =
     (if jc_GrantFullPrivilege jc then [] else [''rootlesskit''])
     @ ''/usr/bin/forge'' # ''build'' # map (\<lambda>(n, x). long_arg n x) (job_flags jc cib)"
  by (simp add: job_words_def job_flags_def job_queue_def long_arg_def split: option.splits)

lemma job_flags_names: "\<forall>a \<in> set (job_flags jc cib). flag_name (fst a)"
  by (auto simp: job_flags_def flag_name_def split: option.splits)

abbreviation "job_formal \<equiv> InitDefaultHelpFlag build_flags"

text \<open>The variables after the command line of a job was parsed.\<close>

definition parsed_vars :: "(string \<Rightarrow> string) \<Rightarrow> BuildJobConfig \<Rightarrow> ContainerImageBuild \<Rightarrow> cmd_vars" where
  "parsed_vars getenv jc cib =
     (case map_option (job_queue cib) (jc_BrokerOpts jc) of
        None \<Rightarrow> \<lambda>v. v
      | Some opts \<Rightarrow> \<lambda>v. v\<lparr>v_messageBroker := opt_Broker opts, v_amqpURI := opt_AmqpURI opts, v_amqpQueue := opt_AmqpQueue opts\<rparr>)
     ((default_vars getenv)\<lparr>v_resourceName := cib_Name cib, v_enableLayerCaching := jc_EnableLayerCaching jc,
        v_preparerPluginsPath := (if jc_PreparerPluginPath jc = '''' then v_preparerPluginsPath (default_vars getenv) else jc_PreparerPluginPath jc),
        v_changed := map fst (job_flags jc cib)\<rparr>)"

lemma ParseBool_fmt_t [simp]: "ParseBool (fmt_t b) = Inr b"
  by (simp add: ParseBool_def fmt_t_def)

lemma default_simps:
  "v_changed (default_vars getenv) = []" "v_messageBroker (default_vars getenv) = ''''" "v_help (default_vars getenv) = False"
  "v_debug (default_vars getenv) = False" "v_brokerOpts (default_vars getenv) = None"
  "v_preparerPluginsPath (default_vars getenv) = filepath_Join [GetStateDir getenv, ''plugins'']"
  by (simp_all add: default_vars_def)

lemma set_job_flags:
  "set_flags job_formal (job_flags jc cib) (default_vars getenv) = Inr (parsed_vars getenv jc cib)"
  by (simp add: parsed_vars_def job_flags_def FlagSet_Set_def InitDefaultHelpFlag_def build_flags_def persistent_flags_def
      StringVar_def BoolVar_def default_simps split: option.splits)


lemma ToLower_amqp: "strings_ToLower ''amqp'' = ''amqp''"
  by code_simp

lemma processBrokerOpts_amqp:
  assumes "v_messageBroker v = AmqpBroker" and "v_amqpURI v \<noteq> ''''" and "v_amqpQueue v \<noteq> ''''"
  shows "processBrokerOpts v =
    Inr (v\<lparr>v_brokerOpts := Some \<lparr>opt_Broker = AmqpBroker, opt_AmqpURI = v_amqpURI v, opt_AmqpQueue = v_amqpQueue v\<rparr>\<rparr>)"
proof -
  have "AmqpBroker \<noteq> ''''" by (simp add: AmqpBroker_def)
  with assms show ?thesis by (simp add: processBrokerOpts_def ToLower_amqp AmqpBroker_def ValidateOpts_def Let_def)
qed

lemma processBrokerOpts_result:
  assumes "processBrokerOpts v0 = Inr v" and "v_brokerOpts v0 = None"
  shows "v_brokerOpts v = None \<or>
    (\<exists>opts. v_brokerOpts v = Some opts \<and> opt_Broker opts = AmqpBroker \<and> opt_AmqpURI opts \<noteq> '''' \<and> opt_AmqpQueue opts \<noteq> '''')"
  using assms
  by (auto simp: processBrokerOpts_def ValidateOpts_def Let_def split: if_splits option.splits)

text \<open>The options of a broker that passed the hook pass it again in the job, with the queue of the build.\<close>

lemma hook_again:
  assumes "processBrokerOpts v0 = Inr v" and "v_brokerOpts v0 = None" and "jc_BrokerOpts jc = v_brokerOpts v"
  shows "processBrokerOpts (parsed_vars getenv jc cib) =
    Inr ((parsed_vars getenv jc cib)\<lparr>v_brokerOpts := map_option (job_queue cib) (jc_BrokerOpts jc)\<rparr>)"
  using processBrokerOpts_result [OF assms(1,2)]
proof
  assume "v_brokerOpts v = None"
  with assms(3) show ?thesis by (simp add: processBrokerOpts_def parsed_vars_def default_vars_def)
next
  assume "\<exists>opts. v_brokerOpts v = Some opts \<and> opt_Broker opts = AmqpBroker \<and> opt_AmqpURI opts \<noteq> '''' \<and> opt_AmqpQueue opts \<noteq> ''''"
  then obtain opts where o: "v_brokerOpts v = Some opts"
    and "opt_Broker (job_queue cib opts) = AmqpBroker" "opt_AmqpURI (job_queue cib opts) \<noteq> ''''" "opt_AmqpQueue (job_queue cib opts) \<noteq> ''''"
    by (auto simp: job_queue_def)
  then show ?thesis
    using assms(3) processBrokerOpts_amqp [of "parsed_vars getenv jc cib"]
    by (cases "job_queue cib opts") (simp add: parsed_vars_def)
qed

lemma parsed_simps:
  "v_help (parsed_vars getenv jc cib) = False" "v_debug (parsed_vars getenv jc cib) = False"
  "v_resourceName (parsed_vars getenv jc cib) = cib_Name cib"
  "v_enableLayerCaching (parsed_vars getenv jc cib) = jc_EnableLayerCaching jc"
  "v_preparerPluginsPath (parsed_vars getenv jc cib) =
     (if jc_PreparerPluginPath jc = '''' then filepath_Join [GetStateDir getenv, ''plugins''] else jc_PreparerPluginPath jc)"
  "v_changed (parsed_vars getenv jc cib) = map fst (job_flags jc cib)"
  by (auto simp: parsed_vars_def default_simps split: option.splits)

lemma build_PreRun_namespace:
  assumes "ReadFile namespace_file = Inr ns" and "''resource-namespace'' \<notin> set (v_changed v)"
  shows "build_PreRun ReadFile v =
    Inr (v\<lparr>v_resourceNamespace := ns, v_changed := v_changed v @ [''resource-namespace'']\<rparr>)"
  using assms
  by (simp add: build_PreRun_def FlagSet_Set_def InitDefaultHelpFlag_def build_flags_def StringVar_def)

lemma job_flags_required:
  "''resource'' \<in> set (map fst (job_flags jc cib))" "''resource-namespace'' \<notin> set (map fst (job_flags jc cib))"
  by (auto simp: job_flags_def split: option.splits)

text \<open>What the job's process is to run with.\<close>

definition job_settings :: "(string \<Rightarrow> string) \<Rightarrow> BuildJobConfig \<Rightarrow> ContainerImageBuild \<Rightarrow> string \<Rightarrow> job_config" where
  "job_settings getenv jc cib ns =
     \<lparr>cfg_ResourceName = cib_Name cib, cfg_ResourceNamespace = ns,
      cfg_BrokerOpts = map_option (job_queue cib) (jc_BrokerOpts jc),
      cfg_PreparerPluginsPath =
        (if jc_PreparerPluginPath jc = '''' then filepath_Join [GetStateDir getenv, ''plugins''] else jc_PreparerPluginPath jc),
      cfg_EnableLayerCaching = jc_EnableLayerCaching jc, cfg_Debug = False\<rparr>"

lemma Execute_job:
  assumes "processBrokerOpts v0 = Inr v" and "v_brokerOpts v0 = None" and "jc_BrokerOpts jc = v_brokerOpts v"
    and "me_ReadFile env namespace_file = Inr ns"
  obtains u where "Execute env (''build'' # map (\<lambda>(n, x). long_arg n x) (job_flags jc cib)) w =
      build_Run (me_deps env) (me_job env) u w"
    and "build_job_config u = job_settings (me_getenv env) jc cib ns"
proof
  let ?p = "parsed_vars (me_getenv env) jc cib"
  let ?q = "?p\<lparr>v_brokerOpts := map_option (job_queue cib) (jc_BrokerOpts jc)\<rparr>"
  let ?u = "?q\<lparr>v_resourceNamespace := ns, v_changed := v_changed ?p @ [''resource-namespace'']\<rparr>"
  have pre: "build_PreRun (me_ReadFile env) ?q = Inr ?u"
    using build_PreRun_namespace [of "me_ReadFile env" ns ?q] assms(4) job_flags_required(2)
    by (simp add: parsed_simps(6))
  have req: "validateRequiredFlags [''resource'', ''resource-namespace''] ?u = None"
    using job_flags_required(1) by (simp add: validateRequiredFlags_def parsed_simps)
  show "Execute env (''build'' # map (\<lambda>(n, x). long_arg n x) (job_flags jc cib)) w =
      build_Run (me_deps env) (me_job env) ?u w"
    by (simp add: Execute_def Let_def cobra_Find_build cobra_execute_def
        parseArgs_print [OF job_flags_names set_job_flags] hook_again [OF assms(1-3)] parsed_simps(1) pre req)
  show "build_job_config ?u = job_settings (me_getenv env) jc cib ns"
    by (simp add: build_job_config_def job_settings_def parsed_simps)
qed

subsection \<open>The shell of the job\<close>

text \<open>
  The container runs \<^verbatim>\<open>/bin/sh -c\<close> with the line. Of the shell's language only simple commands are modelled: a line of
  words separated by blanks, in which no character has a meaning of its own, and whose first word is neither an assignment nor a reserved word, is the command with exactly these
  words. For any other line \<open>sh_words\<close> is \<open>None\<close>, and nothing is said about what the shell does.
\<close>

definition sh_special :: "char list" where
  "sh_special = [CHR 0x09, CHR 0x0A, CHR 0x22, CHR 0x27, CHR 0x5C, CHR 0x60] @ ''|&;<>()$*?[]#~{}!''"

definition sh_plain :: "char \<Rightarrow> bool" where
  "sh_plain c \<longleftrightarrow> c \<noteq> CHR '' '' \<and> c \<notin> set sh_special"

definition sh_reserved :: "string list" where
  "sh_reserved = [''case'', ''do'', ''done'', ''elif'', ''else'', ''esac'', ''fi'', ''for'', ''if'', ''in'', ''then'', ''until'', ''while'']"

definition sh_words :: "string \<Rightarrow> string list option" where
  "sh_words line =
     (case filter (\<lambda>word. word \<noteq> '''') (strings_Split line (CHR '' '')) of
        [] \<Rightarrow> None
      | cmd # words \<Rightarrow>
        (if list_all (list_all sh_plain) (cmd # words) \<and> CHR ''='' \<notin> set cmd \<and> cmd \<notin> set sh_reserved
         then Some (cmd # words) else None))"

lemma sh_words_Join:
  assumes "list_all (list_all sh_plain) (cmd # words)" and "'''' \<notin> set (cmd # words)" and "CHR ''='' \<notin> set cmd" and "cmd \<notin> set sh_reserved"
  shows "sh_words (strings_Join (cmd # words) '' '') = Some (cmd # words)"
proof -
  have "\<forall>word \<in> set (cmd # words). CHR '' '' \<notin> set word" using assms(1) by (force simp: list_all_iff sh_plain_def)
  then have "strings_Split (strings_Join (cmd # words) '' '') (CHR '' '') = cmd # words" by (intro strings_Split_Join) simp_all
  moreover have "filter (\<lambda>word. word \<noteq> '''') (cmd # words) = cmd # words" using assms(2) by (intro filter_True) auto
  ultimately show ?thesis unfolding sh_words_def using assms(1,3,4) by (simp del: filter.simps)
qed

lemma sh_words_job:
  assumes "\<forall>arg \<in> set (job_words jc cib). \<forall>c \<in> set arg. sh_plain c" and "\<not> jc_EnableIstioSupport jc"
  shows "\<exists>line. prepareJobArgs jc cib = [''-c'', line] \<and> sh_words line = Some (job_words jc cib)"
proof -
  have "\<exists>cmd words. job_words jc cib = cmd # words \<and> cmd \<in> {''rootlesskit'', ''/usr/bin/forge''}"
    by (cases "jc_GrantFullPrivilege jc") (simp_all add: job_words_def)
  then obtain cmd words where w: "job_words jc cib = cmd # words" "cmd \<in> {''rootlesskit'', ''/usr/bin/forge''}" by blast
  have "'''' \<notin> set (job_words jc cib)" by (auto simp: job_words_def split: option.splits)
  then have "sh_words (strings_Join (job_words jc cib) '' '') = Some (job_words jc cib)"
    using assms(1) w(2) unfolding w(1) by (intro sh_words_Join) (auto simp: list_all_iff sh_reserved_def)
  with assms(2) show ?thesis by (simp add: prepareJobArgs_words)
qed

text \<open>C7. Without the Istio support, and if no word of it holds a blank or a character with a meaning to the shell, the command line that the controller gives a job makes the shell run, under
  rootlesskit unless the job is privileged, exactly one command, and this command runs exactly this build, in the namespace of its pod, with the
  layer caching, the plugins and the message broker that the controller was started with, the queue of the build taking precedence.\<close>

theorem job_command_runs_build:
  assumes "processBrokerOpts v0 = Inr v" and "v_brokerOpts v0 = None" and "me_ReadFile env namespace_file = Inr ns"
  defines "jc \<equiv> cc_JobConfig (controller_config v)"
  assumes "\<not> jc_EnableIstioSupport jc" and "\<forall>arg \<in> set (job_words jc cib). \<forall>c \<in> set arg. sh_plain c"
  shows "\<exists>line args u. prepareJobArgs jc cib = [''-c'', line] \<and>
    sh_words line = Some ((if jc_GrantFullPrivilege jc then [] else [''rootlesskit'']) @ ''/usr/bin/forge'' # args) \<and>
    Execute env args w = build_Run (me_deps env) (me_job env) u w \<and>
    build_job_config u = job_settings (me_getenv env) jc cib ns"
proof -
  have jc: "jc_BrokerOpts jc = v_brokerOpts v" by (simp add: jc_def controller_config_def)
  obtain u where "Execute env (''build'' # map (\<lambda>(n, x). long_arg n x) (job_flags jc cib)) w =
      build_Run (me_deps env) (me_job env) u w" "build_job_config u = job_settings (me_getenv env) jc cib ns"
    by (rule Execute_job [OF assms(1,2) jc assms(3)])
  with sh_words_job [OF assms(6,5)] show ?thesis unfolding job_words_flags by blast
qed

subsection \<open>A sample program\<close>

definition sample_vars :: cmd_vars where
  "sample_vars = (default_vars (\<lambda>_. ''''))\<lparr>v_messageBroker := ''AMQP'', v_amqpURI := ''amqp://mq'', v_enableLayerCaching := True\<rparr>"

definition sample_main :: "(unit, unit, unit, unit) main_env" where
  "sample_main =
     \<lparr>me_getenv = (\<lambda>_. ''''),
      me_parsers = \<lparr>fp_ParseInt = (\<lambda>_. Inr 0), fp_ParseDuration = (\<lambda>_. Inr 0), fp_csv_Read = (\<lambda>s. Inr (strings_Split s (CHR '','')))\<rparr>,
      me_ReadFile = (\<lambda>_. Inr ''ns''), me_Decode = (\<lambda>_. Inl (ErrText ''EOF'')), me_start = (\<lambda>_ w. (Returns None, w)),
      me_deps = \<lparr>jd_LoadConfig = None, jd_KubeClient = None, jd_ForgeClient = None, jd_NewProducer = (\<lambda>_ w. (Inr (), w)),
        jd_LoadPlugins = (\<lambda>_ w. (Inr [], w)), jd_NewBuilder = (\<lambda>_ _ w. (Inr (), w)), jd_Close = (\<lambda>_ w. w), jd_Kill = (\<lambda>_ w. w)\<rparr>,
      me_job = (\<lambda>_. job_sample None), me_crd_client = Inl (ErrText ''no cluster''), me_crd = Inl (ErrText ''no file''),
      me_library = (\<lambda>_ _ w. (Ended, w))\<rparr>"

definition sample_jc :: BuildJobConfig where
  "sample_jc = cc_JobConfig (controller_config (projr (processBrokerOpts sample_vars)))"

theorem job_command_runs_build_witness:
  "\<exists>line args. prepareJobArgs sample_jc job_build = [''-c'', line] \<and> sh_words line = Some (''rootlesskit'' # ''/usr/bin/forge'' # args) \<and>
     Execute sample_main args () = (Ended, ())"
proof -
  have v: "processBrokerOpts sample_vars = Inr (projr (processBrokerOpts sample_vars))" by code_simp
  have n: "v_brokerOpts sample_vars = None" by code_simp
  have r: "me_ReadFile sample_main namespace_file = Inr ''ns''" by (simp add: sample_main_def)
  have i: "\<not> jc_EnableIstioSupport sample_jc" by code_simp
  have b: "\<forall>arg \<in> set (job_words sample_jc job_build). \<forall>c \<in> set arg. sh_plain c" by code_simp
  have p: "\<not> jc_GrantFullPrivilege sample_jc" by code_simp
  obtain line args u where a: "prepareJobArgs sample_jc job_build = [''-c'', line]" "sh_words line = Some (''rootlesskit'' # ''/usr/bin/forge'' # args)"
    and e: "Execute sample_main args () = build_Run (me_deps sample_main) (me_job sample_main) u ()"
    and u: "build_job_config u = job_settings (me_getenv sample_main) sample_jc job_build ''ns''"
    using job_command_runs_build [OF v n r, folded sample_jc_def, OF i b, of "()"] p by auto
  have "build_Run (me_deps sample_main) (me_job sample_main) u () = (Ended, ())"
    unfolding build_Run_def u by code_simp
  with a e show ?thesis by auto
qed

end
