(* ===== verification/Forge_Access.thy ===== *)
theory Forge_Access
  imports Forge_Reconcile Forge_Buildjob Forge_Clientset
begin

section \<open>What a job may do in the cluster\<close>

text \<open>
  The controller gives each build a service account, a role and a binding (\<^verbatim>\<open>controllers/containerimagebuild_resources.go\<close>), and the
  build's job talks to the API server under that account (\<^verbatim>\<open>internal/buildjob\<close> over \<^verbatim>\<open>internal/clientset\<close>). This theory
  relates the two: the requests of a job, as the typed client sends them, against the rules of the role.
\<close>

subsection \<open>Requests and rules\<close>

record access =
  acc_Group :: string
  acc_Resource :: string
  acc_Verb :: string
  acc_Namespace :: string
  acc_Name :: string

text \<open>The verb under which the API server authorises a request, and the resource with its subresource.\<close>

definition api_verb :: "rest_request \<Rightarrow> string" where
  "api_verb rq =
     (if rq_verb rq = ''POST'' then ''create''
      else if rq_verb rq = ''PUT'' then ''update''
      else if rq_verb rq = ''PATCH'' then ''patch''
      else if rq_verb rq = ''DELETE'' then (if rq_name rq = '''' then ''deletecollection'' else ''delete'')
      else if rq_watch rq then ''watch''
      else if rq_name rq = '''' then ''list'' else ''get'')"

definition request_access :: "rest_request \<Rightarrow> access" where
  "request_access rq =
     \<lparr>acc_Group = SchemeGroup,
      acc_Resource = rq_resource rq @ (if rq_subresource rq = '''' then '''' else ''/'' @ rq_subresource rq),
      acc_Verb = api_verb rq, acc_Namespace = rq_namespace rq, acc_Name = rq_name rq\<rparr>"

definition rule_allows :: "access \<Rightarrow> PolicyRule \<Rightarrow> bool" where
  "rule_allows a rule \<longleftrightarrow>
     acc_Group a \<in> set (pr_APIGroups rule) \<and> acc_Resource a \<in> set (pr_Resources rule) \<and> acc_Verb a \<in> set (pr_Verbs rule) \<and>
     (pr_ResourceNames rule = [] \<or> acc_Name a \<in> set (pr_ResourceNames rule))"

text \<open>A service account may do in the namespace of a role what a rule of the role allows, if a binding of that namespace names both.\<close>

definition may_access :: "k8s_object \<Rightarrow> k8s_object \<Rightarrow> string \<times> string \<Rightarrow> access \<Rightarrow> bool" where
  "may_access binding role account a =
     (case (binding, role) of
        (RoleBindingObj rb, RoleObj ro) \<Rightarrow>
          rb_RoleRefKind rb = ''Role'' \<and> rb_RoleRefName rb = om_Name (role_Meta ro) \<and>
          om_Namespace (rb_Meta rb) = om_Namespace (role_Meta ro) \<and> acc_Namespace a = om_Namespace (role_Meta ro) \<and>
          list_ex (\<lambda>s. subj_Kind s = ''ServiceAccount'' \<and> (subj_Namespace s, subj_Name s) = account) (rb_Subjects rb) \<and>
          list_ex (rule_allows a) (role_Rules ro)
      | _ \<Rightarrow> False)"

definition job_account :: "Job \<Rightarrow> string \<times> string" where
  "job_account job = (om_Namespace (job_Meta job), pod_ServiceAccountName (job_PodSpec job))"

subsection \<open>The requests of a job\<close>

definition noted :: "(rest_request \<Rightarrow> 'w \<Rightarrow> 'r \<times> 'w) \<Rightarrow> rest_request \<Rightarrow> access list \<times> 'w \<Rightarrow> 'r \<times> access list \<times> 'w" where
  "noted rest rq lw = (case rest rq (snd lw) of (r, w1) \<Rightarrow> (r, fst lw @ [request_access rq], w1))"

text \<open>The environment of a job whose build client sends its requests to \<open>rest\<close>; every request is noted.\<close>

definition over_api ::
  "(rest_request \<Rightarrow> 'w \<Rightarrow> ContainerImageBuild result \<times> 'w) \<Rightarrow> 'w job_env \<Rightarrow> (access list \<times> 'w) job_env" where
  "over_api rest env =
     \<lparr>je_GetBuild = client_Get (noted rest), je_UpdateStatus = client_UpdateStatus (noted rest),
      je_Push = map_option (\<lambda>push u lw. case push u (snd lw) of (e, w1) \<Rightarrow> (e, fst lw, w1)) (je_Push env),
      je_Now = (\<lambda>lw. je_Now env (snd lw)),
      je_GetSecret = (\<lambda>ns name lw. case je_GetSecret env ns name (snd lw) of
         (r, w1) \<Rightarrow> (r, fst lw @ [\<lparr>acc_Group = '''', acc_Resource = ''secrets'', acc_Verb = ''get'',
           acc_Namespace = ns, acc_Name = name\<rparr>], w1)),
      je_NotExist = (\<lambda>p lw. je_NotExist env p (snd lw)), je_ReadFile = (\<lambda>p lw. je_ReadFile env p (snd lw)),
      je_LoadAuths = je_LoadAuths env,
      je_BuildAndPush = (\<lambda>opts lw. case je_BuildAndPush env opts (snd lw) of (r, w1) \<Rightarrow> (r, fst lw, w1)),
      je_auths_rng = je_auths_rng env, je_configs_rng = je_configs_rng env,
      je_Log = (\<lambda>msg lw. (fst lw, je_Log env msg (snd lw)))\<rparr>"

text \<open>A property of the world that every call of a job keeps is kept by the whole run.\<close>

locale job_calls =
  fixes env :: "'w job_env" and j :: build_job and P :: "'w \<Rightarrow> bool"
  assumes get: "P w \<Longrightarrow> je_GetBuild env (bj_namespace j) (bj_name j) w = (r, w1) \<Longrightarrow> P w1"
    and status: "P w \<Longrightarrow> je_UpdateStatus env (bj_namespace j) cib w = (r, w1) \<Longrightarrow> P w1"
    and message: "P w \<Longrightarrow> je_Push env = Some push \<Longrightarrow> push u w = (e, w1) \<Longrightarrow> P w1"
    and secret: "P w \<Longrightarrow> je_GetSecret env ns name w = (s, w1) \<Longrightarrow> P w1"
    and build: "P w \<Longrightarrow> je_BuildAndPush env opts w = (b, w1) \<Longrightarrow> P w1"
    and log: "P w \<Longrightarrow> P (je_Log env msg w)"
begin

lemma updateStatus_keeps: "P w \<Longrightarrow> updateStatus env j cib w = (r, w1) \<Longrightarrow> P w1"
  by (auto simp: updateStatus_def split: prod.splits sum.splits option.splits dest: status message)

lemma registry_auth_keeps: "P w \<Longrightarrow> registry_auth env reg w = (r, w1) \<Longrightarrow> P w1"
  by (auto simp: registry_auth_def getDockerAuthsFromSecret_def Let_def
      split: option.splits if_splits prod.splits sum.splits dest: secret)

lemma configure_registries_keeps: "P w \<Longrightarrow> configure_registries env regs m w = (r, w1) \<Longrightarrow> P w1"
  by (induction regs arbitrary: m w) (auto split: prod.splits sum.splits dest: registry_auth_keeps)

lemma generateBuildOptions_keeps: "P w \<Longrightarrow> generateBuildOptions env cib w = (r, w1) \<Longrightarrow> P w1"
  by (auto simp: generateBuildOptions_def buildRegistryConfigs_def Let_def
      split: prod.splits sum.splits dest: configure_registries_keeps)

lemma fail_with_keeps: "P w \<Longrightarrow> fail_with env j cib err w = (r, w1) \<Longrightarrow> P w1"
  by (auto simp: fail_with_def transitionToFailure_def split: prod.splits sum.splits option.splits dest: updateStatus_keeps)

lemma build_stage_keeps:
  assumes "P w" and "build_stage env j cib opts w = (r, w')"
  shows "P w'"
proof -
  obtain b w1 where b: "je_BuildAndPush env opts w = (b, w1)" by fastforce
  with assms(1) have "P w1" by (rule build)
  with assms(2) b show ?thesis
    by (auto simp: build_stage_def transitionToComplete_def split: sum.splits option.splits prod.splits
        dest: updateStatus_keeps fail_with_keeps fail_with_keeps [OF log])
qed

lemma Run_keeps:
  assumes "P w" and "Run env j w = (r, w')"
  shows "P w'"
  using assms(2)
proof (cases rule: Run_cases)
  case (built cib0 w1 cib w2 opts w3)
  with get [OF assms(1)] show ?thesis
    by (metis updateStatus_keeps transitionToBuilding_def generateBuildOptions_keeps build_stage_keeps)
qed (use get [OF assms(1)] in \<open>metis updateStatus_keeps transitionToBuilding_def generateBuildOptions_keeps fail_with_keeps\<close>)+

end

text \<open>The requests a job is expected to make: it reads its build, updates the status of builds in its namespace and reads secrets.\<close>

definition expected :: "build_job \<Rightarrow> access \<Rightarrow> bool" where
  "expected j a \<longleftrightarrow>
     acc_Group a = SchemeGroup \<and> acc_Namespace a = bj_namespace j \<and>
       (acc_Resource a = ''containerimagebuilds'' \<and> acc_Verb a = ''get'' \<and> acc_Name a = bj_name j \<or>
        acc_Resource a = ''containerimagebuilds/status'' \<and> acc_Verb a = ''update'') \<or>
     acc_Group a = '''' \<and> acc_Resource a = ''secrets'' \<and> acc_Verb a = ''get''"

interpretation api_job: job_calls "over_api rest env" j "\<lambda>lw. bj_name j \<noteq> '''' \<longrightarrow> list_all (expected j) (fst lw)" for rest env j
  by unfold_locales
    (auto simp: over_api_def client_Get_def client_UpdateStatus_def builds_request_def noted_def request_access_def api_verb_def
      expected_def split: prod.splits)

lemma job_requests_expected: "Run (over_api rest env) j ([], w) = (r, (l, w')) \<Longrightarrow> bj_name j \<noteq> '''' \<Longrightarrow> \<forall>a \<in> set l. expected j a"
  using api_job.Run_keeps [of j "([], w)" rest env] by (auto simp: list_all_iff)

lemma expected_allowed:
  assumes "expected j a" and "acc_Namespace a = cib_Namespace cib"
  shows "may_access (role_binding cib) (build_role jc cib) (cib_Namespace cib, cib_Name cib) a"
  using assms
  by (auto simp: may_access_def role_binding_def build_role_def role_rules_def rule_allows_def resource_meta_def expected_def)

lemma allowed_group:
  assumes "may_access (role_binding cib) (build_role jc cib) account a"
  shows "acc_Namespace a = cib_Namespace cib \<and> (acc_Group a = SchemeGroup \<longrightarrow>
    (acc_Resource a, acc_Verb a) \<in> {(''containerimagebuilds'', ''get''), (''containerimagebuilds/status'', ''update'')})"
  using assms
  by (auto simp: may_access_def role_binding_def build_role_def role_rules_def rule_allows_def resource_meta_def SchemeGroup_def
      split: if_splits)

text \<open>C8. The account of a job's pod may make every request that the job makes in the namespace of its build. Outside of this namespace the job only ever reads secrets, and
  the account may do nothing there. Of the build resources the account may do nothing but read them and update their status.\<close>

theorem job_within_role:
  fixes renv :: "'x rec_env" and jc :: BuildJobConfig and res :: ResourceRequirements
  assumes "Run (over_api rest env) j ([], w) = (r, (l, w'))"
    and "bj_namespace j = cib_Namespace cib" and "bj_name j \<noteq> ''''"
  defines "may \<equiv> may_access (role_binding cib) (build_role jc cib) (job_account (job_for_build renv jc cib res))"
  shows "(\<forall>a \<in> set l. acc_Namespace a = cib_Namespace cib \<longrightarrow> may a) \<and>
    (\<forall>a \<in> set l. acc_Namespace a \<noteq> cib_Namespace cib \<longrightarrow> acc_Resource a = ''secrets'' \<and> acc_Verb a = ''get'') \<and>
    (\<forall>a. may a \<longrightarrow> acc_Namespace a = cib_Namespace cib \<and> (acc_Group a = SchemeGroup \<longrightarrow>
       (acc_Resource a, acc_Verb a) \<in> {(''containerimagebuilds'', ''get''), (''containerimagebuilds/status'', ''update'')}))"
proof -
  have "job_account (job_for_build renv jc cib res) = (cib_Namespace cib, cib_Name cib)"
    by (simp add: job_account_def job_for_build_def resource_meta_def)
  then have may: "may = may_access (role_binding cib) (build_role jc cib) (cib_Namespace cib, cib_Name cib)"
    by (simp add: may_def)
  have e: "\<forall>a \<in> set l. expected j a" by (rule job_requests_expected [OF assms(1,3)])
  then have "\<forall>a \<in> set l. acc_Namespace a \<noteq> cib_Namespace cib \<longrightarrow> acc_Resource a = ''secrets'' \<and> acc_Verb a = ''get''"
    using assms(2) by (auto simp: expected_def)
  with e expected_allowed allowed_group show ?thesis unfolding may by blast
qed

definition sample_rest :: "rest_request \<Rightarrow> unit \<Rightarrow> ContainerImageBuild result \<times> unit" where
  "sample_rest rq w = (Inr (case rq_body rq of BuildBody cib \<Rightarrow> json_view cib | _ \<Rightarrow> job_build), w)"

definition sample_accesses :: "go_error option \<times> access list \<times> unit" where
  "sample_accesses = Run (over_api sample_rest (job_sample None)) job_ref ([], ())"

theorem job_within_role_witness:
  "map acc_Resource (fst (snd sample_accesses)) =
     [''containerimagebuilds'', ''containerimagebuilds/status'', ''secrets'', ''containerimagebuilds/status''] \<and>
   list_all (may_access (role_binding job_build) (build_role zero_config job_build)
       (job_account (job_for_build mem_env zero_config job_build (projr (job_resources mem_env job_build))))) (fst (snd sample_accesses))"
proof -
  have run: "Run (over_api sample_rest (job_sample None)) job_ref ([], ()) = (fst sample_accesses, (fst (snd sample_accesses), ()))"
    by (metis prod.collapse sample_accesses_def unit.exhaust)
  have a: "map acc_Resource (fst (snd sample_accesses)) =
      [''containerimagebuilds'', ''containerimagebuilds/status'', ''secrets'', ''containerimagebuilds/status'']" by code_simp
  have ns: "list_all (\<lambda>a. acc_Namespace a = cib_Namespace job_build) (fst (snd sample_accesses))" by code_simp
  have j: "bj_namespace job_ref = cib_Namespace job_build" "bj_name job_ref \<noteq> ''''" by code_simp+
  from job_within_role [OF run j, where renv = mem_env and jc = zero_config and res = "projr (job_resources mem_env job_build)"] ns a show ?thesis
    by (auto simp: list_all_iff)
qed

end
