(* ===== verification/Forge_Provision.thy ===== *)
theory Forge_Provision
  imports Forge_Access Forge_Start
begin

section \<open>What a reconciliation leaves for the job\<close>

text \<open>
  The objects of a build as the API server holds them after a first successful reconciliation, and whether they let the job do its work. The controller's theories show
  what it asks the server to create; here the server is known to keep what is asked for, up to the fields it fills in itself, and the theorem is about the stored objects: the role and
  the binding that the server evaluates, the account of the pod it starts, and the secret it mounts.
\<close>

subsection \<open>A server that keeps what it is asked to create\<close>

text \<open>What a stored object has of the one that was asked for. The server completes metadata, resources and security settings; it keeps the rules of a role, a binding's role and subjects, the content
  of a secret, and of a job the account, the volumes, and the commands and mounts of its containers.\<close>

fun kept_content :: "k8s_object \<Rightarrow> k8s_object \<Rightarrow> bool" where
  "kept_content (ServiceAccountObj m) (ServiceAccountObj m') \<longleftrightarrow> True"
| "kept_content (RoleObj ro) (RoleObj ro') \<longleftrightarrow> role_Rules ro' = role_Rules ro"
| "kept_content (RoleBindingObj rb) (RoleBindingObj rb') \<longleftrightarrow>
     rb_RoleRefKind rb' = rb_RoleRefKind rb \<and> rb_RoleRefName rb' = rb_RoleRefName rb \<and> rb_Subjects rb' = rb_Subjects rb"
| "kept_content (SecretObj sec) (SecretObj sec') \<longleftrightarrow> sec_Type sec' = sec_Type sec \<and> sec_Data sec' = sec_Data sec"
| "kept_content (JobObj job) (JobObj job') \<longleftrightarrow>
     pod_ServiceAccountName (job_PodSpec job') = pod_ServiceAccountName (job_PodSpec job) \<and>
     pod_Volumes (job_PodSpec job') = pod_Volumes (job_PodSpec job) \<and>
     map (\<lambda>c. (ctr_Command c, ctr_Args c, ctr_VolumeMounts c)) (pod_Containers (job_PodSpec job')) =
       map (\<lambda>c. (ctr_Command c, ctr_Args c, ctr_VolumeMounts c)) (pod_Containers (job_PodSpec job))"
| "kept_content (BuildObj c) (BuildObj c') \<longleftrightarrow> cib_Spec c' = cib_Spec c"
| "kept_content _ _ \<longleftrightarrow> False"

lemma kept_content_refl [simp]: "kept_content ob ob"
  by (cases ob) auto

lemma kept_content_meta [simp]: "kept_content (set_object_meta m ob) ob' = kept_content ob ob'"
  by (cases ob; cases ob') auto

definition as_requested :: "('w \<Rightarrow> object_key \<Rightarrow> k8s_object option) \<Rightarrow> 'w \<Rightarrow> k8s_object \<Rightarrow> bool" where
  "as_requested objs w ob \<longleftrightarrow> (\<exists>ob'. objs w (object_key ob) = Some ob' \<and> kept_content ob ob')"

lemma adds_requested: "adds objs cib ks w w' \<Longrightarrow> as_requested objs w ob \<Longrightarrow> as_requested objs w' ob"
  unfolding as_requested_def using adds_keeps by fast

lemma SetControllerReference_meta: "SetControllerReference gvk cib ob = Inr ob' \<Longrightarrow> \<exists>m. ob' = set_object_meta m ob"
  by (auto simp: SetControllerReference_def Let_def split: option.splits sum.splits prod.splits if_splits)

lemma build_key_eq [simp]: "build_key k cib = build_key k' cib \<longleftrightarrow> k = k'"
  by (simp add: build_key_def)

lemma secret_key_other [simp]: "k \<noteq> SecretKind \<Longrightarrow> build_key k cib \<noteq> secret_key cib" "k \<noteq> SecretKind \<Longrightarrow> secret_key cib \<noteq> build_key k cib"
  by (auto simp: build_key_def secret_key_def)

locale keeping_cluster = cluster env objs
  for env :: "'w rec_env" and objs +
  assumes create_content:
    "kube_Create (re_kube env) ob w = (None, w') \<Longrightarrow> objs w' (object_key ob) = Some ob' \<Longrightarrow> kept_content ob ob'"
begin

lemma withOwnedResource_requested:
  assumes "withOwnedResource env cib ob s = (Returns None, s')" and "objs (rs_world s) (object_key ob) = None"
  shows "as_requested objs (rs_world s') ob"
proof -
  have "\<nexists>x. kube_Get (re_kube env) (rs_world s) (object_key ob) = Inr x" using get_found assms(2) by fastforce
  with assms(1) obtain ob2 where own: "SetControllerReference (re_gvk env) cib ob = Inr ob2"
    and create: "kube_Create (re_kube env) ob2 (rs_world s) = (None, rs_world s')"
    by (auto simp: withOwnedResource_def split: sum.splits if_splits prod.splits)
  from SetControllerReference_meta [OF own] obtain m where "ob2 = set_object_meta m ob" by blast
  moreover from withOwnedResource_provides [OF assms(1)] obtain ob' where "objs (rs_world s') (object_key ob) = Some ob'" by blast
  ultimately show ?thesis
    using create_content [OF create] SetControllerReference_key [OF own] by (auto simp: as_requested_def)
qed

lemma withOwnedResource_others:
  "withOwnedResource env cib ob s = (r, s') \<Longrightarrow> k \<noteq> object_key ob \<Longrightarrow> objs (rs_world s') k = objs (rs_world s) k"
  using adds_outside [OF withOwnedResource_adds [where ks = "{object_key ob}"]] by blast

lemma checkCloud_requested:
  assumes "checkCloudRegistrySecrets env cib s = (Returns None, s')" and "needs_cloud cib" and "objs (rs_world s) (secret_key cib) = None"
  shows "\<exists>auths w1 data. cloud_auths env (spec_Registries (cib_Spec cib)) [] (rs_world s) = (Returns (Inr auths), w1) \<and>
    re_marshal env auths = Inr data \<and> as_requested objs (rs_world s') (cloud_secret cib data)"
proof -
  obtain o1 w1 where run: "cloud_auths env (spec_Registries (cib_Spec cib)) [] (rs_world s) = (o1, w1)" by (metis surj_pair)
  with assms(1) obtain auths where auths: "o1 = Returns (Inr auths)"
    by (auto simp: checkCloudRegistrySecrets_def split: outcome.splits sum.splits)
  with run assms(2) have "auths \<noteq> []" using cloud_auths_ne by (fastforce simp: needs_cloud_def)
  with assms(1) run auths obtain data s1 where data: "re_marshal env auths = Inr data"
    and steps: "withOwnedResource env cib (cloud_secret cib data) (s\<lparr>rs_world := w1\<rparr>) = (Returns None, s1)" "add_dynamic cib s1 = (Returns None, s')"
    by (auto simp: checkCloudRegistrySecrets_def Let_def and_then_None split: sum.splits)
  from cloud_auths_frame [OF run] assms(3) have "objs (rs_world (s\<lparr>rs_world := w1\<rparr>)) (object_key (cloud_secret cib data)) = None" by simp
  from withOwnedResource_requested [OF steps(1) this] steps(2) have "as_requested objs (rs_world s') (cloud_secret cib data)"
    by (auto simp: add_dynamic_def)
  with run auths data show ?thesis by blast
qed

lemma checkPrerequisites_requested:
  assumes "checkPrerequisites env cib s = (Returns None, s')" and "\<forall>k \<in> prereq_keys cib. objs (rs_world s) k = None"
  shows "as_requested objs (rs_world s') (service_account cib)" and "as_requested objs (rs_world s') (build_role (rs_JobConfig s) cib)"
    and "as_requested objs (rs_world s') (role_binding cib)"
    and "needs_cloud cib \<Longrightarrow> \<exists>w0 auths w1 data. cloud_auths env (spec_Registries (cib_Spec cib)) [] w0 = (Returns (Inr auths), w1) \<and>
      re_marshal env auths = Inr data \<and> as_requested objs (rs_world s') (cloud_secret cib data)"
proof -
  from assms(1) obtain s1 s2 s3 where
    steps: "withOwnedResource env cib (service_account cib) s = (Returns None, s1)"
      "withOwnedResource env cib (build_role (rs_JobConfig s1) cib) s1 = (Returns None, s2)"
      "withOwnedResource env cib (role_binding cib) s2 = (Returns None, s3)"
    and cloud: "checkCloudRegistrySecrets env cib s3 = (Returns None, s')"
    unfolding checkPrerequisites_def and_then_None checkServiceAccount_def checkRole_def checkRoleBinding_def by blast
  have config: "rs_JobConfig s1 = rs_JobConfig s" using withOwnedResource_fields [OF steps(1)] by (simp add: same_fields_def)
  note others = steps [THEN withOwnedResource_others]
  have none: "objs (rs_world s) (build_key ServiceAccountKind cib) = None" "objs (rs_world s1) (build_key RoleKind cib) = None"
    "objs (rs_world s2) (build_key RoleBindingKind cib) = None" "needs_cloud cib \<Longrightarrow> objs (rs_world s3) (secret_key cib) = None"
    using assms(2) by (auto simp: others prereq_keys_def)
  note keep = adds_requested [OF withOwnedResource_adds [OF steps(2) UNIV_I]] adds_requested [OF withOwnedResource_adds [OF steps(3) UNIV_I]]
    adds_requested [OF checkCloud_adds [OF cloud]]
  from withOwnedResource_requested [OF steps(1)] none(1) have "as_requested objs (rs_world s1) (service_account cib)" by simp
  then show "as_requested objs (rs_world s') (service_account cib)" by (intro keep)
  from withOwnedResource_requested [OF steps(2)] none(2) config have "as_requested objs (rs_world s2) (build_role (rs_JobConfig s) cib)" by simp
  then show "as_requested objs (rs_world s') (build_role (rs_JobConfig s) cib)" by (intro keep(2,3))
  from withOwnedResource_requested [OF steps(3)] none(3) have "as_requested objs (rs_world s3) (role_binding cib)" by simp
  then show "as_requested objs (rs_world s') (role_binding cib)" by (rule keep(3))
  show "\<exists>w0 auths w1 data. cloud_auths env (spec_Registries (cib_Spec cib)) [] w0 = (Returns (Inr auths), w1) \<and>
      re_marshal env auths = Inr data \<and> as_requested objs (rs_world s') (cloud_secret cib data)" if "needs_cloud cib"
    using checkCloud_requested [OF cloud that none(4) [OF that]] by blast
qed

lemma createJobForBuild_requested:
  assumes "createJobForBuild env cib s = (Returns None, s')" and "objs (rs_world s) (build_key JobKind cib) = None"
  shows "\<exists>res. as_requested objs (rs_world s') (JobObj (job_for_build env (rs_JobConfig s) cib res))"
proof -
  from assms(1) obtain res s1 where "withOwnedResource env cib (JobObj (job_for_build env (rs_JobConfig s) cib res)) s = (Returns None, s1)" "s' = reset_dynamic s1"
    by (auto simp: createJobForBuild_def split: sum.splits prod.splits)
  with withOwnedResource_requested [OF this(1)] assms(2) show ?thesis by (auto simp: reset_dynamic_def)
qed

text \<open>Every resource of the build is stored as the controller asked for it.\<close>

lemma Reconcile_requested:
  assumes "Reconcile env req s = (Returns None, s')" and "fresh_build env req s cib" and "\<forall>k \<in> all_keys cib. objs (rs_world s) k = None"
  defines "jc \<equiv> (if needs_cloud cib then with_cloud cib (rs_JobConfig s) else rs_JobConfig s)"
  shows "as_requested objs (rs_world s') (service_account cib)" and "as_requested objs (rs_world s') (build_role (rs_JobConfig s) cib)"
    and "as_requested objs (rs_world s') (role_binding cib)"
    and "\<exists>res. as_requested objs (rs_world s') (JobObj (job_for_build env jc cib res))"
    and "needs_cloud cib \<Longrightarrow> \<exists>w0 auths w1 data. cloud_auths env (spec_Registries (cib_Spec cib)) [] w0 = (Returns (Inr auths), w1) \<and>
      re_marshal env auths = Inr data \<and> as_requested objs (rs_world s') (cloud_secret cib data)"
proof -
  from assms(1,2) obtain s0 s1 where s0: "rs_world s0 = rs_world s" "rs_JobConfig s0 = rs_JobConfig s"
    and stages: "checkPrerequisites env cib s0 = (Returns None, s1)" "createJobForBuild env cib s1 = (Returns None, s')"
    by (cases rule: Reconcile_cases) (auto simp: and_then_None dest: fresh_build_unique)
  have "\<forall>k \<in> prereq_keys cib. objs (rs_world s0) k = None" using assms(3) s0 by (simp add: all_keys_def)
  note pre = checkPrerequisites_requested [OF stages(1) this]
  note keep = adds_requested [OF createJobForBuild_adds [OF stages(2)]]
  from pre(1-3) show "as_requested objs (rs_world s') (service_account cib)" "as_requested objs (rs_world s') (build_role (rs_JobConfig s) cib)"
    "as_requested objs (rs_world s') (role_binding cib)" unfolding s0 by (blast intro: keep)+
  show "\<exists>w0 auths w1 data. cloud_auths env (spec_Registries (cib_Spec cib)) [] w0 = (Returns (Inr auths), w1) \<and>
      re_marshal env auths = Inr data \<and> as_requested objs (rs_world s') (cloud_secret cib data)" if "needs_cloud cib"
    using pre(4) [OF that] keep by blast
  have "objs (rs_world s1) (build_key JobKind cib) = None"
    using adds_outside [OF checkPrerequisites_adds [OF stages(1)] job_key_no_prereq] assms(3) s0 by (simp add: all_keys_def)
  moreover have "rs_JobConfig s1 = jc" by (simp add: jc_def checkPrerequisites_config [OF stages(1)] s0)
  ultimately show "\<exists>res. as_requested objs (rs_world s') (JobObj (job_for_build env jc cib res))"
    using createJobForBuild_requested [OF stages(2)] by simp
qed

end

interpretation memk: keeping_cluster mem_env mem_lookup
proof (intro keeping_cluster.intro keeping_cluster_axioms.intro)
  show "cluster mem_env mem_lookup" by (rule memc.cluster_axioms)
  fix ob w w' ob'
  assume "kube_Create (re_kube mem_env) ob w = (None, w')" and "mem_lookup w' (object_key ob) = Some ob'"
  then show "kept_content ob ob'" by (auto simp: mem_kube_def mem_Create_def mem_lookup_insert split: option.splits)
qed

subsection \<open>The job can do its work\<close>

lemma stored_access:
  assumes "may_access (role_binding cib) (build_role jc cib) account a"
    and "kept_content (role_binding cib) binding" and "object_key binding = build_key RoleBindingKind cib"
    and "kept_content (build_role jc cib) role" and "object_key role = build_key RoleKind cib"
  shows "may_access binding role account a"
proof -
  from assms(2) obtain rb where rb: "binding = RoleBindingObj rb" by (cases binding) (auto simp: role_binding_def)
  from assms(4) obtain ro where ro: "role = RoleObj ro" by (cases role) (auto simp: build_role_def)
  from assms show ?thesis
    by (auto simp: rb ro may_access_def role_binding_def build_role_def resource_meta_def object_key_def build_key_def)
qed

lemma with_cloud_sel:
  "jc_EnableLayerCaching (with_cloud cib jc) = jc_EnableLayerCaching jc" "jc_PreparerPluginPath (with_cloud cib jc) = jc_PreparerPluginPath jc"
  "jc_BrokerOpts (with_cloud cib jc) = jc_BrokerOpts jc" "jc_GrantFullPrivilege (with_cloud cib jc) = jc_GrantFullPrivilege jc"
  "jc_EnableIstioSupport (with_cloud cib jc) = jc_EnableIstioSupport jc"
  by (simp_all add: with_cloud_def)

lemma prepareJobArgs_cloud: "prepareJobArgs (with_cloud cib jc) cib = prepareJobArgs jc cib"
  unfolding prepareJobArgs_def with_cloud_sel ..

lemma cloud_volume_mounted: "cloud_volume cib \<in> set (job_volumes (with_cloud cib jc))" "cloud_mount \<in> set (job_mounts env (with_cloud cib jc))"
  by (simp_all add: job_volumes_def job_mounts_def with_cloud_def)

text \<open>A job that finds the content of the secret \<open>name\<close> in the file from which it reads its credentials.\<close>

definition reads_credentials :: "string \<Rightarrow> Job \<Rightarrow> bool" where
  "reads_credentials name job \<longleftrightarrow>
     (\<exists>v \<in> set (pod_Volumes (job_PodSpec job)). vol_Source v = SecretSource name [(DockerConfigJsonKey, DynamicCredentialsFilename)] \<and>
        list_all (\<lambda>c. \<exists>m \<in> set (ctr_VolumeMounts c). vm_Name m = vol_Name v \<and> vm_MountPath m = DynamicCredentialsPath) (pod_Containers (job_PodSpec job)))"

lemma reads_cloud_secret:
  assumes "pod_Volumes (job_PodSpec job) = job_volumes (with_cloud cib jc)"
    and "map ctr_VolumeMounts (pod_Containers (job_PodSpec job)) = [job_mounts env (with_cloud cib jc)]"
  shows "reads_credentials (cloud_secret_name cib) job"
proof -
  from assms(2) have "list_all (\<lambda>c. cloud_mount \<in> set (ctr_VolumeMounts c)) (pod_Containers (job_PodSpec job))"
    using cloud_volume_mounted(2) by auto
  then have "list_all (\<lambda>c. \<exists>m \<in> set (ctr_VolumeMounts c). vm_Name m = vol_Name (cloud_volume cib) \<and> vm_MountPath m = DynamicCredentialsPath)
      (pod_Containers (job_PodSpec job))"
    by (rule list.pred_mono_strong) (force simp: cloud_mount_def cloud_volume_def)
  moreover have "cloud_volume cib \<in> set (pod_Volumes (job_PodSpec job))" unfolding assms(1) by (rule cloud_volume_mounted)
  moreover have "vol_Source (cloud_volume cib) = SecretSource (cloud_secret_name cib) [(DockerConfigJsonKey, DynamicCredentialsFilename)]"
    by (simp add: cloud_volume_def)
  ultimately show ?thesis unfolding reads_credentials_def by blast
qed

lemma stored_job:
  assumes "as_requested objs w (JobObj (job_for_build env jc cib res))" and "\<forall>k ob. objs w k = Some ob \<longrightarrow> object_key ob = k"
  shows "\<exists>job. objs w (build_key JobKind cib) = Some (JobObj job) \<and> job_account job = (cib_Namespace cib, cib_Name cib) \<and>
    map ctr_Args (pod_Containers (job_PodSpec job)) = [prepareJobArgs jc cib] \<and> pod_Volumes (job_PodSpec job) = job_volumes jc \<and>
    map ctr_VolumeMounts (pod_Containers (job_PodSpec job)) = [job_mounts env jc]"
proof -
  from assms(1) obtain ob where ob: "objs w (build_key JobKind cib) = Some ob" "kept_content (JobObj (job_for_build env jc cib res)) ob"
    by (auto simp: as_requested_def)
  then obtain job where job: "ob = JobObj job" by (cases ob) auto
  with ob(2) have content: "pod_ServiceAccountName (job_PodSpec job) = cib_Name cib" "pod_Volumes (job_PodSpec job) = job_volumes jc"
    "map (\<lambda>c. (ctr_Command c, ctr_Args c, ctr_VolumeMounts c)) (pod_Containers (job_PodSpec job)) = [([''/bin/sh''], prepareJobArgs jc cib, job_mounts env jc)]"
    by (auto simp: job_for_build_def build_container_def)
  from content(3) have lists: "map ctr_Args (pod_Containers (job_PodSpec job)) = [prepareJobArgs jc cib]"
    "map ctr_VolumeMounts (pod_Containers (job_PodSpec job)) = [job_mounts env jc]" by auto
  have "object_key ob = build_key JobKind cib" using assms(2) ob(1) by blast
  then have account: "job_account job = (cib_Namespace cib, cib_Name cib)"
    using content(1) by (simp add: job job_account_def object_key_def build_key_def)
  show ?thesis by (rule exI [of _ job]) (intro conjI ob(1) [unfolded job] account lists content(2))
qed

lemma stored_secret:
  assumes "as_requested objs w (cloud_secret cib data)" and "\<forall>k ob. objs w k = Some ob \<longrightarrow> object_key ob = k"
  shows "\<exists>sec. objs w (secret_key cib) = Some (SecretObj sec) \<and> om_Name (sec_Meta sec) = cloud_secret_name cib \<and> sec_Data sec = [(DockerConfigJsonKey, data)]"
proof -
  from assms(1) obtain ob where ob: "objs w (secret_key cib) = Some ob" "kept_content (cloud_secret cib data) ob" by (auto simp: as_requested_def)
  then obtain sec where sec: "ob = SecretObj sec" by (cases ob) (auto simp: cloud_secret_def)
  have "object_key ob = secret_key cib" using assms(2) ob(1) by blast
  with ob sec show ?thesis by (simp add: cloud_secret_def object_key_def secret_key_def)
qed

text \<open>C3. What a first successful reconciliation leaves in the cluster lets the job do its work. The stored job runs the command line of the build under an account that is there, and the stored
  role and binding give that account every request that the job makes in its namespace. If the build asked for cloud credentials, the stored secret holds those that were fetched for it,
  and the stored job mounts it where the job reads them.\<close>

theorem provisioned_job_works:
  assumes "keeping_cluster env objs" and "fresh_build env req s cib" and "\<forall>k \<in> all_keys cib. objs (rs_world s) k = None"
    and "Reconcile env req s = (Returns None, s')"
    and "Run (over_api rest jenv) j ([], w) = (r, (l, w'))" and "bj_namespace j = cib_Namespace cib" and "bj_name j \<noteq> ''''"
  shows "\<exists>job role binding.
    objs (rs_world s') (build_key JobKind cib) = Some (JobObj job) \<and> objs (rs_world s') (build_key RoleKind cib) = Some role \<and>
    objs (rs_world s') (build_key RoleBindingKind cib) = Some binding \<and> objs (rs_world s') (ServiceAccountKind, job_account job) \<noteq> None \<and>
    map ctr_Args (pod_Containers (job_PodSpec job)) = [prepareJobArgs (rs_JobConfig s) cib] \<and>
    (\<forall>a \<in> set l. acc_Namespace a = cib_Namespace cib \<longrightarrow> may_access binding role (job_account job) a) \<and>
    (needs_cloud cib \<longrightarrow>
      (\<exists>w0 auths w1 data sec. cloud_auths env (spec_Registries (cib_Spec cib)) [] w0 = (Returns (Inr auths), w1) \<and> re_marshal env auths = Inr data \<and>
         objs (rs_world s') (secret_key cib) = Some (SecretObj sec) \<and> sec_Data sec = [(DockerConfigJsonKey, data)] \<and>
         reads_credentials (om_Name (sec_Meta sec)) job))"
proof -
  let ?w = "rs_world s'"
  define jc where "jc = (if needs_cloud cib then with_cloud cib (rs_JobConfig s) else rs_JobConfig s)"
  note stored = keeping_cluster.Reconcile_requested [OF assms(1,4,2,3), folded jc_def]
  have api: "kube_api (re_kube env) objs" using assms(1) unfolding keeping_cluster_def cluster_def by blast
  note key = kube_api.objs_key [OF api]
  have keys: "\<forall>k ob. objs ?w k = Some ob \<longrightarrow> object_key ob = k" using key by blast
  from stored(4) obtain res where "as_requested objs ?w (JobObj (job_for_build env jc cib res))" by blast
  from stored_job [OF this keys] obtain job where job: "objs ?w (build_key JobKind cib) = Some (JobObj job)"
    "job_account job = (cib_Namespace cib, cib_Name cib)" "map ctr_Args (pod_Containers (job_PodSpec job)) = [prepareJobArgs jc cib]"
    "pod_Volumes (job_PodSpec job) = job_volumes jc" "map ctr_VolumeMounts (pod_Containers (job_PodSpec job)) = [job_mounts env jc]"
    by (elim exE conjE) (rule that)
  note held = stored(1-3) [unfolded as_requested_def resource_keys]
  from held(1) obtain sa where sa: "objs ?w (build_key ServiceAccountKind cib) = Some sa" by blast
  from held(2) obtain role where role: "objs ?w (build_key RoleKind cib) = Some role" "kept_content (build_role (rs_JobConfig s) cib) role" by blast
  from held(3) obtain binding where binding: "objs ?w (build_key RoleBindingKind cib) = Some binding" "kept_content (role_binding cib) binding" by blast
  have access: "\<forall>a \<in> set l. acc_Namespace a = cib_Namespace cib \<longrightarrow> may_access binding role (job_account job) a"
  proof (intro ballI impI)
    fix a assume a: "a \<in> set l" "acc_Namespace a = cib_Namespace cib"
    have "expected j a" using job_requests_expected [OF assms(5,7)] a(1) by blast
    from stored_access [OF expected_allowed [OF this a(2)] binding(2) key [OF binding(1)] role(2) key [OF role(1)]]
    show "may_access binding role (job_account job) a" unfolding job(2) .
  qed
  have cloud: "needs_cloud cib \<longrightarrow> (\<exists>w0 auths w1 data sec. cloud_auths env (spec_Registries (cib_Spec cib)) [] w0 = (Returns (Inr auths), w1) \<and> re_marshal env auths = Inr data \<and>
      objs ?w (secret_key cib) = Some (SecretObj sec) \<and> sec_Data sec = [(DockerConfigJsonKey, data)] \<and> reads_credentials (om_Name (sec_Meta sec)) job)" (is "_ \<longrightarrow> ?cloud")
  proof (rule impI)
    assume needs: "needs_cloud cib"
    from stored(5) [OF needs] obtain w0 auths w1 data where fetched: "cloud_auths env (spec_Registries (cib_Spec cib)) [] w0 = (Returns (Inr auths), w1)"
      "re_marshal env auths = Inr data" "as_requested objs ?w (cloud_secret cib data)" by blast
    from stored_secret [OF fetched(3) keys] obtain sec where sec: "objs ?w (secret_key cib) = Some (SecretObj sec)"
      "om_Name (sec_Meta sec) = cloud_secret_name cib" "sec_Data sec = [(DockerConfigJsonKey, data)]" by blast
    have "reads_credentials (om_Name (sec_Meta sec)) job" unfolding sec(2) by (rule reads_cloud_secret [OF job(4,5) [unfolded jc_def if_P [OF needs]]])
    with fetched(1,2) sec(1,3) show "?cloud" by blast
  qed
  have "prepareJobArgs jc cib = prepareJobArgs (rs_JobConfig s) cib" by (simp add: jc_def prepareJobArgs_cloud)
  then have args: "map ctr_Args (pod_Containers (job_PodSpec job)) = [prepareJobArgs (rs_JobConfig s) cib]" unfolding job(3) by simp
  have account: "objs ?w (ServiceAccountKind, job_account job) \<noteq> None" using sa by (simp add: job(2) build_key_def)
  from job(1) role(1) binding(1) account args access cloud show ?thesis by (intro exI [of _ job] exI [of _ role] exI [of _ binding] conjI)
qed

subsection \<open>The jobs of a running controller\<close>

text \<open>C16. Whatever a running controller has handled before, the job that a first successful reconciliation of a build leaves in the cluster is made from the configuration the controller was started with: its
  container runs the command line of that configuration, and its volumes and mounts are the two scratch directories, the configured ones, the secret of this very build exactly if it
  asked for cloud credentials, and the CA bundle if one is configured. Nothing of an earlier build is left in it.\<close>

theorem controller_jobs_configured:
  assumes "keeping_cluster env objs" and "no_dynamic (cc_JobConfig cfg)"
    and "run_events srt capacity env cfg evs (new_state cfg w) = (Returns (), s)"
    and "fresh_build env req s cib" and "\<forall>k \<in> all_keys cib. objs (rs_world s) k = None"
    and "Reconcile env req s = (Returns None, s')"
  defines "jc \<equiv> cc_JobConfig cfg"
  shows "\<exists>job. objs (rs_world s') (build_key JobKind cib) = Some (JobObj job) \<and>
    map ctr_Args (pod_Containers (job_PodSpec job)) = [prepareJobArgs jc cib] \<and>
    pod_Volumes (job_PodSpec job) =
      [\<lparr>vol_Name = ''build-context-dir'', vol_Source = EmptyDir\<rparr>, \<lparr>vol_Name = ''state-dir'', vol_Source = EmptyDir\<rparr>]
      @ jc_Volumes jc @ (if needs_cloud cib then [cloud_volume cib] else [])
      @ (if jc_CustomCAConfigMap jc = '''' then [] else [\<lparr>vol_Name = ''ca-bundle'', vol_Source = ConfigMapSource (jc_CustomCAConfigMap jc)\<rparr>]) \<and>
    map ctr_VolumeMounts (pod_Containers (job_PodSpec job)) =
      [[\<lparr>vm_Name = ''build-context-dir'', vm_MountPath = BuildContextPath, vm_ReadOnly = False\<rparr>,
        \<lparr>vm_Name = ''state-dir'', vm_MountPath = GetStateDir (re_getenv env), vm_ReadOnly = False\<rparr>]
       @ jc_VolumeMounts jc @ (if needs_cloud cib then [cloud_mount] else [])
       @ (if jc_CustomCAConfigMap jc = '''' then [] else [\<lparr>vm_Name = ''ca-bundle'', vm_MountPath = ''/etc/ssl/certs'', vm_ReadOnly = True\<rparr>])]"
proof -
  have config: "rs_JobConfig s = jc" unfolding jc_def by (rule run_events_JobConfig [OF assms(3,2)])
  define jc1 where "jc1 = (if needs_cloud cib then with_cloud cib jc else jc)"
  have api: "kube_api (re_kube env) objs" using assms(1) unfolding keeping_cluster_def cluster_def by blast
  have keys: "\<forall>k ob. objs (rs_world s') k = Some ob \<longrightarrow> object_key ob = k" using kube_api.objs_key [OF api] by blast
  from keeping_cluster.Reconcile_requested(4) [OF assms(1,6,4,5)] obtain res
    where "as_requested objs (rs_world s') (JobObj (job_for_build env jc1 cib res))" unfolding config jc1_def by blast
  from stored_job [OF this keys] obtain job where job: "objs (rs_world s') (build_key JobKind cib) = Some (JobObj job)"
    "map ctr_Args (pod_Containers (job_PodSpec job)) = [prepareJobArgs jc1 cib]" "pod_Volumes (job_PodSpec job) = job_volumes jc1"
    "map ctr_VolumeMounts (pod_Containers (job_PodSpec job)) = [job_mounts env jc1]"
    by (elim exE conjE) (rule that)
  have "prepareJobArgs jc1 cib = prepareJobArgs jc cib" by (simp add: jc1_def prepareJobArgs_cloud)
  note args = job(2) [unfolded this]
  have dyn: "jc_DynamicVolumes jc = []" "jc_DynamicVolumeMounts jc = []" using assms(2) by (simp_all add: no_dynamic_def jc_def)
  show ?thesis
    by (rule exI [of _ job])
      (simp add: job(1,3,4) args jc1_def job_volumes_def job_mounts_def context_mount_def with_cloud_def dyn buildContextDirVolumeName_def stateDirVolumeName_def)
qed

lemma sample_none: "\<forall>k \<in> all_keys sample_build. mem_lookup (rs_world sample_state) k = None"
  by (simp add: all_keys_def prereq_keys_def build_key_def secret_key_def sample_state_def state_of_def world_of_def mem_defs sample_build_def zero_defs)

theorem provisioned_job_works_witness:
  "\<exists>job role binding sec. mem_lookup (rs_world sample_after) (build_key JobKind sample_build) = Some (JobObj job) \<and>
     mem_lookup (rs_world sample_after) (secret_key sample_build) = Some (SecretObj sec) \<and> reads_credentials (om_Name (sec_Meta sec)) job \<and>
     length (fst (snd sample_accesses)) = 4 \<and> list_all (may_access binding role (job_account job)) (fst (snd sample_accesses))"
proof -
  have run: "Run (over_api sample_rest (job_sample None)) job_ref ([], ()) = (fst sample_accesses, (fst (snd sample_accesses), ()))"
    by (metis prod.collapse sample_accesses_def unit.exhaust)
  have ns: "list_all (\<lambda>a. acc_Namespace a = cib_Namespace sample_build) (fst (snd sample_accesses))" and len: "length (fst (snd sample_accesses)) = 4"
    by code_simp+
  have j: "bj_namespace job_ref = cib_Namespace sample_build" "bj_name job_ref \<noteq> ''''" and needs: "needs_cloud sample_build" by code_simp+
  from provisioned_job_works [OF memk.keeping_cluster_axioms sample_fresh sample_none sample_run run j] needs
  obtain job role binding sec where "mem_lookup (rs_world sample_after) (build_key JobKind sample_build) = Some (JobObj job)"
    "\<forall>a \<in> set (fst (snd sample_accesses)). acc_Namespace a = cib_Namespace sample_build \<longrightarrow> may_access binding role (job_account job) a"
    "mem_lookup (rs_world sample_after) (secret_key sample_build) = Some (SecretObj sec)" "reads_credentials (om_Name (sec_Meta sec)) job"
    by (elim exE conjE impE) (assumption, rule that)
  with ns len show ?thesis unfolding list_all_iff by metis
qed

text \<open>A controller that handles a build with cloud credentials first and then one without.\<close>

definition plain_build :: ContainerImageBuild where
  "plain_build = zero_cib\<lparr>cib_Meta := zero_meta\<lparr>om_Name := ''b2'', om_Namespace := ''ns'', om_UID := ''u2''\<rparr>\<rparr>"

definition busy_controller :: "unit outcome \<times> mem_world rec_state" where
  "busy_controller = run_events (sort_key created_at) id mem_env (sample_cc 1) [OnRequest (''ns'', ''b'')]
     (new_state (sample_cc 1) (world_of [sample_build, plain_build]))"

theorem controller_jobs_configured_witness:
  "\<exists>job s' first. Reconcile mem_env (''ns'', ''b2'') (snd busy_controller) = (Returns None, s') \<and>
     mem_lookup (rs_world s') (build_key JobKind sample_build) = Some (JobObj first) \<and> length (pod_Volumes (job_PodSpec first)) = 3 \<and>
     mem_lookup (rs_world s') (build_key JobKind plain_build) = Some (JobObj job) \<and> map vol_Name (pod_Volumes (job_PodSpec job)) = [''build-context-dir'', ''state-dir'']"
proof -
  let ?run = "Reconcile mem_env (''ns'', ''b2'') (snd busy_controller)"
  have ok: "fst busy_controller = Returns ()" "fst ?run = Returns None" by code_simp+
  have events: "run_events (sort_key created_at) id mem_env (sample_cc 1) [OnRequest (''ns'', ''b'')]
     (new_state (sample_cc 1) (world_of [sample_build, plain_build])) = (Returns (), snd busy_controller)"
    using ok(1) by (simp add: busy_controller_def prod_eq_iff)
  have run: "?run = (Returns None, snd ?run)" using ok(2) by (metis prod.collapse)
  have fresh: "fresh_build mem_env (''ns'', ''b2'') (snd busy_controller) plain_build" by code_simp
  have keys: "all_keys plain_build = set (map (\<lambda>k. build_key k plain_build) [ServiceAccountKind, RoleKind, RoleBindingKind, JobKind])"
    by (auto simp: all_keys_def prereq_keys_def needs_cloud_def plain_build_def zero_defs)
  have none: "\<forall>k \<in> all_keys plain_build. mem_lookup (rs_world (snd busy_controller)) k = None"
    unfolding keys by code_simp
  have cfg: "no_dynamic (cc_JobConfig (sample_cc 1))" "cc_JobConfig (sample_cc 1) = zero_config" by (simp_all add: sample_cc_def no_dynamic_def zero_config_def)
  have "\<not> needs_cloud plain_build" by code_simp
  with controller_jobs_configured [OF memk.keeping_cluster_axioms cfg(1) events fresh none run] obtain job
    where job: "mem_lookup (rs_world (snd ?run)) (build_key JobKind plain_build) = Some (JobObj job)"
      "map vol_Name (pod_Volumes (job_PodSpec job)) = [''build-context-dir'', ''state-dir'']"
    unfolding cfg(2) by (auto simp: zero_config_def)
  have "(case mem_lookup (rs_world (snd ?run)) (build_key JobKind sample_build) of
      Some (JobObj first) \<Rightarrow> length (pod_Volumes (job_PodSpec first)) = 3 | _ \<Rightarrow> False)" by code_simp
  then obtain first where "mem_lookup (rs_world (snd ?run)) (build_key JobKind sample_build) = Some (JobObj first)"
    "length (pod_Volumes (job_PodSpec first)) = 3" by (auto split: option.splits k8s_object.splits)
  with run job show ?thesis by metis
qed

end
