(* ===== verification/Forge_Fake.thy ===== *)
theory Forge_Fake
  imports Forge_Access
begin

section \<open>The fake client set of the tests\<close>

text \<open>
  \<^verbatim>\<open>internal/clientset/typed/forge/v1alpha1/fake\<close>: the client that the tests of the build job use in place of the typed client. Each operation hands
  an action to a chain of reactors, which is an argument; the constructors of the actions
  (\<^verbatim>\<open>vendor/k8s.io/client-go/testing/actions.go\<close>) are part of the model.
\<close>

record action =
  ac_Verb :: string
  ac_Group :: string
  ac_Resource :: string
  ac_Subresource :: string
  ac_Namespace :: string
  ac_Name :: string
  ac_Body :: rest_body

definition builds_action :: "string \<Rightarrow> string \<Rightarrow> action" where
  "builds_action verb ns = \<lparr>ac_Verb = verb, ac_Group = ''forge'', ac_Resource = ''containerimagebuilds'', ac_Subresource = '''',
     ac_Namespace = ns, ac_Name = '''', ac_Body = NoBody\<rparr>"

text \<open>The reactors answer with an object or none, and an error or none.\<close>

type_synonym 'w invokes = "action \<Rightarrow> 'w \<Rightarrow> (ContainerImageBuild option \<times> go_error option) \<times> 'w"

definition fake_Get :: "'w invokes \<Rightarrow> string \<Rightarrow> string \<Rightarrow> 'w \<Rightarrow> (ContainerImageBuild option \<times> go_error option) \<times> 'w" where
  "fake_Get Invokes ns name = Invokes ((builds_action ''get'' ns)\<lparr>ac_Name := name\<rparr>)"

text \<open>The builds of a list are filtered by the label selector of the options; without one every build matches.\<close>

definition fake_List ::
  "(action \<Rightarrow> 'w \<Rightarrow> (ContainerImageBuild list option \<times> go_error option) \<times> 'w) \<Rightarrow> string \<Rightarrow> (string gomap option \<Rightarrow> bool) option \<Rightarrow> 'w \<Rightarrow>
   (ContainerImageBuild list option \<times> go_error option) \<times> 'w" where
  "fake_List Invokes ns label w =
     (case Invokes (builds_action ''list'' ns) w of
        ((None, err), w1) \<Rightarrow> ((None, err), w1)
      | ((Some items, err), w1) \<Rightarrow>
        (let matches = (case label of None \<Rightarrow> (\<lambda>_. True) | Some m \<Rightarrow> m)
         in ((Some (filter (\<lambda>item. matches (om_Labels (cib_Meta item))) items), err), w1)))"

definition fake_Watch :: "(action \<Rightarrow> 'w \<Rightarrow> 'r \<times> 'w) \<Rightarrow> string \<Rightarrow> 'w \<Rightarrow> 'r \<times> 'w" where
  "fake_Watch InvokesWatch ns = InvokesWatch (builds_action ''watch'' ns)"

definition fake_Create :: "'w invokes \<Rightarrow> string \<Rightarrow> ContainerImageBuild \<Rightarrow> 'w \<Rightarrow> (ContainerImageBuild option \<times> go_error option) \<times> 'w" where
  "fake_Create Invokes ns cib = Invokes ((builds_action ''create'' ns)\<lparr>ac_Body := BuildBody cib\<rparr>)"

definition fake_Update :: "'w invokes \<Rightarrow> string \<Rightarrow> ContainerImageBuild \<Rightarrow> 'w \<Rightarrow> (ContainerImageBuild option \<times> go_error option) \<times> 'w" where
  "fake_Update Invokes ns cib = Invokes ((builds_action ''update'' ns)\<lparr>ac_Body := BuildBody cib\<rparr>)"

definition fake_UpdateStatus :: "'w invokes \<Rightarrow> string \<Rightarrow> ContainerImageBuild \<Rightarrow> 'w \<Rightarrow> (ContainerImageBuild option \<times> go_error option) \<times> 'w" where
  "fake_UpdateStatus Invokes ns cib = Invokes ((builds_action ''update'' ns)\<lparr>ac_Subresource := ''status'', ac_Body := BuildBody cib\<rparr>)"

definition fake_Delete :: "'w invokes \<Rightarrow> string \<Rightarrow> string \<Rightarrow> 'w \<Rightarrow> go_error option \<times> 'w" where
  "fake_Delete Invokes ns name w =
     (case Invokes ((builds_action ''delete'' ns)\<lparr>ac_Name := name\<rparr>) w of ((_, err), w1) \<Rightarrow> (err, w1))"

definition fake_DeleteCollection :: "'w invokes \<Rightarrow> string \<Rightarrow> 'w \<Rightarrow> go_error option \<times> 'w" where
  "fake_DeleteCollection Invokes ns w =
     (case Invokes (builds_action ''delete-collection'' ns) w of ((_, err), w1) \<Rightarrow> (err, w1))"

definition fake_Patch ::
  "'w invokes \<Rightarrow> string \<Rightarrow> string \<Rightarrow> string \<Rightarrow> string \<Rightarrow> string list \<Rightarrow> 'w \<Rightarrow> (ContainerImageBuild option \<times> go_error option) \<times> 'w" where
  "fake_Patch Invokes ns name pt data subresources =
     Invokes ((builds_action ''patch'' ns)\<lparr>ac_Name := name, ac_Subresource := filepath_Join subresources, ac_Body := PatchBody pt data\<rparr>)"

subsection \<open>Comparison with the typed client\<close>

text \<open>The calls of a client, and what each client makes of them: the request of the typed client and the action of the fake one, observed by a recorder.\<close>

datatype build_call =
    CGet string | CWatch | CCreate ContainerImageBuild | CUpdate ContainerImageBuild | CUpdateStatus ContainerImageBuild
  | CDelete string | CPatch string string string "string list"

fun typed_request :: "string \<Rightarrow> build_call \<Rightarrow> rest_request" where
  "typed_request ns (CGet name) = fst (client_Get Pair ns name ())"
| "typed_request ns CWatch = fst (client_Watch Pair ns None ())"
| "typed_request ns (CCreate cib) = fst (client_Create Pair ns cib ())"
| "typed_request ns (CUpdate cib) = fst (client_Update Pair ns cib ())"
| "typed_request ns (CUpdateStatus cib) = fst (client_UpdateStatus Pair ns cib ())"
| "typed_request ns (CDelete name) = fst (client_Delete Pair ns name ())"
| "typed_request ns (CPatch name pt data subs) = fst (client_Patch Pair ns name pt data subs ())"

definition recorder :: "action option invokes" where
  "recorder a w = ((None, None), Some a)"

fun fake_request :: "string \<Rightarrow> build_call \<Rightarrow> action option" where
  "fake_request ns (CGet name) = snd (fake_Get recorder ns name None)"
| "fake_request ns CWatch = snd (fake_Watch recorder ns None)"
| "fake_request ns (CCreate cib) = snd (fake_Create recorder ns cib None)"
| "fake_request ns (CUpdate cib) = snd (fake_Update recorder ns cib None)"
| "fake_request ns (CUpdateStatus cib) = snd (fake_UpdateStatus recorder ns cib None)"
| "fake_request ns (CDelete name) = snd (fake_Delete recorder ns name None)"
| "fake_request ns (CPatch name pt data subs) = snd (fake_Patch recorder ns name pt data subs None)"

text \<open>The access that an action stands for; a build in its body names the object.\<close>

definition action_access :: "action \<Rightarrow> access" where
  "action_access a =
     \<lparr>acc_Group = ac_Group a,
      acc_Resource = ac_Resource a @ (if ac_Subresource a = '''' then '''' else ''/'' @ ac_Subresource a),
      acc_Verb = ac_Verb a, acc_Namespace = ac_Namespace a,
      acc_Name = (case ac_Body a of BuildBody cib \<Rightarrow> (if ac_Verb a = ''create'' then '''' else cib_Name cib) | _ \<Rightarrow> ac_Name a)\<rparr>"

text \<open>For every call the fake client stands for the same access as the typed client (verb, resource, namespace and name), but in a group of its own: it asks for the
  group \<^verbatim>\<open>forge\<close>, which no object of the program belongs to.\<close>

theorem fake_client_group:
  assumes "\<forall>name. call = CGet name \<or> call = CDelete name \<longrightarrow> name \<noteq> ''''"
  shows "\<exists>a. fake_request ns call = Some a \<and>
    action_access a = (request_access (typed_request ns call))\<lparr>acc_Group := ''forge''\<rparr> \<and> acc_Group (action_access a) \<noteq> SchemeGroup"
  using assms
  by (cases call)
    (auto simp: recorder_def builds_action_def action_access_def request_access_def api_verb_def builds_request_def SchemeGroup_def
      fake_Get_def fake_Watch_def fake_Create_def fake_Update_def fake_UpdateStatus_def fake_Delete_def fake_Patch_def
      client_Get_def client_Watch_def client_Create_def client_Update_def client_UpdateStatus_def client_Delete_def client_Patch_def)

theorem fake_client_group_witness:
  "acc_Verb (request_access (typed_request ''ns'' (CGet ''b''))) = ''get'' \<and>
   (\<exists>a. fake_request ''ns'' (CGet ''b'') = Some a \<and> acc_Verb (action_access a) = ''get'' \<and> acc_Group (action_access a) = ''forge'')"
proof -
  have v: "acc_Verb (request_access (typed_request ''ns'' (CGet ''b''))) = ''get''" by code_simp
  from fake_client_group [of "CGet ''b''" "''ns''"] v show ?thesis by auto
qed

end
