(* ===== verification/Forge_Tracker.thy ===== *)
theory Forge_Tracker
  imports Forge_Fake "HOL-Library.List_Lexorder" "HOL-Library.Char_ord" "HOL-Library.Product_Lexorder"
begin

section \<open>The object tracker of the fake client set\<close>

text \<open>
  \<^verbatim>\<open>internal/clientset/fake\<close> and what it is built from: the object tracker and the chain of reactors of
  \<^verbatim>\<open>vendor/k8s.io/client-go/testing\<close>, and the parts of \<^verbatim>\<open>vendor/k8s.io/apimachinery\<close> that name resources and
  errors. Builds are the only objects. Applying a patch to an object is an argument, and so is the order in which a map of objects is visited. Watchers are taken to be
  read: that a watch which nobody reads panics after a hundred events is left out.
  The theorems compare the client with a map of builds, and show what becomes of the builds that a client set is created with.
\<close>

subsection \<open>Names and errors\<close>

text \<open>Group, version and resource; group, version and kind.\<close>

type_synonym gvr = "string \<times> string \<times> string"
type_synonym gvk = "string \<times> string \<times> string"

fun GroupResource_String :: "gvr \<Rightarrow> string" where
  "GroupResource_String (g, v, r) = (if g = '''' then r else r @ ''.'' @ g)"

definition NewNotFound :: "gvr \<Rightarrow> string \<Rightarrow> go_error" where
  "NewNotFound gvr name = ApiError NotFound (GroupResource_String gvr @ '' '' @ fmt_q name @ '' not found'')"

definition NewAlreadyExists :: "gvr \<Rightarrow> string \<Rightarrow> go_error" where
  "NewAlreadyExists gvr name = ApiError AlreadyExists (GroupResource_String gvr @ '' '' @ fmt_q name @ '' already exists'')"

definition NewBadRequest :: "string \<Rightarrow> go_error" where
  "NewBadRequest reason = ApiError OtherReason reason"

text \<open>The plural resource of a kind.\<close>

fun UnsafeGuessKindToResource :: "gvk \<Rightarrow> gvr" where
  "UnsafeGuessKindToResource (g, v, kind) =
     (if kind = '''' then ('''', '''', '''')
      else
       (let singularName = strings_ToLower kind in
        if strings_HasSuffix singularName ''endpoints'' then (g, v, singularName)
        else if last singularName = CHR ''s'' then (g, v, singularName @ ''es'')
        else if last singularName = CHR ''y'' then (g, v, strings_TrimSuffix singularName ''y'' @ ''ies'')
        else (g, v, singularName @ ''s'')))"

text \<open>The kinds that the scheme of the fake client set knows for the types of the API group.\<close>

definition build_kinds :: "gvk list" where
  "build_kinds = [(SchemeGroup, ''v1alpha1'', ''ContainerImageBuild'')]"

definition scheme_kinds :: "gvk list" where
  "scheme_kinds = build_kinds @ [(SchemeGroup, ''v1alpha1'', ''ContainerImageBuildList'')]"

fun Scheme_New :: "string \<Rightarrow> gvk \<Rightarrow> unit result" where
  "Scheme_New schemeName (g, v, kind) =
     (if (g, v, kind) \<in> set scheme_kinds then Inr ()
      else Inl (ErrText (''no kind '' @ fmt_q kind @ '' is registered for version ''
             @ fmt_q (if g = '''' then v else g @ ''/'' @ v) @ '' in scheme '' @ fmt_q schemeName)))"

subsection \<open>The tracker\<close>

datatype watch_event = Added ContainerImageBuild | Modified ContainerImageBuild | Deleted ContainerImageBuild

text \<open>A watcher is a number; the events that were sent to the watchers are kept in order.\<close>

record tracker =
  tr_objects :: "(gvr \<times> ((string \<times> string) \<times> ContainerImageBuild) list) list"
  tr_watchers :: "(gvr \<times> nat list gomap) list"
  tr_made :: nat
  tr_events :: "(nat \<times> watch_event) list"

definition NewObjectTracker :: tracker where
  "NewObjectTracker = \<lparr>tr_objects = [], tr_watchers = [], tr_made = 0, tr_events = []\<rparr>"

definition getWatches :: "tracker \<Rightarrow> gvr \<Rightarrow> string \<Rightarrow> nat list" where
  "getWatches t gvr ns =
     (case map_of (tr_watchers t) gvr of
        None \<Rightarrow> []
      | Some m \<Rightarrow> map_get_default [] m ns @ (if ns \<noteq> '''' then map_get_default [] m '''' else []))"

definition broadcast :: "watch_event \<Rightarrow> gvr \<Rightarrow> string \<Rightarrow> tracker \<Rightarrow> tracker" where
  "broadcast ev gvr ns t = t\<lparr>tr_events := tr_events t @ map (\<lambda>w. (w, ev)) (getWatches t gvr ns)\<rparr>"

definition objects_of :: "gvr \<Rightarrow> tracker \<Rightarrow> ((string \<times> string) \<times> ContainerImageBuild) list" where
  "objects_of gvr t = (case map_of (tr_objects t) gvr of None \<Rightarrow> [] | Some objs \<Rightarrow> objs)"

definition store :: "gvr \<Rightarrow> ((string \<times> string) \<times> ContainerImageBuild) list \<Rightarrow> tracker \<Rightarrow> tracker" where
  "store gvr objs t = t\<lparr>tr_objects := AList.update gvr objs (tr_objects t)\<rparr>"

definition propagated :: "string \<Rightarrow> ContainerImageBuild \<Rightarrow> ContainerImageBuild" where
  "propagated ns obj = (if cib_Namespace obj = '''' then obj\<lparr>cib_Meta := (cib_Meta obj)\<lparr>om_Namespace := ns\<rparr>\<rparr> else obj)"

definition namespace_mismatch :: "string \<Rightarrow> string \<Rightarrow> go_error" where
  "namespace_mismatch ns ns' = NewBadRequest (''request namespace does not match object namespace, request: '' @ fmt_q ns
     @ '' object: '' @ fmt_q ns')"

definition tracker_add :: "gvr \<Rightarrow> ContainerImageBuild \<Rightarrow> string \<Rightarrow> bool \<Rightarrow> tracker \<Rightarrow> go_error option \<times> tracker" where
  "tracker_add gvr obj0 ns replaceExisting t =
     (let obj = propagated ns obj0 in
      if ns \<noteq> cib_Namespace obj then (Some (namespace_mismatch ns (cib_Namespace obj)), t)
      else
       (let t1 = (if map_of (tr_objects t) gvr = None then store gvr [] t else t);
            name = (cib_Namespace obj, cib_Name obj);
            stored = store gvr (AList.update name obj (objects_of gvr t1))
        in if map_of (objects_of gvr t1) name \<noteq> None
           then if replaceExisting then (None, stored (broadcast (Modified obj) gvr ns t1))
                else (Some (NewAlreadyExists gvr (cib_Name obj)), t1)
           else if replaceExisting then (Some (NewNotFound gvr (cib_Name obj)), t1)
           else (None, broadcast (Added obj) gvr ns (stored t1))))"

definition tracker_Create :: "gvr \<Rightarrow> ContainerImageBuild \<Rightarrow> string \<Rightarrow> tracker \<Rightarrow> go_error option \<times> tracker" where
  "tracker_Create gvr obj ns = tracker_add gvr obj ns False"

definition tracker_Update :: "gvr \<Rightarrow> ContainerImageBuild \<Rightarrow> string \<Rightarrow> tracker \<Rightarrow> go_error option \<times> tracker" where
  "tracker_Update gvr obj ns = tracker_add gvr obj ns True"

definition tracker_Get :: "gvr \<Rightarrow> string \<Rightarrow> string \<Rightarrow> tracker \<Rightarrow> ContainerImageBuild result" where
  "tracker_Get gvr ns name t =
     (case map_of (tr_objects t) gvr of
        None \<Rightarrow> Inl (NewNotFound gvr name)
      | Some objs \<Rightarrow> (case map_of objs (ns, name) of None \<Rightarrow> Inl (NewNotFound gvr name) | Some obj \<Rightarrow> Inr obj))"

definition tracker_Delete :: "gvr \<Rightarrow> string \<Rightarrow> string \<Rightarrow> tracker \<Rightarrow> go_error option \<times> tracker" where
  "tracker_Delete gvr ns name t =
     (case map_of (tr_objects t) gvr of
        None \<Rightarrow> (Some (NewNotFound gvr name), t)
      | Some objs \<Rightarrow>
        (case map_of objs (ns, name) of
           None \<Rightarrow> (Some (NewNotFound gvr name), t)
         | Some obj \<Rightarrow> (None, broadcast (Deleted obj) gvr ns (store gvr (AList.delete (ns, name) objs) t))))"

definition tracker_Watch :: "gvr \<Rightarrow> string \<Rightarrow> tracker \<Rightarrow> nat \<times> tracker" where
  "tracker_Watch gvr ns t =
     (let m = (case map_of (tr_watchers t) gvr of None \<Rightarrow> [] | Some m \<Rightarrow> m)
      in (tr_made t, t\<lparr>tr_made := Suc (tr_made t),
            tr_watchers := AList.update gvr (map_put ns (map_get_default [] m ns @ [tr_made t]) m) (tr_watchers t)\<rparr>))"

definition filterByNamespace ::
  "(ContainerImageBuild list \<Rightarrow> ContainerImageBuild list) \<Rightarrow> ((string \<times> string) \<times> ContainerImageBuild) list \<Rightarrow> string \<Rightarrow> ContainerImageBuild list" where
  "filterByNamespace rng objs ns =
     sort_key (\<lambda>c. (cib_Namespace c, cib_Name c))
       (filter (\<lambda>c. \<not> (ns \<noteq> '''' \<and> cib_Namespace c \<noteq> ns)) (rng (map snd objs)))"

fun tracker_List ::
  "string \<Rightarrow> (ContainerImageBuild list \<Rightarrow> ContainerImageBuild list) \<Rightarrow> gvr \<Rightarrow> gvk \<Rightarrow> string \<Rightarrow> tracker \<Rightarrow> ContainerImageBuild list result" where
  "tracker_List schemeName rng gvr (g, v, kind) ns t =
     (case Scheme_New schemeName (g, if v = '''' then ''__internal'' else v, kind @ ''List'') of
        Inl err \<Rightarrow> Inl err
      | Inr _ \<Rightarrow>
        (case map_of (tr_objects t) gvr of None \<Rightarrow> Inr [] | Some objs \<Rightarrow> Inr (filterByNamespace rng objs ns)))"

fun add_kinds :: "gvk list \<Rightarrow> ContainerImageBuild \<Rightarrow> tracker \<Rightarrow> go_error option \<times> tracker" where
  "add_kinds [] obj t = (None, t)"
| "add_kinds (gvk # gvks) obj t =
     (case tracker_add (UnsafeGuessKindToResource gvk) obj (cib_Namespace obj) False t of
        (Some err, t1) \<Rightarrow> (Some err, t1)
      | (None, t1) \<Rightarrow> add_kinds gvks obj t1)"

definition tracker_Add :: "ContainerImageBuild \<Rightarrow> tracker \<Rightarrow> go_error option \<times> tracker" where
  "tracker_Add obj t = add_kinds build_kinds obj t"

subsection \<open>Reactors\<close>

datatype runtime_object = OneBuild ContainerImageBuild | BuildList "ContainerImageBuild list"

type_synonym reply = "runtime_object option \<times> go_error option"

record reactor =
  rx_Verb :: string
  rx_Resource :: string
  rx_Reaction :: "action \<Rightarrow> tracker \<Rightarrow> (bool \<times> reply) \<times> tracker"

definition resourceCovers :: "string \<Rightarrow> action \<Rightarrow> bool" where
  "resourceCovers resource a \<longleftrightarrow>
     resource = ''*'' \<or> resource = ac_Resource a \<or>
     (CHR ''/'' \<in> set resource \<and> takeWhile (\<lambda>c. c \<noteq> CHR ''/'') resource = ac_Resource a \<and>
      tl (dropWhile (\<lambda>c. c \<noteq> CHR ''/'') resource) = ac_Subresource a)"

definition SimpleReactor_Handles :: "reactor \<Rightarrow> action \<Rightarrow> bool" where
  "SimpleReactor_Handles r a \<longleftrightarrow>
     (if \<not> (rx_Verb r = ''*'' \<or> rx_Verb r = ac_Verb a) then False else resourceCovers (rx_Resource r) a)"

definition action_gvr :: "action \<Rightarrow> gvr" where
  "action_gvr a = (ac_Group a, ''v1alpha1'', ac_Resource a)"

definition found :: "ContainerImageBuild result \<Rightarrow> reply" where
  "found r = (case r of Inl err \<Rightarrow> (None, Some err) | Inr obj \<Rightarrow> (Some (OneBuild obj), None))"

text \<open>What the tracker makes of an object: an error, or the object that it now holds under that name.\<close>

definition written :: "gvr \<Rightarrow> string \<Rightarrow> string \<Rightarrow> go_error option \<times> tracker \<Rightarrow> reply \<times> tracker" where
  "written gvr ns name res =
     (case res of (Some err, t1) \<Rightarrow> ((None, Some err), t1) | (None, t1) \<Rightarrow> (found (tracker_Get gvr ns name t1), t1))"

definition not_object :: reply where
  "not_object = (None, Some (ErrText ''object does not implement the Object interfaces''))"

text \<open>The parameters of a client set: the name of the scheme, the order of maps, and the patches.\<close>

record fake_env =
  fe_scheme :: string
  fe_rng :: "ContainerImageBuild list \<Rightarrow> ContainerImageBuild list"
  fe_patch :: "string \<Rightarrow> string \<Rightarrow> ContainerImageBuild \<Rightarrow> ContainerImageBuild result"

definition containerimagebuildsKind :: gvk where
  "containerimagebuildsKind = (''forge'', ''v1alpha1'', ''ContainerImageBuild'')"

definition react_create :: "gvr \<Rightarrow> action \<Rightarrow> tracker \<Rightarrow> reply \<times> tracker" where
  "react_create gvr a t =
     (case ac_Body a of
        BuildBody obj \<Rightarrow>
          written gvr (ac_Namespace a) (cib_Name obj)
            (if ac_Subresource a = '''' then tracker_Create gvr obj (ac_Namespace a) t else tracker_Update gvr obj (ac_Namespace a) t)
      | _ \<Rightarrow> (not_object, t))"

definition react_update :: "gvr \<Rightarrow> action \<Rightarrow> tracker \<Rightarrow> reply \<times> tracker" where
  "react_update gvr a t =
     (case ac_Body a of
        BuildBody obj \<Rightarrow> written gvr (ac_Namespace a) (cib_Name obj) (tracker_Update gvr obj (ac_Namespace a) t)
      | _ \<Rightarrow> (not_object, t))"

definition react_patch :: "fake_env \<Rightarrow> gvr \<Rightarrow> action \<Rightarrow> tracker \<Rightarrow> reply \<times> tracker" where
  "react_patch env gvr a t =
     (case tracker_Get gvr (ac_Namespace a) (ac_Name a) t of
        Inl err \<Rightarrow> ((None, Some err), t)
      | Inr old \<Rightarrow>
        (case (case ac_Body a of PatchBody pt data \<Rightarrow> fe_patch env pt data old | _ \<Rightarrow> Inl (ErrText ''PatchType is not supported'')) of
           Inl err \<Rightarrow> ((None, Some err), t)
         | Inr obj \<Rightarrow>
           (case tracker_Update gvr obj (ac_Namespace a) t of
              (Some err, t1) \<Rightarrow> ((None, Some err), t1)
            | (None, t1) \<Rightarrow> ((Some (OneBuild obj), None), t1))))"

definition ObjectReaction :: "fake_env \<Rightarrow> action \<Rightarrow> tracker \<Rightarrow> (bool \<times> reply) \<times> tracker" where
  "ObjectReaction env a t =
     (let gvr = action_gvr a; handled = (\<lambda>(rep, t1). ((True, rep), t1)) in
      if ac_Verb a = ''list'' then
        (case tracker_List (fe_scheme env) (fe_rng env) gvr containerimagebuildsKind (ac_Namespace a) t of
           Inl err \<Rightarrow> ((True, None, Some err), t)
         | Inr items \<Rightarrow> ((True, Some (BuildList items), None), t))
      else if ac_Verb a = ''get'' then ((True, found (tracker_Get gvr (ac_Namespace a) (ac_Name a) t)), t)
      else if ac_Verb a = ''create'' then handled (react_create gvr a t)
      else if ac_Verb a = ''update'' then handled (react_update gvr a t)
      else if ac_Verb a = ''delete'' then
        (case tracker_Delete gvr (ac_Namespace a) (ac_Name a) t of (err, t1) \<Rightarrow> ((True, None, err), t1))
      else if ac_Verb a = ''patch'' then handled (react_patch env gvr a t)
      else ((False, None, Some (ErrText ''no reaction implemented'')), t))"

subsection \<open>The client set\<close>

record fake_client =
  fk_actions :: "action list"
  fk_ReactionChain :: "reactor list"
  fk_tracker :: tracker

fun react_chain :: "reactor list \<Rightarrow> action \<Rightarrow> tracker \<Rightarrow> reply option \<times> tracker" where
  "react_chain [] a t = (None, t)"
| "react_chain (r # rs) a t =
     (if \<not> SimpleReactor_Handles r a then react_chain rs a t
      else case rx_Reaction r a t of
        ((handled, rep), t1) \<Rightarrow> if \<not> handled then react_chain rs a t1 else (Some rep, t1))"

definition Fake_Invokes :: "runtime_object \<Rightarrow> action \<Rightarrow> fake_client \<Rightarrow> reply \<times> fake_client" where
  "Fake_Invokes def a c =
     (case react_chain (fk_ReactionChain c) a (fk_tracker c) of
        (rep, t1) \<Rightarrow>
          ((case rep of None \<Rightarrow> (Some def, None) | Some x \<Rightarrow> x), c\<lparr>fk_actions := fk_actions c @ [a], fk_tracker := t1\<rparr>))"

definition tracker_reactor :: "fake_env \<Rightarrow> reactor" where
  "tracker_reactor env = \<lparr>rx_Verb = ''*'', rx_Resource = ''*'', rx_Reaction = ObjectReaction env\<rparr>"

fun add_objects :: "ContainerImageBuild list \<Rightarrow> tracker \<Rightarrow> tracker outcome" where
  "add_objects [] t = Returns t"
| "add_objects (obj # objs) t =
     (case tracker_Add obj t of (Some err, t1) \<Rightarrow> Panics (error_text err) | (None, t1) \<Rightarrow> add_objects objs t1)"

definition NewSimpleClientset :: "fake_env \<Rightarrow> ContainerImageBuild list \<Rightarrow> fake_client outcome" where
  "NewSimpleClientset env objs =
     (case add_objects objs NewObjectTracker of
        Panics p \<Rightarrow> Panics p
      | Returns t \<Rightarrow> Returns \<lparr>fk_actions = [], fk_ReactionChain = [tracker_reactor env], fk_tracker = t\<rparr>)"

text \<open>The watch reactor of the client set hands every watch to the tracker.\<close>

definition InvokesWatch :: "action \<Rightarrow> fake_client \<Rightarrow> nat \<times> fake_client" where
  "InvokesWatch a c =
     (case tracker_Watch (action_gvr a) (ac_Namespace a) (fk_tracker c) of
        (w, t1) \<Rightarrow> (w, c\<lparr>fk_actions := fk_actions c @ [a], fk_tracker := t1\<rparr>))"

text \<open>The two type assertions on a reply.\<close>

definition one_of :: "runtime_object option \<Rightarrow> ContainerImageBuild option" where
  "one_of obj = (case obj of Some (OneBuild b) \<Rightarrow> Some b | _ \<Rightarrow> None)"

definition one_build :: "fake_client invokes" where
  "one_build a c = (case Fake_Invokes (OneBuild zero_cib) a c of ((obj, err), c1) \<Rightarrow> ((one_of obj, err), c1))"

definition build_list :: "action \<Rightarrow> fake_client \<Rightarrow> (ContainerImageBuild list option \<times> go_error option) \<times> fake_client" where
  "build_list a c =
     (case Fake_Invokes (BuildList []) a c of
        ((obj, err), c1) \<Rightarrow> ((case obj of Some (BuildList bs) \<Rightarrow> Some bs | _ \<Rightarrow> None, err), c1))"

fun fake_call :: "string \<Rightarrow> build_call \<Rightarrow> fake_client \<Rightarrow> (ContainerImageBuild option \<times> go_error option) \<times> fake_client" where
  "fake_call ns (CGet name) c = fake_Get one_build ns name c"
| "fake_call ns CWatch c = ((None, None), snd (fake_Watch InvokesWatch ns c))"
| "fake_call ns (CCreate cib) c = fake_Create one_build ns cib c"
| "fake_call ns (CUpdate cib) c = fake_Update one_build ns cib c"
| "fake_call ns (CUpdateStatus cib) c = fake_UpdateStatus one_build ns cib c"
| "fake_call ns (CDelete name) c = (case fake_Delete one_build ns name c of (err, c1) \<Rightarrow> ((None, err), c1))"
| "fake_call ns (CPatch name pt data subs) c = fake_Patch one_build ns name pt data subs c"

subsection \<open>The client as a map of builds\<close>

definition builds_gvr :: gvr where
  "builds_gvr = (''forge'', ''v1alpha1'', ''containerimagebuilds'')"

type_synonym build_map = "string \<times> string \<Rightarrow> ContainerImageBuild option"

text \<open>The builds that a client answers for, by namespace and name.\<close>

definition builds_of :: "fake_client \<Rightarrow> build_map" where
  "builds_of c = map_of (objects_of builds_gvr (fk_tracker c))"

text \<open>The reference: each call on a map.\<close>

definition map_write :: "gvr \<Rightarrow> bool \<Rightarrow> string \<Rightarrow> ContainerImageBuild \<Rightarrow> build_map \<Rightarrow> go_error option \<times> build_map" where
  "map_write gvr replace ns obj0 m =
     (let obj = propagated ns obj0; exists = m (ns, cib_Name obj) \<noteq> None in
      if ns \<noteq> cib_Namespace obj then (Some (namespace_mismatch ns (cib_Namespace obj)), m)
      else if exists \<and> \<not> replace then (Some (NewAlreadyExists gvr (cib_Name obj)), m)
      else if \<not> exists \<and> replace then (Some (NewNotFound gvr (cib_Name obj)), m)
      else (None, m((ns, cib_Name obj) \<mapsto> obj)))"

definition map_reply :: "string \<Rightarrow> string \<Rightarrow> go_error option \<times> build_map \<Rightarrow> (ContainerImageBuild option \<times> go_error option) \<times> build_map" where
  "map_reply ns name res = (case res of (Some err, m) \<Rightarrow> ((None, Some err), m) | (None, m) \<Rightarrow> ((m (ns, name), None), m))"

fun map_call :: "fake_env \<Rightarrow> string \<Rightarrow> build_call \<Rightarrow> build_map \<Rightarrow> (ContainerImageBuild option \<times> go_error option) \<times> build_map" where
  "map_call env ns (CGet name) m =
     ((m (ns, name), if m (ns, name) = None then Some (NewNotFound builds_gvr name) else None), m)"
| "map_call env ns CWatch m = ((None, None), m)"
| "map_call env ns (CCreate cib) m = map_reply ns (cib_Name cib) (map_write builds_gvr False ns cib m)"
| "map_call env ns (CUpdate cib) m = map_reply ns (cib_Name cib) (map_write builds_gvr True ns cib m)"
| "map_call env ns (CUpdateStatus cib) m = map_reply ns (cib_Name cib) (map_write builds_gvr True ns cib m)"
| "map_call env ns (CDelete name) m =
     (if m (ns, name) = None then ((None, Some (NewNotFound builds_gvr name)), m) else ((None, None), m((ns, name) := None)))"
| "map_call env ns (CPatch name pt data subs) m =
     (case m (ns, name) of
        None \<Rightarrow> ((None, Some (NewNotFound builds_gvr name)), m)
      | Some old \<Rightarrow>
        (case fe_patch env pt data old of
           Inl err \<Rightarrow> ((None, Some err), m)
         | Inr obj \<Rightarrow>
           (case map_write builds_gvr True ns obj m of
              (Some err, m1) \<Rightarrow> ((None, Some err), m1) | (None, m1) \<Rightarrow> ((Some obj, None), m1))))"

lemma propagated_simps [simp]: "cib_Name (propagated ns obj) = cib_Name obj"
  by (simp add: propagated_def)

lemma objects_of_store: "objects_of gvr (store gvr' objs t) = (if gvr' = gvr then objs else objects_of gvr t)"
  by (simp add: objects_of_def store_def update_conv')

lemma objects_of_broadcast [simp]: "objects_of gvr (broadcast ev gvr' ns t) = objects_of gvr t"
  by (simp add: objects_of_def broadcast_def)

text \<open>Each operation of the tracker on the objects of a resource is that operation on a map, and leaves the other resources alone.\<close>

lemma objects_of_new: "map_of (tr_objects t) gvr = None \<Longrightarrow> objects_of gvr t = []"
  by (simp add: objects_of_def)

lemma objects_of_prepared: "objects_of gvr' (if map_of (tr_objects t) gvr = None then store gvr [] t else t) = objects_of gvr' t"
  by (simp add: objects_of_store objects_of_new)

lemma tracker_add_map:
  "tracker_add gvr obj ns replace t = (err, t') \<Longrightarrow>
   (err, map_of (objects_of gvr t')) = map_write gvr replace ns obj (map_of (objects_of gvr t))"
  unfolding tracker_add_def map_write_def Let_def objects_of_prepared
  by (auto simp: objects_of_store objects_of_prepared objects_of_new update_conv' split: if_splits)

lemma tracker_add_other: "tracker_add gvr obj ns replace t = (err, t') \<Longrightarrow> gvr' \<noteq> gvr \<Longrightarrow> objects_of gvr' t' = objects_of gvr' t"
  unfolding tracker_add_def Let_def by (auto simp: objects_of_store objects_of_prepared split: if_splits)

lemma tracker_Get_map:
  "tracker_Get gvr ns name t = (case map_of (objects_of gvr t) (ns, name) of None \<Rightarrow> Inl (NewNotFound gvr name) | Some obj \<Rightarrow> Inr obj)"
  by (simp add: tracker_Get_def objects_of_def split: option.split)

lemma tracker_Delete_map:
  "tracker_Delete gvr ns name t = (err, t') \<Longrightarrow>
   (if map_of (objects_of gvr t) (ns, name) = None then err = Some (NewNotFound gvr name) \<and> t' = t
    else err = None \<and> map_of (objects_of gvr t') = (map_of (objects_of gvr t))((ns, name) := None))"
  by (auto simp: tracker_Delete_def objects_of_store objects_of_def [of gvr t] delete_conv' split: option.splits)

lemma action_gvr_builds [simp]:
  "ac_Group (builds_action verb ns) = ''forge''" "ac_Resource (builds_action verb ns) = ''containerimagebuilds''"
  "ac_Verb (builds_action verb ns) = verb" "ac_Namespace (builds_action verb ns) = ns" "ac_Subresource (builds_action verb ns) = ''''"
  by (simp_all add: builds_action_def)

lemma tracker_reacts:
  assumes "fk_ReactionChain c = [tracker_reactor env]" and "ObjectReaction env a (fk_tracker c) = ((handled, rep), t)"
  shows "Fake_Invokes def a c = (if handled then rep else (Some def, None), c\<lparr>fk_actions := fk_actions c @ [a], fk_tracker := t\<rparr>)"
  using assms by (simp add: Fake_Invokes_def tracker_reactor_def SimpleReactor_Handles_def resourceCovers_def)

lemma one_of_simps [simp]: "one_of None = None" "one_of (Some (OneBuild b)) = Some b"
  by (simp_all add: one_of_def)

lemma one_build_handled:
  assumes "fk_ReactionChain c = [tracker_reactor env]" and "one_build a c = (r, c')"
    and "ObjectReaction env a (fk_tracker c) = ((True, obj, err), t)"
  shows "r = (one_of obj, err) \<and> builds_of c' = map_of (objects_of builds_gvr t) \<and> fk_ReactionChain c' = [tracker_reactor env]"
  using assms(1,2) tracker_reacts [OF assms(1,3)] by (auto simp: one_build_def builds_of_def)

lemma map_write_stored: "map_write gvr replace ns obj m = (None, m') \<Longrightarrow> m' (ns, cib_Name obj) = Some (propagated ns obj)"
  by (auto simp: map_write_def Let_def split: if_splits)

lemma written_map:
  assumes "written gvr ns (cib_Name obj) (tracker_add gvr obj ns replace t) = ((rep, err), t')"
  shows "((one_of rep, err), map_of (objects_of gvr t')) = map_reply ns (cib_Name obj) (map_write gvr replace ns obj (map_of (objects_of gvr t)))"
proof -
  obtain e t1 where add: "tracker_add gvr obj ns replace t = (e, t1)" by (metis surj_pair)
  note m = tracker_add_map [OF add, symmetric]
  show ?thesis
  proof (cases e)
    case None
    with m have "map_of (objects_of gvr t1) (ns, cib_Name obj) = Some (propagated ns obj)" by (simp add: map_write_stored)
    with assms m None show ?thesis by (auto simp: add written_def found_def map_reply_def tracker_Get_map)
  next
    case (Some x)
    with assms m show ?thesis by (auto simp: add written_def map_reply_def)
  qed
qed

lemma action_builds: "ac_Group a = ''forge'' \<Longrightarrow> ac_Resource a = ''containerimagebuilds'' \<Longrightarrow> action_gvr a = builds_gvr"
  by (simp add: action_gvr_def builds_gvr_def)

lemma write_refines:
  assumes "fk_ReactionChain c = [tracker_reactor env]" and "one_build a c = (r, c')"
    and "ObjectReaction env a (fk_tracker c) =
      (case written builds_gvr ns (cib_Name cib) (tracker_add builds_gvr cib ns replace (fk_tracker c)) of (rep, t) \<Rightarrow> ((True, rep), t))"
  shows "(r, builds_of c') = map_reply ns (cib_Name cib) (map_write builds_gvr replace ns cib (builds_of c)) \<and> fk_ReactionChain c' = [tracker_reactor env]"
proof -
  obtain obj err t where w: "written builds_gvr ns (cib_Name cib) (tracker_add builds_gvr cib ns replace (fk_tracker c)) = ((obj, err), t)"
    by (metis surj_pair)
  then have "ObjectReaction env a (fk_tracker c) = ((True, obj, err), t)" using assms(3) by simp
  from one_build_handled [OF assms(1,2) this] show ?thesis
    unfolding builds_of_def [of c] written_map [OF w, symmetric] by simp
qed

lemma patch_refines:
  assumes "react_patch env builds_gvr a t = ((rep, err), t')" and "ac_Namespace a = ns" and "ac_Name a = name" and "ac_Body a = PatchBody pt data"
  shows "((one_of rep, err), map_of (objects_of builds_gvr t')) =
    map_call env ns (CPatch name pt data subs) (map_of (objects_of builds_gvr t))"
proof (cases "map_of (objects_of builds_gvr t) (ns, name)")
  case None
  with assms show ?thesis by (auto simp: react_patch_def tracker_Get_map)
next
  case (Some old)
  show ?thesis
  proof (cases "fe_patch env pt data old")
    case (Inl e)
    with assms Some show ?thesis by (auto simp: react_patch_def tracker_Get_map)
  next
    case (Inr obj)
    obtain e t1 where add: "tracker_add builds_gvr obj ns True t = (e, t1)" by (metis surj_pair)
    from tracker_add_map [OF add] assms Some Inr add show ?thesis
      by (cases e) (auto simp: react_patch_def tracker_Get_map tracker_Update_def split: prod.splits)
  qed
qed

lemma fake_call_map:
  assumes "fk_ReactionChain c = [tracker_reactor env]" and "fake_call ns call c = (r, c')"
  shows "(r, builds_of c') = map_call env ns call (builds_of c) \<and> fk_ReactionChain c' = [tracker_reactor env]"
proof (cases call)
  case (CGet name)
  let ?a = "(builds_action ''get'' ns)\<lparr>ac_Name := name\<rparr>"
  obtain obj err where f: "found (tracker_Get builds_gvr ns name (fk_tracker c)) = (obj, err)" by (metis surj_pair)
  then have "ObjectReaction env ?a (fk_tracker c) = ((True, obj, err), fk_tracker c)" by (simp add: ObjectReaction_def action_builds)
  from one_build_handled [OF assms(1) _ this] assms(2) f show ?thesis
    by (auto simp: CGet fake_Get_def found_def tracker_Get_map builds_of_def split: option.splits)
next
  case CWatch
  then show ?thesis
    using assms by (auto simp: fake_Watch_def InvokesWatch_def tracker_Watch_def Let_def builds_of_def objects_of_def)
next
  case (CCreate cib)
  with write_refines [OF assms(1), of "(builds_action ''create'' ns)\<lparr>ac_Body := BuildBody cib\<rparr>" r c' ns cib False] assms(2)
  show ?thesis by (simp add: fake_Create_def ObjectReaction_def action_builds react_create_def tracker_Create_def Let_def)
next
  case (CUpdate cib)
  with write_refines [OF assms(1), of "(builds_action ''update'' ns)\<lparr>ac_Body := BuildBody cib\<rparr>" r c' ns cib True] assms(2)
  show ?thesis by (simp add: fake_Update_def ObjectReaction_def action_builds react_update_def tracker_Update_def Let_def)
next
  case (CUpdateStatus cib)
  with write_refines [OF assms(1), of "(builds_action ''update'' ns)\<lparr>ac_Subresource := ''status'', ac_Body := BuildBody cib\<rparr>" r c' ns cib True] assms(2)
  show ?thesis by (simp add: fake_UpdateStatus_def ObjectReaction_def action_builds react_update_def tracker_Update_def Let_def)
next
  case (CDelete name)
  let ?a = "(builds_action ''delete'' ns)\<lparr>ac_Name := name\<rparr>"
  obtain err t where d: "tracker_Delete builds_gvr ns name (fk_tracker c) = (err, t)" by (metis surj_pair)
  then have "ObjectReaction env ?a (fk_tracker c) = ((True, None, err), t)" by (simp add: ObjectReaction_def action_builds)
  from one_build_handled [OF assms(1) _ this] assms(2) tracker_Delete_map [OF d] show ?thesis
    by (auto simp: CDelete fake_Delete_def builds_of_def split: prod.splits if_splits)
next
  case (CPatch name pt data subs)
  let ?a = "(builds_action ''patch'' ns)\<lparr>ac_Name := name, ac_Subresource := filepath_Join subs, ac_Body := PatchBody pt data\<rparr>"
  obtain obj err t where p: "react_patch env builds_gvr ?a (fk_tracker c) = ((obj, err), t)" by (metis surj_pair)
  then have "ObjectReaction env ?a (fk_tracker c) = ((True, obj, err), t)" by (simp add: ObjectReaction_def action_builds)
  from one_build_handled [OF assms(1) _ this] assms(2) patch_refines [OF p, of ns name pt data subs] show ?thesis
    by (simp add: CPatch fake_Patch_def builds_of_def [of c])
qed

text \<open>The two calls on more than one build: the kind of the list is not one that the scheme knows, and no reaction handles the deletion of a collection.\<close>

lemma fake_List_fails:
  assumes "fk_ReactionChain c = [tracker_reactor env]"
  shows "\<exists>err. fake_List build_list ns label c = ((None, Some err), c\<lparr>fk_actions := fk_actions c @ [builds_action ''list'' ns]\<rparr>)"
proof -
  obtain err where "Scheme_New (fe_scheme env) (''forge'', ''v1alpha1'', ''ContainerImageBuildList'') = Inl err"
    by (simp add: scheme_kinds_def build_kinds_def SchemeGroup_def)
  then have "ObjectReaction env (builds_action ''list'' ns) (fk_tracker c) = ((True, None, Some err), fk_tracker c)"
    by (simp add: ObjectReaction_def containerimagebuildsKind_def del: Scheme_New.simps)
  from tracker_reacts [OF assms this] show ?thesis by (simp add: fake_List_def build_list_def)
qed

lemma fake_DeleteCollection_keeps:
  assumes "fk_ReactionChain c = [tracker_reactor env]"
  shows "fake_DeleteCollection one_build ns c = (None, c\<lparr>fk_actions := fk_actions c @ [builds_action ''delete-collection'' ns]\<rparr>)"
proof -
  have "ObjectReaction env (builds_action ''delete-collection'' ns) (fk_tracker c) =
      ((False, None, Some (ErrText ''no reaction implemented'')), fk_tracker c)"
    by (simp add: ObjectReaction_def)
  from tracker_reacts [OF assms this] show ?thesis by (simp add: fake_DeleteCollection_def one_build_def)
qed

text \<open>C23. For the calls on one build the fake client is a map of builds. Whatever the history of a client set, a read, a watch, a create, an update, an update of the status, a
  delete or a patch answers and acts as the same call on the map of the builds it holds: a build is
  found under its namespace and name alone, a create needs a free name, an update and a delete need a taken one, an update of the status replaces the whole build,
  and a build of another namespace is refused. The calls on many builds do not act on the map: a list always fails, a deletion of a collection reports success, and both leave the builds as they are.\<close>

theorem fake_client_refines_map:
  assumes "fk_ReactionChain c = [tracker_reactor env]" and "fake_call ns call c = (r, c')"
  shows "(r, builds_of c') = map_call env ns call (builds_of c) \<and> fk_ReactionChain c' = [tracker_reactor env] \<and>
    (\<forall>label. \<exists>err c1. fake_List build_list ns label c = ((None, Some err), c1) \<and> builds_of c1 = builds_of c \<and>
       fk_ReactionChain c1 = [tracker_reactor env]) \<and>
    (\<exists>c1. fake_DeleteCollection one_build ns c = (None, c1) \<and> builds_of c1 = builds_of c \<and> fk_ReactionChain c1 = [tracker_reactor env])"
proof -
  have kept: "builds_of (c\<lparr>fk_actions := as\<rparr>) = builds_of c" for as by (simp add: builds_of_def)
  have "\<exists>err c1. fake_List build_list ns label c = ((None, Some err), c1) \<and> builds_of c1 = builds_of c \<and> fk_ReactionChain c1 = [tracker_reactor env]" for label
    using fake_List_fails [OF assms(1), of ns label] assms(1) kept by auto
  then show ?thesis using fake_call_map [OF assms] fake_DeleteCollection_keeps [OF assms(1), of ns] assms(1) kept by simp
qed

subsection \<open>The builds of a new client set\<close>

lemma seeds_elsewhere: "builds_gvr \<notin> UnsafeGuessKindToResource ` set build_kinds"
  by code_simp

lemma add_kinds_other:
  "add_kinds gvks obj t = (err, t') \<Longrightarrow> gvr \<notin> UnsafeGuessKindToResource ` set gvks \<Longrightarrow> objects_of gvr t' = objects_of gvr t"
  by (induction gvks obj t arbitrary: err t' rule: add_kinds.induct)
    (auto split: prod.splits option.splits dest!: tracker_add_other [where gvr' = gvr])

lemma add_objects_other: "add_objects objs t = Returns t' \<Longrightarrow> objects_of builds_gvr t' = objects_of builds_gvr t"
proof (induction objs t rule: add_objects.induct)
  case (2 obj objs t)
  then obtain t1 where "tracker_Add obj t = (None, t1)" "add_objects objs t1 = Returns t'"
    by (auto split: prod.splits option.splits)
  with 2 add_kinds_other [OF _ seeds_elsewhere, of obj t None t1] show ?case by (simp add: tracker_Add_def)
qed simp

text \<open>C39. A client set does not respond with the builds it is created with. They are stored under the API group, while every call asks for the group
  \<^verbatim>\<open>forge\<close>: each read of a build finds nothing, each list fails because its kind is not known, and a deletion of a collection succeeds and deletes nothing.\<close>

theorem seeded_builds_unseen:
  assumes "NewSimpleClientset env builds = Returns c"
  shows "(\<forall>ns name. fst (fake_Get one_build ns name c) = (None, Some (NewNotFound builds_gvr name))) \<and>
    (\<forall>ns label. \<exists>err. fst (fake_List build_list ns label c) = (None, Some err)) \<and>
    (\<forall>ns. fst (fake_DeleteCollection one_build ns c) = None \<and> fk_tracker (snd (fake_DeleteCollection one_build ns c)) = fk_tracker c)"
proof -
  from assms have chain: "fk_ReactionChain c = [tracker_reactor env]" and none: "builds_of c = Map.empty"
    using add_objects_other [of builds NewObjectTracker]
    by (auto simp: NewSimpleClientset_def builds_of_def NewObjectTracker_def objects_of_new split: outcome.splits)
  have "fst (fake_Get one_build ns name c) = (None, Some (NewNotFound builds_gvr name))" for ns name
    using fake_call_map [OF chain, of ns "CGet name" "fst (fake_Get one_build ns name c)" "snd (fake_Get one_build ns name c)"]
    by (simp add: none)
  moreover have "\<exists>err. fst (fake_List build_list ns label c) = (None, Some err)" for ns label
    using fake_List_fails [OF chain, of ns label] by auto
  moreover have "fst (fake_DeleteCollection one_build ns c) = None \<and> fk_tracker (snd (fake_DeleteCollection one_build ns c)) = fk_tracker c" for ns
    by (simp add: fake_DeleteCollection_keeps [OF chain])
  ultimately show ?thesis by blast
qed

subsection \<open>Examples\<close>

definition plain_env :: fake_env where
  "plain_env = \<lparr>fe_scheme = ''fake'', fe_rng = rev, fe_patch = (\<lambda>pt data old. Inr old)\<rparr>"

definition named_build :: "string \<Rightarrow> string \<Rightarrow> ContainerImageBuild" where
  "named_build ns name = zero_cib\<lparr>cib_Meta := zero_meta\<lparr>om_Namespace := ns, om_Name := name\<rparr>\<rparr>"

definition empty_client :: fake_client where
  "empty_client = \<lparr>fk_actions = [], fk_ReactionChain = [tracker_reactor plain_env], fk_tracker = NewObjectTracker\<rparr>"

theorem fake_client_refines_map_witness:
  "\<exists>c1. fake_call ''ns'' (CCreate (named_build '''' ''b'')) empty_client = ((Some (named_build ''ns'' ''b''), None), c1) \<and>
     builds_of c1 = [(''ns'', ''b'') \<mapsto> named_build ''ns'' ''b'']"
proof -
  have chain: "fk_ReactionChain empty_client = [tracker_reactor plain_env]" by (simp add: empty_client_def)
  have none: "builds_of empty_client = Map.empty" by (simp add: empty_client_def builds_of_def NewObjectTracker_def objects_of_def)
  obtain r c1 where run: "fake_call ''ns'' (CCreate (named_build '''' ''b'')) empty_client = (r, c1)" by (metis surj_pair)
  from fake_client_refines_map [OF chain run] run show ?thesis
    by (auto simp: none map_reply_def map_write_def Let_def propagated_def named_build_def zero_meta_def)
qed

theorem seeded_builds_unseen_witness:
  "\<exists>c. NewSimpleClientset plain_env [named_build ''ns'' ''b''] = Returns c \<and>
     fst (fake_Get one_build ''ns'' ''b'' c) = (None, Some (NewNotFound builds_gvr ''b''))"
proof -
  have "\<exists>c. NewSimpleClientset plain_env [named_build ''ns'' ''b''] = Returns c"
    by (simp add: NewSimpleClientset_def tracker_Add_def build_kinds_def tracker_add_def propagated_def named_build_def zero_meta_def
        NewObjectTracker_def objects_of_store Let_def)
  then show ?thesis using seeded_builds_unseen by blast
qed

end
