(* ===== verification/Forge_Deepcopy.thy ===== *)
theory Forge_Deepcopy
  imports Forge_Api
begin

section \<open>Deep copies\<close>

text \<open>
  \<^verbatim>\<open>api/forge/v1alpha1/zz_generated.deepcopy.go\<close>: the copies of resources that the client libraries make before they hand out or store an object. Here, and only here,
  it matters what is shared, so slices, maps and pointers are addresses in a heap. A struct is a record whose reference fields are addresses or nil; copying a
  struct value shares what its fields refer to. The copies of the Kubernetes types are those of their vendored sources, for the fields that the model has: finalizers,
  the grace period, managed fields, value sources of variables and the remaining item count of a list are left out, and the controller flag of an owner is a plain field.
  Quantities and environment variables have no references in the model: their own pointers (the decimal form of a quantity and the value source of a variable) are not followed.
\<close>

subsection \<open>Structs and the heap\<close>

type_synonym addr = nat

record meta_ref =
  mr_Name :: string
  mr_Namespace :: string
  mr_UID :: string
  mr_Labels :: "addr option"
  mr_Annotations :: "addr option"
  mr_CreationTimestamp :: time
  mr_DeletionTimestamp :: "addr option"
  mr_SelfLink :: string
  mr_OwnerReferences :: "addr option"

record resources_ref =
  qr_Limits :: "addr option"
  qr_Requests :: "addr option"

record init_ref =
  ir_Name :: string
  ir_Image :: string
  ir_Command :: "addr option"
  ir_Args :: "addr option"
  ir_Env :: "addr option"

record spec_ref =
  sr_ImageName :: string
  sr_Context :: string
  sr_ContextTimeoutSeconds :: "16 word"
  sr_PushRegistries :: "addr option"
  sr_Registries :: "addr option"
  sr_BuildArgs :: "addr option"
  sr_Labels :: "addr option"
  sr_CPU :: string
  sr_Memory :: string
  sr_Resources :: resources_ref
  sr_TimeoutSeconds :: "16 word"
  sr_ImageSizeLimit :: "64 word"
  sr_PluginData :: "addr option"
  sr_DisableBuildCache :: bool
  sr_DisableLayerCacheExport :: bool
  sr_MessageQueueName :: string
  sr_InitContainers :: "addr option"

record status_ref =
  tr_PreviousState :: BuildState
  tr_State :: BuildState
  tr_ImageURLs :: "addr option"
  tr_ImageSize :: "64 word"
  tr_ErrorMessage :: string
  tr_BuildStartedAt :: "addr option"
  tr_BuildCompletedAt :: "addr option"

record build_ref =
  br_Meta :: meta_ref
  br_Spec :: spec_ref
  br_Status :: status_ref

record list_ref =
  lr_ResourceVersion :: string
  lr_Items :: "addr option"

datatype cell =
    StringsCell "string list"
  | RegistriesCell "Registry list"
  | StringMapCell "string gomap"
  | QuantityMapCell "quantity gomap"
  | EnvCell "EnvVar list"
  | OwnersCell "OwnerReference list"
  | TimeCell time
  | InitsCell "init_ref list"
  | BuildsCell "build_ref list"

record heap =
  hp_cells :: "addr \<Rightarrow> cell option"
  hp_next :: addr

definition alloc :: "cell \<Rightarrow> heap \<Rightarrow> addr \<times> heap" where
  "alloc c h = (hp_next h, \<lparr>hp_cells = (hp_cells h)(hp_next h \<mapsto> c), hp_next = Suc (hp_next h)\<rparr>)"

definition hp_write :: "addr \<Rightarrow> cell \<Rightarrow> heap \<Rightarrow> heap" where
  "hp_write a c h = h\<lparr>hp_cells := (hp_cells h)(a \<mapsto> c)\<rparr>"

subsection \<open>Copying references\<close>

text \<open>The orders in which maps are ranged over.\<close>

record map_orders =
  mo_strings :: "string gomap \<Rightarrow> string gomap"
  mo_quantities :: "quantity gomap \<Rightarrow> quantity gomap"

text \<open>The content of a copied slice, map or pointer whose elements hold no references.\<close>

fun copy_cell :: "map_orders \<Rightarrow> cell \<Rightarrow> cell" where
  "copy_cell rng (StringMapCell m) = StringMapCell (map_put_all [] (mo_strings rng m))"
| "copy_cell rng (QuantityMapCell m) = QuantityMapCell (map_put_all [] (mo_quantities rng m))"
| "copy_cell rng c = c"

text \<open>Nothing is copied for nil.\<close>

definition copy_ref :: "map_orders \<Rightarrow> addr option \<Rightarrow> heap \<Rightarrow> addr option \<times> heap" where
  "copy_ref rng r h =
     (case r of
        None \<Rightarrow> (None, h)
      | Some a \<Rightarrow>
        (case hp_cells h a of
           None \<Rightarrow> (Some a, h)
         | Some c \<Rightarrow> (case alloc (copy_cell rng c) h of (a', h1) \<Rightarrow> (Some a', h1))))"

definition InitContainer_DeepCopyInto :: "map_orders \<Rightarrow> init_ref \<Rightarrow> heap \<Rightarrow> init_ref \<times> heap" where
  "InitContainer_DeepCopyInto rng x h =
     (case copy_ref rng (ir_Command x) h of (command, h1) \<Rightarrow>
      case copy_ref rng (ir_Args x) h1 of (args, h2) \<Rightarrow>
      case copy_ref rng (ir_Env x) h2 of (env, h3) \<Rightarrow>
        (x\<lparr>ir_Command := command, ir_Args := args, ir_Env := env\<rparr>, h3))"

fun copy_all :: "('a \<Rightarrow> heap \<Rightarrow> 'a \<times> heap) \<Rightarrow> 'a list \<Rightarrow> heap \<Rightarrow> 'a list \<times> heap" where
  "copy_all into [] h = ([], h)"
| "copy_all into (x # xs) h = (case into x h of (y, h1) \<Rightarrow> case copy_all into xs h1 of (ys, h2) \<Rightarrow> (y # ys, h2))"

text \<open>A slice of structs: the new array is made first, then each element is copied into it.\<close>

definition copy_inits :: "map_orders \<Rightarrow> addr option \<Rightarrow> heap \<Rightarrow> addr option \<times> heap" where
  "copy_inits rng r h =
     (case r of
        None \<Rightarrow> (None, h)
      | Some a \<Rightarrow>
        (case hp_cells h a of
           Some (InitsCell xs) \<Rightarrow>
             (case alloc (InitsCell []) h of (a', h1) \<Rightarrow>
              case copy_all (InitContainer_DeepCopyInto rng) xs h1 of (ys, h2) \<Rightarrow> (Some a', hp_write a' (InitsCell ys) h2))
         | _ \<Rightarrow> (Some a, h)))"

definition ResourceRequirements_DeepCopyInto :: "map_orders \<Rightarrow> resources_ref \<Rightarrow> heap \<Rightarrow> resources_ref \<times> heap" where
  "ResourceRequirements_DeepCopyInto rng x h =
     (case copy_ref rng (qr_Limits x) h of (limits, h1) \<Rightarrow>
      case copy_ref rng (qr_Requests x) h1 of (requests, h2) \<Rightarrow> (x\<lparr>qr_Limits := limits, qr_Requests := requests\<rparr>, h2))"

definition Spec_DeepCopyInto :: "map_orders \<Rightarrow> spec_ref \<Rightarrow> heap \<Rightarrow> spec_ref \<times> heap" where
  "Spec_DeepCopyInto rng x h =
     (case copy_ref rng (sr_PushRegistries x) h of (push, h1) \<Rightarrow>
      case copy_ref rng (sr_Registries x) h1 of (registries, h2) \<Rightarrow>
      case copy_ref rng (sr_BuildArgs x) h2 of (args, h3) \<Rightarrow>
      case copy_ref rng (sr_Labels x) h3 of (labels, h4) \<Rightarrow>
      case ResourceRequirements_DeepCopyInto rng (sr_Resources x) h4 of (resources, h5) \<Rightarrow>
      case copy_ref rng (sr_PluginData x) h5 of (data, h6) \<Rightarrow>
      case copy_inits rng (sr_InitContainers x) h6 of (inits, h7) \<Rightarrow>
        (x\<lparr>sr_PushRegistries := push, sr_Registries := registries, sr_BuildArgs := args, sr_Labels := labels,
           sr_Resources := resources, sr_PluginData := data, sr_InitContainers := inits\<rparr>, h7))"

definition Status_DeepCopyInto :: "map_orders \<Rightarrow> status_ref \<Rightarrow> heap \<Rightarrow> status_ref \<times> heap" where
  "Status_DeepCopyInto rng x h =
     (case copy_ref rng (tr_ImageURLs x) h of (urls, h1) \<Rightarrow>
      case copy_ref rng (tr_BuildStartedAt x) h1 of (started, h2) \<Rightarrow>
      case copy_ref rng (tr_BuildCompletedAt x) h2 of (completed, h3) \<Rightarrow>
        (x\<lparr>tr_ImageURLs := urls, tr_BuildStartedAt := started, tr_BuildCompletedAt := completed\<rparr>, h3))"

definition ObjectMeta_DeepCopyInto :: "map_orders \<Rightarrow> meta_ref \<Rightarrow> heap \<Rightarrow> meta_ref \<times> heap" where
  "ObjectMeta_DeepCopyInto rng x h =
     (case copy_ref rng (mr_DeletionTimestamp x) h of (deleted, h1) \<Rightarrow>
      case copy_ref rng (mr_Labels x) h1 of (labels, h2) \<Rightarrow>
      case copy_ref rng (mr_Annotations x) h2 of (annotations, h3) \<Rightarrow>
      case copy_ref rng (mr_OwnerReferences x) h3 of (owners, h4) \<Rightarrow>
        (x\<lparr>mr_DeletionTimestamp := deleted, mr_Labels := labels, mr_Annotations := annotations, mr_OwnerReferences := owners\<rparr>, h4))"

definition Build_DeepCopyInto :: "map_orders \<Rightarrow> build_ref \<Rightarrow> heap \<Rightarrow> build_ref \<times> heap" where
  "Build_DeepCopyInto rng x h =
     (case ObjectMeta_DeepCopyInto rng (br_Meta x) h of (m, h1) \<Rightarrow>
      case Spec_DeepCopyInto rng (br_Spec x) h1 of (spec, h2) \<Rightarrow>
      case Status_DeepCopyInto rng (br_Status x) h2 of (status, h3) \<Rightarrow>
        (x\<lparr>br_Meta := m, br_Spec := spec, br_Status := status\<rparr>, h3))"

definition List_DeepCopyInto :: "map_orders \<Rightarrow> list_ref \<Rightarrow> heap \<Rightarrow> list_ref \<times> heap" where
  "List_DeepCopyInto rng x h =
     (case lr_Items x of
        None \<Rightarrow> (x, h)
      | Some a \<Rightarrow>
        (case hp_cells h a of
           Some (BuildsCell bs) \<Rightarrow>
             (case alloc (BuildsCell []) h of (a', h1) \<Rightarrow>
              case copy_all (Build_DeepCopyInto rng) bs h1 of (bs', h2) \<Rightarrow>
                (x\<lparr>lr_Items := Some a'\<rparr>, hp_write a' (BuildsCell bs') h2))
         | _ \<Rightarrow> (x, h)))"

text \<open>\<^verbatim>\<open>DeepCopy\<close> and \<^verbatim>\<open>DeepCopyObject\<close> of a pointer: nil for nil.\<close>

definition DeepCopy :: "('a \<Rightarrow> heap \<Rightarrow> 'a \<times> heap) \<Rightarrow> 'a option \<Rightarrow> heap \<Rightarrow> 'a option \<times> heap" where
  "DeepCopy into x h = (case x of None \<Rightarrow> (None, h) | Some v \<Rightarrow> (case into v h of (y, h1) \<Rightarrow> (Some y, h1)))"

subsection \<open>What a copy promises\<close>

text \<open>Two cells with the same content; the entries of a map have no order.\<close>

fun cell_eq :: "cell \<Rightarrow> cell \<Rightarrow> bool" where
  "cell_eq (StringMapCell m) (StringMapCell m') \<longleftrightarrow> map_of m = map_of m'"
| "cell_eq (QuantityMapCell m) (QuantityMapCell m') \<longleftrightarrow> map_of m = map_of m'"
| "cell_eq c c' \<longleftrightarrow> c = c'"

definition extends :: "heap \<Rightarrow> heap \<Rightarrow> bool" where
  "extends h h' \<longleftrightarrow> hp_next h \<le> hp_next h' \<and> (\<forall>a < hp_next h. hp_cells h' a = hp_cells h a)"

text \<open>A reference of heap \<open>h\<close> and its copy in \<open>h'\<close>: both nil, or the copy refers to memory that is new and holds the same.\<close>

definition copied :: "heap \<Rightarrow> heap \<Rightarrow> addr option \<Rightarrow> addr option \<Rightarrow> bool" where
  "copied h h' r r' \<longleftrightarrow>
     (case r of
        None \<Rightarrow> r' = None
      | Some a \<Rightarrow> \<exists>a' c c'. r' = Some a' \<and> hp_next h \<le> a' \<and> a' < hp_next h' \<and> hp_cells h a = Some c \<and> hp_cells h' a' = Some c' \<and> cell_eq c c')"

definition init_copied :: "heap \<Rightarrow> heap \<Rightarrow> init_ref \<Rightarrow> init_ref \<Rightarrow> bool" where
  "init_copied h h' x y \<longleftrightarrow>
     ir_Name y = ir_Name x \<and> ir_Image y = ir_Image x \<and>
     copied h h' (ir_Command x) (ir_Command y) \<and> copied h h' (ir_Args x) (ir_Args y) \<and> copied h h' (ir_Env x) (ir_Env y)"

definition inits_copied :: "heap \<Rightarrow> heap \<Rightarrow> addr option \<Rightarrow> addr option \<Rightarrow> bool" where
  "inits_copied h h' r r' \<longleftrightarrow>
     (case r of
        None \<Rightarrow> r' = None
      | Some a \<Rightarrow> \<exists>a' xs ys. r' = Some a' \<and> hp_next h \<le> a' \<and> a' < hp_next h' \<and> hp_cells h a = Some (InitsCell xs) \<and>
          hp_cells h' a' = Some (InitsCell ys) \<and> list_all2 (init_copied h h') xs ys)"

definition resources_copied :: "heap \<Rightarrow> heap \<Rightarrow> resources_ref \<Rightarrow> resources_ref \<Rightarrow> bool" where
  "resources_copied h h' x y \<longleftrightarrow> copied h h' (qr_Limits x) (qr_Limits y) \<and> copied h h' (qr_Requests x) (qr_Requests y)"

definition meta_copied :: "heap \<Rightarrow> heap \<Rightarrow> meta_ref \<Rightarrow> meta_ref \<Rightarrow> bool" where
  "meta_copied h h' x y \<longleftrightarrow>
     mr_Name y = mr_Name x \<and> mr_Namespace y = mr_Namespace x \<and> mr_UID y = mr_UID x \<and> mr_CreationTimestamp y = mr_CreationTimestamp x \<and>
     mr_SelfLink y = mr_SelfLink x \<and> copied h h' (mr_Labels x) (mr_Labels y) \<and> copied h h' (mr_Annotations x) (mr_Annotations y) \<and>
     copied h h' (mr_DeletionTimestamp x) (mr_DeletionTimestamp y) \<and> copied h h' (mr_OwnerReferences x) (mr_OwnerReferences y)"

definition spec_copied :: "heap \<Rightarrow> heap \<Rightarrow> spec_ref \<Rightarrow> spec_ref \<Rightarrow> bool" where
  "spec_copied h h' x y \<longleftrightarrow>
     y = x\<lparr>sr_PushRegistries := sr_PushRegistries y, sr_Registries := sr_Registries y, sr_BuildArgs := sr_BuildArgs y, sr_Labels := sr_Labels y,
           sr_Resources := sr_Resources y, sr_PluginData := sr_PluginData y, sr_InitContainers := sr_InitContainers y\<rparr> \<and>
     copied h h' (sr_PushRegistries x) (sr_PushRegistries y) \<and> copied h h' (sr_Registries x) (sr_Registries y) \<and>
     copied h h' (sr_BuildArgs x) (sr_BuildArgs y) \<and> copied h h' (sr_Labels x) (sr_Labels y) \<and>
     resources_copied h h' (sr_Resources x) (sr_Resources y) \<and>
     copied h h' (sr_PluginData x) (sr_PluginData y) \<and> inits_copied h h' (sr_InitContainers x) (sr_InitContainers y)"

definition status_copied :: "heap \<Rightarrow> heap \<Rightarrow> status_ref \<Rightarrow> status_ref \<Rightarrow> bool" where
  "status_copied h h' x y \<longleftrightarrow>
     tr_PreviousState y = tr_PreviousState x \<and> tr_State y = tr_State x \<and> tr_ImageSize y = tr_ImageSize x \<and> tr_ErrorMessage y = tr_ErrorMessage x \<and>
     copied h h' (tr_ImageURLs x) (tr_ImageURLs y) \<and> copied h h' (tr_BuildStartedAt x) (tr_BuildStartedAt y) \<and>
     copied h h' (tr_BuildCompletedAt x) (tr_BuildCompletedAt y)"

definition build_copied :: "heap \<Rightarrow> heap \<Rightarrow> build_ref \<Rightarrow> build_ref \<Rightarrow> bool" where
  "build_copied h h' x y \<longleftrightarrow>
     meta_copied h h' (br_Meta x) (br_Meta y) \<and> spec_copied h h' (br_Spec x) (br_Spec y) \<and> status_copied h h' (br_Status x) (br_Status y)"

text \<open>References that are well formed: allocated, and maps without duplicate keys.\<close>

definition ref_ok :: "heap \<Rightarrow> addr option \<Rightarrow> bool" where
  "ref_ok h r \<longleftrightarrow>
     (case r of
        None \<Rightarrow> True
      | Some a \<Rightarrow> a < hp_next h \<and>
          (case hp_cells h a of
             None \<Rightarrow> False
           | Some (StringMapCell m) \<Rightarrow> wf_map m
           | Some (QuantityMapCell m) \<Rightarrow> wf_map m
           | Some _ \<Rightarrow> True))"

definition init_ok :: "heap \<Rightarrow> init_ref \<Rightarrow> bool" where
  "init_ok h x \<longleftrightarrow> ref_ok h (ir_Command x) \<and> ref_ok h (ir_Args x) \<and> ref_ok h (ir_Env x)"

definition inits_ok :: "heap \<Rightarrow> addr option \<Rightarrow> bool" where
  "inits_ok h r \<longleftrightarrow>
     (case r of
        None \<Rightarrow> True
      | Some a \<Rightarrow> a < hp_next h \<and> (case hp_cells h a of Some (InitsCell xs) \<Rightarrow> list_all (init_ok h) xs | _ \<Rightarrow> False))"

definition resources_ok :: "heap \<Rightarrow> resources_ref \<Rightarrow> bool" where
  "resources_ok h x \<longleftrightarrow> ref_ok h (qr_Limits x) \<and> ref_ok h (qr_Requests x)"

definition meta_ok :: "heap \<Rightarrow> meta_ref \<Rightarrow> bool" where
  "meta_ok h x \<longleftrightarrow> ref_ok h (mr_Labels x) \<and> ref_ok h (mr_Annotations x) \<and> ref_ok h (mr_DeletionTimestamp x) \<and> ref_ok h (mr_OwnerReferences x)"

definition spec_ok :: "heap \<Rightarrow> spec_ref \<Rightarrow> bool" where
  "spec_ok h x \<longleftrightarrow>
     ref_ok h (sr_PushRegistries x) \<and> ref_ok h (sr_Registries x) \<and> ref_ok h (sr_BuildArgs x) \<and> ref_ok h (sr_Labels x) \<and>
     resources_ok h (sr_Resources x) \<and> ref_ok h (sr_PluginData x) \<and> inits_ok h (sr_InitContainers x)"

definition status_ok :: "heap \<Rightarrow> status_ref \<Rightarrow> bool" where
  "status_ok h x \<longleftrightarrow> ref_ok h (tr_ImageURLs x) \<and> ref_ok h (tr_BuildStartedAt x) \<and> ref_ok h (tr_BuildCompletedAt x)"

definition build_ok :: "heap \<Rightarrow> build_ref \<Rightarrow> bool" where
  "build_ok h b \<longleftrightarrow> meta_ok h (br_Meta b) \<and> spec_ok h (br_Spec b) \<and> status_ok h (br_Status b)"

text \<open>The orders are those of some iteration over each map.\<close>

definition orders_ok :: "map_orders \<Rightarrow> bool" where
  "orders_ok rng \<longleftrightarrow> range_order (mo_strings rng) \<and> range_order (mo_quantities rng)"

text \<open>All addresses that a build refers to, directly or through its init containers.\<close>

definition init_refs :: "init_ref \<Rightarrow> addr set" where
  "init_refs x = set_option (ir_Command x) \<union> set_option (ir_Args x) \<union> set_option (ir_Env x)"

definition inits_refs :: "heap \<Rightarrow> addr option \<Rightarrow> addr set" where
  "inits_refs h r =
     set_option r \<union> (case r of Some a \<Rightarrow> (case hp_cells h a of Some (InitsCell xs) \<Rightarrow> (\<Union>x\<in>set xs. init_refs x) | _ \<Rightarrow> {}) | None \<Rightarrow> {})"

definition build_refs :: "heap \<Rightarrow> build_ref \<Rightarrow> addr set" where
  "build_refs h b =
     (let m = br_Meta b; s = br_Spec b; t = br_Status b
      in set_option (mr_Labels m) \<union> set_option (mr_Annotations m) \<union> set_option (mr_DeletionTimestamp m) \<union> set_option (mr_OwnerReferences m) \<union>
         set_option (sr_PushRegistries s) \<union> set_option (sr_Registries s) \<union> set_option (sr_BuildArgs s) \<union> set_option (sr_Labels s) \<union>
         set_option (qr_Limits (sr_Resources s)) \<union> set_option (qr_Requests (sr_Resources s)) \<union> set_option (sr_PluginData s) \<union>
         inits_refs h (sr_InitContainers s) \<union>
         set_option (tr_ImageURLs t) \<union> set_option (tr_BuildStartedAt t) \<union> set_option (tr_BuildCompletedAt t))"

subsection \<open>The contract of a copying operation\<close>

text \<open>An operation that copies values of one type: it only adds to the heap, and its result is a copy. What is a copy stays one when the heap grows, or when older
  memory is written.\<close>

lemma extends_refl [simp, intro]: "extends h h"
  by (simp add: extends_def)

lemma extends_trans: "extends h h1 \<Longrightarrow> extends h1 h2 \<Longrightarrow> extends h h2"
  by (fastforce simp: extends_def)

lemma extends_alloc: "alloc c h = (a, h') \<Longrightarrow> extends h h' \<and> a = hp_next h \<and> hp_next h' = Suc a \<and> hp_cells h' a = Some c"
  by (auto simp: alloc_def extends_def)

lemma extends_write: "extends h h' \<Longrightarrow> hp_next h \<le> a \<Longrightarrow> extends h (hp_write a c h')"
  by (auto simp: extends_def hp_write_def)

lemma hp_write_sel [simp]:
  "hp_next (hp_write a c h) = hp_next h" "hp_cells (hp_write a c h) a = Some c" "a' \<noteq> a \<Longrightarrow> hp_cells (hp_write a c h) a' = hp_cells h a'"
  by (simp_all add: hp_write_def)

locale struct_copy =
  fixes into :: "'a \<Rightarrow> heap \<Rightarrow> 'a \<times> heap"
    and ok :: "heap \<Rightarrow> 'a \<Rightarrow> bool"
    and same :: "heap \<Rightarrow> heap \<Rightarrow> 'a \<Rightarrow> 'a \<Rightarrow> bool"
  assumes copies: "ok h x \<Longrightarrow> into x h = (y, h') \<Longrightarrow> extends h h' \<and> same h h' x y"
    and ok_later: "ok h x \<Longrightarrow> extends h h' \<Longrightarrow> ok h' x"
    and same_later: "same h h1 x y \<Longrightarrow> extends h1 h2 \<Longrightarrow> same h h2 x y"
    and same_earlier: "ok h x \<Longrightarrow> extends h h1 \<Longrightarrow> same h1 h2 x y \<Longrightarrow> same h h2 x y"
    and same_written: "same h h' x y \<Longrightarrow> a < hp_next h \<Longrightarrow> same h (hp_write a c h') x y"
begin

lemma copy_step:
  assumes "extends h h1" and "ok h x" and "into x h1 = (y, h2)"
  shows "extends h1 h2" and "extends h h2" and "same h h2 x y"
proof -
  from copies [OF ok_later [OF assms(2,1)] assms(3)] have new: "extends h1 h2" "same h1 h2 x y" by blast+
  show "extends h1 h2" by (fact new)
  show "extends h h2" by (rule extends_trans [OF assms(1) new(1)])
  show "same h h2 x y" by (rule same_earlier [OF assms(2,1) new(2)])
qed

lemma copy_all_copies: "list_all (ok h) xs \<Longrightarrow> copy_all into xs h = (ys, h') \<Longrightarrow> extends h h' \<and> list_all2 (same h h') xs ys"
proof (induction xs arbitrary: h ys)
  case (Cons x xs)
  from Cons.prems(2) obtain y h1 zs where run: "into x h = (y, h1)" "copy_all into xs h1 = (zs, h')" "ys = y # zs"
    by (auto split: prod.splits)
  from Cons.prems(1) run(1) copies have one: "extends h h1" "same h h1 x y" by auto
  from Cons.prems(1) one(1) ok_later have "list_all (ok h1) xs" by (auto simp: list_all_iff)
  from Cons.IH [OF this run(2)] have rest: "extends h1 h'" "list_all2 (same h1 h') xs zs" by blast+
  from rest(2) Cons.prems(1) one(1) same_earlier have "list_all2 (same h h') xs zs"
    by (fastforce simp: list_all2_conv_all_nth list_all_length)
  with one rest run(3) show ?case by (auto intro: extends_trans same_later)
qed simp

lemma slice_copies:
  assumes "list_all (ok h) xs" and "alloc c h = (a, h1)" and "copy_all into xs h1 = (ys, h2)"
  shows "extends h (hp_write a d h2)" and "list_all2 (same h (hp_write a d h2)) xs ys" and "hp_next h \<le> a" and "a < hp_next h2"
proof -
  from extends_alloc [OF assms(2)] have new: "extends h h1" "a = hp_next h" "hp_next h1 = Suc a" by blast+
  from assms(1) new(1) ok_later have "list_all (ok h1) xs" by (auto simp: list_all_iff)
  from copy_all_copies [OF this assms(3)] have all: "extends h1 h2" "list_all2 (same h1 h2) xs ys" by blast+
  show "extends h (hp_write a d h2)" using extends_trans [OF new(1) all(1)] new(2) by (simp add: extends_write)
  from all(2) new(3) same_written have "list_all2 (same h1 (hp_write a d h2)) xs ys"
    by (fastforce elim: list_all2_mono)
  with assms(1) new(1) same_earlier show "list_all2 (same h (hp_write a d h2)) xs ys"
    by (fastforce simp: list_all2_conv_all_nth list_all_length)
  show "hp_next h \<le> a" and "a < hp_next h2" using new all(1) by (auto simp: extends_def)
qed

end

subsection \<open>Every copying operation meets it\<close>

lemma copy_cell_eq:
  assumes "orders_ok rng" and "ref_ok h (Some a)" and "hp_cells h a = Some c"
  shows "cell_eq c (copy_cell rng c)"
  using assms by (cases c) (auto simp: orders_ok_def ref_ok_def map_of_put_all_range)

lemma ref_ok_later: "ref_ok h r \<Longrightarrow> extends h h' \<Longrightarrow> ref_ok h' r"
  by (cases r) (auto simp: ref_ok_def extends_def)

lemma copied_earlier: "ref_ok h r \<Longrightarrow> extends h h1 \<Longrightarrow> copied h1 h2 r r' \<Longrightarrow> copied h h2 r r'"
  by (cases r) (fastforce simp: copied_def extends_def ref_ok_def)+

interpretation refs: struct_copy "copy_ref rng" "\<lambda>h r. orders_ok rng \<and> ref_ok h r" copied for rng
proof
  fix h r r' h'
  assume ok: "orders_ok rng \<and> ref_ok h r" and run: "copy_ref rng r h = (r', h')"
  show "extends h h' \<and> copied h h' r r'"
  proof (cases r)
    case None
    with run show ?thesis by (auto simp: copy_ref_def copied_def)
  next
    case (Some a)
    with ok obtain c where c: "hp_cells h a = Some c" by (auto simp: ref_ok_def split: option.splits)
    with run Some obtain a' where new: "alloc (copy_cell rng c) h = (a', h')" "r' = Some a'"
      by (auto simp: copy_ref_def split: prod.splits)
    from ok Some c have "cell_eq c (copy_cell rng c)" by (auto intro: copy_cell_eq)
    with extends_alloc [OF new(1)] new(2) Some c show ?thesis by (auto simp: copied_def)
  qed
next
  show "orders_ok rng \<and> ref_ok h r \<Longrightarrow> extends h h' \<Longrightarrow> orders_ok rng \<and> ref_ok h' r" for h r h'
    by (blast intro: ref_ok_later)
next
  show "copied h h1 r r' \<Longrightarrow> extends h1 h2 \<Longrightarrow> copied h h2 r r'" for h h1 h2 r r'
    by (cases r) (fastforce simp: copied_def extends_def)+
next
  show "orders_ok rng \<and> ref_ok h r \<Longrightarrow> extends h h1 \<Longrightarrow> copied h1 h2 r r' \<Longrightarrow> copied h h2 r r'" for h h1 h2 r r'
    by (blast intro: copied_earlier)
next
  show "copied h h' r r' \<Longrightarrow> a < hp_next h \<Longrightarrow> copied h (hp_write a c h') r r'" for h h' r r' a c
    by (cases r) (auto simp: copied_def)
qed

lemmas copied_keeps = refs.same_later refs.same_written copied_earlier ref_ok_later

interpretation inits: struct_copy "InitContainer_DeepCopyInto rng" "\<lambda>h x. orders_ok rng \<and> init_ok h x" init_copied for rng
proof
  fix h x y h'
  assume ok: "orders_ok rng \<and> init_ok h x" and run: "InitContainer_DeepCopyInto rng x h = (y, h')"
  then obtain c a e h1 h2 where calls: "copy_ref rng (ir_Command x) h = (c, h1)" "copy_ref rng (ir_Args x) h1 = (a, h2)" "copy_ref rng (ir_Env x) h2 = (e, h')"
    and y: "y = x\<lparr>ir_Command := c, ir_Args := a, ir_Env := e\<rparr>"
    by (auto simp: InitContainer_DeepCopyInto_def split: prod.splits)
  from ok have "orders_ok rng \<and> ref_ok h (ir_Command x)" "orders_ok rng \<and> ref_ok h (ir_Args x)" "orders_ok rng \<and> ref_ok h (ir_Env x)"
    by (auto simp: init_ok_def)
  note s1 = refs.copy_step [OF extends_refl this(1) calls(1)] and s2 = refs.copy_step [OF s1(2) this(2) calls(2)] and s3 = refs.copy_step [OF s2(2) this(3) calls(3)]
  from s1 s2 s3 y show "extends h h' \<and> init_copied h h' x y"
    by (auto simp: init_copied_def intro: copied_keeps)
qed (auto simp: init_ok_def init_copied_def intro: copied_keeps)

lemma inits_ok_elims: "inits_ok h (Some a) \<Longrightarrow> \<exists>xs. hp_cells h a = Some (InitsCell xs) \<and> a < hp_next h \<and> list_all (init_ok h) xs"
  by (auto simp: inits_ok_def split: option.splits cell.splits)

lemma inits_ok_later: "inits_ok h r \<Longrightarrow> extends h h' \<Longrightarrow> inits_ok h' r"
proof (cases r)
  case (Some a)
  assume "inits_ok h r" and ext: "extends h h'"
  with Some inits_ok_elims obtain xs where xs: "hp_cells h a = Some (InitsCell xs)" "a < hp_next h" "list_all (init_ok h) xs" by blast
  then have "list_all (init_ok h') xs" using ext by (auto simp: list_all_iff init_ok_def intro: ref_ok_later)
  with xs ext Some show ?thesis by (simp add: inits_ok_def extends_def)
qed (simp add: inits_ok_def)

lemma inits_copied_mono:
  assumes "inits_copied h h1 r r'" and "\<And>x y. init_copied h h1 x y \<Longrightarrow> init_copied h h2 x y"
    and "hp_next h1 \<le> hp_next h2" and "\<And>a. hp_next h \<le> a \<Longrightarrow> a < hp_next h1 \<Longrightarrow> hp_cells h2 a = hp_cells h1 a"
  shows "inits_copied h h2 r r'"
proof (cases r)
  case (Some a)
  with assms(1) obtain a' xs ys where "r' = Some a'" "hp_next h \<le> a'" "a' < hp_next h1" "hp_cells h a = Some (InitsCell xs)"
      "hp_cells h1 a' = Some (InitsCell ys)" "list_all2 (init_copied h h1) xs ys"
    by (auto simp: inits_copied_def)
  with assms(2-4) Some show ?thesis by (auto simp: inits_copied_def elim: list_all2_mono)
qed (use assms(1) in \<open>simp add: inits_copied_def\<close>)

lemma inits_copied_earlier: "inits_ok h r \<Longrightarrow> extends h h1 \<Longrightarrow> inits_copied h1 h2 r r' \<Longrightarrow> inits_copied h h2 r r'"
proof (cases r)
  case (Some a)
  assume "inits_ok h r" and ext: "extends h h1" and copy: "inits_copied h1 h2 r r'"
  with Some inits_ok_elims obtain xs where xs: "hp_cells h a = Some (InitsCell xs)" "a < hp_next h" "list_all (init_ok h) xs" by blast
  from ext xs have "hp_cells h1 a = Some (InitsCell xs)" by (simp add: extends_def)
  with copy Some obtain a' ys where r': "r' = Some a'" "hp_next h1 \<le> a'" "a' < hp_next h2" "hp_cells h2 a' = Some (InitsCell ys)"
      "list_all2 (init_copied h1 h2) xs ys"
    by (auto simp: inits_copied_def)
  then have "list_all2 (init_copied h h2) xs ys"
    using xs(3) ext by (auto simp: list_all2_conv_all_nth list_all_length init_ok_def init_copied_def intro: copied_earlier)
  with xs r' ext Some show ?thesis by (auto simp: inits_copied_def extends_def)
qed (simp add: inits_copied_def)

interpretation init_slices: struct_copy "copy_inits rng" "\<lambda>h r. orders_ok rng \<and> inits_ok h r" inits_copied for rng
proof
  fix h r r' h'
  assume ok: "orders_ok rng \<and> inits_ok h r" and run: "copy_inits rng r h = (r', h')"
  show "extends h h' \<and> inits_copied h h' r r'"
  proof (cases r)
    case None
    with run show ?thesis by (auto simp: copy_inits_def inits_copied_def)
  next
    case (Some a)
    with ok inits_ok_elims obtain xs where xs: "hp_cells h a = Some (InitsCell xs)" "list_all (init_ok h) xs" by blast
    with run Some obtain a' h1 ys h2 where new: "alloc (InitsCell []) h = (a', h1)"
        "copy_all (InitContainer_DeepCopyInto rng) xs h1 = (ys, h2)" "r' = Some a'" "h' = hp_write a' (InitsCell ys) h2"
      by (auto simp: copy_inits_def split: prod.splits)
    from ok xs(2) have "list_all (\<lambda>x. orders_ok rng \<and> init_ok h x) xs" by (simp add: list_all_iff)
    from inits.slice_copies [OF this new(1,2)] Some xs(1) new(3,4) show ?thesis by (auto simp: inits_copied_def)
  qed
next
  show "inits_copied h h1 r r' \<Longrightarrow> extends h1 h2 \<Longrightarrow> inits_copied h h2 r r'" for h h1 h2 r r'
    by (erule inits_copied_mono) (auto simp: extends_def intro: inits.same_later)
next
  show "inits_copied h h' r r' \<Longrightarrow> a < hp_next h \<Longrightarrow> inits_copied h (hp_write a c h') r r'" for h h' r r' a c
    by (erule inits_copied_mono) (auto intro: inits.same_written)
qed (auto intro: inits_ok_later inits_copied_earlier)

lemmas copies_keep = copied_keeps init_slices.same_later init_slices.same_written inits_copied_earlier inits_ok_later

interpretation resources: struct_copy "ResourceRequirements_DeepCopyInto rng" "\<lambda>h x. orders_ok rng \<and> resources_ok h x" resources_copied for rng
proof
  fix h x y h'
  assume ok: "orders_ok rng \<and> resources_ok h x" and run: "ResourceRequirements_DeepCopyInto rng x h = (y, h')"
  from run obtain l r h1 where calls:
    "copy_ref rng (qr_Limits x) h = (l, h1)"
    "copy_ref rng (qr_Requests x) h1 = (r, h')"
    and y: "y = x\<lparr>qr_Limits := l, qr_Requests := r\<rparr>"
    by (auto simp: ResourceRequirements_DeepCopyInto_def split: prod.splits)
  from ok have oks:
    "orders_ok rng \<and> ref_ok h (qr_Limits x)"
    "orders_ok rng \<and> ref_ok h (qr_Requests x)"
    by (simp_all add: resources_ok_def)
  note s1 = refs.copy_step [OF extends_refl oks(1) calls(1)]
  note s2 = refs.copy_step [OF s1(2) oks(2) calls(2)]
  note t1 = s2(1)
  note kept = refs.same_later [OF s1(3) t1] s2(3)
  show "extends h h' \<and> resources_copied h h' x y"
    using kept s2(2) by (simp add: resources_copied_def y)
qed (auto simp: resources_ok_def resources_copied_def intro: copies_keep)

interpretation specs: struct_copy "Spec_DeepCopyInto rng" "\<lambda>h x. orders_ok rng \<and> spec_ok h x" spec_copied for rng
proof
  fix h x y h'
  assume ok: "orders_ok rng \<and> spec_ok h x" and run: "Spec_DeepCopyInto rng x h = (y, h')"
  from run obtain p r a l q d i h1 h2 h3 h4 h5 h6 where calls:
    "copy_ref rng (sr_PushRegistries x) h = (p, h1)"
    "copy_ref rng (sr_Registries x) h1 = (r, h2)"
    "copy_ref rng (sr_BuildArgs x) h2 = (a, h3)"
    "copy_ref rng (sr_Labels x) h3 = (l, h4)"
    "ResourceRequirements_DeepCopyInto rng (sr_Resources x) h4 = (q, h5)"
    "copy_ref rng (sr_PluginData x) h5 = (d, h6)"
    "copy_inits rng (sr_InitContainers x) h6 = (i, h')"
    and y: "y = x\<lparr>sr_PushRegistries := p, sr_Registries := r, sr_BuildArgs := a, sr_Labels := l, sr_Resources := q, sr_PluginData := d, sr_InitContainers := i\<rparr>"
    by (auto simp: Spec_DeepCopyInto_def split: prod.splits)
  from ok have oks:
    "orders_ok rng \<and> ref_ok h (sr_PushRegistries x)"
    "orders_ok rng \<and> ref_ok h (sr_Registries x)"
    "orders_ok rng \<and> ref_ok h (sr_BuildArgs x)"
    "orders_ok rng \<and> ref_ok h (sr_Labels x)"
    "orders_ok rng \<and> resources_ok h (sr_Resources x)"
    "orders_ok rng \<and> ref_ok h (sr_PluginData x)"
    "orders_ok rng \<and> inits_ok h (sr_InitContainers x)"
    by (simp_all add: spec_ok_def)
  note s1 = refs.copy_step [OF extends_refl oks(1) calls(1)]
  note s2 = refs.copy_step [OF s1(2) oks(2) calls(2)]
  note s3 = refs.copy_step [OF s2(2) oks(3) calls(3)]
  note s4 = refs.copy_step [OF s3(2) oks(4) calls(4)]
  note s5 = resources.copy_step [OF s4(2) oks(5) calls(5)]
  note s6 = refs.copy_step [OF s5(2) oks(6) calls(6)]
  note s7 = init_slices.copy_step [OF s6(2) oks(7) calls(7)]
  note t6 = s7(1)
  note t5 = extends_trans [OF s6(1) t6]
  note t4 = extends_trans [OF s5(1) t5]
  note t3 = extends_trans [OF s4(1) t4]
  note t2 = extends_trans [OF s3(1) t3]
  note t1 = extends_trans [OF s2(1) t2]
  note kept = refs.same_later [OF s1(3) t1] refs.same_later [OF s2(3) t2] refs.same_later [OF s3(3) t3] refs.same_later [OF s4(3) t4] resources.same_later [OF s5(3) t5] refs.same_later [OF s6(3) t6] s7(3)
  show "extends h h' \<and> spec_copied h h' x y"
    using kept s7(2) by (simp add: spec_copied_def y)
qed (auto simp: spec_ok_def spec_copied_def resources_ok_def resources_copied_def intro: copies_keep)

interpretation statuses: struct_copy "Status_DeepCopyInto rng" "\<lambda>h x. orders_ok rng \<and> status_ok h x" status_copied for rng
proof
  fix h x y h'
  assume ok: "orders_ok rng \<and> status_ok h x" and run: "Status_DeepCopyInto rng x h = (y, h')"
  from run obtain u s c h1 h2 where calls:
    "copy_ref rng (tr_ImageURLs x) h = (u, h1)"
    "copy_ref rng (tr_BuildStartedAt x) h1 = (s, h2)"
    "copy_ref rng (tr_BuildCompletedAt x) h2 = (c, h')"
    and y: "y = x\<lparr>tr_ImageURLs := u, tr_BuildStartedAt := s, tr_BuildCompletedAt := c\<rparr>"
    by (auto simp: Status_DeepCopyInto_def split: prod.splits)
  from ok have oks:
    "orders_ok rng \<and> ref_ok h (tr_ImageURLs x)"
    "orders_ok rng \<and> ref_ok h (tr_BuildStartedAt x)"
    "orders_ok rng \<and> ref_ok h (tr_BuildCompletedAt x)"
    by (simp_all add: status_ok_def)
  note s1 = refs.copy_step [OF extends_refl oks(1) calls(1)]
  note s2 = refs.copy_step [OF s1(2) oks(2) calls(2)]
  note s3 = refs.copy_step [OF s2(2) oks(3) calls(3)]
  note t2 = s3(1)
  note t1 = extends_trans [OF s2(1) t2]
  note kept = refs.same_later [OF s1(3) t1] refs.same_later [OF s2(3) t2] s3(3)
  show "extends h h' \<and> status_copied h h' x y"
    using kept s3(2) by (simp add: status_copied_def y)
qed (auto simp: status_ok_def status_copied_def intro: copies_keep)

interpretation metas: struct_copy "ObjectMeta_DeepCopyInto rng" "\<lambda>h x. orders_ok rng \<and> meta_ok h x" meta_copied for rng
proof
  fix h x y h'
  assume ok: "orders_ok rng \<and> meta_ok h x" and run: "ObjectMeta_DeepCopyInto rng x h = (y, h')"
  from run obtain d l a w h1 h2 h3 where calls:
    "copy_ref rng (mr_DeletionTimestamp x) h = (d, h1)"
    "copy_ref rng (mr_Labels x) h1 = (l, h2)"
    "copy_ref rng (mr_Annotations x) h2 = (a, h3)"
    "copy_ref rng (mr_OwnerReferences x) h3 = (w, h')"
    and y: "y = x\<lparr>mr_DeletionTimestamp := d, mr_Labels := l, mr_Annotations := a, mr_OwnerReferences := w\<rparr>"
    by (auto simp: ObjectMeta_DeepCopyInto_def split: prod.splits)
  from ok have oks:
    "orders_ok rng \<and> ref_ok h (mr_DeletionTimestamp x)"
    "orders_ok rng \<and> ref_ok h (mr_Labels x)"
    "orders_ok rng \<and> ref_ok h (mr_Annotations x)"
    "orders_ok rng \<and> ref_ok h (mr_OwnerReferences x)"
    by (simp_all add: meta_ok_def)
  note s1 = refs.copy_step [OF extends_refl oks(1) calls(1)]
  note s2 = refs.copy_step [OF s1(2) oks(2) calls(2)]
  note s3 = refs.copy_step [OF s2(2) oks(3) calls(3)]
  note s4 = refs.copy_step [OF s3(2) oks(4) calls(4)]
  note t3 = s4(1)
  note t2 = extends_trans [OF s3(1) t3]
  note t1 = extends_trans [OF s2(1) t2]
  note kept = refs.same_later [OF s1(3) t1] refs.same_later [OF s2(3) t2] refs.same_later [OF s3(3) t3] s4(3)
  show "extends h h' \<and> meta_copied h h' x y"
    using kept s4(2) by (simp add: meta_copied_def y)
qed (auto simp: meta_ok_def meta_copied_def intro: copies_keep)

interpretation builds: struct_copy "Build_DeepCopyInto rng" "\<lambda>h x. orders_ok rng \<and> build_ok h x" build_copied for rng
proof
  fix h x y h'
  assume ok: "orders_ok rng \<and> build_ok h x" and run: "Build_DeepCopyInto rng x h = (y, h')"
  from run obtain m s t h1 h2 where calls:
    "ObjectMeta_DeepCopyInto rng (br_Meta x) h = (m, h1)"
    "Spec_DeepCopyInto rng (br_Spec x) h1 = (s, h2)"
    "Status_DeepCopyInto rng (br_Status x) h2 = (t, h')"
    and y: "y = x\<lparr>br_Meta := m, br_Spec := s, br_Status := t\<rparr>"
    by (auto simp: Build_DeepCopyInto_def split: prod.splits)
  from ok have oks:
    "orders_ok rng \<and> meta_ok h (br_Meta x)"
    "orders_ok rng \<and> spec_ok h (br_Spec x)"
    "orders_ok rng \<and> status_ok h (br_Status x)"
    by (simp_all add: build_ok_def)
  note s1 = metas.copy_step [OF extends_refl oks(1) calls(1)]
  note s2 = specs.copy_step [OF s1(2) oks(2) calls(2)]
  note s3 = statuses.copy_step [OF s2(2) oks(3) calls(3)]
  note t2 = s3(1)
  note t1 = extends_trans [OF s2(1) t2]
  note kept = metas.same_later [OF s1(3) t1] specs.same_later [OF s2(3) t2] s3(3)
  show "extends h h' \<and> build_copied h h' x y"
    using kept s3(2) by (simp add: build_copied_def y)
qed (auto simp: build_ok_def build_copied_def intro: metas.same_later specs.same_later statuses.same_later metas.same_written specs.same_written statuses.same_written metas.ok_later [THEN conjunct2] specs.ok_later [THEN conjunct2] statuses.ok_later [THEN conjunct2] metas.same_earlier specs.same_earlier statuses.same_earlier)

subsection \<open>Copies share nothing\<close>

lemma copied_refs: "copied h h' r r' \<Longrightarrow> set_option r' \<subseteq> {hp_next h ..< hp_next h'}"
  by (cases r) (auto simp: copied_def)

lemma init_copied_refs: "init_copied h h' x y \<Longrightarrow> init_refs y \<subseteq> {hp_next h ..< hp_next h'}"
  unfolding init_copied_def init_refs_def by (meson Un_least copied_refs)

lemma inits_copied_refs:
  assumes "inits_copied h h' r r'"
  shows "inits_refs h' r' \<subseteq> {hp_next h ..< hp_next h'}"
proof (cases r)
  case (Some a)
  with assms obtain a' xs ys where new: "r' = Some a'" "hp_next h \<le> a'" "a' < hp_next h'" "hp_cells h' a' = Some (InitsCell ys)"
      "list_all2 (init_copied h h') xs ys"
    by (auto simp: inits_copied_def)
  then have "\<forall>y\<in>set ys. init_refs y \<subseteq> {hp_next h ..< hp_next h'}"
    unfolding list_all2_conv_all_nth by (metis in_set_conv_nth init_copied_refs)
  with new show ?thesis by (auto simp: inits_refs_def)
qed (use assms in \<open>simp add: inits_copied_def inits_refs_def\<close>)

lemma build_copied_refs: "build_copied h h' x y \<Longrightarrow> build_refs h' y \<subseteq> {hp_next h ..< hp_next h'}"
  unfolding build_copied_def meta_copied_def spec_copied_def status_copied_def resources_copied_def build_refs_def Let_def
  by (intro Un_least) (elim conjE, erule copied_refs inits_copied_refs)+

lemma ref_ok_refs: "ref_ok h r \<Longrightarrow> set_option r \<subseteq> {..<hp_next h}"
  by (cases r) (auto simp: ref_ok_def)

lemma inits_ok_refs:
  assumes "inits_ok h r"
  shows "inits_refs h r \<subseteq> {..<hp_next h}"
proof (cases r)
  case (Some a)
  with assms inits_ok_elims obtain xs where xs: "hp_cells h a = Some (InitsCell xs)" "a < hp_next h" "list_all (init_ok h) xs" by blast
  then have "\<forall>x\<in>set xs. init_refs x \<subseteq> {..<hp_next h}"
    unfolding list_all_iff init_ok_def init_refs_def by (meson Un_least ref_ok_refs)
  with xs Some show ?thesis by (auto simp: inits_refs_def)
qed (simp add: inits_refs_def)

lemma build_ok_refs: "build_ok h b \<Longrightarrow> build_refs h b \<subseteq> {..<hp_next h}"
  unfolding build_ok_def meta_ok_def spec_ok_def status_ok_def resources_ok_def build_refs_def Let_def
  by (intro Un_least) (elim conjE, erule ref_ok_refs inits_ok_refs)+

text \<open>C24. A deep copy of a build is equal to the original and shares nothing with it. The copy of a non-nil build is non-nil; every plain field is the same, every
  reference is nil exactly where the original's is and else refers to memory that holds the same; no address that the copy reaches, also through its init
  containers, is one that the original reaches; no memory that existed is changed, and no later write through the copy changes it.\<close>

theorem DeepCopy_isolated:
  assumes "orders_ok rng" and "build_ok h b" and "DeepCopy (Build_DeepCopyInto rng) (Some b) h = (r, h')"
  shows "\<exists>b'. r = Some b' \<and> build_copied h h' b b' \<and> build_refs h b \<inter> build_refs h' b' = {} \<and> extends h h' \<and>
    (\<forall>a \<in> build_refs h' b'. \<forall>c. extends h (hp_write a c h'))"
proof -
  from assms(3) obtain b' where run: "Build_DeepCopyInto rng b h = (b', h')" and r: "r = Some b'"
    by (auto simp: DeepCopy_def split: prod.splits)
  from builds.copies [OF conjI [OF assms(1,2)] run] have copy: "extends h h'" "build_copied h h' b b'" by blast+
  from build_copied_refs [OF copy(2)] have new: "build_refs h' b' \<subseteq> {hp_next h ..< hp_next h'}" .
  with build_ok_refs [OF assms(2)] have "build_refs h b \<inter> build_refs h' b' = {}" by fastforce
  moreover from new copy(1) have "\<forall>a \<in> build_refs h' b'. \<forall>c. extends h (hp_write a c h')" by (fastforce intro: extends_write)
  ultimately show ?thesis using r copy by blast
qed

text \<open>The copy of a list: a new array with a copy of each build, in the same order.\<close>

lemma List_DeepCopyInto_copies:
  assumes "orders_ok rng" and "lr_Items x = Some a" and "hp_cells h a = Some (BuildsCell bs)" and "list_all (build_ok h) bs"
    and "List_DeepCopyInto rng x h = (y, h')"
  shows "extends h h'" and "\<exists>a' bs'. y = x\<lparr>lr_Items := Some a'\<rparr> \<and> hp_next h \<le> a' \<and> hp_cells h' a' = Some (BuildsCell bs') \<and>
    list_all2 (build_copied h h') bs bs'"
proof -
  from assms(2,3,5) obtain a' h1 bs' h2 where new: "alloc (BuildsCell []) h = (a', h1)"
      "copy_all (Build_DeepCopyInto rng) bs h1 = (bs', h2)" "y = x\<lparr>lr_Items := Some a'\<rparr>" "h' = hp_write a' (BuildsCell bs') h2"
    by (auto simp: List_DeepCopyInto_def split: prod.splits)
  from assms(1,4) have "list_all (\<lambda>b. orders_ok rng \<and> build_ok h b) bs" by (simp add: list_all_iff)
  note copy = builds.slice_copies(1,2) [OF this new(1,2), where d = "BuildsCell bs'"] builds.slice_copies(3) [OF this new(1,2)]
  show "extends h h'" unfolding new(4) by (rule copy)
  show "\<exists>a' bs'. y = x\<lparr>lr_Items := Some a'\<rparr> \<and> hp_next h \<le> a' \<and> hp_cells h' a' = Some (BuildsCell bs') \<and> list_all2 (build_copied h h') bs bs'"
    using copy new(3,4) by auto
qed

subsection \<open>Example\<close>

text \<open>A build with a label and one init container.\<close>

definition example_orders :: map_orders where
  "example_orders = \<lparr>mo_strings = rev, mo_quantities = rev\<rparr>"

definition example_init :: init_ref where
  "example_init = \<lparr>ir_Name = ''prepare'', ir_Image = ''busybox'', ir_Command = Some 2, ir_Args = None, ir_Env = None\<rparr>"

definition example_heap :: heap where
  "example_heap = \<lparr>hp_cells = [0 \<mapsto> StringMapCell [(''team'', ''a''), (''tier'', ''b'')], 1 \<mapsto> InitsCell [example_init], 2 \<mapsto> StringsCell [''run'']],
     hp_next = 3\<rparr>"

definition example_build :: build_ref where
  "example_build =
     \<lparr>br_Meta = \<lparr>mr_Name = ''b'', mr_Namespace = ''ns'', mr_UID = '''', mr_Labels = Some 0, mr_Annotations = None, mr_CreationTimestamp = 0,
        mr_DeletionTimestamp = None, mr_SelfLink = '''', mr_OwnerReferences = None\<rparr>,
      br_Spec = \<lparr>sr_ImageName = ''img'', sr_Context = '''', sr_ContextTimeoutSeconds = 0, sr_PushRegistries = None, sr_Registries = None,
        sr_BuildArgs = None, sr_Labels = None, sr_CPU = '''', sr_Memory = '''', sr_Resources = \<lparr>qr_Limits = None, qr_Requests = None\<rparr>,
        sr_TimeoutSeconds = 0, sr_ImageSizeLimit = 0, sr_PluginData = None, sr_DisableBuildCache = False, sr_DisableLayerCacheExport = False,
        sr_MessageQueueName = '''', sr_InitContainers = Some 1\<rparr>,
      br_Status = \<lparr>tr_PreviousState = '''', tr_State = '''', tr_ImageURLs = None, tr_ImageSize = 0, tr_ErrorMessage = '''',
        tr_BuildStartedAt = None, tr_BuildCompletedAt = None\<rparr>\<rparr>"

theorem DeepCopy_isolated_witness:
  "orders_ok example_orders \<and> build_ok example_heap example_build \<and>
   (\<exists>b' h'. DeepCopy (Build_DeepCopyInto example_orders) (Some example_build) example_heap = (Some b', h') \<and>
      build_refs example_heap example_build \<inter> build_refs h' b' = {} \<and> mr_Labels (br_Meta b') \<noteq> None)"
proof -
  have orders: "orders_ok example_orders" by (simp add: orders_ok_def example_orders_def range_order_def)
  have ok: "build_ok example_heap example_build"
    by (simp add: build_ok_def meta_ok_def spec_ok_def status_ok_def resources_ok_def example_build_def ref_ok_def inits_ok_def example_heap_def
        example_init_def init_ok_def wf_map_def)
  obtain r h' where run: "DeepCopy (Build_DeepCopyInto example_orders) (Some example_build) example_heap = (r, h')" by (metis surj_pair)
  from DeepCopy_isolated [OF orders ok run] obtain b' where b': "r = Some b'" "build_copied example_heap h' example_build b'"
      "build_refs example_heap example_build \<inter> build_refs h' b' = {}" by blast
  from b'(2) have "mr_Labels (br_Meta b') \<noteq> None" by (auto simp: build_copied_def meta_copied_def copied_def example_build_def)
  with orders ok run b' show ?thesis by blast
qed

end
