(* ===== verification/Forge_Observe.thy ===== *)
theory Forge_Observe
  imports Forge_Api
begin

section \<open>Metrics and progress\<close>

text \<open>
  What an operator sees of Forge: the metrics that the controller registers when it starts (\<^verbatim>\<open>controllers/containerimagebuild_controller.go\<close>) and the relay of the build's
  status messages to the display (\<^verbatim>\<open>displayProgress\<close> of \<^verbatim>\<open>internal/builder/embedded/util.go\<close>), a goroutine and so a step relation. The registry of metrics and
  the display itself are arguments.
\<close>

subsection \<open>Metrics\<close>

datatype metric_kind = CounterVec "string list" | Histogram | Gauge

record metric =
  mt_Namespace :: string
  mt_Subsystem :: string
  mt_Name :: string
  mt_Help :: string
  mt_Kind :: metric_kind

definition containerImageBuildsCount :: metric where
  "containerImageBuildsCount = \<lparr>mt_Namespace = ''forge'', mt_Subsystem = ''controller'', mt_Name = ''container_image_builds'',
     mt_Help = ''Counter of container image builds partitioned by status'', mt_Kind = CounterVec [''status'']\<rparr>"

definition gcTiming :: metric where
  "gcTiming = \<lparr>mt_Namespace = ''forge'', mt_Subsystem = ''controller'', mt_Name = ''container_image_builds_gc'',
     mt_Help = ''Histogram for garbage collection invocations'', mt_Kind = Histogram\<rparr>"

definition gcCompletedGauge :: metric where
  "gcCompletedGauge = \<lparr>mt_Namespace = ''forge'', mt_Subsystem = ''controller'', mt_Name = ''container_image_builds_gc_completed'',
     mt_Help = ''Gauge tracking last garbage collection time'', mt_Kind = Gauge\<rparr>"

definition gcCount :: metric where
  "gcCount = \<lparr>mt_Namespace = ''forge'', mt_Subsystem = ''controller'', mt_Name = ''container_image_builds_objects_gc'',
     mt_Help = ''Counter of container image build objects garbage collected'', mt_Kind = CounterVec [''status'']\<rparr>"

fun MustRegister :: "(metric \<Rightarrow> 'w \<Rightarrow> go_error option \<times> 'w) \<Rightarrow> metric list \<Rightarrow> 'w \<Rightarrow> unit outcome \<times> 'w" where
  "MustRegister register [] w = (Returns (), w)"
| "MustRegister register (c # cs) w =
     (case register c w of (Some err, w1) \<Rightarrow> (Panics (error_text err), w1) | (None, w1) \<Rightarrow> MustRegister register cs w1)"

definition metrics_init :: "(metric \<Rightarrow> 'w \<Rightarrow> go_error option \<times> 'w) \<Rightarrow> 'w \<Rightarrow> unit outcome \<times> 'w" where
  "metrics_init register w =
     (case MustRegister register [containerImageBuildsCount] w of
        (Panics p, w1) \<Rightarrow> (Panics p, w1)
      | (Returns _, w1) \<Rightarrow>
        (case MustRegister register [gcTiming] w1 of
           (Panics p, w2) \<Rightarrow> (Panics p, w2)
         | (Returns _, w2) \<Rightarrow> MustRegister register [gcCount] w2))"

definition BuildFQName :: "string \<Rightarrow> string \<Rightarrow> string \<Rightarrow> string" where
  "BuildFQName namespace subsystem name =
     (if name = '''' then ''''
      else if namespace \<noteq> '''' \<and> subsystem \<noteq> '''' then namespace @ ''_'' @ subsystem @ ''_'' @ name
      else if namespace \<noteq> '''' then namespace @ ''_'' @ name
      else if subsystem \<noteq> '''' then subsystem @ ''_'' @ name
      else name)"

definition fq_name :: "metric \<Rightarrow> string" where
  "fq_name m = BuildFQName (mt_Namespace m) (mt_Subsystem m) (mt_Name m)"

text \<open>A registry that refuses a name it has. The three names differ, so the start of the controller does not panic, and the gauge is not among them.\<close>

definition named_registry :: "metric \<Rightarrow> metric list \<Rightarrow> go_error option \<times> metric list" where
  "named_registry m ms =
     (if fq_name m \<in> fq_name ` set ms then (Some (ErrText ''duplicate metrics collector registration attempted''), ms) else (None, ms @ [m]))"

lemma metrics_init_registers:
  "metrics_init named_registry [] = (Returns (), [containerImageBuildsCount, gcTiming, gcCount])"
  "gcCompletedGauge \<notin> set (snd (metrics_init named_registry []))"
  by code_simp+

subsection \<open>Progress\<close>

record Vertex =
  vx_Digest :: string
  vx_Inputs :: "string list"
  vx_Name :: string
  vx_Cached :: bool
  vx_Started :: "time option"
  vx_Completed :: "time option"
  vx_Error :: string

record VertexStatus =
  vs_ID :: string
  vs_Vertex :: string
  vs_Name :: string
  vs_Current :: "64 word"
  vs_Total :: "64 word"
  vs_Timestamp :: time
  vs_Started :: "time option"
  vs_Completed :: "time option"

text \<open>A log entry of the control interface, and one of the client.\<close>

record control_VertexLog =
  cl_Vertex :: string
  cl_Timestamp :: time
  cl_Stream :: "64 word"
  cl_Msg :: string

record VertexLog =
  vl_Vertex :: string
  vl_Stream :: int
  vl_Data :: string
  vl_Timestamp :: time

record StatusResponse =
  sp_Vertexes :: "Vertex list"
  sp_Statuses :: "VertexStatus list"
  sp_Logs :: "control_VertexLog list"

record SolveStatus =
  so_Vertexes :: "Vertex list"
  so_Statuses :: "VertexStatus list"
  so_Logs :: "VertexLog list"

definition client_vertex :: "Vertex \<Rightarrow> Vertex" where
  "client_vertex v = \<lparr>vx_Digest = vx_Digest v, vx_Inputs = vx_Inputs v, vx_Name = vx_Name v, vx_Cached = vx_Cached v, vx_Started = vx_Started v,
     vx_Completed = vx_Completed v, vx_Error = vx_Error v\<rparr>"

definition client_status :: "VertexStatus \<Rightarrow> VertexStatus" where
  "client_status v = \<lparr>vs_ID = vs_ID v, vs_Vertex = vs_Vertex v, vs_Name = vs_Name v, vs_Current = vs_Current v, vs_Total = vs_Total v,
     vs_Timestamp = vs_Timestamp v, vs_Started = vs_Started v, vs_Completed = vs_Completed v\<rparr>"

definition client_log :: "control_VertexLog \<Rightarrow> VertexLog" where
  "client_log v = \<lparr>vl_Vertex = cl_Vertex v, vl_Stream = sint (cl_Stream v), vl_Data = cl_Msg v, vl_Timestamp = cl_Timestamp v\<rparr>"

definition solve_status :: "StatusResponse \<Rightarrow> SolveStatus" where
  "solve_status resp = \<lparr>so_Vertexes = map client_vertex (sp_Vertexes resp), so_Statuses = map client_status (sp_Statuses resp),
     so_Logs = map client_log (sp_Logs resp)\<rparr>"

text \<open>The relay. Both channels are unbuffered: \<open>rl_ch\<close> holds at most the one message whose sender is blocked until the goroutine takes it, and a status that the goroutine has
  converted is held until the display receives it.\<close>

record relay =
  rl_ch :: "StatusResponse list"
  rl_closed :: bool
  rl_held :: "SolveStatus option"
  rl_shown :: "SolveStatus list"
  rl_progressClosed :: bool

definition new_relay :: relay where
  "new_relay = \<lparr>rl_ch = [], rl_closed = False, rl_held = None, rl_shown = [], rl_progressClosed = False\<rparr>"

inductive relay_step :: "StatusResponse list \<Rightarrow> relay \<Rightarrow> relay \<Rightarrow> bool" where
  Sent: "\<not> rl_closed r \<Longrightarrow> rl_ch r = [] \<Longrightarrow> relay_step [resp] r (r\<lparr>rl_ch := [resp]\<rparr>)"
| Close: "\<not> rl_closed r \<Longrightarrow> rl_ch r = [] \<Longrightarrow> relay_step [] r (r\<lparr>rl_closed := True\<rparr>)"
| Take: "rl_ch r = resp # rest \<Longrightarrow> rl_held r = None \<Longrightarrow> \<not> rl_progressClosed r \<Longrightarrow>
    relay_step [] r (r\<lparr>rl_ch := rest, rl_held := Some (solve_status resp)\<rparr>)"
| Show: "rl_held r = Some s \<Longrightarrow> relay_step [] r (r\<lparr>rl_held := None, rl_shown := rl_shown r @ [s]\<rparr>)"
| Finish: "rl_closed r \<Longrightarrow> rl_ch r = [] \<Longrightarrow> rl_held r = None \<Longrightarrow> \<not> rl_progressClosed r \<Longrightarrow> relay_step [] r (r\<lparr>rl_progressClosed := True\<rparr>)"

inductive displayProgress :: "StatusResponse list \<Rightarrow> relay \<Rightarrow> bool" where
  Start: "displayProgress [] new_relay"
| Step: "displayProgress sent r \<Longrightarrow> relay_step msgs r r' \<Longrightarrow> displayProgress (sent @ msgs) r'"

lemma relay_invariant:
  assumes "displayProgress sent r"
  shows "rl_shown r @ (case rl_held r of None \<Rightarrow> [] | Some s \<Rightarrow> [s]) @ map solve_status (rl_ch r) = map solve_status sent \<and>
    (rl_progressClosed r \<longrightarrow> rl_closed r \<and> rl_ch r = [] \<and> rl_held r = None)"
  using assms
proof induction
  case (Step sent r msgs r')
  from Step(2,3) show ?case by (cases rule: relay_step.cases) (auto split: option.splits)
qed (simp add: new_relay_def)

lemma relay_not_stuck:
  assumes "displayProgress sent r" and "rl_closed r" and "\<not> rl_progressClosed r"
  shows "\<exists>r'. relay_step [] r r'"
proof (cases "rl_held r")
  case None
  then show ?thesis using assms by (cases "rl_ch r") (blast intro: relay_step.intros)+
qed (blast intro: relay_step.Show)

text \<open>Each step after the end of the build brings the relay nearer to its own.\<close>

definition relay_left :: "relay \<Rightarrow> nat" where
  "relay_left r = 2 * length (rl_ch r) + (if rl_held r = None then 0 else 1) + (if rl_progressClosed r then 0 else 1)"

lemma relay_left_decreases: "relay_step msgs r r' \<Longrightarrow> rl_closed r \<Longrightarrow> msgs = [] \<and> rl_closed r' \<and> relay_left r' < relay_left r"
  by (cases rule: relay_step.cases) (auto simp: relay_left_def)

lemma relay_ends:
  assumes "displayProgress sent r" and "rl_closed r"
  shows "\<exists>r'. (relay_step [])\<^sup>*\<^sup>* r r' \<and> displayProgress sent r' \<and> rl_progressClosed r'"
  using assms
proof (induction "relay_left r" arbitrary: r rule: less_induct)
  case less
  show ?case
  proof (cases "rl_progressClosed r")
    case False
    with relay_not_stuck less.prems obtain r1 where step: "relay_step [] r r1" by blast
    from displayProgress.Step [OF less.prems(1) step] have "displayProgress sent r1" by simp
    with less.hyps relay_left_decreases [OF step less.prems(2)] obtain r'
      where "(relay_step [])\<^sup>*\<^sup>* r1 r'" "displayProgress sent r'" "rl_progressClosed r'" by blast
    with step show ?thesis by (meson converse_rtranclp_into_rtranclp)
  qed (use less.prems in blast)
qed

text \<open>C40. The progress display gets every status message of a build, converted, once and in order. At every moment what it was shown is a prefix of what was sent; when its channel is
  closed it was shown all; and once the build has closed its channel the relay is never
  stuck while the display receives: each step brings it nearer to its end, and it reaches it.\<close>

theorem displayProgress_relays:
  assumes "displayProgress sent r"
  shows "(\<exists>rest. map solve_status sent = rl_shown r @ rest) \<and>
    (rl_progressClosed r \<longrightarrow> rl_shown r = map solve_status sent) \<and>
    (rl_closed r \<longrightarrow>
      (\<not> rl_progressClosed r \<longrightarrow> (\<exists>r'. relay_step [] r r')) \<and>
      (\<forall>msgs r'. relay_step msgs r r' \<longrightarrow> relay_left r' < relay_left r) \<and>
      (\<exists>r'. (relay_step [])\<^sup>*\<^sup>* r r' \<and> rl_progressClosed r' \<and> rl_shown r' = map solve_status sent))"
proof -
  have all: "rl_shown r' = map solve_status sent" if "displayProgress sent r'" "rl_progressClosed r'" for r'
    using relay_invariant [OF that(1)] that(2) by auto
  have "\<exists>rest. map solve_status sent = rl_shown r @ rest" using relay_invariant [OF assms] by metis
  moreover have "\<exists>r'. (relay_step [])\<^sup>*\<^sup>* r r' \<and> rl_progressClosed r' \<and> rl_shown r' = map solve_status sent" if "rl_closed r"
  proof -
    from relay_ends [OF assms that] obtain r' where "(relay_step [])\<^sup>*\<^sup>* r r'" "displayProgress sent r'" "rl_progressClosed r'" by blast
    with all show ?thesis by blast
  qed
  ultimately show ?thesis using all [OF assms] relay_not_stuck [OF assms] relay_left_decreases by blast
qed

definition one_log :: StatusResponse where
  "one_log = \<lparr>sp_Vertexes = [], sp_Statuses = [], sp_Logs = [\<lparr>cl_Vertex = ''v'', cl_Timestamp = 0, cl_Stream = 1, cl_Msg = ''hello''\<rparr>]\<rparr>"

theorem displayProgress_relays_witness:
  "\<exists>r. displayProgress [one_log] r \<and> rl_closed r \<and> \<not> rl_progressClosed r \<and>
     (\<exists>r'. (relay_step [])\<^sup>*\<^sup>* r r' \<and> map (map vl_Data \<circ> so_Logs) (rl_shown r') = [[''hello'']])"
proof -
  define r1 where "r1 = new_relay\<lparr>rl_ch := [one_log]\<rparr>"
  define r1' where "r1' = r1\<lparr>rl_ch := [], rl_held := Some (solve_status one_log)\<rparr>"
  define r2 where "r2 = r1'\<lparr>rl_closed := True\<rparr>"
  have "relay_step [one_log] new_relay r1" using relay_step.Sent [of new_relay one_log] by (simp add: new_relay_def r1_def)
  from displayProgress.Step [OF displayProgress.Start this] have sent: "displayProgress [one_log] r1" by simp
  have "relay_step [] r1 r1'" unfolding r1'_def by (rule relay_step.Take [where rest = "[]"]) (simp_all add: new_relay_def r1_def)
  from displayProgress.Step [OF sent this] have taken: "displayProgress [one_log] r1'" by simp
  have "relay_step [] r1' r2" unfolding r2_def by (rule relay_step.Close) (simp_all add: new_relay_def r1_def r1'_def)
  from displayProgress.Step [OF taken this] have run: "displayProgress [one_log] r2" by simp
  have closed: "rl_closed r2" "\<not> rl_progressClosed r2" by (simp_all add: new_relay_def r1_def r1'_def r2_def)
  from displayProgress_relays [OF run] closed(1) obtain r' where "(relay_step [])\<^sup>*\<^sup>* r2 r'" "rl_shown r' = map solve_status [one_log]" by blast
  moreover have "map (map vl_Data \<circ> so_Logs) (map solve_status [one_log]) = [[''hello'']]"
    by (simp add: solve_status_def one_log_def client_log_def)
  ultimately show ?thesis using run closed by metis
qed

end
