(* ===== verification/Spec2Isabelle.thy ===== *)
theory Spec2Isabelle
  imports Forge_Publisher Forge_Request Forge_Auth Forge_Cmd Forge_Provision Forge_Tracker Forge_Deepcopy Forge_Observe
begin

text \<open>
  Forge builds container images inside a Kubernetes cluster. This library is a model of its Go sources and the theorems that make it correct.

  \<^bold>\<open>The program.\<close> A \<^emph>\<open>controller\<close> (\<^verbatim>\<open>controllers\<close>) watches resources of the kind \<^verbatim>\<open>ContainerImageBuild\<close>
  (\<^verbatim>\<open>api\<close>). For each new one it creates a service account, a role, a role binding, if needed a secret with registry credentials that it fetched
  from a cloud (\<^verbatim>\<open>internal/cloud\<close>), and a job; from time to time it deletes old finished builds. The job runs the same program with the command
  \<^verbatim>\<open>build\<close> (\<^verbatim>\<open>cmd\<close>): a \<^emph>\<open>build job\<close> (\<^verbatim>\<open>internal/buildjob\<close>) reads the resource, gathers the registry credentials, lets the
  \<^emph>\<open>embedded builder\<close> (\<^verbatim>\<open>internal/builder\<close>) fetch the context (\<^verbatim>\<open>internal/archive\<close>), prepare it with plugins
  (\<^verbatim>\<open>plugins/preparer\<close>), build the image and push it, and reports each state to the API server (\<^verbatim>\<open>internal/clientset\<close>) and to a message
  queue (\<^verbatim>\<open>internal/message\<close>).

  \<^bold>\<open>How it is modelled.\<close> A struct is a record whose fields carry a short prefix, a Go map an association list (\<open>'v gomap\<close>), and the order of a
  \<^verbatim>\<open>range\<close> over a map an arbitrary permutation (\<open>range_order\<close>), so that every theorem holds for all of them. An error is a value of
  \<open>go_error\<close>, a fallible result \<open>'a result\<close>, a call that may panic an \<open>'a outcome\<close>. Machine integers are words where they can wrap. Code with
  effects passes a world \<open>'w\<close> on; the services it calls are records of functions on that world (\<open>kube\<close>, \<open>job_env\<close>, \<open>driver_env\<close>,
  \<open>archive_env\<close> and so on), and what is known of them are the assumptions of a locale, each of which is interpreted by an implementation in memory. The witnesses
  run the model on these implementations.

  \<^bold>\<open>The theories\<close>, in the order in which they build on each other:

  \<^item> \<open>Forge_Prelude\<close>: errors, maps and their orders, and the parts of \<^verbatim>\<open>strings\<close>, \<^verbatim>\<open>fmt\<close>, \<^verbatim>\<open>strconv\<close> and
    \<^verbatim>\<open>path/filepath\<close> that Forge calls. \<open>Forge_IO\<close>: the state and error monad of the builder's theories.
  \<^item> \<open>Forge_Api\<close>: the resource types and their methods. \<open>Forge_Config\<close>: build options, paths, Docker credentials, broker options.
  \<^item> \<open>Forge_Kube\<close>: the objects the controller creates, owner references (vendored \<^verbatim>\<open>controllerutil\<close>), and the locale \<open>kube_api\<close>, what the
    controller relies on of the API server.
  \<^item> \<open>Forge_Cloud\<close>: the registry of credential loaders, the challenge parser, the three cloud providers and the matching of Go's regular expressions.
  \<^item> \<open>Forge_Controller\<close>: every handler of \<^verbatim>\<open>containerimagebuild_resources.go\<close>. \<open>Forge_Reconcile\<close>: \<open>Reconcile\<close> and \<open>RunGC\<close>.
    Their lemmas show what a reconciliation creates, in which order, that it may be repeated, and what a collection deletes.
  \<^item> \<open>Forge_Start\<close>: the controller process as a run over requests and collection ticks, with invariants of all such runs.
  \<^item> \<open>Forge_Clientset\<close>: the typed client as the requests it sends, and the installation of the resource definition. \<open>Forge_Fake\<close>: the client of
    the tests as the actions it invokes. \<open>Forge_Tracker\<close>: the reactors and the object tracker that answer them (vendored \<^verbatim>\<open>client-go/testing\<close>), which refine a map of builds.
  \<^item> \<open>Forge_Deepcopy\<close>: the generated deep copies over an explicit heap, with the contract \<open>struct_copy\<close> that every one of them meets: a copy is equal and shares nothing.
  \<^item> \<open>Forge_Observe\<close>: the registration of the metrics, and the relay of the progress messages as a step relation.
  \<^item> \<open>Forge_Buildjob\<close>: set-up, run and clean-up of a job, the state transitions and the registry configurations, the latter equal to a declarative
    specification (\<open>registry_spec\<close>). \<open>Forge_Access\<close>: what a job asks of the API server is within the role of the controller.
    \<open>Forge_Provision\<close>: the objects as the server stores them after a reconciliation let the job do its work, and the jobs of a running controller follow the configuration of its start; the locale \<open>keeping_cluster\<close> adds to the contract of the server that it
    keeps what it is asked to create.
  \<^item> \<open>Forge_Publisher\<close>: the AMQP publisher with its connection, as functions and as a step relation with an invariant.
  \<^item> \<open>Forge_Filetype\<close>: the vendored file type detection. \<open>Forge_Archive\<close>: download, type check and extraction of the context.
  \<^item> \<open>Forge_Plugins\<close>: starting, calling and killing preparer plugins.
  \<^item> \<open>Forge_Bkimage\<close>, \<open>Forge_Driver\<close>, \<open>Forge_Request\<close>: the BuildKit client, the driver and the build request. The driver's calls are noted in a log
    (\<open>traced\<close>) with the hosts, names and digests they were given, and \<open>follows\<close> says that a log is a plan cut off at its first failure. The locale \<open>image_store\<close> says what the driver relies
    on of containerd's store; with it, \<open>does\<close> relates the plan to the digest that the store has under a name. \<open>Forge_Auth\<close>: tokens for registries.
  \<^item> \<open>Forge_Cmd\<close>: flags and commands, with the parser of the vendored \<^verbatim>\<open>pflag\<close> and the execution of the vendored \<^verbatim>\<open>cobra\<close>; of the shell
    that starts a job, the commands without special characters (\<open>sh_words\<close>).

  \<^bold>\<open>This theory\<close> holds the properties that span components. A job that ends with success has pushed its image to every registry and told the API server exactly so; the
  credentials of a push are those of the build's specification; credentials that the controller fetched are found by the job; no plugin outlives its build.

  \<^bold>\<open>Loops.\<close> No function of the model uses fuel. Loops over data are structural; the retries of the download, of the ACR client and of the publisher end because their counters
  decrease; the parser of arguments consumes its list; \<open>compatible_brands\<close> approaches its bound. The publisher's watching goroutine and the signal handler of the build command
  are steps of their own. The collection loop of the controller runs over the finite list of events it has served so far.

  \<^bold>\<open>Not modelled\<close>, and why: the services and libraries that do the actual work (the API server, BuildKit, containerd, AMQP, the cloud SDKs, HMAC and Ed25519, the tar and gzip readers,
  JSON and YAML codecs, the parsing of numbers and durations), which are arguments; log lines, traces, metrics other than the counters of the controller, and the rendering of the progress display, which have no effect
  on the state; the sharing of memory outside of \<open>Forge_Deepcopy\<close>, since values of HOL are immutable; the insertion of types into a scheme, of which only the registered kinds matter
  and are modelled; usage texts, completion and
  suggestions of \<^verbatim>\<open>cobra\<close>. Two reconciliations never run at once: the controller is started with one worker, so a run is a sequence. Cancellation by the
  context is modelled only where the code tests it. The members of an error group (\<open>eg_run\<close>) run one after another and all of them run: that they overlap, and that the first error cancels the context
  of the others, is left out. Reads of the API server are never stale in \<open>kube_api\<close>, although the manager's client may read from a cache: the theorems on the controller are
  about a cache that is up to date.
\<close>

section \<open>Properties that span components\<close>

subsection \<open>From the specification to the registries\<close>

text \<open>With one entry per host, the functions that a build hands to the image client look the host up.\<close>

lemma generateRegistryFunc_lookup:
  assumes "distinct (map rc_Host regs)" and "\<forall>c. c \<in> set regs \<longleftrightarrow> spec (rc_Host c) = Some c"
    and "\<forall>h c. spec h = Some c \<longrightarrow> rc_Host c = h"
  shows "fst (generateRegistryFunc regs) host =
      Inr (case spec host of None \<Rightarrow> ('''', '''') | Some c \<Rightarrow> (rc_Username c, rc_Password c)) \<and>
    snd (generateRegistryFunc regs) host = Inr (case spec host of None \<Rightarrow> False | Some c \<Rightarrow> rc_NonSSL c)"
proof -
  have "filter (\<lambda>reg. rc_Host reg = host) regs = (case spec host of None \<Rightarrow> [] | Some c \<Rightarrow> [c])"
  proof (cases "spec host")
    case None
    then show ?thesis using assms(2) by (auto simp: filter_empty_conv)
  next
    case (Some c)
    with assms have c: "c \<in> set regs" "rc_Host c = host" by auto
    have "set (filter (\<lambda>reg. rc_Host reg = host) regs) = {c}"
      using c assms(2) Some by auto
    moreover have "distinct (filter (\<lambda>reg. rc_Host reg = host) regs)"
      using assms(1) by (simp add: distinct_map)
    ultimately show ?thesis
      using Some by (simp add: distinct_singleton)
  qed
  then show ?thesis by (auto simp: generateRegistryFunc_def host_map_last split: option.splits)
qed

lemma registry_spec_host: "registry_spec rs h = Some c \<Longrightarrow> rc_Host c = h"
  by (auto simp: registry_spec_def explicit_config_def implicit_config_def split: option.splits prod.splits dest: find_holds)

text \<open>C10. The credentials and the scheme that the builder uses for a host are those that the specification of the build gives it: the entry that names the host last,
  or else the first secret that holds it, or else none, over TLS.\<close>

theorem build_credentials_refine_spec:
  assumes "range_order (je_auths_rng env)" and "range_order (je_configs_rng env)"
    and "generateBuildOptions env cib w = (Inr opts, w')"
  shows "\<exists>rs. auth_results env (spec_Registries (cib_Spec cib)) w = (Inr rs, w') \<and>
    (\<forall>host. fst (generateRegistryFunc (bo_Registries opts)) host =
        Inr (case registry_spec rs host of None \<Rightarrow> ('''', '''') | Some c \<Rightarrow> (rc_Username c, rc_Password c)) \<and>
      snd (generateRegistryFunc (bo_Registries opts)) host =
        Inr (case registry_spec rs host of None \<Rightarrow> False | Some c \<Rightarrow> rc_NonSSL c))"
proof -
  from assms(3) have "buildRegistryConfigs env (spec_Registries (cib_Spec cib)) w = (Inr (bo_Registries opts), w')"
    by (auto simp: generateBuildOptions_def Let_def split: prod.splits sum.splits)
  from buildRegistryConfigs_entries [OF assms(1,2) this] obtain rs
    where rs: "auth_results env (spec_Registries (cib_Spec cib)) w = (Inr rs, w')" "distinct (map rc_Host (bo_Registries opts))"
      "\<forall>c. c \<in> set (bo_Registries opts) \<longleftrightarrow> registry_spec rs (rc_Host c) = Some c" by blast
  with generateRegistryFunc_lookup [OF rs(2,3)] registry_spec_host show ?thesis by blast
qed

theorem build_credentials_refine_spec_witness:
  "\<exists>opts. generateBuildOptions (job_sample None) job_build () = (Inr opts, ()) \<and>
     fst (generateRegistryFunc (bo_Registries opts)) ''r2'' = Inr (''u2'', ''p2'') \<and>
     fst (generateRegistryFunc (bo_Registries opts)) ''other'' = Inr ('''', '''')"
proof -
  have "\<not> isl (fst (generateBuildOptions (job_sample None) job_build ()))" by code_simp
  then obtain opts where run: "generateBuildOptions (job_sample None) job_build () = (Inr opts, ())"
    by (cases "generateBuildOptions (job_sample None) job_build ()"; cases "fst (generateBuildOptions (job_sample None) job_build ())") auto
  have rng: "range_order (je_auths_rng (job_sample None))" "range_order (je_configs_rng (job_sample None))"
    by (simp_all add: range_order_def job_sample_def)
  let ?rs = "projr (fst (auth_results (job_sample None) (spec_Registries (cib_Spec job_build)) ()))"
  have "map_option (\<lambda>c. (rc_Username c, rc_Password c)) (registry_spec ?rs ''r2'') = Some (''u2'', ''p2'')"
    "map_option rc_Host (registry_spec ?rs ''other'') = None" by code_simp+
  then show ?thesis
    using build_credentials_refine_spec [OF rng run] run by auto
qed

subsection \<open>A job with the embedded builder\<close>

text \<open>The environment of a job whose images are made by the driver; the driver's calls are noted as in a single build.\<close>

definition driver_job :: "'w job_env \<Rightarrow> 'w driver_env \<Rightarrow> 'w driver \<Rightarrow> (bk_client \<times> act_log \<times> 'w) job_env" where
  "driver_job env denv d =
     \<lparr>je_GetBuild = (\<lambda>ns name. on_world (on_world (je_GetBuild env ns name))),
      je_UpdateStatus = (\<lambda>ns cib. on_world (on_world (je_UpdateStatus env ns cib))),
      je_Push = map_option (\<lambda>push u. on_world (on_world (push u))) (je_Push env),
      je_Now = (\<lambda>s. je_Now env (snd (snd s))),
      je_GetSecret = (\<lambda>ns name. on_world (on_world (je_GetSecret env ns name))),
      je_NotExist = (\<lambda>p s. je_NotExist env p (snd (snd s))), je_ReadFile = (\<lambda>p s. je_ReadFile env p (snd (snd s))),
      je_LoadAuths = je_LoadAuths env,
      je_BuildAndPush = (\<lambda>opts. BuildAndPush (traced (bo_ImageSizeLimit opts) denv) (lift_driver d) opts),
      je_auths_rng = je_auths_rng env, je_configs_rng = je_configs_rng env,
      je_Log = (\<lambda>msg s. (fst s, fst (snd s), je_Log env msg (snd (snd s))))\<rparr>"

text \<open>Every step but the build works on the outer world alone.\<close>

abbreviation lifted :: "('w \<Rightarrow> 'a \<times> 'w) \<Rightarrow> bk_client \<times> act_log \<times> 'w \<Rightarrow> 'a \<times> bk_client \<times> act_log \<times> 'w" where
  "lifted f \<equiv> on_world (on_world f)"

lemma lifted_apply: "lifted f (c, l, w) = (fst (f w), c, l, snd (f w))"
  by (simp add: on_world_def split: prod.splits)

lemma driver_job_sel:
  "je_GetBuild (driver_job env denv d) ns name = lifted (je_GetBuild env ns name)"
  "je_UpdateStatus (driver_job env denv d) ns cib = lifted (je_UpdateStatus env ns cib)"
  "je_Push (driver_job env denv d) = map_option (\<lambda>push u. lifted (push u)) (je_Push env)"
  "je_Now (driver_job env denv d) s = je_Now env (snd (snd s))"
  "je_GetSecret (driver_job env denv d) ns name = lifted (je_GetSecret env ns name)"
  "je_NotExist (driver_job env denv d) p s = je_NotExist env p (snd (snd s))"
  "je_ReadFile (driver_job env denv d) p s = je_ReadFile env p (snd (snd s))"
  "je_LoadAuths (driver_job env denv d) = je_LoadAuths env"
  "je_auths_rng (driver_job env denv d) = je_auths_rng env" "je_configs_rng (driver_job env denv d) = je_configs_rng env"
  by (simp_all add: driver_job_def)

lemma updateStatus_driver: "updateStatus (driver_job env denv d) j cib = lifted (updateStatus env j cib)"
  by (rule ext) (auto simp: updateStatus_def driver_job_sel on_world_def split: prod.splits sum.splits option.splits)

lemma getDockerAuthsFromFS_driver: "getDockerAuthsFromFS (driver_job env denv d) s = getDockerAuthsFromFS env (snd (snd s))"
  unfolding getDockerAuthsFromFS_def driver_job_sel ..

lemma getDockerAuthsFromSecret_driver:
  "getDockerAuthsFromSecret (driver_job env denv d) n ns = lifted (getDockerAuthsFromSecret env n ns)"
  unfolding getDockerAuthsFromSecret_def driver_job_sel
  by (rule ext) (simp add: on_world_def split: prod.split sum.split)

lemma registry_auth_driver: "registry_auth (driver_job env denv d) reg s = lifted (registry_auth env reg) s"
proof (cases s)
  case (fields c l w)
  show ?thesis
    unfolding fields registry_auth_def Let_def getDockerAuthsFromFS_driver getDockerAuthsFromSecret_driver lifted_apply
    by (cases "getDockerAuthsFromSecret env (ba_SecretName (reg_BasicAuth reg)) (ba_SecretNamespace (reg_BasicAuth reg)) w")
      (simp split: option.split sum.split)
qed

lemma configure_registries_driver:
  "configure_registries (driver_job env denv d) regs m s = lifted (configure_registries env regs m) s"
proof (induction regs arbitrary: m s)
  case Nil
  show ?case by (cases s) (simp add: lifted_apply)
next
  case (Cons reg regs)
  obtain c l w where s: "s = (c, l, w)" by (cases s)
  show ?case
    by (simp add: s driver_job_sel registry_auth_driver lifted_apply Cons.IH split: prod.split sum.split)
qed

lemma generateBuildOptions_driver:
  "generateBuildOptions (driver_job env denv d) cib s = lifted (generateBuildOptions env cib) s"
proof (cases s)
  case (fields c l w)
  show ?thesis
    by (simp add: fields driver_job_sel generateBuildOptions_def buildRegistryConfigs_def Let_def configure_registries_driver lifted_apply
        split: prod.split sum.split)
qed

lemma build_options_of:
  "generateBuildOptions env cib w = (Inr opts, w') \<Longrightarrow>
   bo_ImageName opts = spec_ImageName (cib_Spec cib) \<and> bo_PushRegistries opts = spec_PushRegistries (cib_Spec cib)"
  by (auto simp: generateBuildOptions_def Let_def split: prod.splits sum.splits)

lemma lifted_result: "lifted f (c, l, w) = (r, s) \<longleftrightarrow> (\<exists>w1. s = (c, l, w1) \<and> f w = (r, w1))"
  by (auto simp: on_world_def split: prod.splits)

lemma fail_with_fails: "fail_with env j cib err w = (r, w') \<Longrightarrow> r \<noteq> None"
  by (auto simp: fail_with_def split: prod.splits option.splits)

lemma build_stage_success:
  assumes "build_stage env j cib opts w = (None, w')"
  obtains img w1 cib1 where "je_BuildAndPush env opts w = (Inr img, w1)"
    and "updateStatus env j (completed (je_Now env w1) img cib) w1 = (Inr cib1, w')"
proof -
  obtain b w1 where b: "je_BuildAndPush env opts w = (b, w1)" by (metis surj_pair)
  show thesis
  proof (cases b)
    case (Inl err)
    with assms b show ?thesis by (auto simp: build_stage_def dest: fail_with_fails)
  next
    case (Inr img)
    with assms b that show ?thesis
      by (auto simp: build_stage_def transitionToComplete_def split: prod.splits sum.splits)
  qed
qed

lemma updateStatus_accepted:
  "updateStatus env j cib w = (Inr cib1, w') \<Longrightarrow> \<exists>w1. je_UpdateStatus env (bj_namespace j) cib w = (Inr cib1, w1)"
  by (auto simp: updateStatus_def split: prod.splits sum.splits option.splits)

lemma driver_job_built:
  assumes "Run (driver_job env denv d) j (c, [], w) = (None, c', l, w')"
  obtains cib0 w1 cib w2 opts w3 img w4 cib1 where "je_GetBuild env (bj_namespace j) (bj_name j) w = (Inr cib0, w1)"
    and "transitionToBuilding env j cib0 w1 = (Inr cib, w2)" and "generateBuildOptions env cib w2 = (Inr opts, w3)"
    and "BuildAndPush (traced (bo_ImageSizeLimit opts) denv) (lift_driver d) opts (c, [], w3) = (Inr img, c', l, w4)"
    and "updateStatus env j (completed (je_Now env w4) img cib) w4 = (Inr cib1, w')"
  using assms
proof (cases rule: Run_cases)
  case (built cib0 s1 cib s2 opts s3)
  from built(1) obtain w1 where s1: "s1 = (c, [], w1)" and get: "je_GetBuild env (bj_namespace j) (bj_name j) w = (Inr cib0, w1)"
    by (auto simp: driver_job_sel lifted_result)
  from built(2) obtain w2 where s2: "s2 = (c, [], w2)" and building: "transitionToBuilding env j cib0 w1 = (Inr cib, w2)"
    by (auto simp: s1 transitionToBuilding_def driver_job_sel updateStatus_driver lifted_result)
  from built(3) obtain w3 where s3: "s3 = (c, [], w3)" and g: "generateBuildOptions env cib w2 = (Inr opts, w3)"
    by (auto simp: s2 generateBuildOptions_driver lifted_result)
  from built(4) obtain img s4 cib1 where b: "je_BuildAndPush (driver_job env denv d) opts s3 = (Inr img, s4)"
    and u: "updateStatus (driver_job env denv d) j (completed (je_Now (driver_job env denv d) s4) img cib) s4 = (Inr cib1, c', l, w')"
    by (rule build_stage_success)
  obtain c4 l4 w4 where s4: "s4 = (c4, l4, w4)" by (cases s4)
  have "je_Now (driver_job env denv d) s4 = je_Now env w4" by (simp add: driver_job_sel s4)
  with u have "c4 = c'" "l4 = l" "updateStatus env j (completed (je_Now env w4) img cib) w4 = (Inr cib1, w')"
    by (auto simp: s4 updateStatus_driver lifted_result)
  with b that [OF get building g] show ?thesis by (auto simp: driver_job_def s3 s4)
qed (auto dest: fail_with_fails)

text \<open>C1. A job that ends with success has fetched its build and had the building state accepted, has then solved the image, measured the image that was
  built, found it within the size limit, and pushed that image, by its digest, under the name of every push registry of the build, each call with success and with
  the credentials of this build, and only then
  had a completed state accepted that lists exactly these names. Neither the hosts nor the credentials of the build are left in the builder.\<close>

theorem job_success_pushed_all:
  assumes "range_order (be_eg (de_bk denv))" and "image_refs (de_bk denv)" and "image_store (de_bk denv) imgs"
    and "Run (driver_job env denv d) j (c, [], w) = (None, c', l, w')"
  shows "\<exists>cib0 w1 cib w2 opts w3 img w4 cib1 w5 dg. je_GetBuild env (bj_namespace j) (bj_name j) w = (Inr cib0, w1) \<and>
    transitionToBuilding env j cib0 w1 = (Inr cib, w2) \<and> generateBuildOptions env cib w2 = (Inr opts, w3) \<and>
    BuildAndPush (traced (bo_ImageSizeLimit opts) denv) (lift_driver d) opts (c, [], w3) = (Inr img, c', l, w4) \<and>
    je_UpdateStatus env (bj_namespace j) (completed (je_Now env w4) img cib) w4 = (Inr cib1, w5) \<and>
    (let names = push_names (de_bk denv) (spec_ImageName (cib_Spec cib)) (spec_PushRegistries (cib_Spec cib));
         creds = generateRegistryFunc (bo_Registries opts)
     in map fst l = build_plan (ConfiguredRegistries (fst creds) (snd creds)) dg names \<and> list_all snd l \<and> img_URLs img = names \<and>
        length names = length (spec_PushRegistries (cib_Spec cib)) \<and>
        bc_registryHosts c' = DefaultRegistries \<and> bc_hostCredentials c' = (\<lambda>host. Inr ('''', '''')))"
proof -
  from assms(4) obtain cib0 w1 cib w2 opts w3 img w4 cib1
    where get: "je_GetBuild env (bj_namespace j) (bj_name j) w = (Inr cib0, w1)"
    and building: "transitionToBuilding env j cib0 w1 = (Inr cib, w2)" and g: "generateBuildOptions env cib w2 = (Inr opts, w3)"
    and b: "BuildAndPush (traced (bo_ImageSizeLimit opts) denv) (lift_driver d) opts (c, [], w3) = (Inr img, c', l, w4)"
    and u: "updateStatus env j (completed (je_Now env w4) img cib) w4 = (Inr cib1, w')"
    by (rule driver_job_built)
  from b have ne: "bo_PushRegistries opts \<noteq> []" by (auto simp: BuildAndPush_def io_fail_def)
  have "bc_registryHosts c' = DefaultRegistries \<and> bc_hostCredentials c' = (\<lambda>host. Inr ('''', ''''))" if "c' = ResetHostConfigurations c'"
    by (subst (1 2) that) (simp add: ResetHostConfigurations_def)
  with BuildAndPush_follows [OF assms(1-3) ne b] obtain dg where f:
    "bc_registryHosts c' = DefaultRegistries" "bc_hostCredentials c' = (\<lambda>host. Inr ('''', ''''))"
    "follows (build_plan (ConfiguredRegistries (fst (generateRegistryFunc (bo_Registries opts)))
       (snd (generateRegistryFunc (bo_Registries opts)))) dg (img_URLs img)) (Inr img) l"
    "img_URLs img = push_names (de_bk denv) (bo_ImageName opts) (bo_PushRegistries opts)"
    "length (img_URLs img) = length (bo_PushRegistries opts)" by auto
  from updateStatus_accepted [OF u] obtain w5 where a:
    "je_UpdateStatus env (bj_namespace j) (completed (je_Now env w4) img cib) w4 = (Inr cib1, w5)" by blast
  show ?thesis
    unfolding Let_def
  proof (intro exI [of _ dg] exI conjI)
    show "je_GetBuild env (bj_namespace j) (bj_name j) w = (Inr cib0, w1)" by (rule get)
    show "transitionToBuilding env j cib0 w1 = (Inr cib, w2)" by (rule building)
    show "generateBuildOptions env cib w2 = (Inr opts, w3)" by (rule g)
    show "BuildAndPush (traced (bo_ImageSizeLimit opts) denv) (lift_driver d) opts (c, [], w3) = (Inr img, c', l, w4)" by (rule b)
    show "je_UpdateStatus env (bj_namespace j) (completed (je_Now env w4) img cib) w4 = (Inr cib1, w5)" by (rule a)
  qed (use f build_options_of [OF g] in \<open>auto simp: follows_def\<close>)
qed

text \<open>A job in memory: a build with two push registries, whose state the API server stores.\<close>

definition system_build :: ContainerImageBuild where
  "system_build = job_build\<lparr>cib_Spec := (cib_Spec job_build)\<lparr>spec_ImageName := ''app'', spec_PushRegistries := [''r1'', ''r2'']\<rparr>\<rparr>"

definition system_job :: "'w job_env" where
  "system_job =
     \<lparr>je_GetBuild = (\<lambda>ns name w. (Inr system_build, w)), je_UpdateStatus = (\<lambda>ns cib w. (Inr (json_view cib), w)), je_Push = None,
      je_Now = (\<lambda>w. 5),
      je_GetSecret = (\<lambda>ns name w. (Inr \<lparr>sec_Meta = zero_meta, sec_Type = ''kubernetes.io/dockerconfigjson'',
        sec_Data = [(''.dockerconfigjson'', ''data'')]\<rparr>, w)),
      je_NotExist = (\<lambda>p w. None), je_ReadFile = (\<lambda>p w. Inr ''''),
      je_LoadAuths = (\<lambda>d. Inr [(''r1'', zero_ac\<lparr>ac_Username := ''u1'', ac_Password := ''p1''\<rparr>)]),
      je_BuildAndPush = (\<lambda>opts w. (Inl (ErrText ''no builder''), w)), je_auths_rng = rev, je_configs_rng = rev, je_Log = (\<lambda>m w. w)\<rparr>"

theorem job_success_pushed_all_witness:
  "\<exists>c' l w'. Run (driver_job system_job (mem_driver_env 7) mem_driver) job_ref (mem_client, [], []) = (None, c', l, w') \<and>
     list_all snd l \<and> bc_registryHosts c' = DefaultRegistries \<and> bc_hostCredentials c' ''r1'' = Inr ('''', '''')"
proof -
  have "fst (Run (driver_job system_job (mem_driver_env 7) mem_driver) job_ref (mem_client, [], [])) = None" by code_simp
  then obtain c' l w' where run: "Run (driver_job system_job (mem_driver_env 7) mem_driver) job_ref (mem_client, [], []) = (None, c', l, w')"
    by (metis prod.collapse)
  from job_success_pushed_all [OF mem_driver_laws(1,2,4) run] run show ?thesis by (auto simp: Let_def)
qed

subsection \<open>Cloud credentials on their way to a job\<close>

text \<open>A cluster that stores the data of a secret as it was sent.\<close>

locale secret_cluster = cluster +
  assumes create_secret: "kube_Create (re_kube env) (SecretObj sec) w = (None, w') \<Longrightarrow> objs w (object_key (SecretObj sec)) = None \<Longrightarrow>
    \<exists>sec'. objs w' (object_key (SecretObj sec)) = Some (SecretObj sec') \<and> sec_Data sec' = sec_Data sec"
begin

lemma owned_secret:
  assumes "withOwnedResource env cib (SecretObj sec) s = (Returns None, s')" and "objs (rs_world s) (object_key (SecretObj sec)) = None"
  shows "\<exists>sec'. objs (rs_world s') (object_key (SecretObj sec)) = Some (SecretObj sec') \<and> sec_Data sec' = sec_Data sec"
proof -
  from assms obtain ob2 where own: "SetControllerReference (re_gvk env) cib (SecretObj sec) = Inr ob2"
    and create: "kube_Create (re_kube env) ob2 (rs_world s) = (None, rs_world s')"
    by (auto simp: withOwnedResource_def split: sum.splits if_splits prod.splits dest: get_found)
  from own obtain sec2 where ob2: "ob2 = SecretObj sec2" "sec_Data sec2 = sec_Data sec"
    by (auto simp: SetControllerReference_def Let_def split: option.splits if_splits sum.splits prod.splits)
  from own have "object_key ob2 = object_key (SecretObj sec)" by (rule SetControllerReference_key)
  with create_secret [OF create [unfolded ob2]] assms(2) ob2 show ?thesis by simp
qed

end

text \<open>The fetch that gave a run of the loop the credentials of a host: it happened in the world that the loop had reached with the entries before.\<close>

definition fetched_for :: "'w rec_env \<Rightarrow> Registry list \<Rightarrow> AuthConfigs \<Rightarrow> 'w \<Rightarrow> string \<Rightarrow> AuthConfig \<Rightarrow> bool" where
  "fetched_for env regs auths0 w h ac \<longleftrightarrow>
     (\<exists>before reg after auths1 w1 w2. regs = before @ reg # after \<and> reg_Server reg = h \<and> reg_DynamicCloudCredentials reg \<and>
        cloud_auths env before auths0 w = (Returns (Inr auths1), w1) \<and>
        RetrieveAuthorization (re_loader_rng env) (re_registry env) h w1 = (Returns (Some ac, None), w2))"

lemma fetched_for_skip: "\<not> reg_DynamicCloudCredentials reg \<Longrightarrow> fetched_for env regs auths0 w h ac \<Longrightarrow> fetched_for env (reg # regs) auths0 w h ac"
  unfolding fetched_for_def by (elim exE conjE) (rule exI [of _ "reg # _"], force)

lemma fetched_for_later:
  assumes "reg_DynamicCloudCredentials reg" and "RetrieveAuthorization (re_loader_rng env) (re_registry env) (reg_Server reg) w = (Returns (Some ac1, None), w1)"
    and "fetched_for env regs (map_put (reg_Server reg) ac1 auths0) w1 h ac"
  shows "fetched_for env (reg # regs) auths0 w h ac"
  using assms(3) unfolding fetched_for_def
  by (elim exE conjE) (rule exI [of _ "reg # _"], use assms(1,2) in force)

lemma fetched_for_now:
  "reg_DynamicCloudCredentials reg \<Longrightarrow> RetrieveAuthorization (re_loader_rng env) (re_registry env) (reg_Server reg) w = (Returns (Some ac, None), w1) \<Longrightarrow>
   fetched_for env (reg # regs) auths0 w (reg_Server reg) ac"
  unfolding fetched_for_def by (rule exI [of _ "[]"]) force

lemma cloud_auths_origin:
  "cloud_auths env regs auths0 w = (Returns (Inr auths), w') \<Longrightarrow> map_of auths h = Some ac \<Longrightarrow>
   map_of auths0 h = Some ac \<or> fetched_for env regs auths0 w h ac"
proof (induction regs arbitrary: auths0 w)
  case (Cons reg regs)
  show ?case
  proof (cases "reg_DynamicCloudCredentials reg")
    case True
    with Cons.prems(1) obtain ac1 w1 where r: "RetrieveAuthorization (re_loader_rng env) (re_registry env) (reg_Server reg) w = (Returns (Some ac1, None), w1)"
      and rest: "cloud_auths env regs (map_put (reg_Server reg) ac1 auths0) w1 = (Returns (Inr auths), w')"
      by (auto split: prod.splits outcome.splits option.splits)
    from Cons.IH [OF rest Cons.prems(2)] show ?thesis
      using fetched_for_later [OF True r] fetched_for_now [OF True r] by (auto split: if_splits)
  next
    case False
    with Cons.prems(1) have "cloud_auths env regs auths0 w = (Returns (Inr auths), w')" by simp
    from Cons.IH [OF this Cons.prems(2)] show ?thesis by (elim disjE) (simp_all add: fetched_for_skip [OF False])
  qed
qed simp

lemma cloud_auths_keeps:
  "cloud_auths env regs auths0 w = (Returns (Inr auths), w') \<Longrightarrow> map_of auths0 h \<noteq> None \<Longrightarrow> map_of auths h \<noteq> None"
  by (induction env regs auths0 w arbitrary: auths w' rule: cloud_auths.induct)
    (fastforce split: if_splits prod.splits outcome.splits option.splits)+

lemma cloud_auths_wf:
  "cloud_auths env regs auths0 w = (Returns (Inr auths), w') \<Longrightarrow> wf_map auths0 \<Longrightarrow> wf_map auths"
  by (induction env regs auths0 w arbitrary: auths w' rule: cloud_auths.induct)
    (auto split: if_splits prod.splits outcome.splits option.splits)

lemma cloud_auths_covers:
  "cloud_auths env regs auths0 w = (Returns (Inr auths), w') \<Longrightarrow> reg \<in> set regs \<Longrightarrow> reg_DynamicCloudCredentials reg \<Longrightarrow>
   map_of auths (reg_Server reg) \<noteq> None"
proof (induction env regs auths0 w arbitrary: auths w' rule: cloud_auths.induct)
  case (2 env r regs auths0 w)
  then show ?case
    by (auto split: if_splits prod.splits outcome.splits option.splits dest: cloud_auths_keeps [where h = "reg_Server r"])
qed simp

text \<open>The files that the secrets of a pod's volumes put into a container: a file per item, below the path of the mount.\<close>

definition secret_files :: "(string \<Rightarrow> Secret option) \<Rightarrow> Volume list \<Rightarrow> VolumeMount list \<Rightarrow> string gomap" where
  "secret_files secrets volumes mounts =
     concat (map (\<lambda>m. concat (map (\<lambda>v.
       case vol_Source v of
         SecretSource name items \<Rightarrow>
           (case secrets name of
              None \<Rightarrow> []
            | Some sec \<Rightarrow>
              if vol_Name v = vm_Name m
              then map (\<lambda>(key, path). (filepath_Join [vm_MountPath m, path], map_get_default '''' (sec_Data sec) key)) items
              else [])
       | _ \<Rightarrow> []) volumes)) mounts)"

definition secrets_in :: "(object_key \<Rightarrow> k8s_object option) \<Rightarrow> string \<Rightarrow> string \<Rightarrow> Secret option" where
  "secrets_in obs ns name = (case obs (SecretKind, ns, name) of Some (SecretObj sec) \<Rightarrow> Some sec | _ \<Rightarrow> None)"

text \<open>The configured volumes leave the file of the credentials alone: none is named or mounted like the volume of the secret, and they put no file there.\<close>

definition leaves_credentials :: "'w rec_env \<Rightarrow> (string \<Rightarrow> Secret option) \<Rightarrow> BuildJobConfig \<Rightarrow> bool" where
  "leaves_credentials env secrets jc \<longleftrightarrow> no_dynamic jc \<and> cloudCredentialsID \<notin> vol_Name ` set (jc_Volumes jc) \<and>
     cloudCredentialsID \<notin> vm_Name ` set (jc_VolumeMounts jc) \<and>
     map_of (secret_files secrets (job_volumes jc) (job_mounts env jc)) DynamicCredentialsFilepath = None"

lemma secret_files_append: "secret_files secrets vs (ms @ ns) = secret_files secrets vs ms @ secret_files secrets vs ns"
  by (simp add: secret_files_def)

lemma secret_files_other:
  assumes "\<forall>m \<in> set ms. vm_Name m \<noteq> vol_Name v"
  shows "secret_files secrets (vs @ v # vs') ms = secret_files secrets (vs @ vs') ms"
  using assms by (induction ms) (auto simp: secret_files_def split: volume_source.splits option.splits)

lemma secret_files_unmounted: "\<forall>v \<in> set vs. vol_Name v \<noteq> vm_Name m \<Longrightarrow> secret_files secrets (vs @ vs') [m] = secret_files secrets vs' [m]"
  by (induction vs) (auto simp: secret_files_def split: volume_source.splits option.splits)

lemma cloud_file:
  assumes "leaves_credentials env secrets jc" and "secrets (cloud_secret_name cib) = Some sec"
  shows "map_of (secret_files secrets (job_volumes (with_cloud cib jc)) (job_mounts env (with_cloud cib jc))) DynamicCredentialsFilepath =
    Some (map_get_default '''' (sec_Data sec) DockerConfigJsonKey)"
proof -
  define vs where "vs = take (2 + length (jc_Volumes jc)) (job_volumes jc)"
  define vs' where "vs' = drop (2 + length (jc_Volumes jc)) (job_volumes jc)"
  define ms where "ms = take (2 + length (jc_VolumeMounts jc)) (job_mounts env jc)"
  define ms' where "ms' = drop (2 + length (jc_VolumeMounts jc)) (job_mounts env jc)"
  have dyn: "jc_DynamicVolumes jc = []" "jc_DynamicVolumeMounts jc = []" using assms(1) by (simp_all add: leaves_credentials_def no_dynamic_def)
  have vols: "job_volumes jc = vs @ vs'" "job_volumes (with_cloud cib jc) = vs @ cloud_volume cib # vs'"
    by (simp_all add: vs_def vs'_def job_volumes_def with_cloud_def dyn)
  have mounts: "job_mounts env jc = ms @ ms'" "job_mounts env (with_cloud cib jc) = ms @ [cloud_mount] @ ms'"
    by (simp_all add: ms_def ms'_def job_mounts_def with_cloud_def dyn)
  have names: "\<forall>v \<in> set (jc_Volumes jc). vol_Name v \<noteq> cloudCredentialsID" "\<forall>m \<in> set (jc_VolumeMounts jc). vm_Name m \<noteq> cloudCredentialsID"
    using assms(1) unfolding leaves_credentials_def by force+
  have other: "\<forall>m \<in> set ms. vm_Name m \<noteq> vol_Name (cloud_volume cib)" "\<forall>v \<in> set vs. vol_Name v \<noteq> vm_Name cloud_mount"
    using names by (auto simp: ms_def vs_def job_mounts_def job_volumes_def cloud_volume_def cloud_mount_def context_mount_def
        cloudCredentialsID_def buildContextDirVolumeName_def stateDirVolumeName_def)
  have "map_of (secret_files secrets (vs @ vs') ms) DynamicCredentialsFilepath = None"
    using assms(1) by (simp add: leaves_credentials_def vols mounts secret_files_append map_add_None)
  moreover have "map_of (secret_files secrets (vs @ cloud_volume cib # vs') [cloud_mount]) DynamicCredentialsFilepath =
      Some (map_get_default '''' (sec_Data sec) DockerConfigJsonKey)"
    unfolding secret_files_unmounted [OF other(2)]
    by (simp add: secret_files_def cloud_volume_def cloud_mount_def assms(2) DynamicCredentialsFilepath_def)
  ultimately show ?thesis
    unfolding vols mounts secret_files_append secret_files_other [OF other(1)] map_of_append by (simp add: map_add_def)
qed

definition readable :: "(string \<Rightarrow> AuthConfigs result) \<Rightarrow> string \<Rightarrow> AuthConfigs \<Rightarrow> bool" where
  "readable load data auths \<longleftrightarrow> (\<exists>m. load data = Inr m \<and> wf_map m \<and>
     (\<forall>h. map_option (\<lambda>ac. (ac_Username ac, ac_Password ac)) (map_of m h) =
          map_option (\<lambda>ac. (ac_Username ac, ac_Password ac)) (map_of auths h)))"

lemma registry_auth_file:
  assumes "reg_BasicAuth reg = zero_auth" and "reg_DynamicCloudCredentials reg"
    and "je_NotExist env DynamicCredentialsFilepath w = None" and "je_ReadFile env DynamicCredentialsFilepath w = Inr data"
    and "readable (je_LoadAuths env) data auths" and "map_of auths (reg_Server reg) = Some ac"
  shows "registry_auth env reg w = (Inr ((ac_Username ac, ac_Password ac), []), w)"
proof -
  from assms(5) obtain m where m: "je_LoadAuths env data = Inr m" "wf_map m"
    and eq: "map_option (\<lambda>ac. (ac_Username ac, ac_Password ac)) (map_of m (reg_Server reg)) =
      map_option (\<lambda>ac. (ac_Username ac, ac_Password ac)) (map_of auths (reg_Server reg))"
    unfolding readable_def by blast
  from eq assms(6) obtain ac' where ac': "map_of m (reg_Server reg) = Some ac'"
      "ac_Username ac' = ac_Username ac" "ac_Password ac' = ac_Password ac" by auto
  from ExtractAuthConfigs_map [of "je_LoadAuths env", OF m(1,2)] obtain m2
    where m2: "ExtractAuthConfigs (je_LoadAuths env) data = Inr m2" "map_of m2 = map_of m" by blast
  have "getBasicAuthForHost m2 (reg_Server reg) = Inr (ac_Username ac, ac_Password ac)"
    using ac' by (simp add: getBasicAuthForHost_def ExtractBasicAuthForHost_def m2)
  moreover have "getDockerAuthsFromFS env w = Inr m2"
    using assms(3,4) m2 by (simp add: getDockerAuthsFromFS_def)
  moreover have "Validate zero_auth = None" "\<not> IsInline zero_auth" "\<not> IsSecret zero_auth" by code_simp+
  ultimately show ?thesis unfolding registry_auth_def assms(1) Let_def using assms(2) by simp
qed

lemma checkCloud_cases:
  assumes "checkCloudRegistrySecrets env cib s = (Returns None, s')" and "needs_cloud cib"
  obtains auths w1 data s2 where "cloud_auths env (spec_Registries (cib_Spec cib)) [] (rs_world s) = (Returns (Inr auths), w1)"
    and "re_marshal env auths = Inr data"
    and "withOwnedResource env cib (cloud_secret cib data) (s\<lparr>rs_world := w1\<rparr>) = (Returns None, s2)"
    and "s' = s2\<lparr>rs_JobConfig := with_cloud cib (rs_JobConfig s2)\<rparr>"
proof -
  obtain o1 w1 where o1: "cloud_auths env (spec_Registries (cib_Spec cib)) [] (rs_world s) = (o1, w1)" by (metis surj_pair)
  with assms(1) obtain auths where auths: "o1 = Returns (Inr auths)"
    by (simp add: checkCloudRegistrySecrets_def split: outcome.splits sum.splits)
  with o1 cloud_auths_ne [of env "spec_Registries (cib_Spec cib)" "[]" "rs_world s" auths w1] assms(2) have ne: "auths \<noteq> []"
    by (simp add: needs_cloud_def)
  from assms(1) o1 auths ne obtain data where data: "re_marshal env auths = Inr data"
    by (cases "re_marshal env auths") (simp_all add: checkCloudRegistrySecrets_def Let_def)
  with assms(1) o1 auths ne have "and_then (withOwnedResource env cib (cloud_secret cib data)) (add_dynamic cib)
      (s\<lparr>rs_world := w1\<rparr>) = (Returns None, s')"
    by (simp add: checkCloudRegistrySecrets_def Let_def)
  with that o1 auths data show thesis unfolding and_then_None add_dynamic_def by auto
qed

text \<open>C9. Credentials that the controller fetched from a cloud reach the job, if the secret of the build did not exist before, the configured volumes do not get in the way, the registry
  carries no credentials of its own, and the job can decode what the controller encodes. The secret that the controller then creates shows up, through the volume and the mount that it adds to the job, as the
  file that the job reads, and for each registry marked so the job uses the user and password which the registry's cloud gave the controller in this very run of its
  loop over the registries.\<close>

theorem cloud_credentials_reach_job:
  assumes "secret_cluster env objs" and "checkCloudRegistrySecrets env cib s = (Returns None, s')"
    and "objs (rs_world s) (secret_key cib) = None"
    and "leaves_credentials env (secrets_in (objs (rs_world s')) (cib_Namespace cib)) (rs_JobConfig s)"
    and "reg \<in> set (spec_Registries (cib_Spec cib))" and "reg_DynamicCloudCredentials reg" and "reg_BasicAuth reg = zero_auth"
    and "je_NotExist jenv DynamicCredentialsFilepath w = None"
    and "\<forall>data. map_of (secret_files (secrets_in (objs (rs_world s')) (cib_Namespace cib))
        (job_volumes (rs_JobConfig s')) (job_mounts env (rs_JobConfig s'))) DynamicCredentialsFilepath = Some data \<longrightarrow>
      je_ReadFile jenv DynamicCredentialsFilepath w = Inr data"
    and "\<forall>auths w1 data. cloud_auths env (spec_Registries (cib_Spec cib)) [] (rs_world s) = (Returns (Inr auths), w1) \<longrightarrow>
      re_marshal env auths = Inr data \<longrightarrow> readable (je_LoadAuths jenv) data auths"
  shows "\<exists>ac. fetched_for env (spec_Registries (cib_Spec cib)) [] (rs_world s) (reg_Server reg) ac \<and>
    registry_auth jenv reg w = (Inr ((ac_Username ac, ac_Password ac), []), w)"
proof -
  have needs: "needs_cloud cib" using assms(5,6) by (auto simp: needs_cloud_def list_ex_iff)
  from assms(2) needs obtain auths w1 data s2
    where au: "cloud_auths env (spec_Registries (cib_Spec cib)) [] (rs_world s) = (Returns (Inr auths), w1)"
      and data: "re_marshal env auths = Inr data"
      and own: "withOwnedResource env cib (cloud_secret cib data) (s\<lparr>rs_world := w1\<rparr>) = (Returns None, s2)"
      and s': "s' = s2\<lparr>rs_JobConfig := with_cloud cib (rs_JobConfig s2)\<rparr>"
    by (rule checkCloud_cases)
  have frame: "objs w1 (secret_key cib) = None"
    using cluster.cloud_auths_frame [OF secret_cluster.axioms(1) [OF assms(1)] au] assms(3) by simp
  obtain sec where sec: "objs (rs_world s') (secret_key cib) = Some (SecretObj sec)" "sec_Data sec = [(DockerConfigJsonKey, data)]"
    using secret_cluster.owned_secret [OF assms(1) own [unfolded cloud_secret_def]] frame
    by (auto simp: s' secret_key_def resource_meta_def object_key_def)
  have jc: "rs_JobConfig s' = with_cloud cib (rs_JobConfig s)"
    using withOwnedResource_fields [OF own] by (simp add: s' same_fields_def)
  have "map_of (secret_files (secrets_in (objs (rs_world s')) (cib_Namespace cib))
      (job_volumes (rs_JobConfig s')) (job_mounts env (rs_JobConfig s'))) DynamicCredentialsFilepath = Some data"
    unfolding jc using sec
    by (subst cloud_file [OF assms(4), where sec = sec]) (simp_all add: secrets_in_def secret_key_def map_get_default_def)
  then have read: "je_ReadFile jenv DynamicCredentialsFilepath w = Inr data" using assms(9) by blast
  obtain ac where ac: "map_of auths (reg_Server reg) = Some ac" using cloud_auths_covers [OF au assms(5,6)] by blast
  from cloud_auths_origin [OF au ac] registry_auth_file [OF assms(7,6,8) read _ ac] assms(10) au data show ?thesis by auto
qed

interpretation memsec: secret_cluster mem_env mem_lookup
  by unfold_locales (auto simp: mem_defs split: if_splits option.splits)

definition cloud_state :: "mem_world rec_state" where
  "cloud_state = snd (checkCloudRegistrySecrets mem_env sample_build sample_state)"

definition cloud_job :: "unit job_env" where
  "cloud_job = (job_sample None)\<lparr>
     je_ReadFile := (\<lambda>p w. case map_of (secret_files (secrets_in (mem_lookup (rs_world cloud_state)) ''ns'')
         (job_volumes (rs_JobConfig cloud_state)) (job_mounts mem_env (rs_JobConfig cloud_state))) p of
       None \<Rightarrow> Inl (ErrText ''no such file'') | Some data \<Rightarrow> Inr data),
     je_LoadAuths := (\<lambda>data. case cloud_auths mem_env (spec_Registries (cib_Spec sample_build)) [] (rs_world sample_state) of
       (Returns (Inr auths), w1) \<Rightarrow> Inr auths | _ \<Rightarrow> Inl (ErrText ''invalid''))\<rparr>"

theorem cloud_credentials_reach_job_witness:
  "\<exists>ac. fetched_for mem_env (spec_Registries (cib_Spec sample_build)) [] (rs_world sample_state) ''us.gcr.io'' ac \<and>
    registry_auth cloud_job (hd (spec_Registries (cib_Spec sample_build))) () = (Inr ((ac_Username ac, ac_Password ac), []), ())"
proof -
  let ?reg = "hd (spec_Registries (cib_Spec sample_build))"
  have run: "checkCloudRegistrySecrets mem_env sample_build sample_state = (Returns None, cloud_state)"
  proof -
    have "fst (checkCloudRegistrySecrets mem_env sample_build sample_state) = Returns None" by code_simp
    then show ?thesis by (metis cloud_state_def prod.collapse)
  qed
  have none: "mem_lookup (rs_world sample_state) (secret_key sample_build) = None" by code_simp
  have jc: "leaves_credentials mem_env secrets (rs_JobConfig sample_state)" for secrets
    by (simp add: leaves_credentials_def no_dynamic_def sample_state_def state_of_def zero_config_def secret_files_def job_volumes_def job_mounts_def)
  have reg: "?reg \<in> set (spec_Registries (cib_Spec sample_build))" "reg_DynamicCloudCredentials ?reg" "reg_BasicAuth ?reg = zero_auth"
    by (simp_all add: sample_build_def)
  have ex: "je_NotExist cloud_job DynamicCredentialsFilepath () = None" by (simp add: cloud_job_def job_sample_def)
  have rd: "\<forall>data. map_of (secret_files (secrets_in (mem_lookup (rs_world cloud_state)) (cib_Namespace sample_build))
        (job_volumes (rs_JobConfig cloud_state)) (job_mounts mem_env (rs_JobConfig cloud_state))) DynamicCredentialsFilepath = Some data \<longrightarrow>
      je_ReadFile cloud_job DynamicCredentialsFilepath () = Inr data"
    by (simp add: cloud_job_def sample_build_def zero_defs)
  have wf: "\<forall>auths w1. cloud_auths mem_env (spec_Registries (cib_Spec sample_build)) [] (rs_world sample_state) = (Returns (Inr auths), w1) \<longrightarrow> wf_map auths"
    by (auto dest: cloud_auths_wf)
  then have load: "\<forall>auths w1 data. cloud_auths mem_env (spec_Registries (cib_Spec sample_build)) [] (rs_world sample_state) = (Returns (Inr auths), w1) \<longrightarrow>
      re_marshal mem_env auths = Inr data \<longrightarrow> readable (je_LoadAuths cloud_job) data auths"
    by (auto simp: readable_def cloud_job_def)
  have host: "reg_Server ?reg = ''us.gcr.io''" by (simp add: sample_build_def)
  from cloud_credentials_reach_job [OF memsec.secret_cluster_axioms run none jc reg ex rd load] show ?thesis unfolding host .
qed

subsection \<open>The processes of a build\<close>

text \<open>The set-up of a job whose plugins are processes of a host; nothing else that the job calls starts or ends one.\<close>

definition plugin_deps ::
  "(string \<Rightarrow> bool) \<Rightarrow> (string \<Rightarrow> walk_item list) \<Rightarrow> ('c, 'w) plugin_env \<Rightarrow> ('w, 'p, ('c, 'w) Plugin, 'b) job_deps \<Rightarrow>
   ('w, 'p, ('c, 'w) Plugin, 'b) job_deps" where
  "plugin_deps notExist walk penv deps = deps\<lparr>
     jd_LoadPlugins := (\<lambda>path w. case LoadPlugins notExist walk penv path w of
        ((Some err, ps), w1) \<Rightarrow> (Inl err, w1) | ((None, ps), w1) \<Rightarrow> (Inr ps, w1)),
     jd_Kill := Plugin_Kill penv\<rparr>"

definition keeps_processes :: "('w \<Rightarrow> 'c set) \<Rightarrow> ('w, 'p, 'g, 'b) job_deps \<Rightarrow> bool" where
  "keeps_processes live deps \<longleftrightarrow>
     (\<forall>opts w. live (snd (jd_NewProducer deps opts w)) = live w) \<and>
     (\<forall>ps cache w. live (snd (jd_NewBuilder deps ps cache w)) = live w) \<and> (\<forall>p w. live (jd_Close deps p w) = live w)"

lemma Job_New_result:
  assumes "Job_New deps cfg w = (Inr job, w')"
  obtains w1 w2 where "new_producer deps (cfg_BrokerOpts cfg) w = (Inr (nj_producer job), w1)"
    and "jd_LoadPlugins deps (cfg_PreparerPluginsPath cfg) w1 = (Inr (nj_plugins job), w2)"
    and "snd (jd_NewBuilder deps (nj_plugins job) (cfg_EnableLayerCaching cfg) w2) = w'"
  using assms by (auto simp: Job_New_def split: option.splits prod.splits sum.splits)

text \<open>C19. If a job was set up completely, then when the build command ends, whether the build succeeded or not, no plugin process that it started is left, and it has ended no other. A set-up that
  fails gives no such guarantee: plugins that were loaded before are not killed.\<close>

theorem build_leaves_no_plugin:
  assumes "plugin_host penv live" and "keeps_processes live deps" and "\<forall>job L. job_calls (env job) (nj_job job) (\<lambda>w. live w = L)"
    and "Job_New (plugin_deps notExist walk penv deps) (build_job_config v) w = (Inr job, w1)"
    and "build_Run (plugin_deps notExist walk penv deps) env v w = (r, w')"
  shows "live w' = live w"
proof -
  let ?deps = "plugin_deps notExist walk penv deps"
  obtain wa wb where p: "new_producer ?deps (cfg_BrokerOpts (build_job_config v)) w = (Inr (nj_producer job), wa)"
    and l: "jd_LoadPlugins ?deps (cfg_PreparerPluginsPath (build_job_config v)) wa = (Inr (nj_plugins job), wb)"
    and b: "snd (jd_NewBuilder ?deps (nj_plugins job) (cfg_EnableLayerCaching (build_job_config v)) wb) = w1"
    using assms(4) by (rule Job_New_result)
  have wa: "live wa = live w"
  proof (cases "cfg_BrokerOpts (build_job_config v)")
    case None
    with p show ?thesis by (simp add: new_producer_def)
  next
    case (Some opts)
    with p have "snd (jd_NewProducer deps opts w) = wa"
      by (auto simp: new_producer_def plugin_deps_def split: prod.splits sum.splits)
    then show ?thesis using assms(2) unfolding keeps_processes_def by metis
  qed
  have load: "LoadPlugins notExist walk penv (cfg_PreparerPluginsPath (build_job_config v)) wa = ((None, nj_plugins job), wb)"
    using l by (auto simp: plugin_deps_def split: prod.splits option.splits)
  have w1: "live w1 = live wb" using b assms(2) by (simp add: plugin_deps_def keeps_processes_def flip: b)
  obtain e w2 where run: "Run (env job) (nj_job job) w1 = (e, w2)" by (metis surj_pair)
  then have w2: "live w2 = live w1" using assms(3) job_calls.Run_keeps by fastforce
  have w': "w' = Cleanup ?deps job w2"
    using assms(4,5) run by (auto simp: build_Run_def split: option.splits)
  have close: "live (case nj_producer job of None \<Rightarrow> w2 | Some p \<Rightarrow> jd_Close ?deps p w2) = live w2"
    using assms(2) by (auto simp: plugin_deps_def keeps_processes_def split: option.splits)
  have kill: "jd_Kill ?deps = Plugin_Kill penv" by (simp add: plugin_deps_def)
  show ?thesis
    unfolding w' Cleanup_complete [OF assms(4)] kill plugin_host.kill_all_live [OF assms(1)] close
    using plugin_host.load_live [OF assms(1) load] by (auto simp: w2 w1 wa)
qed

interpretation idle: job_calls system_job j "\<lambda>w. f w = L" for j f L
  by unfold_locales (auto simp: system_job_def)

definition idle_deps :: "('w, unit, 'g, unit) job_deps" where
  "idle_deps = \<lparr>jd_LoadConfig = None, jd_KubeClient = None, jd_ForgeClient = None, jd_NewProducer = (\<lambda>_ w. (Inr (), w)),
     jd_LoadPlugins = (\<lambda>_ w. (Inr [], w)), jd_NewBuilder = (\<lambda>_ _ w. (Inr (), w)), jd_Close = (\<lambda>_ w. w), jd_Kill = (\<lambda>_ w. w)\<rparr>"

definition two_plugins :: "(nat list, unit, (nat, nat list) Plugin, unit) job_deps" where
  "two_plugins = plugin_deps (\<lambda>_. False) (\<lambda>dir. map (\<lambda>f. \<lparr>wi_path = dir @ f, wi_info = Inr FileInfo\<rparr>) [''/a'', ''/b'']) mem_host idle_deps"

theorem build_leaves_no_plugin_witness:
  "set (snd (Job_New two_plugins (build_job_config (default_vars (\<lambda>_. ''''))) [7])) = {7, 8, 16} \<and>
   set (snd (build_Run two_plugins (\<lambda>_. system_job) (default_vars (\<lambda>_. '''')) [7])) = {7}"
proof -
  let ?v = "default_vars (\<lambda>_. '''')"
  have new: "snd (Job_New two_plugins (build_job_config ?v) [7]) = [16, 8, 7]" "\<not> isl (fst (Job_New two_plugins (build_job_config ?v) [7]))" by code_simp+
  then obtain job where job: "Job_New two_plugins (build_job_config ?v) [7] = (Inr job, [16, 8, 7])"
    by (cases "Job_New two_plugins (build_job_config ?v) [7]"; cases "fst (Job_New two_plugins (build_job_config ?v) [7])") auto
  have keeps: "keeps_processes set idle_deps" by (simp add: keeps_processes_def idle_deps_def)
  have calls: "\<forall>job L. job_calls system_job (nj_job job) (\<lambda>w. set w = L)" by (intro allI idle.job_calls_axioms)
  obtain r w' where run: "build_Run two_plugins (\<lambda>_. system_job) ?v [7] = (r, w')" by (metis surj_pair)
  from build_leaves_no_plugin [OF mem_plugins.plugin_host_axioms keeps calls, folded two_plugins_def, OF job [unfolded two_plugins_def] run [unfolded two_plugins_def]] run new
  show ?thesis by auto
qed

end
